(* ===== verification/TB_Prelude.thy ===== *)
theory TB_Prelude
  imports Main "HOL-Library.Word" "HOL-Library.Monad_Syntax"
begin

text \<open>
  Shared vocabulary of the development: machine integers, bounds-checked byte
  buffers, big- and little-endian encodings, C return codes, and the lemma
  collections the component theories extend.

  A computation that may run into undefined behaviour of C (an access outside an
  object, a division by zero, a signed overflow) has type \<^typ>\<open>'a option\<close> and is
  \<^const>\<open>None\<close> exactly there.  Error returns of the program itself are values
  inside that type (\<open>errno + 'a\<close>).
\<close>

named_theorems tb_defs "definitions unfolded when a component is evaluated"
named_theorems tb_mem "facts on bounds-checked buffer accesses"
named_theorems tb_eval "rules that evaluate encodings on concrete input"
named_theorems tb_bytes "facts on byte encodings"

type_synonym u8 = "8 word"
type_synonym u16 = "16 word"
type_synonym u32 = "32 word"
type_synonym u64 = "64 word"
type_synonym bytes = "u8 list"

text \<open>The negated \<^verbatim>\<open>errno\<close> values the program returns.\<close>

datatype errno = EINVAL | ENOMEM | ENOENT | EIO | EPERM | EAGAIN | EINTR | ETIMEDOUT | ERANGE | ENODEV | EOTHER

section \<open>Bounds-checked buffers\<close>

text \<open>\<^verbatim>\<open>memcpy\<close> out of and into an object of known size.\<close>

definition mem_read :: "nat \<Rightarrow> nat \<Rightarrow> 'a list \<Rightarrow> 'a list option" where
  "mem_read off n buf = (if off + n \<le> length buf then Some (take n (drop off buf)) else None)"

definition mem_write :: "nat \<Rightarrow> 'a list \<Rightarrow> 'a list \<Rightarrow> 'a list option" where
  "mem_write off bs buf =
     (if off + length bs \<le> length buf
      then Some (take off buf @ bs @ drop (off + length bs) buf) else None)"

section \<open>Byte encodings\<close>

primrec nat_to_be :: "nat \<Rightarrow> nat \<Rightarrow> bytes" where
  "nat_to_be 0 k = []"
| "nat_to_be (Suc n) k = nat_to_be n (k div 256) @ [of_nat k]"

definition be_to_nat :: "bytes \<Rightarrow> nat" where
  "be_to_nat bs = foldl (\<lambda>a b. a * 256 + unat b) 0 bs"

primrec nat_to_le :: "nat \<Rightarrow> nat \<Rightarrow> bytes" where
  "nat_to_le 0 k = []"
| "nat_to_le (Suc n) k = of_nat k # nat_to_le n (k div 256)"

primrec le_to_nat :: "bytes \<Rightarrow> nat" where
  "le_to_nat [] = 0"
| "le_to_nat (b # bs) = unat b + 256 * le_to_nat bs"

text \<open>The bytes in memory of \<^verbatim>\<open>htobe16/32/64\<close> and the inverse reads.\<close>

definition be16_bytes :: "u16 \<Rightarrow> bytes" where "be16_bytes w = nat_to_be 2 (unat w)"
definition be32_bytes :: "u32 \<Rightarrow> bytes" where "be32_bytes w = nat_to_be 4 (unat w)"
definition be64_bytes :: "u64 \<Rightarrow> bytes" where "be64_bytes w = nat_to_be 8 (unat w)"
definition be16_word :: "bytes \<Rightarrow> u16" where "be16_word bs = of_nat (be_to_nat bs)"
definition be32_word :: "bytes \<Rightarrow> u32" where "be32_word bs = of_nat (be_to_nat bs)"
definition be64_word :: "bytes \<Rightarrow> u64" where "be64_word bs = of_nat (be_to_nat bs)"

section \<open>Counted loops\<close>

text \<open>\<^verbatim>\<open>for (i = 0; i < n; i++)\<close> over a state, with a body that may fail.\<close>

primrec for_upto :: "nat \<Rightarrow> (nat \<Rightarrow> 's \<Rightarrow> 's option) \<Rightarrow> 's \<Rightarrow> 's option" where
  "for_upto 0 body s = Some s"
| "for_upto (Suc n) body s = Option.bind (for_upto n body s) (body n)"

section \<open>Generic lemmas\<close>

lemma for_upto_invariant:
  assumes "P 0 s" "\<And>i s. i < n \<Longrightarrow> P i s \<Longrightarrow> \<exists>s'. body i s = Some s' \<and> P (Suc i) s'"
  shows "\<exists>s'. for_upto n body s = Some s' \<and> P n s'"
  using assms(2)
proof (induction n)
  case (Suc n)
  then obtain s' where "for_upto n body s = Some s'" "P n s'" by (metis less_Suc_eq)
  then show ?case using Suc.prems [of n s'] by auto
qed (simp add: assms(1))

lemma mem_read_Some_iff [tb_mem]:
  "mem_read off n buf = Some bs \<longleftrightarrow> off + n \<le> length buf \<and> bs = take n (drop off buf)"
  by (auto simp: mem_read_def)

lemma mem_write_Some_iff [tb_mem]:
  "mem_write off bs buf = Some buf' \<longleftrightarrow>
     off + length bs \<le> length buf \<and> buf' = take off buf @ bs @ drop (off + length bs) buf"
  by (auto simp: mem_write_def)

lemma mem_read_ok [simp]: "off + n \<le> length buf \<Longrightarrow> mem_read off n buf = Some (take n (drop off buf))"
  by (simp add: mem_read_def)

lemma mem_write_ok:
  "off + length bs \<le> length buf \<Longrightarrow>
   mem_write off bs buf = Some (take off buf @ bs @ drop (off + length bs) buf)"
  by (simp add: mem_write_def)

lemma mem_write_Nil [simp]: "off \<le> length buf \<Longrightarrow> mem_write off [] buf = Some buf"
  by (simp add: mem_write_def)

lemma mem_write_total: "off + length bs \<le> length buf \<Longrightarrow> \<exists>buf'. mem_write off bs buf = Some buf'"
  by (simp add: mem_write_def)

lemma mem_read_length: "mem_read off n buf = Some bs \<Longrightarrow> length bs = n"
  by (auto simp: tb_mem)

lemma mem_write_length: "mem_write off bs buf = Some buf' \<Longrightarrow> length buf' = length buf"
  by (auto simp: tb_mem)

lemma nth_mem_write:
  assumes "mem_write off bs buf = Some buf'" "i < length buf"
  shows "buf' ! i = (if off \<le> i \<and> i < off + length bs then bs ! (i - off) else buf ! i)"
  using assms by (auto simp: tb_mem nth_append min_def)

lemma mem_read_write_same:
  assumes "mem_write off bs buf = Some buf'" "n = length bs"
  shows "mem_read off n buf' = Some bs"
  using assms by (auto simp: tb_mem mem_read_def)

lemma mem_read_write_disjoint:
  assumes w: "mem_write off bs buf = Some buf'"
    and d: "off' + n \<le> off \<or> off + length bs \<le> off'"
  shows "mem_read off' n buf' = mem_read off' n buf"
proof -
  have len: "length buf' = length buf" using w by (rule mem_write_length)
  show ?thesis
  proof (cases "off' + n \<le> length buf")
    case True
    have "take n (drop off' buf') = take n (drop off' buf)"
      by (rule nth_equalityI) (use True len d in \<open>auto simp: nth_mem_write [OF w]\<close>)
    then show ?thesis using True len by simp
  next
    case False
    then show ?thesis using len by (simp add: mem_read_def)
  qed
qed

lemma take_mem_write:
  assumes "mem_write off bs buf = Some buf'" "n \<le> off"
  shows "take n buf' = take n buf"
  using assms by (auto simp: tb_mem min_def)

lemma length_nat_to_be [simp]: "length (nat_to_be n k) = n"
  by (induction n arbitrary: k) auto

lemma length_nat_to_le [simp]: "length (nat_to_le n k) = n"
  by (induction n arbitrary: k) auto

lemma be_to_nat_snoc [simp]: "be_to_nat (bs @ [b]) = be_to_nat bs * 256 + unat b"
  by (simp add: be_to_nat_def)

lemma be_to_nat_Nil [simp]: "be_to_nat [] = 0"
  by (simp add: be_to_nat_def)

lemma unat_of_nat_u8 [simp]: "unat (of_nat k :: u8) = k mod 256"
  by (simp add: unat_of_nat)

lemma unat_of_nat_small:
  "a < 2 ^ 16 \<Longrightarrow> unat (of_nat a :: u16) = a"
  "b < 2 ^ 32 \<Longrightarrow> unat (of_nat b :: u32) = b"
  "c < 2 ^ 64 \<Longrightarrow> unat (of_nat c :: u64) = c"
  by (simp_all add: unat_of_nat)

lemma div_mod_recompose: "(k div 256 mod 256 ^ n) * 256 + k mod 256 = k mod (256 ^ Suc n)" for k :: nat
  using mod_mult2_eq [of k 256 "256 ^ n"] by (simp add: mult.commute)

lemma be_to_nat_of_nat_to_be [simp, tb_bytes]: "be_to_nat (nat_to_be n k) = k mod 256 ^ n"
  by (induction n arbitrary: k) (simp_all add: div_mod_recompose del: power_Suc)

lemma le_to_nat_of_nat_to_le [simp, tb_bytes]: "le_to_nat (nat_to_le n k) = k mod 256 ^ n"
  by (induction n arbitrary: k)
     (simp_all add: div_mod_recompose [symmetric] del: power_Suc)

lemma nat_to_le_numeral [tb_eval]:
  "nat_to_le (numeral m) k = of_nat k # nat_to_le (pred_numeral m) (k div 256)"
  by (simp only: numeral_eq_Suc [of m] nat_to_le.simps)

lemma nat_to_be_numeral [tb_eval]:
  "nat_to_be (numeral m) k = nat_to_be (pred_numeral m) (k div 256) @ [of_nat k]"
  by (simp only: numeral_eq_Suc [of m] nat_to_be.simps)

lemma take_nat_to_le: "m \<le> n \<Longrightarrow> take m (nat_to_le n k) = nat_to_le m k"
proof (induction n arbitrary: m k)
  case (Suc n)
  then show ?case by (cases m) simp_all
qed simp

lemma nat_to_le_mod: "nat_to_le n (k mod 256 ^ n) = nat_to_le n k"
proof (induction n arbitrary: k)
  case (Suc n)
  have d: "k mod 256 ^ Suc n div 256 = k div 256 mod 256 ^ n"
    using mod_mult2_eq [of k 256 "256 ^ n"] by (simp add: mult.commute)
  have "(of_nat (k mod 256 ^ Suc n) :: u8) = of_nat k"
    by (rule word_unat_eq_iff [THEN iffD2]) (simp add: mod_mod_cancel)
  then show ?case using Suc.IH [of "k div 256"] d by (simp del: power_Suc)
qed simp

lemma nat_to_le_eq_iff: "nat_to_le n j = nat_to_le n k \<longleftrightarrow> j mod 256 ^ n = k mod 256 ^ n"
  by (metis le_to_nat_of_nat_to_le nat_to_le_mod)

lemma be16_roundtrip [simp, tb_bytes]: "be16_word (be16_bytes w) = w"
  using unsigned_less [of w, where ?'a = nat] by (simp add: be16_word_def be16_bytes_def)

lemma be32_roundtrip [simp, tb_bytes]: "be32_word (be32_bytes w) = w"
  using unsigned_less [of w, where ?'a = nat] by (simp add: be32_word_def be32_bytes_def)

lemma be64_roundtrip [simp, tb_bytes]: "be64_word (be64_bytes w) = w"
  using unsigned_less [of w, where ?'a = nat] by (simp add: be64_word_def be64_bytes_def)

lemma length_be_bytes [simp]:
  "length (be16_bytes a) = 2" "length (be32_bytes b) = 4" "length (be64_bytes c) = 8"
  by (simp_all add: be16_bytes_def be32_bytes_def be64_bytes_def)

lemma rotate_split: "n \<le> length xs \<Longrightarrow> rotate n xs = drop n xs @ take n xs"
  by (cases "n = length xs") (simp_all add: rotate_drop_take)

lemma bind_eq_Some [simp]: "Option.bind m f = Some y \<longleftrightarrow> (\<exists>x. m = Some x \<and> f x = Some y)"
  by (cases m) auto

end
