(* ===== verification/TB_Text.thy ===== *)
theory TB_Text
  imports TB_Prelude
begin

text \<open>
  The functions of the C library on strings that the program uses: tokens, numbers
  in text form, comparison without case, and bounded formatted output.  A C string is a
  \<^typ>\<open>string\<close> without the terminating zero.
\<close>

section \<open>Tokens and comparison\<close>

text \<open>\<^verbatim>\<open>strtok(s, delims)\<close> called until it returns \<^verbatim>\<open>NULL\<close>: the maximal runs without
  delimiter; \<open>cur\<close> is the token read so far.\<close>

fun strtok :: "string \<Rightarrow> string \<Rightarrow> string \<Rightarrow> string list" where
  "strtok delims cur [] = (if cur = [] then [] else [cur])"
| "strtok delims cur (c # s) =
     (if c \<in> set delims then (if cur = [] then strtok delims [] s else cur # strtok delims [] s)
      else strtok delims (cur @ [c]) s)"

definition to_lower :: "char \<Rightarrow> char" where
  "to_lower c = (if 65 \<le> (of_char c :: nat) \<and> (of_char c :: nat) \<le> 90 then char_of ((of_char c :: nat) + 32) else c)"

text \<open>\<^verbatim>\<open>strcasecmp(s, t) == 0\<close>, in the C locale.\<close>

definition strcaseeq :: "string \<Rightarrow> string \<Rightarrow> bool" where
  "strcaseeq s t \<longleftrightarrow> map to_lower s = map to_lower t"

section \<open>Numbers\<close>

definition is_space :: "char \<Rightarrow> bool" where
  "is_space c \<longleftrightarrow> (of_char c :: nat) = 32 \<or> (9 \<le> (of_char c :: nat) \<and> (of_char c :: nat) \<le> 13)"

definition digit_val :: "nat \<Rightarrow> char \<Rightarrow> nat option" where
  "digit_val b c =
     (let n = of_char c;
          v = (if 48 \<le> n \<and> n \<le> 57 then n - 48
               else if 97 \<le> n \<and> n \<le> 122 then n - 87
               else if 65 \<le> n \<and> n \<le> 90 then n - 55 else b)
      in if v < b then Some v else None)"

definition digit_char :: "nat \<Rightarrow> char" where
  "digit_char d = (if d < 10 then char_of (48 + d) else char_of (87 + d))"

text \<open>The value of the longest run of digits, added to \<open>acc\<close>, and what follows it.\<close>

fun digits :: "nat \<Rightarrow> nat \<Rightarrow> string \<Rightarrow> nat \<times> string" where
  "digits b acc [] = (acc, [])"
| "digits b acc (c # s) =
     (case digit_val b c of Some d \<Rightarrow> digits b (acc * b + d) s | None \<Rightarrow> (acc, c # s))"

definition starts_with_digit :: "nat \<Rightarrow> string \<Rightarrow> bool" where
  "starts_with_digit b s = (case s of [] \<Rightarrow> False | c # _ \<Rightarrow> digit_val b c \<noteq> None)"

definition sign_of :: "string \<Rightarrow> bool \<times> string" where
  "sign_of s = (case s of [] \<Rightarrow> (False, []) | c # r \<Rightarrow>
     if c = CHR ''-'' then (True, r) else if c = CHR ''+'' then (False, r) else (False, c # r))"

text \<open>
  The common part of \<^verbatim>\<open>strtol\<close>, \<^verbatim>\<open>strtoul\<close>, \<^verbatim>\<open>strtoull\<close> and of the \<^verbatim>\<open>%x\<close> conversion of
  \<^verbatim>\<open>sscanf\<close> (\<open>scan\<close>): white space, a sign, an optional \<^verbatim>\<open>0x\<close> for base 16 and digits.
  The result is sign, magnitude and remaining text, \<^const>\<open>None\<close> without conversion.  A
  bare \<^verbatim>\<open>0x\<close> is the number 0 followed by \<^verbatim>\<open>x\<close> except for \<^verbatim>\<open>sscanf\<close>.
\<close>

definition strtox :: "bool \<Rightarrow> nat \<Rightarrow> string \<Rightarrow> (bool \<times> nat \<times> string) option" where
  "strtox scan b s =
     (let (neg, s) = sign_of (dropWhile is_space s);
          prefixed = (b = 16 \<and> take 1 s = ''0'' \<and> map to_lower (take 1 (drop 1 s)) = ''x'');
          hex = (prefixed \<and> starts_with_digit b (drop 2 s));
          s = (if hex then drop 2 s else s)
      in if prefixed \<and> \<not> hex \<and> scan then None
         else if starts_with_digit b s then (let (m, r) = digits b 0 s in Some (neg, m, r)) else None)"

definition signed_value :: "bool \<Rightarrow> nat \<Rightarrow> int" where
  "signed_value neg m = (if neg then - int m else int m)"

text \<open>Value and remaining text, \<^const>\<open>None\<close> if \<^verbatim>\<open>errno\<close> is set or nothing was converted.
  \<^verbatim>\<open>strtoull\<close> negates in its result type.\<close>

definition strtol :: "string \<Rightarrow> (int \<times> string) option" where
  "strtol s = (case strtox False 10 s of
     None \<Rightarrow> None
   | Some (neg, m, r) \<Rightarrow>
       (let v = signed_value neg m in if - (2 ^ 63) \<le> v \<and> v < 2 ^ 63 then Some (v, r) else None))"

definition strtoull :: "nat \<Rightarrow> string \<Rightarrow> (u64 \<times> string) option" where
  "strtoull b s = (case strtox False b s of
     None \<Rightarrow> None
   | Some (neg, m, r) \<Rightarrow> if m < 2 ^ 64 then Some (of_int (signed_value neg m), r) else None)"

text \<open>\<^verbatim>\<open>atoi\<close>: text without a number is 0, a number out of range undefined.\<close>

definition atoi :: "string \<Rightarrow> int option" where
  "atoi s = (case strtox False 10 s of
     None \<Rightarrow> Some 0
   | Some (neg, m, _) \<Rightarrow>
       (let v = signed_value neg m in if - (2 ^ 31) \<le> v \<and> v < 2 ^ 31 then Some v else None))"

text \<open>Digits of a number, and the \<^verbatim>\<open>printf\<close> conversions \<^verbatim>\<open>%d\<close>, \<^verbatim>\<open>%u\<close> and \<^verbatim>\<open>%0nx\<close>.\<close>

fun show_base :: "nat \<Rightarrow> nat \<Rightarrow> string" where
  "show_base b n =
     (if n < b \<or> b < 2 then [digit_char n] else show_base b (n div b) @ [digit_char (n mod b)])"

declare show_base.simps [simp del]

definition show_nat :: "nat \<Rightarrow> string" where "show_nat = show_base 10"

definition show_int :: "int \<Rightarrow> string" where
  "show_int i = (if i < 0 then CHR ''-'' # show_nat (nat (- i)) else show_nat (nat i))"

definition show_hex :: "nat \<Rightarrow> nat \<Rightarrow> string" where
  "show_hex width n = (let s = show_base 16 n in replicate (width - length s) (CHR ''0'') @ s)"

section \<open>Lemmas\<close>

lemma strtok_tokens:
  "concat (strtok delims cur s) = cur @ filter (\<lambda>c. c \<notin> set delims) s"
  by (induction delims cur s rule: strtok.induct) auto

lemma strtok_no_delim:
  "set cur \<inter> set delims = {} \<Longrightarrow>
   list_all (\<lambda>tok. tok \<noteq> [] \<and> set tok \<inter> set delims = {}) (strtok delims cur s)"
  by (induction delims cur s rule: strtok.induct) auto

lemma strtok_token:
  assumes "set tok \<inter> set delims = {}"
  shows "strtok delims cur (tok @ s) = strtok delims (cur @ tok) s"
  using assms by (induction tok arbitrary: cur) auto

lemma strtok_skip: "d \<in> set delims \<Longrightarrow> strtok delims [] (d # s) = strtok delims [] s"
  by simp

lemma digit_val_char: "d < b \<Longrightarrow> b \<le> 16 \<Longrightarrow> digit_val b (digit_char d) = Some d"
  by (simp add: digit_val_def digit_char_def Let_def)

lemma digit_char_not_space: "d < 16 \<Longrightarrow> \<not> is_space (digit_char d)"
  by (simp add: is_space_def digit_char_def)

lemma digit_char_not_sign: "d < 16 \<Longrightarrow> digit_char d \<noteq> CHR ''-'' \<and> digit_char d \<noteq> CHR ''+''"
proof -
  assume d: "d < 16"
  have c: "(of_char (digit_char d) :: nat) \<ge> 48" using d by (simp add: digit_char_def)
  have "digit_char d \<noteq> x" if "(of_char x :: nat) < 48" for x using c that by auto
  then show ?thesis by simp
qed

lemma show_base_nonempty: "show_base b n \<noteq> []"
  by (subst show_base.simps) simp

lemma show_base_hd:
  assumes "2 \<le> b" "b \<le> 16"
  obtains d r where "show_base b n = digit_char d # r" "d < b"
  using assms
proof (induction b n arbitrary: thesis rule: show_base.induct)
  case (1 b n)
  show ?case
  proof (cases "n < b")
    case True
    then show ?thesis using 1(2) [of n "[]"] by (simp add: show_base.simps [of b n])
  next
    case False
    obtain d r where "show_base b (n div b) = digit_char d # r" "d < b" using 1 False by auto
    then show ?thesis using 1(2) [of d "r @ [digit_char (n mod b)]"] False 1(3) by (simp add: show_base.simps [of b n])
  qed
qed

lemma digits_show_base:
  assumes "2 \<le> b" "b \<le> 16"
  shows "digits b acc (show_base b n @ r) = digits b (acc * b ^ length (show_base b n) + n) r"
  using assms
proof (induction b n arbitrary: acc r rule: show_base.induct)
  case (1 b n)
  show ?case
  proof (cases "n < b")
    case True
    then show ?thesis using 1 by (simp add: show_base.simps [of b n] digit_val_char)
  next
    case False
    let ?p = "show_base b (n div b)"
    have "digits b acc (?p @ digit_char (n mod b) # r) =
        digits b ((acc * b ^ length ?p + n div b) * b + n mod b) r"
      using 1 False by (simp add: digit_val_char)
    also have "(acc * b ^ length ?p + n div b) * b + n mod b = acc * b ^ Suc (length ?p) + n"
      by (simp add: algebra_simps)
    finally show ?thesis using False 1(2) by (simp add: show_base.simps [of b n])
  qed
qed

lemma digits_stop: "\<not> starts_with_digit b r \<Longrightarrow> digits b acc r = (acc, r)"
  by (cases r) (auto simp: starts_with_digit_def)

lemma strtox_show_nat:
  assumes "\<not> starts_with_digit 10 r"
  shows "strtox scan 10 (show_nat n @ r) = Some (False, n, r)"
proof -
  obtain d s where s: "show_base 10 n = digit_char d # s" "d < 10" by (rule show_base_hd [of 10 n]) auto
  have "sign_of (dropWhile is_space (show_base 10 n @ r)) = (False, show_base 10 n @ r)"
    using s digit_char_not_space [of d] digit_char_not_sign [of d] by (simp add: sign_of_def)
  moreover have "starts_with_digit 10 (show_base 10 n @ r)"
    using s by (simp add: starts_with_digit_def digit_val_char)
  moreover have "digits 10 0 (show_base 10 n @ r) = (n, r)"
    using digits_show_base [of 10 0 n r] digits_stop [OF assms] by simp
  ultimately show ?thesis by (simp add: strtox_def show_nat_def)
qed

lemma strtox_show_int:
  assumes "\<not> starts_with_digit 10 r"
  shows "strtox scan 10 (show_int i @ r) = Some (i < 0, nat \<bar>i\<bar>, r)"
proof (cases "i < 0")
  case True
  have "strtox scan 10 (CHR ''-'' # show_nat (nat (- i)) @ r) =
      map_option (\<lambda>(_, m, r). (True, m, r)) (strtox scan 10 (show_nat (nat (- i)) @ r))"
  proof -
    obtain d s where s: "show_base 10 (nat (- i)) = digit_char d # s" "d < 10"
      by (rule show_base_hd [of 10 "nat (- i)"]) auto
    moreover have "\<not> is_space (CHR ''-'')" by (simp add: is_space_def)
    ultimately show ?thesis
      using digit_char_not_space [of d] digit_char_not_sign [of d]
      by (simp add: strtox_def sign_of_def show_nat_def Let_def case_prod_unfold)
  qed
  then show ?thesis using True assms by (simp add: strtox_show_nat show_int_def)
next
  case False
  then show ?thesis using assms by (simp add: strtox_show_nat show_int_def)
qed

end
