(* ===== verification/TB_Types.thy ===== *)
theory TB_Types
  imports TB_Prelude
begin

unbundle bit_operations_syntax

text \<open>
  Enumerations and configuration structures shared by all components:
  \<^verbatim>\<open>stat.h\<close>, \<^verbatim>\<open>config.h\<close>, \<^verbatim>\<open>security.h\<close>, \<^verbatim>\<open>net_def.h\<close> and \<^verbatim>\<open>log.h\<close>.
  A \<^verbatim>\<open>char *\<close> is a \<^typ>\<open>string option\<close> (\<^const>\<open>None\<close> for \<^verbatim>\<open>NULL\<close>).
  The preprocessor switches of the build are the fields of \<open>build\<close>.
\<close>

section \<open>Enumerations\<close>

datatype stat_frame_type =
    TSN_HIGH_FRAME_TYPE | TSN_LOW_FRAME_TYPE | RTC_FRAME_TYPE | RTA_FRAME_TYPE | DCP_FRAME_TYPE
  | LLDP_FRAME_TYPE | UDP_HIGH_FRAME_TYPE | UDP_LOW_FRAME_TYPE | GENERICL2_FRAME_TYPE
  | NUM_FRAME_TYPES

text \<open>The loop range \<^verbatim>\<open>for (i = 0; i < NUM_FRAME_TYPES; i++)\<close>.\<close>

definition frame_types :: "stat_frame_type list" where
  "frame_types = [TSN_HIGH_FRAME_TYPE, TSN_LOW_FRAME_TYPE, RTC_FRAME_TYPE, RTA_FRAME_TYPE,
     DCP_FRAME_TYPE, LLDP_FRAME_TYPE, UDP_HIGH_FRAME_TYPE, UDP_LOW_FRAME_TYPE, GENERICL2_FRAME_TYPE]"

primrec frame_type_index :: "stat_frame_type \<Rightarrow> nat" where
  "frame_type_index TSN_HIGH_FRAME_TYPE = 0"
| "frame_type_index TSN_LOW_FRAME_TYPE = 1"
| "frame_type_index RTC_FRAME_TYPE = 2"
| "frame_type_index RTA_FRAME_TYPE = 3"
| "frame_type_index DCP_FRAME_TYPE = 4"
| "frame_type_index LLDP_FRAME_TYPE = 5"
| "frame_type_index UDP_HIGH_FRAME_TYPE = 6"
| "frame_type_index UDP_LOW_FRAME_TYPE = 7"
| "frame_type_index GENERICL2_FRAME_TYPE = 8"
| "frame_type_index NUM_FRAME_TYPES = 9"

definition stat_frame_type_is_real_time :: "stat_frame_type \<Rightarrow> bool" where
  "stat_frame_type_is_real_time t =
     (case t of
        TSN_HIGH_FRAME_TYPE \<Rightarrow> True | TSN_LOW_FRAME_TYPE \<Rightarrow> True
      | RTC_FRAME_TYPE \<Rightarrow> True | GENERICL2_FRAME_TYPE \<Rightarrow> True | _ \<Rightarrow> False)"

datatype log_stat_options = LOG_REFERENCE | LOG_MIRROR | LOG_TX_TIMESTAMPS | LOG_NUM_OPTIONS

datatype security_mode = SECURITY_MODE_NONE | SECURITY_MODE_AO | SECURITY_MODE_AE

datatype security_algorithm =
  SECURITY_ALGORITHM_AES256_GCM | SECURITY_ALGORITHM_AES128_GCM | SECURITY_ALGORITHM_CHACHA20_POLY1305

datatype protocol_type = GENERICL2_PROTOCOL_TYPE | ETHERCAT_PROTOCOL_TYPE

datatype clockid = CLOCK_REALTIME | CLOCK_MONOTONIC | CLOCK_TAI | CLOCK_AUX nat

datatype log_level = LOG_LEVEL_ERROR | LOG_LEVEL_WARNING | LOG_LEVEL_INFO | LOG_LEVEL_DEBUG

datatype tc_tx_model = TC_TX_CYCLIC | TC_TX_BURST | TC_TX_STANDALONE

instantiation stat_frame_type :: linorder
begin

definition less_eq_stat_frame_type :: "stat_frame_type \<Rightarrow> stat_frame_type \<Rightarrow> bool" where
  "less_eq_stat_frame_type a b \<longleftrightarrow> frame_type_index a \<le> frame_type_index b"

definition less_stat_frame_type :: "stat_frame_type \<Rightarrow> stat_frame_type \<Rightarrow> bool" where
  "less_stat_frame_type a b \<longleftrightarrow> frame_type_index a < frame_type_index b"

instance
proof
  fix a b :: stat_frame_type
  assume "a \<le> b" "b \<le> a"
  then have "frame_type_index a = frame_type_index b" by (simp add: less_eq_stat_frame_type_def)
  then show "a = b" by (cases a; cases b) simp_all
qed (auto simp: less_eq_stat_frame_type_def less_stat_frame_type_def)

end

primrec log_level_value :: "log_level \<Rightarrow> nat" where
  "log_level_value LOG_LEVEL_ERROR = 1"
| "log_level_value LOG_LEVEL_WARNING = 2"
| "log_level_value LOG_LEVEL_INFO = 3"
| "log_level_value LOG_LEVEL_DEBUG = 4"

instantiation log_level :: linorder
begin

definition less_eq_log_level :: "log_level \<Rightarrow> log_level \<Rightarrow> bool" where
  "less_eq_log_level a b \<longleftrightarrow> log_level_value a \<le> log_level_value b"

definition less_log_level :: "log_level \<Rightarrow> log_level \<Rightarrow> bool" where
  "less_log_level a b \<longleftrightarrow> log_level_value a < log_level_value b"

instance
proof
  fix a b :: log_level
  assume "a \<le> b" "b \<le> a"
  then have "log_level_value a = log_level_value b" by (simp add: less_eq_log_level_def)
  then show "a = b" by (cases a; cases b) simp_all
qed (auto simp: less_eq_log_level_def less_log_level_def)

end

section \<open>Sizes and protocol constants\<close>

abbreviation (input) "ETH_ALEN \<equiv> 6 :: nat"
abbreviation (input) "sizeof_ethhdr \<equiv> 14 :: nat"
abbreviation (input) "sizeof_vlan_ethernet_header \<equiv> 18 :: nat"
abbreviation (input) "sizeof_vlan_header \<equiv> 4 :: nat"
abbreviation (input) "sizeof_reference_meta_data \<equiv> 16 :: nat"
abbreviation (input) "sizeof_profinet_rt_header \<equiv> 18 :: nat"
abbreviation (input) "sizeof_profinet_secure_header \<equiv> 26 :: nat"
abbreviation (input) "sizeof_security_checksum \<equiv> 16 :: nat"
abbreviation (input) "sizeof_generic_l2_header \<equiv> 16 :: nat"
abbreviation (input) "MAX_FRAME_SIZE \<equiv> 4096 :: nat"
abbreviation (input) "NSEC_PER_SEC \<equiv> 1000000000 :: int"
abbreviation (input) "STAT_MAX_BACKLOG \<equiv> 1024 :: nat"
abbreviation (input) "WORKLOAD_MAX \<equiv> 32 :: nat"

abbreviation (input) "ETH_P_8021Q \<equiv> 0x8100 :: u16"
abbreviation (input) "ETH_P_PROFINET_RT \<equiv> 0x8892 :: u16"
abbreviation (input) "ETH_P_LLDP \<equiv> 0x88cc :: u16"
abbreviation (input) "ETH_P_ETHERCAT \<equiv> 0x88a4 :: u16"

section \<open>Traffic class masks\<close>

definition BIT :: "stat_frame_type \<Rightarrow> u64" where "BIT t = push_bit (frame_type_index t) 1"
definition TC_ALL :: u64 where "TC_ALL = BIT NUM_FRAME_TYPES - 1"
definition TC_TSN :: u64 where "TC_TSN = BIT TSN_HIGH_FRAME_TYPE OR BIT TSN_LOW_FRAME_TYPE"
definition TC_UDP :: u64 where "TC_UDP = BIT UDP_HIGH_FRAME_TYPE OR BIT UDP_LOW_FRAME_TYPE"
definition TC_PROFINET :: u64 where "TC_PROFINET = TC_TSN OR BIT RTC_FRAME_TYPE OR BIT RTA_FRAME_TYPE"
definition TC_XDP :: u64 where "TC_XDP = TC_PROFINET OR BIT GENERICL2_FRAME_TYPE"
definition TC_WORKLOAD :: u64 where
  "TC_WORKLOAD = BIT TSN_HIGH_FRAME_TYPE OR BIT RTC_FRAME_TYPE OR BIT GENERICL2_FRAME_TYPE"
definition TC_L2 :: u64 where
  "TC_L2 = TC_PROFINET OR BIT DCP_FRAME_TYPE OR BIT LLDP_FRAME_TYPE OR BIT GENERICL2_FRAME_TYPE"
definition TC_L3 :: u64 where "TC_L3 = TC_UDP"
definition TC_BURST :: u64 where
  "TC_BURST = BIT RTA_FRAME_TYPE OR BIT DCP_FRAME_TYPE OR BIT LLDP_FRAME_TYPE OR TC_UDP"
definition TC_SECURITY :: u64 where "TC_SECURITY = TC_PROFINET"
definition TC_TXTIME :: u64 where "TC_TXTIME = TC_TSN OR BIT GENERICL2_FRAME_TYPE"

definition in_mask :: "stat_frame_type \<Rightarrow> u64 \<Rightarrow> bool" where
  "in_mask t m \<longleftrightarrow> BIT t AND m \<noteq> 0"

lemmas tc_masks = BIT_def TC_ALL_def TC_TSN_def TC_UDP_def TC_PROFINET_def TC_XDP_def TC_WORKLOAD_def
  TC_L2_def TC_L3_def TC_BURST_def TC_SECURITY_def TC_TXTIME_def in_mask_def

section \<open>Configuration structures\<close>

record traffic_class_config =
  enabled :: bool
  rx_mirror_enabled :: bool
  name :: "string option"
  name_length :: nat
  xdp_enabled :: bool
  xdp_skb_mode :: bool
  xdp_zc_mode :: bool
  xdp_wakeup_mode :: bool
  xdp_busy_poll_mode :: bool
  tx_time_enabled :: bool
  tx_hwtstamp_enabled :: bool
  ignore_rx_errors :: bool
  tx_time_offset_ns :: u64
  burst_period_ns :: u64
  ether_type :: u32
  vid :: int
  pcp :: int
  num_frames_per_cycle :: nat
  payload_pattern :: "string option"
  payload_pattern_length :: nat
  frame_length :: nat
  rx_queue :: int
  tx_queue :: int
  protocol_type :: protocol_type
  interface :: string
  l2_destination :: bytes
  l3_port :: "string option"
  l3_port_length :: nat
  l3_destination :: "string option"
  l3_destination_length :: nat
  l3_source :: "string option"
  l3_source_length :: nat
  security_mode :: security_mode
  security_algorithm :: security_algorithm
  security_key :: "string option"
  security_key_length :: nat
  security_iv_prefix :: "string option"
  security_iv_prefix_length :: nat
  socket_priority :: int
  tx_thread_priority :: int
  rx_thread_priority :: int
  tx_thread_cpu :: int
  rx_thread_cpu :: int
  workload_thread_cpus :: "int list"
  workload_thread_cpus_num :: int
  workload_thread_priority :: int
  rx_workload_enabled :: bool
  rx_workload_prewarm :: bool
  rx_workload_skip_count :: u64
  workload_file :: "string option"
  workload_file_length :: nat
  workload_function :: "string option"
  workload_function_length :: nat
  workload_arguments :: "string option"
  workload_arguments_length :: nat
  workload_setup_function :: "string option"
  workload_setup_function_length :: nat
  workload_setup_arguments :: "string option"
  workload_setup_arguments_length :: nat
  workload_teardown_function :: "string option"
  workload_teardown_function_length :: nat

record application_config =
  application_clock_id :: clockid
  application_base_cycle_time_ns :: u64
  application_base_start_time_ns :: u64
  application_base_start_offset_ns :: u64
  application_tx_base_offset_ns :: u64
  application_rx_base_offset_ns :: u64
  application_xdp_program :: "string option"
  application_xdp_program_length :: nat
  classes :: "stat_frame_type \<Rightarrow> traffic_class_config"
  log_thread_priority :: int
  log_thread_cpu :: int
  log_file :: "string option"
  log_file_length :: nat
  log_level :: "string option"
  log_level_length :: nat
  debug_stop_trace_on_outlier :: bool
  debug_stop_trace_on_error :: bool
  debug_monitor_mode :: bool
  debug_monitor_destination :: bytes
  stats_histogram_enabled :: bool
  stats_histogram_minimum_ns :: u64
  stats_histogram_maximum_ns :: u64
  stats_histogram_file :: "string option"
  stats_histogram_file_length :: nat
  stats_collection_interval_ns :: u64
  log_mqtt :: bool
  log_mqtt_thread_priority :: int
  log_mqtt_thread_cpu :: int
  log_mqtt_broker_ip_length :: nat
  log_mqtt_broker_ip :: "string option"
  log_mqtt_broker_port :: int
  log_mqtt_keep_alive_secs :: int
  log_mqtt_measurement_name_length :: nat
  log_mqtt_measurement_name :: "string option"
  log_json :: bool
  log_json_thread_priority :: int
  log_json_thread_cpu :: int
  log_json_host_length :: nat
  log_json_host :: "string option"
  log_json_port_length :: nat
  log_json_port :: "string option"
  log_json_measurement_name_length :: nat
  log_json_measurement_name :: "string option"

text \<open>Objects of static storage duration start zeroed.\<close>

definition zero_class_config :: traffic_class_config where
  "zero_class_config = \<lparr>enabled = False, rx_mirror_enabled = False, name = None, name_length = 0,
     xdp_enabled = False, xdp_skb_mode = False, xdp_zc_mode = False, xdp_wakeup_mode = False,
     xdp_busy_poll_mode = False, tx_time_enabled = False, tx_hwtstamp_enabled = False,
     ignore_rx_errors = False, tx_time_offset_ns = 0, burst_period_ns = 0, ether_type = 0,
     vid = 0, pcp = 0, num_frames_per_cycle = 0, payload_pattern = None,
     payload_pattern_length = 0, frame_length = 0, rx_queue = 0, tx_queue = 0,
     protocol_type = GENERICL2_PROTOCOL_TYPE, interface = [],
     l2_destination = replicate ETH_ALEN 0, l3_port = None, l3_port_length = 0,
     l3_destination = None, l3_destination_length = 0, l3_source = None, l3_source_length = 0,
     security_mode = SECURITY_MODE_NONE, security_algorithm = SECURITY_ALGORITHM_AES256_GCM,
     security_key = None, security_key_length = 0, security_iv_prefix = None,
     security_iv_prefix_length = 0, socket_priority = 0, tx_thread_priority = 0,
     rx_thread_priority = 0, tx_thread_cpu = 0, rx_thread_cpu = 0,
     workload_thread_cpus = replicate WORKLOAD_MAX 0, workload_thread_cpus_num = 0,
     workload_thread_priority = 0, rx_workload_enabled = False, rx_workload_prewarm = False,
     rx_workload_skip_count = 0, workload_file = None, workload_file_length = 0,
     workload_function = None, workload_function_length = 0, workload_arguments = None,
     workload_arguments_length = 0, workload_setup_function = None,
     workload_setup_function_length = 0, workload_setup_arguments = None,
     workload_setup_arguments_length = 0, workload_teardown_function = None,
     workload_teardown_function_length = 0\<rparr>"

definition zero_app_config :: application_config where
  "zero_app_config = \<lparr>application_clock_id = CLOCK_REALTIME, application_base_cycle_time_ns = 0,
     application_base_start_time_ns = 0, application_base_start_offset_ns = 0,
     application_tx_base_offset_ns = 0, application_rx_base_offset_ns = 0,
     application_xdp_program = None, application_xdp_program_length = 0,
     classes = (\<lambda>_. zero_class_config), log_thread_priority = 0, log_thread_cpu = 0,
     log_file = None, log_file_length = 0, log_level = None, log_level_length = 0,
     debug_stop_trace_on_outlier = False, debug_stop_trace_on_error = False,
     debug_monitor_mode = False, debug_monitor_destination = replicate ETH_ALEN 0,
     stats_histogram_enabled = False, stats_histogram_minimum_ns = 0,
     stats_histogram_maximum_ns = 0, stats_histogram_file = None,
     stats_histogram_file_length = 0, stats_collection_interval_ns = 0, log_mqtt = False,
     log_mqtt_thread_priority = 0, log_mqtt_thread_cpu = 0, log_mqtt_broker_ip_length = 0,
     log_mqtt_broker_ip = None, log_mqtt_broker_port = 0, log_mqtt_keep_alive_secs = 0,
     log_mqtt_measurement_name_length = 0, log_mqtt_measurement_name = None, log_json = False,
     log_json_thread_priority = 0, log_json_thread_cpu = 0, log_json_host_length = 0,
     log_json_host = None, log_json_port_length = 0, log_json_port = None,
     log_json_measurement_name_length = 0, log_json_measurement_name = None\<rparr>"

section \<open>Build switches\<close>

record build =
  HAVE_BUSY_POLL :: bool
  WITH_MQTT :: bool
  HAVE_XDP_TX_TIME :: bool
  RX_TIMESTAMP :: bool
  TX_TIMESTAMP :: bool

definition config_have_busy_poll :: "build \<Rightarrow> bool" where "config_have_busy_poll B = HAVE_BUSY_POLL B"
definition config_have_mosquitto :: "build \<Rightarrow> bool" where "config_have_mosquitto B = WITH_MQTT B"
definition config_have_xdp_tx_time :: "build \<Rightarrow> bool" where "config_have_xdp_tx_time B = HAVE_XDP_TX_TIME B"
definition config_have_rx_timestamp :: "build \<Rightarrow> bool" where "config_have_rx_timestamp B = RX_TIMESTAMP B"
definition config_have_tx_timestamp :: "build \<Rightarrow> bool" where "config_have_tx_timestamp B = TX_TIMESTAMP B"

definition config_class_rx_timestamp_enabled :: "build \<Rightarrow> stat_frame_type \<Rightarrow> bool" where
  "config_class_rx_timestamp_enabled B t \<longleftrightarrow> config_have_rx_timestamp B \<and> in_mask t TC_XDP"

definition config_class_tx_timestamp_enabled ::
  "build \<Rightarrow> application_config \<Rightarrow> stat_frame_type \<Rightarrow> bool" where
  "config_class_tx_timestamp_enabled B app t \<longleftrightarrow>
     config_have_tx_timestamp B \<and> tx_hwtstamp_enabled (classes app t)"

lemmas config_have_defs [tb_defs] = config_have_busy_poll_def config_have_mosquitto_def
  config_have_xdp_tx_time_def config_have_rx_timestamp_def config_have_tx_timestamp_def

text \<open>The bytes of a C string, as the code reads a \<^verbatim>\<open>char *\<close> through \<^verbatim>\<open>unsigned char *\<close>.\<close>

definition str_bytes :: "string \<Rightarrow> bytes" where "str_bytes s = map of_char s"

definition ptr_bytes :: "string option \<Rightarrow> bytes" where
  "ptr_bytes p = (case p of None \<Rightarrow> [] | Some s \<Rightarrow> str_bytes s)"

lemma length_str_bytes [simp]: "length (str_bytes s) = length s"
  by (simp add: str_bytes_def)

lemma frame_types_complete: "t \<in> set frame_types \<longleftrightarrow> t \<noteq> NUM_FRAME_TYPES"
  by (cases t) (simp_all add: frame_types_def)

lemma frame_types_order: "sorted frame_types \<and> distinct frame_types"
  by (simp add: frame_types_def less_eq_stat_frame_type_def)

end
