(* ===== verification/TB_Time.thy ===== *)
theory TB_Time
  imports TB_Types "HOL-Library.Signed_Division"
begin

text \<open>
  Time arithmetic of \<^verbatim>\<open>utils.h\<close>, \<^verbatim>\<open>utils.c\<close> and \<^verbatim>\<open>tx_time.c\<close>.  A clock read is an
  argument: \<^const>\<open>None\<close> stands for a failing \<^verbatim>\<open>clock_gettime\<close>.  A \<^verbatim>\<open>timespec\<close> holds
  unbounded integers (64-bit nanoseconds last until the year 2262); everything
  the code keeps in a \<^verbatim>\<open>uint64_t\<close> is a 64-bit word.
\<close>

section \<open>Model\<close>

record timespec =
  tv_sec :: int
  tv_nsec :: int

definition ns_to_ts :: "int \<Rightarrow> timespec" where
  "ns_to_ts ns = \<lparr>tv_sec = ns sdiv NSEC_PER_SEC, tv_nsec = ns smod NSEC_PER_SEC\<rparr>"

definition ts_to_ns :: "timespec \<Rightarrow> int" where
  "ts_to_ns ts = tv_sec ts * NSEC_PER_SEC + tv_nsec ts"

function increment_loop :: "timespec \<Rightarrow> timespec" where
  "increment_loop t =
     (if tv_nsec t \<ge> NSEC_PER_SEC
      then increment_loop (t\<lparr>tv_sec := tv_sec t + 1, tv_nsec := tv_nsec t - NSEC_PER_SEC\<rparr>)
      else t)"
  by pat_completeness auto
termination by (relation "measure (\<lambda>t. nat (tv_nsec t))") auto

declare increment_loop.simps [simp del]

definition increment_period :: "timespec \<Rightarrow> int \<Rightarrow> timespec" where
  "increment_period time period_ns = increment_loop (time\<lparr>tv_nsec := tv_nsec time + period_ns\<rparr>)"

definition app_clock_get :: "timespec option \<Rightarrow> timespec" where
  "app_clock_get clk = (case clk of Some t \<Rightarrow> t | None \<Rightarrow> \<lparr>tv_sec = 0, tv_nsec = 0\<rparr>)"

definition clock_ns :: "timespec option \<Rightarrow> u64" where
  "clock_ns clk = of_int (ts_to_ns (app_clock_get clk))"

text \<open>Error value and wake-up time; the clock is only read without a configured start time.\<close>

definition get_thread_start_time ::
  "application_config \<Rightarrow> timespec option \<Rightarrow> u64 \<Rightarrow> errno + timespec" where
  "get_thread_start_time app clk base_offset =
     (if application_base_start_time_ns app \<noteq> 0
      then Inr (ns_to_ts (sint (application_base_start_time_ns app
                                + application_base_start_offset_ns app + base_offset)))
      else (case clk of Some t \<Rightarrow> Inr t | None \<Rightarrow> Inl EINVAL))"

definition tx_time_get_frame_duration :: "u32 \<Rightarrow> nat \<Rightarrow> u64 option" where
  "tx_time_get_frame_duration link_speed frame_len =
     (if link_speed = 0 then None
      else Some ((of_nat frame_len * 8 * 1000) div ucast link_speed))"

text \<open>The transmission time, and whether the "not in future" error is logged.\<close>

definition tx_time_get_frame_tx_time ::
  "application_config \<Rightarrow> timespec option \<Rightarrow> u64 \<Rightarrow> u64 \<Rightarrow> nat \<Rightarrow> u64 \<Rightarrow> (u64 \<times> bool) option" where
  "tx_time_get_frame_tx_time app clk sequence_counter duration num_frames tx_time_offset =
     (let cycle_time = application_base_cycle_time_ns app;
          start = application_base_start_time_ns app;
          now_ns = clock_ns clk
      in if cycle_time = 0 \<or> num_frames = 0 then None
         else let past_cycles = (now_ns - start) div cycle_time;
                  base_time = (past_cycles + 1) * cycle_time + start;
                  tx_time = base_time + tx_time_offset
                            + of_nat (unat sequence_counter mod num_frames) * duration
              in Some (tx_time, tx_time \<le> now_ns))"

text \<open>\<^verbatim>\<open>adjtimex\<close> reports the TAI offset in seconds, or fails.\<close>

definition init_tai_offset :: "int option \<Rightarrow> int" where
  "init_tai_offset adj = (case adj of None \<Rightarrow> 0 | Some tai \<Rightarrow> tai * NSEC_PER_SEC)"

section \<open>Lemmas\<close>

definition ts_normal :: "timespec \<Rightarrow> bool" where
  "ts_normal t \<longleftrightarrow> 0 \<le> tv_nsec t \<and> tv_nsec t < NSEC_PER_SEC"

lemma ts_to_ns_ns_to_ts [simp]: "ts_to_ns (ns_to_ts ns) = ns"
  using sdiv_mult_smod_eq [of ns NSEC_PER_SEC] by (simp add: ts_to_ns_def ns_to_ts_def)

lemma increment_loop_ok:
  assumes "0 \<le> tv_nsec t"
  shows "ts_normal (increment_loop t) \<and> ts_to_ns (increment_loop t) = ts_to_ns t"
  using assms
proof (induction t rule: increment_loop.induct)
  case (1 t)
  then show ?case
    by (cases "tv_nsec t \<ge> NSEC_PER_SEC")
       (simp_all add: increment_loop.simps [of t] ts_normal_def ts_to_ns_def)
qed

lemma next_cycle_bounds:
  fixes now start c :: nat
  assumes "0 < c" "start \<le> now"
  defines "base \<equiv> ((now - start) div c + 1) * c + start"
  shows "now < base" "base \<le> now + c" "(base - start) mod c = 0"
proof -
  define q r where "q = (now - start) div c" and "r = (now - start) mod c"
  have "now - start = q * c + r" by (simp add: q_def r_def)
  then have "now = start + q * c + r" "r < c" using assms by (simp_all add: r_def)
  then show "now < base" "base \<le> now + c"
    unfolding base_def q_def [symmetric] by (simp_all add: algebra_simps)
  show "(base - start) mod c = 0" by (simp add: base_def)
qed

section \<open>Properties\<close>

text \<open>Advancing a normalised wake-up time by a non-negative period yields a
  normalised time exactly that much later, for periods of any number of seconds.\<close>

lemma increment_period_exact:
  assumes "ts_normal t" "0 \<le> period"
  shows "ts_normal (increment_period t period) \<and>
         ts_to_ns (increment_period t period) = ts_to_ns t + period"
  using increment_loop_ok [of "t\<lparr>tv_nsec := tv_nsec t + period\<rparr>"] assms
  by (simp add: increment_period_def ts_normal_def ts_to_ns_def)

text \<open>C25. With a start time in the past and no overflow of 64-bit nanoseconds, the
  transmission time handed to the network card lies in the cycle after the
  current one: it is the next cycle boundary (aligned to the configured start
  time, at most one cycle ahead) plus the configured offset plus one frame
  duration per preceding frame of the cycle, it is in the future, and no error is
  logged.\<close>

theorem tx_time_next_cycle:
  assumes c: "application_base_cycle_time_ns app = c" "0 < unat c"
    and s: "application_base_start_time_ns app = s" "unat s \<le> unat (clock_ns clk)"
    and n: "0 < n"
    and ovf: "unat (clock_ns clk) + unat c + unat off + (n - 1) * unat dur < 2 ^ 64"
  shows "\<exists>base t. tx_time_get_frame_tx_time app clk seq dur n off = Some (t, False) \<and>
           unat t = base + unat off + (unat seq mod n) * unat dur \<and>
           unat (clock_ns clk) < base \<and> base \<le> unat (clock_ns clk) + unat c \<and>
           (base - unat s) mod unat c = 0"
proof -
  define now where "now = unat (clock_ns clk)"
  define base where "base = ((now - unat s) div unat c + 1) * unat c + unat s"
  define k where "k = (unat seq mod n) * unat dur"
  note b = next_cycle_bounds [of "unat c" "unat s" now, folded base_def, OF c(2) s(2) [folded now_def]]
  have "unat seq mod n \<le> n - 1" using n by (simp add: Suc_leI less_Suc_eq_le [symmetric])
  then have k: "k \<le> (n - 1) * unat dur" unfolding k_def by (rule mult_right_mono) simp
  have lim: "base + unat off + k < 2 ^ 64" using ovf b(2) k unfolding now_def by linarith
  have w: "(clock_ns clk - s) div c = of_nat ((now - unat s) div unat c)"
  proof -
    have "unat ((clock_ns clk - s) div c) = (now - unat s) div unat c"
      using s(2) by (simp add: now_def unat_div_distrib unat_sub_if')
    from arg_cong [OF this, of "of_nat :: nat \<Rightarrow> u64"] show ?thesis by simp
  qed
  have t: "((clock_ns clk - s) div c + 1) * c + s + off + of_nat (unat seq mod n) * dur
           = of_nat (base + unat off + k)" (is "?t = _")
    unfolding w base_def k_def by (simp add: algebra_simps)
  have ut: "unat ?t = base + unat off + k" unfolding t using lim by (rule unat_of_nat_small)
  then have "\<not> ?t \<le> clock_ns clk"
    using b(1) by (simp add: word_le_nat_alt now_def)
  moreover have "c \<noteq> 0" using c(2) by auto
  ultimately have "tx_time_get_frame_tx_time app clk seq dur n off = Some (?t, False)"
    using c(1) s(1) n by (simp add: tx_time_get_frame_tx_time_def Let_def)
  then show ?thesis using ut b unfolding now_def k_def
    by - (rule exI [of _ base], rule exI [of _ ?t], intro conjI)
qed

definition demo_time_config :: application_config where
  "demo_time_config = zero_app_config\<lparr>application_base_cycle_time_ns := 1000000,
     application_base_start_time_ns := 1000000000\<rparr>"

definition demo_clock :: "timespec option" where
  "demo_clock = Some \<lparr>tv_sec = 5, tv_nsec = 500000\<rparr>"

lemma demo_clock_ns: "clock_ns demo_clock = 5000500000"
  by (simp add: demo_clock_def clock_ns_def app_clock_get_def ts_to_ns_def)

theorem tx_time_next_cycle_witness:
  "\<exists>t. tx_time_get_frame_tx_time demo_time_config demo_clock 7 1200 4 250000 = Some (t, False) \<and>
       5000500000 < unat t"
  using tx_time_next_cycle [of demo_time_config 1000000 1000000000 demo_clock 4 250000 1200 7]
  by (auto simp: demo_time_config_def demo_clock_ns)

end
