(* ===== verification/TB_Frame.thy ===== *)
theory TB_Frame
  imports TB_Time
begin

text \<open>
  Frame level helpers of \<^verbatim>\<open>utils.h\<close> and \<^verbatim>\<open>utils.c\<close>: the test meta data embedded in
  every frame, the mirror's header rewriting, and the initial vectors of the
  security modes.  A frame is a byte buffer; a C pointer into it is an offset.
\<close>

section \<open>Model\<close>

subsection \<open>Meta data\<close>

definition meta_data_to_sequence_counter :: "nat \<Rightarrow> nat \<Rightarrow> bytes \<Rightarrow> u64 option" where
  "meta_data_to_sequence_counter meta num_frames buf = do {
     fc \<leftarrow> mem_read meta 4 buf;
     cc \<leftarrow> mem_read (meta + 4) 4 buf;
     let frame_counter = be32_word fc;
     let cycle_counter = be32_word cc;
     Some (ucast cycle_counter * of_nat num_frames + ucast frame_counter)
   }"

definition sequence_counter_to_meta_data :: "nat \<Rightarrow> u64 \<Rightarrow> nat \<Rightarrow> bytes \<Rightarrow> bytes option" where
  "sequence_counter_to_meta_data meta seq num_frames buf =
     (if num_frames = 0 then None
      else do {
        buf \<leftarrow> mem_write meta (be32_bytes (of_nat (unat seq mod num_frames))) buf;
        mem_write (meta + 4) (be32_bytes (of_nat (unat seq div num_frames))) buf
      })"

definition tx_timestamp_to_meta_data :: "nat \<Rightarrow> u64 \<Rightarrow> bytes \<Rightarrow> bytes option" where
  "tx_timestamp_to_meta_data meta timestamp buf = mem_write (meta + 8) (be64_bytes timestamp) buf"

definition meta_data_to_tx_timestamp :: "nat \<Rightarrow> bytes \<Rightarrow> u64 option" where
  "meta_data_to_tx_timestamp meta buf = do { b \<leftarrow> mem_read (meta + 8) 8 buf; Some (be64_word b) }"

definition get_sequence_counter :: "bytes \<Rightarrow> nat \<Rightarrow> nat \<Rightarrow> u64 option" where
  "get_sequence_counter frame meta_data_offset num_frames =
     meta_data_to_sequence_counter meta_data_offset num_frames frame"

definition set_sequence_counter :: "bytes \<Rightarrow> nat \<Rightarrow> u64 \<Rightarrow> nat \<Rightarrow> bytes option" where
  "set_sequence_counter frame meta_data_offset seq num_frames =
     sequence_counter_to_meta_data meta_data_offset seq num_frames frame"

definition set_mirror_tx_timestamp_est ::
  "application_config \<Rightarrow> timespec option \<Rightarrow> nat \<Rightarrow> bytes \<Rightarrow> bytes option" where
  "set_mirror_tx_timestamp_est app clk meta buf =
     tx_timestamp_to_meta_data meta
       (clock_ns clk + (application_tx_base_offset_ns app - application_rx_base_offset_ns app)) buf"

definition set_mirror_tx_timestamp ::
  "traffic_class_config \<Rightarrow> timespec option \<Rightarrow> nat \<Rightarrow> nat \<Rightarrow> nat \<Rightarrow> bytes \<Rightarrow> bytes option" where
  "set_mirror_tx_timestamp conf clk frame_size num_frames meta_data_offset frame_data =
     (if security_mode conf \<noteq> SECURITY_MODE_NONE then Some frame_data
      else for_upto num_frames
             (\<lambda>i. tx_timestamp_to_meta_data (i * frame_size + meta_data_offset) (clock_ns clk))
             frame_data)"

definition get_meta_data_offset :: "stat_frame_type \<Rightarrow> security_mode \<Rightarrow> nat" where
  "get_meta_data_offset t mode =
     (let profinet = (case mode of
            SECURITY_MODE_NONE \<Rightarrow> sizeof_vlan_ethernet_header + 2
          | _ \<Rightarrow> sizeof_vlan_ethernet_header + 10)
      in case t of
        TSN_HIGH_FRAME_TYPE \<Rightarrow> profinet
      | TSN_LOW_FRAME_TYPE \<Rightarrow> profinet
      | RTC_FRAME_TYPE \<Rightarrow> profinet
      | RTA_FRAME_TYPE \<Rightarrow> profinet
      | DCP_FRAME_TYPE \<Rightarrow> profinet
      | LLDP_FRAME_TYPE \<Rightarrow> sizeof_ethhdr
      | UDP_HIGH_FRAME_TYPE \<Rightarrow> 0
      | UDP_LOW_FRAME_TYPE \<Rightarrow> 0
      | GENERICL2_FRAME_TYPE \<Rightarrow> sizeof_vlan_ethernet_header + 0
      | NUM_FRAME_TYPES \<Rightarrow> 0)"

subsection \<open>Ethernet headers\<close>

definition swap_mac_addresses :: "bytes \<Rightarrow> nat \<Rightarrow> bytes option" where
  "swap_mac_addresses buf len =
     (if len < sizeof_ethhdr then Some buf
      else do {
        tmp \<leftarrow> mem_read ETH_ALEN ETH_ALEN buf;
        dest \<leftarrow> mem_read 0 ETH_ALEN buf;
        buf \<leftarrow> mem_write ETH_ALEN dest buf;
        mem_write 0 tmp buf
      })"

text \<open>A length below \<open>2 * ETH_ALEN\<close> underflows the \<^verbatim>\<open>size_t\<close> length of the move.\<close>

definition insert_vlan_tag :: "bytes \<Rightarrow> nat \<Rightarrow> u16 \<Rightarrow> u16 \<Rightarrow> bytes option" where
  "insert_vlan_tag buf len ethertype vlan_tci =
     (if len + sizeof_vlan_header > MAX_FRAME_SIZE then Some buf
      else if len < 2 * ETH_ALEN then None
      else do {
        moved \<leftarrow> mem_read (2 * ETH_ALEN) (len - 2 * ETH_ALEN) buf;
        buf \<leftarrow> mem_write (2 * ETH_ALEN + sizeof_vlan_header) moved buf;
        buf \<leftarrow> mem_write 16 (be16_bytes ethertype) buf;
        buf \<leftarrow> mem_write 12 (be16_bytes ETH_P_8021Q) buf;
        mem_write 14 (be16_bytes vlan_tci) buf
      })"

definition build_vlan_frame_from_rx ::
  "bytes \<Rightarrow> nat \<Rightarrow> bytes \<Rightarrow> nat \<Rightarrow> u16 \<Rightarrow> u16 \<Rightarrow> bytes option" where
  "build_vlan_frame_from_rx old_frame old_len new_frame new_len ethertype vlan_tci =
     (if new_len < old_len + sizeof_vlan_header then Some new_frame
      else if old_len < 2 * ETH_ALEN then None
      else do {
        payload \<leftarrow> mem_read (2 * ETH_ALEN) (old_len - 2 * ETH_ALEN) old_frame;
        new_frame \<leftarrow> mem_write (2 * ETH_ALEN + sizeof_vlan_header) payload new_frame;
        src \<leftarrow> mem_read ETH_ALEN ETH_ALEN old_frame;
        new_frame \<leftarrow> mem_write 0 src new_frame;
        dst \<leftarrow> mem_read 0 ETH_ALEN old_frame;
        new_frame \<leftarrow> mem_write ETH_ALEN dst new_frame;
        new_frame \<leftarrow> mem_write 12 (be16_bytes ETH_P_8021Q) new_frame;
        new_frame \<leftarrow> mem_write 14 (be16_bytes vlan_tci) new_frame;
        mem_write 16 (be16_bytes ethertype) new_frame
      })"

text \<open>\<^verbatim>\<open>vid | pcp << VLAN_PCP_SHIFT\<close>, truncated to the 16-bit argument.\<close>

definition vlan_tci_of :: "traffic_class_config \<Rightarrow> u16" where
  "vlan_tci_of conf = of_int (vid conf OR push_bit 13 (pcp conf))"

subsection \<open>Initial vectors\<close>

text \<open>\<^verbatim>\<open>struct security_iv\<close>: six prefix bytes and the little-endian counter;
  OpenSSL reads the first twelve bytes.\<close>

definition prepare_iv :: "bytes \<Rightarrow> u64 \<Rightarrow> bytes option" where
  "prepare_iv iv_prefix seq = do {
     p \<leftarrow> mem_read 0 6 iv_prefix;
     Some (p @ nat_to_le 8 (unat seq))
   }"

section \<open>Meta data lemmas\<close>

lemma set_seq_ok:
  assumes "meta + 8 \<le> length buf" "0 < n"
  shows "sequence_counter_to_meta_data meta seq n buf =
     Some (take meta buf @ be32_bytes (of_nat (unat seq mod n)) @ be32_bytes (of_nat (unat seq div n))
           @ drop (meta + 8) buf)"
proof -
  let ?f = "be32_bytes (of_nat (unat seq mod n))" and ?c = "be32_bytes (of_nat (unat seq div n))"
  have "mem_write meta ?f buf = Some (take meta buf @ ?f @ drop (meta + 4) buf)"
    using assms by (simp add: mem_write_def)
  moreover have "mem_write (meta + 4) ?c (take meta buf @ ?f @ drop (meta + 4) buf)
      = Some (take meta buf @ ?f @ ?c @ drop (meta + 8) buf)"
    using assms by (simp add: mem_write_def min_absorb1 add.commute)
  ultimately show ?thesis using assms by (simp add: sequence_counter_to_meta_data_def)
qed

lemma length_set_seq:
  "sequence_counter_to_meta_data meta seq n buf = Some buf' \<Longrightarrow> length buf' = length buf"
  by (auto simp: sequence_counter_to_meta_data_def split: if_splits dest!: mem_write_length)

lemma counter_recompose:
  fixes k n :: nat
  assumes "0 < n" "n \<le> 2 ^ 32"
  shows "(k div n mod 2 ^ 32) * n + k mod n mod 2 ^ 32 = k mod (n * 2 ^ 32)"
proof -
  have "k mod n < 2 ^ 32" using assms by (meson mod_less_divisor order_less_le_trans)
  then show ?thesis using mod_mult2_eq [of k n "2 ^ 32"] by (simp add: mult.commute)
qed

lemma get_set_seq:
  assumes "meta + 8 \<le> length buf" "0 < n" "n \<le> 2 ^ 32"
    and "sequence_counter_to_meta_data meta seq n buf = Some buf'"
  shows "meta_data_to_sequence_counter meta n buf' = Some (of_nat (unat seq mod (n * 2 ^ 32)))"
proof -
  let ?k = "unat seq"
  have "buf' = take meta buf @ be32_bytes (of_nat (?k mod n)) @ be32_bytes (of_nat (?k div n))
               @ drop (meta + 8) buf" (is "_ = ?b")
    using set_seq_ok [OF assms(1,2)] assms(4) by simp
  moreover have "mem_read meta 4 ?b = Some (be32_bytes (of_nat (?k mod n)))"
    "mem_read (meta + 4) 4 ?b = Some (be32_bytes (of_nat (?k div n)))"
    using assms by (simp_all add: min_absorb1)
  moreover have "(ucast (of_nat (?k div n) :: u32) :: u64) * of_nat n + ucast (of_nat (?k mod n) :: u32)
      = of_nat (?k mod (n * 2 ^ 32))"
    unfolding counter_recompose [OF assms(2,3), symmetric] by (simp add: unsigned_of_nat take_bit_eq_mod)
  ultimately show ?thesis by (simp add: meta_data_to_sequence_counter_def)
qed

lemma set_ts_ok:
  "meta + 16 \<le> length buf \<Longrightarrow> \<exists>buf'. tx_timestamp_to_meta_data meta ts buf = Some buf'"
  by (simp add: tx_timestamp_to_meta_data_def mem_write_def)

lemma length_set_ts: "tx_timestamp_to_meta_data meta ts buf = Some buf' \<Longrightarrow> length buf' = length buf"
  by (auto simp: tx_timestamp_to_meta_data_def dest!: mem_write_length)

lemma get_set_ts:
  "tx_timestamp_to_meta_data meta ts buf = Some buf' \<Longrightarrow> meta_data_to_tx_timestamp meta buf' = Some ts"
  by (auto simp: tx_timestamp_to_meta_data_def meta_data_to_tx_timestamp_def
           dest!: mem_read_write_same [where n = 8])

lemma get_seq_set_ts:
  assumes "tx_timestamp_to_meta_data meta ts buf = Some buf'"
  shows "meta_data_to_sequence_counter meta n buf' = meta_data_to_sequence_counter meta n buf"
  using assms
  by (simp add: tx_timestamp_to_meta_data_def meta_data_to_sequence_counter_def
      mem_read_write_disjoint [OF assms [unfolded tx_timestamp_to_meta_data_def]])

section \<open>Header rewriting lemmas\<close>

lemma frame_decompose:
  assumes "14 \<le> length xs"
  obtains d s p r where "xs = d @ s @ p @ r" "length d = 6" "length s = 6" "length p = 2"
proof
  show "xs = take 6 xs @ take 6 (drop 6 xs) @ take 2 (drop 12 xs) @ drop 14 xs"
    by (metis (no_types, lifting) append_take_drop_id drop_drop numeral_Bit0 numeral_plus_numeral
        add_num_simps(2,4,5,6,8))
qed (use assms in auto)

text \<open>What both mirror paths produce from a frame without VLAN tag.\<close>

definition tagged_frame :: "bytes \<Rightarrow> nat \<Rightarrow> u16 \<Rightarrow> u16 \<Rightarrow> bytes" where
  "tagged_frame old len ethertype tci =
     take 6 (drop 6 old) @ take 6 old @ be16_bytes ETH_P_8021Q @ be16_bytes tci @ be16_bytes ethertype
     @ drop 14 (take len old)"

lemma build_vlan_frame_eq:
  assumes "14 \<le> len" "len \<le> length old" "len + 4 \<le> new_len" "new_len \<le> length new"
  shows "build_vlan_frame_from_rx old len new new_len et tci =
         Some (tagged_frame old len et tci @ drop (len + 4) new)"
proof -
  have "14 \<le> length old" using assms by simp
  then obtain d s p r where o: "old = d @ s @ p @ r" "length d = 6" "length s = 6" "length p = 2"
    by (rule frame_decompose)
  have "length (take (len - 14) r) = len - 14" using assms o by simp
  moreover obtain k where "len = 14 + k" using assms(1) le_Suc_ex by blast
  moreover have "18 \<le> length new" using assms by simp
  ultimately show ?thesis
    using assms o
    by (simp add: build_vlan_frame_from_rx_def mem_read_def mem_write_def tagged_frame_def) arith
qed

lemma insert_vlan_tag_eq:
  assumes "14 \<le> len" "len + 4 \<le> length old" "len + 4 \<le> MAX_FRAME_SIZE"
  shows "insert_vlan_tag old len et tci =
         Some (take 12 old @ be16_bytes ETH_P_8021Q @ be16_bytes tci @ be16_bytes et
               @ drop 14 (take len old) @ drop (len + 4) old)"
proof -
  have "14 \<le> length old" using assms by simp
  then obtain d s p r where o: "old = d @ s @ p @ r" "length d = 6" "length s = 6" "length p = 2"
    by (rule frame_decompose)
  moreover obtain k where "len = 14 + k" using assms(1) le_Suc_ex by blast
  moreover have "4 \<le> length r" using assms o by simp
  ultimately show ?thesis
    using assms by (simp add: insert_vlan_tag_def mem_read_def mem_write_def)
qed

lemma swap_mac_eq:
  assumes "14 \<le> len" "12 \<le> length buf"
  shows "swap_mac_addresses buf len = Some (take 6 (drop 6 buf) @ take 6 buf @ drop 12 buf)"
  using assms by (simp add: swap_mac_addresses_def mem_read_def mem_write_def)

lemma swap_mac_length: "swap_mac_addresses buf len = Some buf' \<Longrightarrow> length buf' = length buf"
  by (auto simp: swap_mac_addresses_def split: if_splits dest!: mem_write_length)

section \<open>Properties\<close>

text \<open>Writing a sequence counter and a transmit time stamp into a frame and
  reading them back yields the time stamp and the counter modulo \<open>2\<^sup>3\<^sup>2\<close> cycles
  (the on-wire cycle counter has 32 bits), and leaves all bytes outside the
  sixteen bytes of meta data alone.\<close>

lemma meta_data_roundtrip:
  assumes "off + 16 \<le> length frame" "0 < n" "n \<le> 2 ^ 32"
  shows "\<exists>f1 f2. set_sequence_counter frame off seq n = Some f1 \<and>
           tx_timestamp_to_meta_data off ts f1 = Some f2 \<and>
           get_sequence_counter f2 off n = Some (of_nat (unat seq mod (n * 2 ^ 32))) \<and>
           meta_data_to_tx_timestamp off f2 = Some ts \<and>
           take off f2 = take off frame \<and> drop (off + 16) f2 = drop (off + 16) frame"
proof -
  let ?f1 = "take off frame @ be32_bytes (of_nat (unat seq mod n)) @ be32_bytes (of_nat (unat seq div n))
             @ drop (off + 8) frame"
  have f1: "sequence_counter_to_meta_data off seq n frame = Some ?f1"
    using set_seq_ok [of off frame n seq] assms by simp
  have f2: "tx_timestamp_to_meta_data off ts ?f1 =
      Some (take (off + 8) ?f1 @ be64_bytes ts @ drop (off + 16) frame)" (is "_ = Some ?f2")
    using assms by (simp add: tx_timestamp_to_meta_data_def mem_write_def min_absorb1 add.commute)
  have "meta_data_to_sequence_counter off n ?f2 = Some (of_nat (unat seq mod (n * 2 ^ 32)))"
    using get_seq_set_ts [OF f2] get_set_seq [OF _ assms(2,3) f1] assms(1) by simp
  then show ?thesis
    using f1 f2 get_set_ts [OF f2] assms(1)
    by (simp add: set_sequence_counter_def get_sequence_counter_def min_absorb1)
qed

text \<open>C29. For a received frame without VLAN tag the two mirror paths agree: copying it
  into a fresh buffer (raw sockets) and rewriting it in place (AF_XDP) both yield
  the frame with swapped addresses, the given VLAN tag and ether type, and the
  unchanged rest, inside the bounds of the buffers.\<close>

theorem mirror_paths_agree:
  assumes "14 \<le> len" "len + 4 \<le> MAX_FRAME_SIZE"
    and "MAX_FRAME_SIZE \<le> length slot" "length new = MAX_FRAME_SIZE"
  shows "\<exists>new' s1 s2. build_vlan_frame_from_rx slot len new MAX_FRAME_SIZE et tci = Some new' \<and>
           insert_vlan_tag slot len et tci = Some s1 \<and> swap_mac_addresses s1 len = Some s2 \<and>
           take (len + 4) new' = tagged_frame slot len et tci \<and>
           take (len + 4) s2 = tagged_frame slot len et tci \<and>
           drop (len + 4) s2 = drop (len + 4) slot"
proof -
  have t: "length (tagged_frame slot len et tci) = len + 4"
    using assms by (simp add: tagged_frame_def)
  have b: "build_vlan_frame_from_rx slot len new MAX_FRAME_SIZE et tci =
      Some (tagged_frame slot len et tci @ drop (len + 4) new)"
    using assms by (intro build_vlan_frame_eq) simp_all
  let ?s1 = "take 12 slot @ be16_bytes ETH_P_8021Q @ be16_bytes tci @ be16_bytes et
             @ drop 14 (take len slot) @ drop (len + 4) slot"
  have s1: "insert_vlan_tag slot len et tci = Some ?s1"
    using assms by (intro insert_vlan_tag_eq) simp_all
  have "swap_mac_addresses ?s1 len = Some (tagged_frame slot len et tci @ drop (len + 4) slot)"
    using assms by (subst swap_mac_eq) (simp_all add: tagged_frame_def min_absorb1 take_drop)
  then show ?thesis using b s1 t by simp
qed

theorem mirror_paths_agree_witness:
  "\<exists>new' s1 s2. build_vlan_frame_from_rx (replicate 4096 7) 60 (replicate 4096 0) 4096 0x8892 0xC101 = Some new' \<and>
     insert_vlan_tag (replicate 4096 7) 60 0x8892 0xC101 = Some s1 \<and> swap_mac_addresses s1 60 = Some s2 \<and>
     take 64 new' = take 64 s2"
  using mirror_paths_agree [where len = 60 and slot = "replicate 4096 7" and new = "replicate 4096 0"
      and et = "0x8892" and tci = "0xC101"] by auto

text \<open>C26. Two sequence counters lead to the same initial vector for the cipher (the
  first twelve bytes) exactly if they agree modulo \<open>2\<^sup>4\<^sup>8\<close>; within \<open>2\<^sup>4\<^sup>8\<close> frames
  no initial vector is used twice.\<close>

theorem prepare_iv_unique:
  assumes "prepare_iv p a = Some iva" "prepare_iv p b = Some ivb"
  shows "take 12 iva = take 12 ivb \<longleftrightarrow> unat a mod 2 ^ 48 = unat b mod 2 ^ 48"
proof -
  have split: "take 6 (nat_to_le 8 k) = nat_to_le 6 k" for k
    by (rule take_nat_to_le) simp
  have "take 12 iva = take 6 p @ nat_to_le 6 (unat a)" "take 12 ivb = take 6 p @ nat_to_le 6 (unat b)"
    using assms by (auto simp: prepare_iv_def tb_mem split)
  moreover have "nat_to_le 6 (unat a) = nat_to_le 6 (unat b) \<longleftrightarrow> unat a mod 256 ^ 6 = unat b mod 256 ^ 6"
    by (rule nat_to_le_eq_iff)
  ultimately show ?thesis by simp
qed

theorem prepare_iv_unique_witness:
  "prepare_iv [1, 2, 3, 4, 5, 6] 9 = Some [1, 2, 3, 4, 5, 6, 9, 0, 0, 0, 0, 0, 0, 0] \<and>
   prepare_iv [1, 2, 3, 4, 5, 6] 10 = Some [1, 2, 3, 4, 5, 6, 10, 0, 0, 0, 0, 0, 0, 0] \<and>
   take 12 [1, 2, 3, 4, 5, 6, 9, 0, 0, 0, 0, 0, 0, 0 :: u8] \<noteq> take 12 [1, 2, 3, 4, 5, 6, 10, 0, 0, 0, 0, 0, 0, 0]"
proof -
  have a: "prepare_iv [1, 2, 3, 4, 5, 6] 9 = Some [1, 2, 3, 4, 5, 6, 9, 0, 0, 0, 0, 0, 0, 0]"
    "prepare_iv [1, 2, 3, 4, 5, 6] 10 = Some [1, 2, 3, 4, 5, 6, 10, 0, 0, 0, 0, 0, 0, 0]"
    by (simp_all add: prepare_iv_def mem_read_def tb_eval)
  show ?thesis using prepare_iv_unique [OF a] a by simp
qed

end
