(* ===== verification/TB_Security.thy ===== *)
theory TB_Security
  imports TB_Frame "HOL-Library.Multiset"
begin

text \<open>
  Authentication and encryption: \<^verbatim>\<open>security.c\<close>, and the transmit preparation
  \<^verbatim>\<open>prepare_frame_for_tx\<close> of \<^verbatim>\<open>utils.c\<close> that uses it.

  OpenSSL is a parameter: the record \<open>evp\<close> has one function per EVP call of the
  source, \<^const>\<open>None\<close> for the call's failure.  A keyed context (type \<open>'c\<close>) is given
  an initial vector for each message, which yields the per-message state (type
  \<open>'s\<close>) the further calls thread.
\<close>

section \<open>Model\<close>

record ('c, 's) evp =
  EVP_CIPHER_fetch :: "string \<Rightarrow> bool"
  EVP_CIPHER_CTX_new :: bool
  EVP_EncryptInit_key :: "string \<Rightarrow> bytes \<Rightarrow> 'c option"
  EVP_EncryptInit_iv :: "'c \<Rightarrow> bytes \<Rightarrow> 's option"
  EVP_EncryptUpdate_aad :: "'s \<Rightarrow> bytes \<Rightarrow> 's option"
  EVP_EncryptUpdate :: "'s \<Rightarrow> bytes \<Rightarrow> ('s \<times> bytes) option"
  EVP_EncryptFinal :: "'s \<Rightarrow> ('s \<times> bytes) option"
  EVP_get_tag :: "'s \<Rightarrow> bytes option"
  EVP_DecryptInit_iv :: "'c \<Rightarrow> bytes \<Rightarrow> 's option"
  EVP_DecryptUpdate_aad :: "'s \<Rightarrow> bytes \<Rightarrow> 's option"
  EVP_DecryptUpdate :: "'s \<Rightarrow> bytes \<Rightarrow> ('s \<times> bytes) option"
  EVP_set_tag :: "'s \<Rightarrow> bytes \<Rightarrow> 's option"
  EVP_DecryptFinal :: "'s \<Rightarrow> int \<times> bytes"

record 'c security_context =
  sc_algorithm :: security_algorithm
  sc_ctx :: 'c

definition security_algorithm_to_string :: "security_algorithm \<Rightarrow> string" where
  "security_algorithm_to_string a =
     (case a of
        SECURITY_ALGORITHM_AES256_GCM \<Rightarrow> ''AES-256-GCM''
      | SECURITY_ALGORITHM_AES128_GCM \<Rightarrow> ''AES-128-GCM''
      | SECURITY_ALGORITHM_CHACHA20_POLY1305 \<Rightarrow> ''CHACHA20-POLY1305'')"

definition security_mode_to_string :: "security_mode \<Rightarrow> string" where
  "security_mode_to_string m =
     (case m of
        SECURITY_MODE_NONE \<Rightarrow> ''None''
      | SECURITY_MODE_AO \<Rightarrow> ''Authentication''
      | SECURITY_MODE_AE \<Rightarrow> ''Authentication and Encryption'')"

text \<open>
  \<^verbatim>\<open>security_init\<close> with its three unwinding labels.  Besides the context, the
  resources still allocated at return are listed.
\<close>

datatype sec_resource = SR_context | SR_cipher | SR_ctx

definition security_init ::
  "('c, 's) evp \<Rightarrow> bool \<Rightarrow> security_algorithm \<Rightarrow> bytes \<Rightarrow>
   'c security_context option \<times> sec_resource list" where
  "security_init E calloc_ok algorithm key =
     (if \<not> calloc_ok then (None, [])
      else if \<not> EVP_CIPHER_fetch E (security_algorithm_to_string algorithm)
      then (None, remove1 SR_context [SR_context])
      else if \<not> EVP_CIPHER_CTX_new E
      then (None, remove1 SR_context (remove1 SR_cipher [SR_context, SR_cipher]))
      else (case EVP_EncryptInit_key E (security_algorithm_to_string algorithm) key of
              None \<Rightarrow> (None, remove1 SR_context (remove1 SR_cipher (remove1 SR_ctx
                             [SR_context, SR_cipher, SR_ctx])))
            | Some c \<Rightarrow> (Some \<lparr>sc_algorithm = algorithm, sc_ctx = c\<rparr>, [SR_context, SR_cipher, SR_ctx])))"

definition security_exit :: "'c security_context option \<Rightarrow> sec_resource list" where
  "security_exit context = (case context of None \<Rightarrow> [] | Some _ \<Rightarrow> [SR_cipher, SR_ctx, SR_context])"

text \<open>
  The return code (\<^const>\<open>None\<close> for 0) and the buffer.  The plaintext is
  \<^const>\<open>None\<close> for \<^verbatim>\<open>NULL\<close>; the cipher text goes to \<open>ct\<close>, the tag to \<open>tag\<close>.
\<close>

definition security_encrypt ::
  "('c, 's) evp \<Rightarrow> 'c security_context \<Rightarrow> bytes option \<Rightarrow> bytes \<Rightarrow> bytes \<Rightarrow> nat \<Rightarrow> nat \<Rightarrow> bytes
   \<Rightarrow> (errno option \<times> bytes) option" where
  "security_encrypt E context plaintext aad iv ct tag buf =
     (case EVP_EncryptInit_iv E (sc_ctx context) (take 12 iv) of
        None \<Rightarrow> Some (Some EINVAL, buf)
      | Some s \<Rightarrow>
     (case EVP_EncryptUpdate_aad E s aad of
        None \<Rightarrow> Some (Some EINVAL, buf)
      | Some s \<Rightarrow>
     (case (case plaintext of
              None \<Rightarrow> Some (s, [])
            | Some pt \<Rightarrow> EVP_EncryptUpdate E s pt) of
        None \<Rightarrow> Some (Some EINVAL, buf)
      | Some (s, out) \<Rightarrow> do {
          buf \<leftarrow> (if plaintext = None then Some buf else mem_write ct out buf);
          (case EVP_EncryptFinal E s of
             None \<Rightarrow> Some (Some EINVAL, buf)
           | Some (s, fin) \<Rightarrow> do {
               buf \<leftarrow> (if plaintext = None then Some buf else mem_write (ct + length out) fin buf);
               (case EVP_get_tag E s of
                  None \<Rightarrow> Some (Some EINVAL, buf)
                | Some t \<Rightarrow> do { buf \<leftarrow> mem_write tag t buf; Some (None, buf) })
             })
        })))"

text \<open>Return code and plaintext array.\<close>

definition security_decrypt ::
  "('c, 's) evp \<Rightarrow> 'c security_context \<Rightarrow> bytes option \<Rightarrow> bytes \<Rightarrow> bytes \<Rightarrow> bytes \<Rightarrow> bytes
   \<Rightarrow> (errno option \<times> bytes) option" where
  "security_decrypt E context ciphertext aad tag iv plaintext =
     (case EVP_DecryptInit_iv E (sc_ctx context) (take 12 iv) of
        None \<Rightarrow> Some (Some EINVAL, plaintext)
      | Some s \<Rightarrow>
     (case EVP_DecryptUpdate_aad E s aad of
        None \<Rightarrow> Some (Some EINVAL, plaintext)
      | Some s \<Rightarrow>
     (case (case ciphertext of
              None \<Rightarrow> Some (s, [])
            | Some c \<Rightarrow> EVP_DecryptUpdate E s c) of
        None \<Rightarrow> Some (Some EINVAL, plaintext)
      | Some (s, out) \<Rightarrow> do {
          plaintext \<leftarrow> (if ciphertext = None then Some plaintext else mem_write 0 out plaintext);
          (case EVP_set_tag E s tag of
             None \<Rightarrow> Some (Some EINVAL, plaintext)
           | Some s \<Rightarrow> do {
               let (ret, fin) = EVP_DecryptFinal E s;
               plaintext \<leftarrow> (if ciphertext = None then Some plaintext
                            else mem_write (length out) fin plaintext);
               Some (if ret > 0 then None else Some EPERM, plaintext)
             })
        })))"

record 'c prepare_frame_config =
  pf_mode :: security_mode
  pf_security_context :: "'c security_context option"
  pf_iv_prefix :: bytes
  pf_payload_pattern :: bytes
  pf_payload_pattern_length :: nat
  pf_frame_length :: nat
  pf_num_frames_per_cycle :: nat
  pf_sequence_counter :: u64
  pf_tx_timestamp :: u64
  pf_meta_data_offset :: nat
  pf_frame_type :: stat_frame_type
  pf_protocol_type :: protocol_type

text \<open>The buffer argument is the field \<^verbatim>\<open>frame_data\<close>.\<close>

definition prepare_frame_for_tx ::
  "('c, 's) evp \<Rightarrow> 'c prepare_frame_config \<Rightarrow> bytes \<Rightarrow> (errno option \<times> bytes) option" where
  "prepare_frame_for_tx E fc frame =
     (if pf_frame_type fc = GENERICL2_FRAME_TYPE \<and> pf_protocol_type fc = ETHERCAT_PROTOCOL_TYPE
      then do {
        let len = (of_nat (pf_frame_length fc) :: u64);
        let ecat_length = (((len - 14) AND 0x7FF) OR 0x1000);
        let cmd_length = ((len - 28) AND 0x7FF);
        frame \<leftarrow> mem_write 26 (nat_to_le 8 (unat (pf_tx_timestamp fc))) frame;
        frame \<leftarrow> mem_write 14 (nat_to_le 2 (unat ecat_length)) frame;
        frame \<leftarrow> mem_write 22 (nat_to_le 2 (unat cmd_length)) frame;
        Some (None, frame)
      }
      else if pf_mode fc = SECURITY_MODE_NONE
      then do {
        frame \<leftarrow> sequence_counter_to_meta_data (pf_meta_data_offset fc) (pf_sequence_counter fc)
                   (pf_num_frames_per_cycle fc) frame;
        frame \<leftarrow> tx_timestamp_to_meta_data (pf_meta_data_offset fc) (pf_tx_timestamp fc) frame;
        Some (None, frame)
      }
      else do {
        frame \<leftarrow> sequence_counter_to_meta_data (sizeof_vlan_ethernet_header + 10)
                   (pf_sequence_counter fc) (pf_num_frames_per_cycle fc) frame;
        frame \<leftarrow> tx_timestamp_to_meta_data (sizeof_vlan_ethernet_header + 10) (pf_tx_timestamp fc) frame;
        iv \<leftarrow> prepare_iv (pf_iv_prefix fc) (pf_sequence_counter fc);
        context \<leftarrow> pf_security_context fc;
        if pf_frame_length fc < sizeof_vlan_ethernet_header + sizeof_security_checksum then None
        else if pf_mode fc = SECURITY_MODE_AO
        then do {
          aad \<leftarrow> mem_read sizeof_vlan_ethernet_header
                   (pf_frame_length fc - sizeof_vlan_ethernet_header - sizeof_security_checksum) frame;
          security_encrypt E context None aad iv 0
            (pf_frame_length fc - sizeof_security_checksum) frame
        }
        else do {
          aad \<leftarrow> mem_read sizeof_vlan_ethernet_header sizeof_profinet_secure_header frame;
          pt \<leftarrow> mem_read 0 (pf_payload_pattern_length fc) (pf_payload_pattern fc);
          security_encrypt E context (Some pt) aad iv
            (sizeof_vlan_ethernet_header + sizeof_profinet_secure_header)
            (pf_frame_length fc - sizeof_security_checksum) frame
        }
      })"

text \<open>The warm-up call on a dummy frame; return codes are ignored.\<close>

definition prepare_openssl ::
  "('c, 's) evp \<Rightarrow> 'c security_context option \<Rightarrow> bytes option" where
  "prepare_openssl E context =
     (let dummy = (5 :: u8) # replicate 2047 0; iv = str_bytes ''012345678901'' @ [0]
      in case context of
           None \<Rightarrow> Some dummy
         | Some c \<Rightarrow> do {
             (_, dummy) \<leftarrow> security_encrypt E c None (take (2048 - 16) dummy) iv 0 (2048 - 16) dummy;
             (_, _) \<leftarrow> security_decrypt E c None (take (2048 - 16) dummy) (drop (2048 - 16) dummy) iv [];
             Some dummy
           })"

section \<open>What the code relies on of OpenSSL\<close>

text \<open>
  The documented behaviour of the AEAD ciphers: the composition of the calls of
  one message.  \<open>evp_seal\<close> and \<open>evp_open\<close> are the compositions; \<open>evp_aead\<close> says that
  sealing never fails and yields a cipher text of the length of the plaintext and
  a 16-byte tag, that opening what was sealed with the same key, vector and
  associated data succeeds with the plaintext, and that opening with another tag
  than the sealed one fails.
\<close>

definition evp_seal ::
  "('c, 's) evp \<Rightarrow> 'c \<Rightarrow> bytes \<Rightarrow> bytes \<Rightarrow> bytes option \<Rightarrow> (bytes \<times> bytes \<times> bytes) option" where
  "evp_seal E c iv aad pt = do {
     s \<leftarrow> EVP_EncryptInit_iv E c iv;
     s \<leftarrow> EVP_EncryptUpdate_aad E s aad;
     (s, out) \<leftarrow> (case pt of None \<Rightarrow> Some (s, []) | Some pt \<Rightarrow> EVP_EncryptUpdate E s pt);
     (s, fin) \<leftarrow> EVP_EncryptFinal E s;
     tag \<leftarrow> EVP_get_tag E s;
     Some (out, fin, tag)
   }"

definition evp_open ::
  "('c, 's) evp \<Rightarrow> 'c \<Rightarrow> bytes \<Rightarrow> bytes \<Rightarrow> bytes option \<Rightarrow> bytes \<Rightarrow> (int \<times> bytes \<times> bytes) option" where
  "evp_open E c iv aad ct tag = do {
     s \<leftarrow> EVP_DecryptInit_iv E c iv;
     s \<leftarrow> EVP_DecryptUpdate_aad E s aad;
     (s, out) \<leftarrow> (case ct of None \<Rightarrow> Some (s, []) | Some ct \<Rightarrow> EVP_DecryptUpdate E s ct);
     s \<leftarrow> EVP_set_tag E s tag;
     let (ret, fin) = EVP_DecryptFinal E s;
     Some (ret, out, fin)
   }"

definition evp_aead :: "('c, 's) evp \<Rightarrow> 'c \<Rightarrow> bool" where
  "evp_aead E c \<longleftrightarrow>
     (\<forall>iv aad pt. length iv = 12 \<longrightarrow>
        (\<exists>ct tag. evp_seal E c iv aad pt = Some (ct, [], tag) \<and> length tag = 16 \<and>
           length ct = (case pt of None \<Rightarrow> 0 | Some p \<Rightarrow> length p) \<and>
           (\<forall>tag'. length tag' = 16 \<longrightarrow>
              (\<exists>ret out. evp_open E c iv aad (map_option (\<lambda>_. ct) pt) tag' = Some (ret, out, []) \<and>
                 length out = length ct \<and>
                 (ret > 0 \<longleftrightarrow> tag' = tag) \<and> (tag' = tag \<longrightarrow> Some out = (case pt of None \<Rightarrow> Some [] | p \<Rightarrow> p))))))"

section \<open>Lemmas\<close>

lemma security_encrypt_seal:
  assumes "evp_seal E (sc_ctx c) (take 12 iv) aad pt = Some (ct, [], tag)"
    and "length ct = (case pt of None \<Rightarrow> 0 | Some p \<Rightarrow> length p)" "ct_off + length ct \<le> length buf"
  shows "security_encrypt E c pt aad iv ct_off tag_off buf =
         do { buf \<leftarrow> mem_write ct_off ct buf; buf \<leftarrow> mem_write tag_off tag buf; Some (None, buf) }"
proof (cases pt)
  case None
  then show ?thesis using assms by (auto simp: evp_seal_def security_encrypt_def)
next
  case (Some p)
  obtain b1 where b1: "mem_write ct_off ct buf = Some b1" using mem_write_total assms(3) by blast
  then have "length b1 = length buf" by (rule mem_write_length)
  then show ?thesis using assms Some b1 by (auto simp: evp_seal_def security_encrypt_def)
qed

lemma security_decrypt_open:
  assumes "evp_open E (sc_ctx c) (take 12 iv) aad ct tag = Some (ret, out, [])"
    and "length out \<le> length dst" "ct = None \<Longrightarrow> out = []"
  shows "security_decrypt E c ct aad tag iv dst =
         Some (if ret > 0 then None else Some EPERM, out @ drop (length out) dst)"
proof (cases ct)
  case None
  then show ?thesis using assms by (auto simp: evp_open_def security_decrypt_def Let_def case_prod_unfold)
next
  case (Some p)
  then show ?thesis using assms
    by (auto simp: evp_open_def security_decrypt_def mem_write_ok [of 0] Let_def case_prod_unfold)
qed

lemma security_init_no_leak:
  "security_init E ok alg key = (c, rs) \<Longrightarrow> mset rs = mset (security_exit c)"
  by (auto simp: security_init_def security_exit_def split: if_splits option.splits)

end
