(* ===== verification/TB_Config.thy ===== *)
theory TB_Config
  imports TB_Text TB_Security
begin

text \<open>
  The configuration, \<^verbatim>\<open>config.c\<close>: option tables, parsing of values, the YAML token loop,
  defaults, printing and the sanity check.  An option is addressed in the source by
  type and offset; here the constructor of \<open>config_target\<close> is the type, and its arguments
  read and write the member.  libyaml is the list of tokens it delivers, and whether
  an allocation succeeds is an argument.
\<close>

section \<open>Option tables\<close>

datatype 'r config_target =
    CONFIG_TYPE_BOOL "'r \<Rightarrow> bool" "bool \<Rightarrow> 'r \<Rightarrow> 'r"
  | CONFIG_TYPE_INT "'r \<Rightarrow> int" "int \<Rightarrow> 'r \<Rightarrow> 'r"
  | CONFIG_TYPE_ULONG "'r \<Rightarrow> u64" "u64 \<Rightarrow> 'r \<Rightarrow> 'r"
  | CONFIG_TYPE_SIZE "'r \<Rightarrow> nat" "nat \<Rightarrow> 'r \<Rightarrow> 'r"
  | CONFIG_TYPE_TIME "'r \<Rightarrow> u64" "u64 \<Rightarrow> 'r \<Rightarrow> 'r"
  | CONFIG_TYPE_STRING "'r \<Rightarrow> string option" "string option \<Rightarrow> 'r \<Rightarrow> 'r" "nat \<Rightarrow> 'r \<Rightarrow> 'r"
  | CONFIG_TYPE_PAYLOAD "'r \<Rightarrow> string option" "string option \<Rightarrow> 'r \<Rightarrow> 'r" "'r \<Rightarrow> nat" "nat \<Rightarrow> 'r \<Rightarrow> 'r"
  | CONFIG_TYPE_INTERFACE "'r \<Rightarrow> string" "string \<Rightarrow> 'r \<Rightarrow> 'r"
  | CONFIG_TYPE_MAC "'r \<Rightarrow> bytes" "bytes \<Rightarrow> 'r \<Rightarrow> 'r"
  | CONFIG_TYPE_ETHER_TYPE "'r \<Rightarrow> u32" "u32 \<Rightarrow> 'r \<Rightarrow> 'r"
  | CONFIG_TYPE_SECURITY_MODE "'r \<Rightarrow> security_mode" "security_mode \<Rightarrow> 'r \<Rightarrow> 'r"
  | CONFIG_TYPE_SECURITY_ALGORITHM "'r \<Rightarrow> security_algorithm" "security_algorithm \<Rightarrow> 'r \<Rightarrow> 'r"
  | CONFIG_TYPE_CPU_LIST "'r \<Rightarrow> int list" "int list \<Rightarrow> 'r \<Rightarrow> 'r" "'r \<Rightarrow> int" "int \<Rightarrow> 'r \<Rightarrow> 'r"
  | CONFIG_TYPE_CLOCKID "'r \<Rightarrow> clockid" "clockid \<Rightarrow> 'r \<Rightarrow> 'r"
  | CONFIG_TYPE_PROTOCOL_TYPE "'r \<Rightarrow> protocol_type" "protocol_type \<Rightarrow> 'r \<Rightarrow> 'r"

text \<open>Assignment to a record field from its update function.\<close>

abbreviation (input) put :: "(('v \<Rightarrow> 'v) \<Rightarrow> 'r \<Rightarrow> 'r) \<Rightarrow> 'v \<Rightarrow> 'r \<Rightarrow> 'r" where
  "put upd \<equiv> \<lambda>v. upd (\<lambda>_. v)"

definition global_options :: "(string \<times> application_config config_target) list" where
  "global_options =
    [(''ApplicationClockId'', CONFIG_TYPE_CLOCKID application_clock_id (put application_clock_id_update)),
     (''ApplicationBaseCycleTimeNS'', CONFIG_TYPE_TIME application_base_cycle_time_ns (put application_base_cycle_time_ns_update)),
     (''ApplicationBaseStartTimeNS'', CONFIG_TYPE_TIME application_base_start_time_ns (put application_base_start_time_ns_update)),
     (''ApplicationBaseStartOffsetNS'', CONFIG_TYPE_TIME application_base_start_offset_ns (put application_base_start_offset_ns_update)),
     (''ApplicationTxBaseOffsetNS'', CONFIG_TYPE_TIME application_tx_base_offset_ns (put application_tx_base_offset_ns_update)),
     (''ApplicationRxBaseOffsetNS'', CONFIG_TYPE_TIME application_rx_base_offset_ns (put application_rx_base_offset_ns_update)),
     (''ApplicationXdpProgram'', CONFIG_TYPE_STRING application_xdp_program (put application_xdp_program_update) (put application_xdp_program_length_update)),
     (''LogThreadPriority'', CONFIG_TYPE_INT log_thread_priority (put log_thread_priority_update)),
     (''LogThreadCpu'', CONFIG_TYPE_INT log_thread_cpu (put log_thread_cpu_update)),
     (''LogFile'', CONFIG_TYPE_STRING log_file (put log_file_update) (put log_file_length_update)),
     (''LogLevel'', CONFIG_TYPE_STRING application_config.log_level (put application_config.log_level_update) (put log_level_length_update)),
     (''DebugStopTraceOnOutlier'', CONFIG_TYPE_BOOL debug_stop_trace_on_outlier (put debug_stop_trace_on_outlier_update)),
     (''DebugStopTraceOnError'', CONFIG_TYPE_BOOL debug_stop_trace_on_error (put debug_stop_trace_on_error_update)),
     (''DebugMonitorMode'', CONFIG_TYPE_BOOL debug_monitor_mode (put debug_monitor_mode_update)),
     (''DebugMonitorDestination'', CONFIG_TYPE_MAC debug_monitor_destination (put debug_monitor_destination_update)),
     (''StatsHistogramEnabled'', CONFIG_TYPE_BOOL stats_histogram_enabled (put stats_histogram_enabled_update)),
     (''StatsHistogramMinimumNS'', CONFIG_TYPE_TIME stats_histogram_minimum_ns (put stats_histogram_minimum_ns_update)),
     (''StatsHistogramMaximumNS'', CONFIG_TYPE_TIME stats_histogram_maximum_ns (put stats_histogram_maximum_ns_update)),
     (''StatsHistogramFile'', CONFIG_TYPE_STRING stats_histogram_file (put stats_histogram_file_update) (put stats_histogram_file_length_update)),
     (''StatsCollectionIntervalNS'', CONFIG_TYPE_TIME stats_collection_interval_ns (put stats_collection_interval_ns_update)),
     (''LogMqtt'', CONFIG_TYPE_BOOL log_mqtt (put log_mqtt_update)),
     (''LogMqttThreadPriority'', CONFIG_TYPE_INT log_mqtt_thread_priority (put log_mqtt_thread_priority_update)),
     (''LogMqttThreadCpu'', CONFIG_TYPE_INT log_mqtt_thread_cpu (put log_mqtt_thread_cpu_update)),
     (''LogMqttBrokerIP'', CONFIG_TYPE_STRING log_mqtt_broker_ip (put log_mqtt_broker_ip_update) (put log_mqtt_broker_ip_length_update)),
     (''LogMqttBrokerPort'', CONFIG_TYPE_INT log_mqtt_broker_port (put log_mqtt_broker_port_update)),
     (''LogMqttKeepAliveSecs'', CONFIG_TYPE_INT log_mqtt_keep_alive_secs (put log_mqtt_keep_alive_secs_update)),
     (''LogMqttMeasurementName'', CONFIG_TYPE_STRING log_mqtt_measurement_name (put log_mqtt_measurement_name_update) (put log_mqtt_measurement_name_length_update)),
     (''LogJson'', CONFIG_TYPE_BOOL log_json (put log_json_update)),
     (''LogJsonThreadPriority'', CONFIG_TYPE_INT log_json_thread_priority (put log_json_thread_priority_update)),
     (''LogJsonThreadCpu'', CONFIG_TYPE_INT log_json_thread_cpu (put log_json_thread_cpu_update)),
     (''LogJsonHost'', CONFIG_TYPE_STRING log_json_host (put log_json_host_update) (put log_json_host_length_update)),
     (''LogJsonPort'', CONFIG_TYPE_STRING log_json_port (put log_json_port_update) (put log_json_port_length_update)),
     (''LogJsonMeasurementName'', CONFIG_TYPE_STRING log_json_measurement_name (put log_json_measurement_name_update) (put log_json_measurement_name_length_update))]"

definition class_options :: "(string \<times> traffic_class_config config_target \<times> u64) list" where
  "class_options =
    [(''Enabled'', CONFIG_TYPE_BOOL enabled (put enabled_update), TC_ALL),
     (''XdpEnabled'', CONFIG_TYPE_BOOL xdp_enabled (put xdp_enabled_update), TC_XDP),
     (''XdpSkbMode'', CONFIG_TYPE_BOOL xdp_skb_mode (put xdp_skb_mode_update), TC_XDP),
     (''XdpZcMode'', CONFIG_TYPE_BOOL xdp_zc_mode (put xdp_zc_mode_update), TC_XDP),
     (''XdpWakeupMode'', CONFIG_TYPE_BOOL xdp_wakeup_mode (put xdp_wakeup_mode_update), TC_XDP),
     (''XdpBusyPollMode'', CONFIG_TYPE_BOOL xdp_busy_poll_mode (put xdp_busy_poll_mode_update), TC_XDP),
     (''TxTimeStampEnabled'', CONFIG_TYPE_BOOL tx_hwtstamp_enabled (put tx_hwtstamp_enabled_update), TC_XDP),
     (''TxTimeEnabled'', CONFIG_TYPE_BOOL tx_time_enabled (put tx_time_enabled_update), TC_TXTIME),
     (''TxTimeOffsetNS'', CONFIG_TYPE_TIME tx_time_offset_ns (put tx_time_offset_ns_update), TC_TXTIME),
     (''IgnoreRxErrors'', CONFIG_TYPE_BOOL ignore_rx_errors (put ignore_rx_errors_update), TC_ALL),
     (''Vid'', CONFIG_TYPE_INT vid (put vid_update), TC_ALL),
     (''Pcp'', CONFIG_TYPE_INT pcp (put pcp_update), TC_ALL),
     (''NumFramesPerCycle'', CONFIG_TYPE_SIZE num_frames_per_cycle (put num_frames_per_cycle_update), TC_ALL),
     (''PayloadPattern'', CONFIG_TYPE_PAYLOAD payload_pattern (put payload_pattern_update)
        payload_pattern_length (put payload_pattern_length_update), TC_ALL),
     (''FrameLength'', CONFIG_TYPE_SIZE frame_length (put frame_length_update), TC_ALL),
     (''RxQueue'', CONFIG_TYPE_INT rx_queue (put rx_queue_update), TC_ALL),
     (''TxQueue'', CONFIG_TYPE_INT tx_queue (put tx_queue_update), TC_ALL),
     (''SocketPriority'', CONFIG_TYPE_INT socket_priority (put socket_priority_update), TC_ALL),
     (''TxThreadPriority'', CONFIG_TYPE_INT tx_thread_priority (put tx_thread_priority_update), TC_ALL),
     (''RxThreadPriority'', CONFIG_TYPE_INT rx_thread_priority (put rx_thread_priority_update), TC_ALL),
     (''TxThreadCpu'', CONFIG_TYPE_INT tx_thread_cpu (put tx_thread_cpu_update), TC_ALL),
     (''RxThreadCpu'', CONFIG_TYPE_INT rx_thread_cpu (put rx_thread_cpu_update), TC_ALL),
     (''Interface'', CONFIG_TYPE_INTERFACE interface (put interface_update), TC_ALL),
     (''BurstPeriodNS'', CONFIG_TYPE_TIME burst_period_ns (put burst_period_ns_update), TC_BURST),
     (''Destination'', CONFIG_TYPE_MAC l2_destination (put l2_destination_update), TC_L2),
     (''Destination'', CONFIG_TYPE_STRING l3_destination (put l3_destination_update) (put l3_destination_length_update), TC_L3),
     (''Source'', CONFIG_TYPE_STRING l3_source (put l3_source_update) (put l3_source_length_update), TC_L3),
     (''Port'', CONFIG_TYPE_STRING l3_port (put l3_port_update) (put l3_port_length_update), TC_L3),
     (''Name'', CONFIG_TYPE_STRING name (put name_update) (put name_length_update), BIT GENERICL2_FRAME_TYPE),
     (''EtherType'', CONFIG_TYPE_ETHER_TYPE ether_type (put ether_type_update), BIT GENERICL2_FRAME_TYPE),
     (''ProtocolType'', CONFIG_TYPE_PROTOCOL_TYPE protocol_type (put protocol_type_update), BIT GENERICL2_FRAME_TYPE),
     (''SecurityMode'', CONFIG_TYPE_SECURITY_MODE security_mode (put security_mode_update), TC_SECURITY),
     (''SecurityAlgorithm'', CONFIG_TYPE_SECURITY_ALGORITHM security_algorithm (put security_algorithm_update), TC_SECURITY),
     (''SecurityKey'', CONFIG_TYPE_STRING security_key (put security_key_update) (put security_key_length_update), TC_SECURITY),
     (''SecurityIvPrefix'', CONFIG_TYPE_STRING security_iv_prefix (put security_iv_prefix_update) (put security_iv_prefix_length_update), TC_SECURITY),
     (''RxWorkloadEnabled'', CONFIG_TYPE_BOOL rx_workload_enabled (put rx_workload_enabled_update), TC_WORKLOAD),
     (''RxWorkloadPrewarm'', CONFIG_TYPE_BOOL rx_workload_prewarm (put rx_workload_prewarm_update), TC_WORKLOAD),
     (''RxWorkloadSkipCount'', CONFIG_TYPE_ULONG rx_workload_skip_count (put rx_workload_skip_count_update), TC_WORKLOAD),
     (''RxWorkloadFile'', CONFIG_TYPE_STRING workload_file (put workload_file_update) (put workload_file_length_update), TC_WORKLOAD),
     (''RxWorkloadSetupFunction'', CONFIG_TYPE_STRING workload_setup_function (put workload_setup_function_update) (put workload_setup_function_length_update), TC_WORKLOAD),
     (''RxWorkloadSetupArguments'', CONFIG_TYPE_STRING workload_setup_arguments (put workload_setup_arguments_update) (put workload_setup_arguments_length_update), TC_WORKLOAD),
     (''RxWorkloadTeardownFunction'', CONFIG_TYPE_STRING workload_teardown_function (put workload_teardown_function_update) (put workload_teardown_function_length_update), TC_WORKLOAD),
     (''RxWorkloadFunction'', CONFIG_TYPE_STRING workload_function (put workload_function_update) (put workload_function_length_update), TC_WORKLOAD),
     (''RxWorkloadArguments'', CONFIG_TYPE_STRING workload_arguments (put workload_arguments_update) (put workload_arguments_length_update), TC_WORKLOAD),
     (''RxWorkloadThreadCpu'', CONFIG_TYPE_CPU_LIST workload_thread_cpus (put workload_thread_cpus_update)
        workload_thread_cpus_num (put workload_thread_cpus_num_update), TC_WORKLOAD),
     (''RxWorkloadThreadPriority'', CONFIG_TYPE_INT workload_thread_priority (put workload_thread_priority_update), TC_WORKLOAD)]"

section \<open>Keys\<close>

definition str_match_class :: "string \<Rightarrow> string \<Rightarrow> bool" where
  "str_match_class opt s \<longleftrightarrow> take (length s) opt = s"

text \<open>The class of an option and the rest of its name.\<close>

definition config_opt_to_type :: "string \<Rightarrow> stat_frame_type \<times> string" where
  "config_opt_to_type opt =
     (if str_match_class opt ''TsnHigh'' then (TSN_HIGH_FRAME_TYPE, drop 7 opt)
      else if str_match_class opt ''TsnLow'' then (TSN_LOW_FRAME_TYPE, drop 6 opt)
      else if str_match_class opt ''Rtc'' then (RTC_FRAME_TYPE, drop 3 opt)
      else if str_match_class opt ''Rta'' then (RTA_FRAME_TYPE, drop 3 opt)
      else if str_match_class opt ''Dcp'' then (DCP_FRAME_TYPE, drop 3 opt)
      else if str_match_class opt ''Lldp'' then (LLDP_FRAME_TYPE, drop 4 opt)
      else if str_match_class opt ''UdpHigh'' then (UDP_HIGH_FRAME_TYPE, drop 7 opt)
      else if str_match_class opt ''UdpLow'' then (UDP_LOW_FRAME_TYPE, drop 6 opt)
      else if str_match_class opt ''GenericL2'' then (GENERICL2_FRAME_TYPE, drop 9 opt)
      else (NUM_FRAME_TYPES, []))"

definition config_is_tc_active :: "application_config \<Rightarrow> stat_frame_type \<Rightarrow> bool" where
  "config_is_tc_active app t \<longleftrightarrow>
     t \<noteq> NUM_FRAME_TYPES \<and> enabled (classes app t) \<and> num_frames_per_cycle (classes app t) > 0"

section \<open>Parsing values\<close>

definition config_parse_bool :: "string \<Rightarrow> errno + bool" where
  "config_parse_bool s =
     (if s = ''0'' \<or> strcaseeq s ''false'' then Inr False
      else if s = ''1'' \<or> strcaseeq s ''true'' then Inr True
      else Inl EINVAL)"

definition config_parse_int :: "string \<Rightarrow> errno + int" where
  "config_parse_int s = (case strtol s of Some (v, []) \<Rightarrow> Inr v | _ \<Rightarrow> Inl ERANGE)"

definition config_parse_ulong :: "string \<Rightarrow> errno + u64" where
  "config_parse_ulong s = (case strtoull 10 s of Some (v, []) \<Rightarrow> Inr v | _ \<Rightarrow> Inl ERANGE)"

text \<open>\<^verbatim>\<open>__builtin_mul_overflow\<close> on \<^verbatim>\<open>unsigned long long\<close>.\<close>

definition mul_u64 :: "u64 \<Rightarrow> nat \<Rightarrow> errno + u64" where
  "mul_u64 v k = (if unat v * k < 2 ^ 64 then Inr (of_nat (unat v * k)) else Inl ERANGE)"

definition config_parse_time :: "string \<Rightarrow> errno + u64" where
  "config_parse_time s =
     (case strtoull 10 s of
        None \<Rightarrow> Inl ERANGE
      | Some (v, unit) \<Rightarrow>
          if unit = [] then Inr v
          else if unit = ''s'' then mul_u64 v 1000000000
          else if unit = ''ms'' then mul_u64 v 1000000
          else if unit = ''us'' then mul_u64 v 1000
          else Inl EINVAL)"

text \<open>Result, array and number; the array is written while it is parsed.\<close>

fun cpu_list_loop :: "string list \<Rightarrow> int list \<Rightarrow> nat \<Rightarrow> ((errno + nat) \<times> int list) option" where
  "cpu_list_loop [] array i = Some (if i = 0 then Inl EINVAL else Inr i, array)"
| "cpu_list_loop (p # ps) array i = do {
     v \<leftarrow> atoi p;
     if i < length array
     then let array' = array[i := v]
          in if v < 0 then Some (Inl EINVAL, array')
             else if Suc i \<ge> length array \<and> ps \<noteq> [] then Some (Inl ERANGE, array')
             else cpu_list_loop ps array' (Suc i)
     else None
   }"

definition config_parse_cpu_list :: "bool \<Rightarrow> string \<Rightarrow> int list \<Rightarrow> ((errno + nat) \<times> int list) option" where
  "config_parse_cpu_list mem_ok s array =
     (if \<not> mem_ok then Some (Inl ENOMEM, array) else cpu_list_loop (strtok '' ,'' [] s) array 0)"

definition config_parse_clockid :: "string \<Rightarrow> errno + clockid" where
  "config_parse_clockid s =
     (if s = ''CLOCK_TAI'' then Inr CLOCK_TAI
      else if s = ''CLOCK_MONOTONIC'' then Inr CLOCK_MONOTONIC
      else if s = ''CLOCK_REALTIME'' then Inr CLOCK_REALTIME
      else if take 9 s = ''CLOCK_AUX''
      then (case config_parse_int (drop 9 s) of
              Inl _ \<Rightarrow> Inl EINVAL
            | Inr i \<Rightarrow> if i < 0 \<or> i \<ge> 8 then Inl EINVAL else Inr (CLOCK_AUX (nat i)))
      else Inl EINVAL)"

text \<open>\<^verbatim>\<open>sscanf\<close> with the format of a MAC address: the numbers converted; a number of more than 32
  bits is undefined.\<close>

fun sscanf_mac :: "nat \<Rightarrow> string \<Rightarrow> u32 list option" where
  "sscanf_mac 0 s = Some []"
| "sscanf_mac (Suc n) s =
     (case strtox True 16 s of
        None \<Rightarrow> Some []
      | Some (neg, m, r) \<Rightarrow>
          if m \<ge> 2 ^ 32 then None
          else (let v = of_int (signed_value neg m)
                in if n = 0 then Some [v]
                   else if take 1 r = '':'' then map_option ((#) v) (sscanf_mac n (drop 1 r))
                   else Some [v]))"

section \<open>Storing values\<close>

text \<open>Narrowing a \<^verbatim>\<open>long\<close> to \<^verbatim>\<open>int\<close>.\<close>

definition int_of_long :: "int \<Rightarrow> int" where "int_of_long v = sint (of_int v :: 32 word)"

definition store_parsed :: "errno + 'v \<Rightarrow> ('v \<Rightarrow> 'r \<Rightarrow> 'r) \<Rightarrow> 'r \<Rightarrow> errno option \<times> 'r" where
  "store_parsed p put_v base = (case p of Inl _ \<Rightarrow> (Some EINVAL, base) | Inr v \<Rightarrow> (None, put_v v base))"

definition store_string ::
  "bool \<Rightarrow> string \<Rightarrow> (string option \<Rightarrow> 'r \<Rightarrow> 'r) \<Rightarrow> (nat \<Rightarrow> 'r \<Rightarrow> 'r) \<Rightarrow> 'r \<Rightarrow> errno option \<times> 'r" where
  "store_string mem_ok s put_s put_len base =
     (if mem_ok then (None, put_len (length s) (put_s (Some s) base)) else (Some ENOMEM, put_s None base))"

definition parse_security_mode :: "string \<Rightarrow> errno + security_mode" where
  "parse_security_mode s =
     (if strcaseeq s ''none'' then Inr SECURITY_MODE_NONE
      else if strcaseeq s ''ao'' then Inr SECURITY_MODE_AO
      else if strcaseeq s ''ae'' then Inr SECURITY_MODE_AE
      else Inl EINVAL)"

definition parse_security_algorithm :: "string \<Rightarrow> errno + security_algorithm" where
  "parse_security_algorithm s =
     (if strcaseeq s ''aes256-gcm'' then Inr SECURITY_ALGORITHM_AES256_GCM
      else if strcaseeq s ''aes128-gcm'' then Inr SECURITY_ALGORITHM_AES128_GCM
      else if strcaseeq s ''chacha20-poly1305'' then Inr SECURITY_ALGORITHM_CHACHA20_POLY1305
      else Inl EINVAL)"

definition parse_protocol_type :: "string \<Rightarrow> errno + protocol_type" where
  "parse_protocol_type s =
     (if strcaseeq s ''L2'' then Inr GENERICL2_PROTOCOL_TYPE
      else if strcaseeq s ''EtherCAT'' then Inr ETHERCAT_PROTOCOL_TYPE
      else Inl EINVAL)"

definition parse_ether_type :: "string \<Rightarrow> errno + u32" where
  "parse_ether_type s = (case strtoull 16 s of Some (v, []) \<Rightarrow> Inr (ucast v) | _ \<Rightarrow> Inl EINVAL)"

text \<open>Return code and structure.  The interface name keeps 15 characters.\<close>

definition config_store_value ::
  "bool \<Rightarrow> 'r config_target \<Rightarrow> string \<Rightarrow> 'r \<Rightarrow> (errno option \<times> 'r) option" where
  "config_store_value mem_ok target s base =
     (case target of
        CONFIG_TYPE_BOOL _ p \<Rightarrow> Some (store_parsed (config_parse_bool s) p base)
      | CONFIG_TYPE_INT _ p \<Rightarrow> Some (store_parsed (config_parse_int s) (\<lambda>v. p (int_of_long v)) base)
      | CONFIG_TYPE_ULONG _ p \<Rightarrow> Some (store_parsed (config_parse_ulong s) p base)
      | CONFIG_TYPE_SIZE _ p \<Rightarrow> Some (store_parsed (config_parse_ulong s) (\<lambda>v. p (unat v)) base)
      | CONFIG_TYPE_TIME _ p \<Rightarrow> Some (store_parsed (config_parse_time s) p base)
      | CONFIG_TYPE_STRING _ p len \<Rightarrow> Some (store_string mem_ok s p len base)
      | CONFIG_TYPE_PAYLOAD _ p _ len \<Rightarrow> Some (store_string mem_ok s p len base)
      | CONFIG_TYPE_INTERFACE _ p \<Rightarrow> Some (None, p (take 15 s) base)
      | CONFIG_TYPE_MAC _ p \<Rightarrow> do {
          tmp \<leftarrow> sscanf_mac ETH_ALEN s;
          Some (if length tmp \<noteq> ETH_ALEN then (Some EINVAL, base) else (None, p (map ucast tmp) base))
        }
      | CONFIG_TYPE_ETHER_TYPE _ p \<Rightarrow> Some (store_parsed (parse_ether_type s) p base)
      | CONFIG_TYPE_SECURITY_MODE _ p \<Rightarrow> Some (store_parsed (parse_security_mode s) p base)
      | CONFIG_TYPE_SECURITY_ALGORITHM _ p \<Rightarrow> Some (store_parsed (parse_security_algorithm s) p base)
      | CONFIG_TYPE_CPU_LIST get p _ num \<Rightarrow> do {
          (ret, cpus) \<leftarrow> config_parse_cpu_list mem_ok s (get base);
          Some (case ret of Inl _ \<Rightarrow> (Some EINVAL, p cpus base) | Inr n \<Rightarrow> (None, num (int n) (p cpus base)))
        }
      | CONFIG_TYPE_CLOCKID _ p \<Rightarrow> Some (store_parsed (config_parse_clockid s) p base)
      | CONFIG_TYPE_PROTOCOL_TYPE _ p \<Rightarrow> Some (store_parsed (parse_protocol_type s) p base))"

text \<open>The first row of the table for this class with this name.\<close>

fun find_class_option ::
  "(string \<times> traffic_class_config config_target \<times> u64) list \<Rightarrow> stat_frame_type \<Rightarrow> string \<Rightarrow>
   traffic_class_config config_target option" where
  "find_class_option [] t suffix = None"
| "find_class_option ((nm, target, tcs) # opts) t suffix =
     (if \<not> in_mask t tcs then find_class_option opts t suffix
      else if suffix \<noteq> nm then find_class_option opts t suffix
      else Some target)"

definition config_store_class_option ::
  "bool \<Rightarrow> string \<Rightarrow> string \<Rightarrow> application_config \<Rightarrow> (errno option \<times> application_config) option" where
  "config_store_class_option mem_ok key s app =
     (let (t, suffix) = config_opt_to_type key
      in if t = NUM_FRAME_TYPES then Some (Some ENOENT, app)
         else case find_class_option class_options t suffix of
                None \<Rightarrow> Some (Some ENOENT, app)
              | Some target \<Rightarrow> do {
                  (ret, cfg) \<leftarrow> config_store_value mem_ok target s (classes app t);
                  Some (ret, app\<lparr>classes := (classes app)(t := cfg)\<rparr>)
                })"

definition config_store_app_option ::
  "bool \<Rightarrow> string \<Rightarrow> string \<Rightarrow> application_config \<Rightarrow> (errno option \<times> application_config) option" where
  "config_store_app_option mem_ok key s app =
     (case map_of global_options key of
        None \<Rightarrow> Some (Some ENOENT, app)
      | Some target \<Rightarrow> config_store_value mem_ok target s app)"

section \<open>The configuration file\<close>

text \<open>\<open>YAML_ERROR\<close> is a token that cannot be scanned; other tokens have no effect.  The flag
  of a token says whether memory for its text can be allocated.\<close>

datatype yaml_token = YAML_KEY_TOKEN | YAML_VALUE_TOKEN | YAML_SCALAR_TOKEN string bool | YAML_OTHER_TOKEN | YAML_ERROR

text \<open>The loop up to the end of the stream: error, whether a start time was given, and the
  configuration.\<close>

fun config_token_loop ::
  "yaml_token list \<Rightarrow> bool \<Rightarrow> string option \<Rightarrow> bool \<Rightarrow> application_config \<Rightarrow>
   (errno option \<times> bool \<times> application_config) option" where
  "config_token_loop [] state_key key seen app = Some (None, seen, app)"
| "config_token_loop (tok # toks) state_key key seen app =
     (case tok of
        YAML_ERROR \<Rightarrow> Some (Some EINVAL, seen, app)
      | YAML_KEY_TOKEN \<Rightarrow> config_token_loop toks True key seen app
      | YAML_VALUE_TOKEN \<Rightarrow> config_token_loop toks False key seen app
      | YAML_OTHER_TOKEN \<Rightarrow> config_token_loop toks state_key key seen app
      | YAML_SCALAR_TOKEN s mem_ok \<Rightarrow>
          if state_key
          then (if mem_ok then config_token_loop toks state_key (Some s) seen app
                else Some (Some ENOMEM, seen, app))
          else (case key of
             None \<Rightarrow> config_token_loop toks state_key None seen app
           | Some k \<Rightarrow> do {
               (ret, app) \<leftarrow> config_store_class_option mem_ok k s app;
               (ret, app) \<leftarrow> (if ret = Some ENOENT then config_store_app_option mem_ok k s app
                             else Some (ret, app));
               (case ret of
                  Some e \<Rightarrow> Some (Some e, seen, app)
                | None \<Rightarrow> config_token_loop toks state_key None
                            (seen \<or> k = ''ApplicationBaseStartTimeNS'') app)
             }))"

text \<open>\<open>opened\<close> and \<open>parser_ok\<close>: the file and the parser; \<open>current\<close> is the clock of the
  configured clock id.\<close>

definition config_read_from_file ::
  "bool \<Rightarrow> bool \<Rightarrow> bool \<Rightarrow> yaml_token list \<Rightarrow> timespec option \<Rightarrow> application_config \<Rightarrow>
   (errno option \<times> application_config) option" where
  "config_read_from_file given opened parser_ok toks current app =
     (if \<not> given then Some (Some EINVAL, app)
      else if \<not> opened then Some (Some EIO, app)
      else if \<not> parser_ok then Some (Some EINVAL, app)
      else do {
        (ret, seen, app) \<leftarrow> config_token_loop toks False None False app;
        (case ret of
           Some e \<Rightarrow> Some (Some e, app)
         | None \<Rightarrow>
             if application_clock_id app \<noteq> CLOCK_TAI \<and> \<not> seen
             then (case current of
                     None \<Rightarrow> Some (Some EOTHER, app)
                   | Some t \<Rightarrow> Some (None, app\<lparr>application_base_start_time_ns := of_int ((tv_sec t + 30) * NSEC_PER_SEC)\<rparr>))
             else Some (None, app))
      })"

section \<open>Defaults\<close>

definition default_destination :: bytes where "default_destination = [0xa8, 0x74, 0x1d, 0x9d, 0x98, 0xd8]"
definition default_lldp_destination :: bytes where "default_lldp_destination = [0x01, 0x80, 0xc2, 0x00, 0x00, 0x0e]"
definition default_dcp_identify :: bytes where "default_dcp_identify = [0x01, 0x0e, 0xcf, 0x00, 0x00, 0x00]"
definition default_payload_pattern :: string where "default_payload_pattern = ''Payload! :-)''"

text \<open>What every class has in common: mirror mode, pattern, security, queue, priorities, CPU and
  interface.\<close>

definition default_class ::
  "bool \<Rightarrow> nat \<Rightarrow> int \<Rightarrow> int \<Rightarrow> int \<Rightarrow> int \<Rightarrow> traffic_class_config \<Rightarrow> traffic_class_config" where
  "default_class mirror len queue prio thread_prio cpu c = c\<lparr>
     rx_mirror_enabled := mirror, num_frames_per_cycle := 1,
     payload_pattern := Some default_payload_pattern,
     payload_pattern_length := length default_payload_pattern, frame_length := len,
     security_mode := SECURITY_MODE_NONE, security_algorithm := SECURITY_ALGORITHM_AES256_GCM,
     rx_queue := queue, tx_queue := queue, socket_priority := prio,
     tx_thread_priority := thread_prio, rx_thread_priority := thread_prio,
     tx_thread_cpu := cpu, rx_thread_cpu := cpu, interface := ''enp3s0'',
     protocol_type := GENERICL2_PROTOCOL_TYPE\<rparr>"

definition default_tsn_high :: "bool \<Rightarrow> traffic_class_config \<Rightarrow> traffic_class_config" where
  "default_tsn_high m c = (default_class m 128 0 7 98 0 c)\<lparr>xdp_enabled := True, xdp_zc_mode := True,
     xdp_wakeup_mode := True, vid := 0x101, pcp := 6, workload_thread_priority := 80,
     l2_destination := default_destination\<rparr>"

definition default_tsn_low :: "bool \<Rightarrow> traffic_class_config \<Rightarrow> traffic_class_config" where
  "default_tsn_low m c = (default_class m 128 1 6 97 1 c)\<lparr>xdp_enabled := True, xdp_zc_mode := True,
     xdp_wakeup_mode := True, vid := 0x102, pcp := 5, l2_destination := default_destination\<rparr>"

definition default_rtc :: "bool \<Rightarrow> traffic_class_config \<Rightarrow> traffic_class_config" where
  "default_rtc m c = (default_class m 128 2 5 96 2 c)\<lparr>xdp_enabled := True, xdp_zc_mode := True,
     xdp_wakeup_mode := True, vid := 0, pcp := 4, workload_thread_priority := 80,
     l2_destination := default_destination\<rparr>"

definition default_rta :: "bool \<Rightarrow> traffic_class_config \<Rightarrow> traffic_class_config" where
  "default_rta m c = (default_class m 200 3 4 95 3 c)\<lparr>xdp_enabled := True, xdp_wakeup_mode := True,
     vid := 0, pcp := 3, burst_period_ns := 200000000, l2_destination := default_destination\<rparr>"

definition default_dcp :: "bool \<Rightarrow> traffic_class_config \<Rightarrow> traffic_class_config" where
  "default_dcp m c = (default_class m 200 3 3 94 4 c)\<lparr>vid := 0, pcp := 2, burst_period_ns := 2000000000,
     l2_destination := default_dcp_identify\<rparr>"

definition default_lldp :: "bool \<Rightarrow> traffic_class_config \<Rightarrow> traffic_class_config" where
  "default_lldp m c = (default_class m 200 3 3 93 5 c)\<lparr>burst_period_ns := 5000000000,
     l2_destination := default_lldp_destination\<rparr>"

definition default_udp_high :: "bool \<Rightarrow> traffic_class_config \<Rightarrow> traffic_class_config" where
  "default_udp_high m c = (default_class m 1400 3 3 92 6 c)\<lparr>burst_period_ns := 1000000000,
     l3_port := Some ''6666'', l3_destination := Some ''192.168.1.2'', l3_source := Some ''192.168.1.1''\<rparr>"

definition default_udp_low :: "bool \<Rightarrow> traffic_class_config \<Rightarrow> traffic_class_config" where
  "default_udp_low m c = (default_class m 1400 3 3 91 5 c)\<lparr>burst_period_ns := 1000000000,
     l3_port := Some ''6666'', l3_destination := Some ''192.168.1.2'', l3_source := Some ''192.168.1.1''\<rparr>"

definition default_generic_l2 :: "bool \<Rightarrow> traffic_class_config \<Rightarrow> traffic_class_config" where
  "default_generic_l2 m c = (default_class m 128 0 1 90 0 c)\<lparr>name := Some ''GenericL2'', xdp_wakeup_mode := True,
     vid := 100, pcp := 6, ether_type := 0xb62c, workload_thread_priority := 80,
     l2_destination := default_destination\<rparr>"

definition default_globals :: "timespec \<Rightarrow> application_config \<Rightarrow> application_config" where
  "default_globals current app = app\<lparr>application_clock_id := CLOCK_TAI,
     application_base_cycle_time_ns := 1000000,
     application_base_start_time_ns := of_int ((tv_sec current + 30) * NSEC_PER_SEC),
     application_tx_base_offset_ns := 800000, application_rx_base_offset_ns := 300000,
     application_xdp_program := Some ''xdp_kern_profinet_vid100.o''\<rparr>"

definition default_services :: "application_config \<Rightarrow> application_config" where
  "default_services app = app\<lparr>log_thread_priority := 1, log_thread_cpu := 0, log_file := Some ''reference.log'',
     application_config.log_level := Some ''Info'', debug_monitor_destination := replicate ETH_ALEN 0x44,
     stats_histogram_minimum_ns := 1000000, stats_histogram_maximum_ns := 10000000,
     stats_histogram_file := Some ''histogram.txt'', stats_histogram_file_length := length ''histogram.txt'',
     stats_collection_interval_ns := 1000000000,
     log_mqtt_broker_port := 1883, log_mqtt_thread_priority := 1, log_mqtt_thread_cpu := 0,
     log_mqtt_keep_alive_secs := 60, log_mqtt_broker_ip := Some ''127.0.0.1'',
     log_mqtt_measurement_name := Some ''reference'',
     log_json_thread_cpu := 0, log_json_thread_priority := 1, log_json_host := Some ''localhost'',
     log_json_port := Some ''58415'', log_json_measurement_name := Some ''reference''\<rparr>"

primrec default_of :: "stat_frame_type \<Rightarrow> bool \<Rightarrow> traffic_class_config \<Rightarrow> traffic_class_config" where
  "default_of TSN_HIGH_FRAME_TYPE m = default_tsn_high m"
| "default_of TSN_LOW_FRAME_TYPE m = default_tsn_low m"
| "default_of RTC_FRAME_TYPE m = default_rtc m"
| "default_of RTA_FRAME_TYPE m = default_rta m"
| "default_of DCP_FRAME_TYPE m = default_dcp m"
| "default_of LLDP_FRAME_TYPE m = default_lldp m"
| "default_of UDP_HIGH_FRAME_TYPE m = default_udp_high m"
| "default_of UDP_LOW_FRAME_TYPE m = default_udp_low m"
| "default_of GENERICL2_FRAME_TYPE m = default_generic_l2 m"
| "default_of NUM_FRAME_TYPES m = id"

text \<open>\<open>mem i\<close>: whether the \<open>i\<close>-th of the 25 strings can be allocated; without memory all of
  them are released and the program ends.\<close>

definition config_set_defaults ::
  "(nat \<Rightarrow> bool) \<Rightarrow> timespec \<Rightarrow> bool \<Rightarrow> application_config \<Rightarrow> errno + application_config" where
  "config_set_defaults mem current mirror app =
     (if list_all mem [0..<25]
      then let app = default_globals current app
           in Inr (default_services (app\<lparr>classes := (\<lambda>t. default_of t mirror (classes app t))\<rparr>))
      else Inl ENOMEM)"

section \<open>Sanity check\<close>

abbreviation (input) "min_profinet_frame_size \<equiv> sizeof_vlan_ethernet_header + sizeof_profinet_rt_header"
abbreviation (input) "min_secure_profinet_frame_size \<equiv>
  sizeof_vlan_ethernet_header + sizeof_profinet_secure_header + sizeof_security_checksum"

definition config_check_keys :: "security_mode \<Rightarrow> security_algorithm \<Rightarrow> nat \<Rightarrow> nat \<Rightarrow> bool" where
  "config_check_keys mode algorithm key_len iv_prefix_len =
     (let expected_key_len = (if algorithm = SECURITY_ALGORITHM_AES128_GCM then 16 else 32)
      in mode = SECURITY_MODE_NONE \<or> (iv_prefix_len = 6 \<and> expected_key_len = key_len))"

text \<open>The smallest frame of a class without its payload pattern.\<close>

definition min_frame_size :: "application_config \<Rightarrow> stat_frame_type \<Rightarrow> nat" where
  "min_frame_size app t =
     (case t of
        GENERICL2_FRAME_TYPE \<Rightarrow> sizeof_vlan_ethernet_header + sizeof_generic_l2_header
      | DCP_FRAME_TYPE \<Rightarrow> min_profinet_frame_size
      | LLDP_FRAME_TYPE \<Rightarrow> sizeof_ethhdr + sizeof_reference_meta_data
      | UDP_HIGH_FRAME_TYPE \<Rightarrow> sizeof_reference_meta_data
      | UDP_LOW_FRAME_TYPE \<Rightarrow> sizeof_reference_meta_data
      | _ \<Rightarrow> if security_mode (classes app t) = SECURITY_MODE_NONE then min_profinet_frame_size
             else min_secure_profinet_frame_size)"

definition frame_length_invalid :: "application_config \<Rightarrow> stat_frame_type \<Rightarrow> bool" where
  "frame_length_invalid app t \<longleftrightarrow>
     frame_length (classes app t) > MAX_FRAME_SIZE \<or>
     frame_length (classes app t) < min_frame_size app t + payload_pattern_length (classes app t)"

text \<open>What the platform must support.\<close>

definition config_check_features :: "build \<Rightarrow> application_config \<Rightarrow> bool" where
  "config_check_features B app =
     (let c = classes app;
          hwts = tx_hwtstamp_enabled (c GENERICL2_FRAME_TYPE) \<or> tx_hwtstamp_enabled (c RTC_FRAME_TYPE) \<or>
                 tx_hwtstamp_enabled (c RTA_FRAME_TYPE) \<or> tx_hwtstamp_enabled (c TSN_HIGH_FRAME_TYPE) \<or>
                 tx_hwtstamp_enabled (c TSN_LOW_FRAME_TYPE)
      in if \<not> config_have_xdp_tx_time B \<and>
            ((tx_time_enabled (c GENERICL2_FRAME_TYPE) \<and> xdp_enabled (c GENERICL2_FRAME_TYPE)) \<or>
             (tx_time_enabled (c TSN_HIGH_FRAME_TYPE) \<and> xdp_enabled (c TSN_HIGH_FRAME_TYPE)) \<or>
             (tx_time_enabled (c TSN_LOW_FRAME_TYPE) \<and> xdp_enabled (c TSN_LOW_FRAME_TYPE))) then False
         else if config_have_rx_timestamp B \<and> application_clock_id app \<noteq> CLOCK_TAI then False
         else if \<not> config_have_tx_timestamp B \<and> hwts then False
         else if hwts \<and> application_clock_id app \<noteq> CLOCK_TAI then False
         else if \<not> config_have_busy_poll B \<and>
                 (xdp_busy_poll_mode (c TSN_HIGH_FRAME_TYPE) \<or> xdp_busy_poll_mode (c TSN_LOW_FRAME_TYPE) \<or>
                  xdp_busy_poll_mode (c RTC_FRAME_TYPE) \<or> xdp_busy_poll_mode (c RTA_FRAME_TYPE) \<or>
                  xdp_busy_poll_mode (c GENERICL2_FRAME_TYPE)) then False
         else if \<not> config_have_mosquitto B \<and> log_mqtt app then False
         else True)"

text \<open>Keys and IVs of the classes with security.\<close>

definition config_check_all_keys :: "application_config \<Rightarrow> bool" where
  "config_check_all_keys app =
     (let c = classes app;
          keys = (\<lambda>t. config_check_keys (security_mode (c t)) (security_algorithm (c t)) (security_key_length (c t))
                        (security_iv_prefix_length (c t)))
      in if \<not> keys TSN_HIGH_FRAME_TYPE then False
         else if \<not> keys TSN_LOW_FRAME_TYPE then False
         else if \<not> keys RTC_FRAME_TYPE then False
         else if \<not> keys RTA_FRAME_TYPE then False
         else True)"

definition config_sanity_check :: "build \<Rightarrow> application_config \<Rightarrow> bool" where
  "config_sanity_check B app =
     (let c = classes app; active = config_is_tc_active app
      in if active GENERICL2_FRAME_TYPE \<and>
            (active TSN_HIGH_FRAME_TYPE \<or> active TSN_LOW_FRAME_TYPE \<or> active RTC_FRAME_TYPE \<or>
             active RTA_FRAME_TYPE \<or> active DCP_FRAME_TYPE \<or> active LLDP_FRAME_TYPE \<or>
             active UDP_HIGH_FRAME_TYPE \<or> active UDP_LOW_FRAME_TYPE) then False
         else if application_base_cycle_time_ns app = 0 then False
         else if application_rx_base_offset_ns app > application_base_cycle_time_ns app \<or>
                 application_tx_base_offset_ns app > application_base_cycle_time_ns app then False
         else if application_rx_base_offset_ns app \<ge> application_tx_base_offset_ns app then False
         else if frame_length_invalid app GENERICL2_FRAME_TYPE then False
         else if frame_length_invalid app TSN_HIGH_FRAME_TYPE then False
         else if frame_length_invalid app TSN_LOW_FRAME_TYPE then False
         else if frame_length_invalid app RTC_FRAME_TYPE then False
         else if frame_length_invalid app RTA_FRAME_TYPE then False
         else if frame_length_invalid app DCP_FRAME_TYPE then False
         else if frame_length_invalid app LLDP_FRAME_TYPE then False
         else if frame_length_invalid app UDP_HIGH_FRAME_TYPE then False
         else if frame_length_invalid app UDP_LOW_FRAME_TYPE then False
         else if \<not> config_check_features B app then False
         else if \<not> config_check_all_keys app then False
         else if stats_histogram_minimum_ns app > stats_histogram_maximum_ns app then False
         else if active GENERICL2_FRAME_TYPE \<and> protocol_type (c GENERICL2_FRAME_TYPE) = ETHERCAT_PROTOCOL_TYPE \<and>
                 frame_length (c GENERICL2_FRAME_TYPE) < sizeof_ethhdr + 2 + 20 then False
         else True)"

section \<open>Printing\<close>

definition print_mac_address :: "bytes \<Rightarrow> string" where
  "print_mac_address mac = concat (map (\<lambda>i. show_hex 2 (unat (mac ! i)) @ (if i \<noteq> ETH_ALEN - 1 then ''-'' else [])) [0..<ETH_ALEN])"

text \<open>\<^verbatim>\<open>char\<close> is signed: the value is promoted to \<^verbatim>\<open>int\<close> and printed as 32 bits.\<close>

definition print_payload_pattern :: "string option \<Rightarrow> nat \<Rightarrow> string" where
  "print_payload_pattern p n =
     concat (map (\<lambda>b. ''0x'' @ show_hex 2 (unat (scast (b :: u8) :: u32)) @ '' '') (take n (ptr_bytes p)))"

definition print_cpu_list :: "int list \<Rightarrow> nat \<Rightarrow> string" where
  "print_cpu_list cpus n = concat (map (\<lambda>i. show_int (cpus ! i) @ (if i \<noteq> n - 1 then '', '' else [])) [0..<n])"

definition print_clockid :: "clockid \<Rightarrow> string" where
  "print_clockid c = (case c of CLOCK_TAI \<Rightarrow> ''CLOCK_TAI'' | CLOCK_MONOTONIC \<Rightarrow> ''CLOCK_MONOTONIC''
     | CLOCK_REALTIME \<Rightarrow> ''CLOCK_REALTIME'' | CLOCK_AUX i \<Rightarrow> ''CLOCK_AUX'' @ show_nat i)"

text \<open>The line printed for an option, without its end.\<close>

definition config_print_value :: "'r config_target \<Rightarrow> 'r \<Rightarrow> string" where
  "config_print_value target base =
     (case target of
        CONFIG_TYPE_BOOL get _ \<Rightarrow> if get base then ''True'' else ''False''
      | CONFIG_TYPE_INT get _ \<Rightarrow> show_int (get base)
      | CONFIG_TYPE_TIME get _ \<Rightarrow> show_nat (unat (get base))
      | CONFIG_TYPE_ULONG get _ \<Rightarrow> show_nat (unat (get base))
      | CONFIG_TYPE_SIZE get _ \<Rightarrow> show_nat (get base)
      | CONFIG_TYPE_INTERFACE get _ \<Rightarrow> get base
      | CONFIG_TYPE_STRING get _ _ \<Rightarrow> (case get base of None \<Rightarrow> ''NULL'' | Some s \<Rightarrow> s)
      | CONFIG_TYPE_PAYLOAD get _ len _ \<Rightarrow> print_payload_pattern (get base) (len base)
      | CONFIG_TYPE_MAC get _ \<Rightarrow> print_mac_address (get base)
      | CONFIG_TYPE_ETHER_TYPE get _ \<Rightarrow> ''0x'' @ show_hex 4 (unat (get base))
      | CONFIG_TYPE_SECURITY_MODE get _ \<Rightarrow> security_mode_to_string (get base)
      | CONFIG_TYPE_SECURITY_ALGORITHM get _ \<Rightarrow> security_algorithm_to_string (get base)
      | CONFIG_TYPE_CPU_LIST get _ num _ \<Rightarrow> print_cpu_list (get base) (nat (num base))
      | CONFIG_TYPE_CLOCKID get _ \<Rightarrow> print_clockid (get base)
      | CONFIG_TYPE_PROTOCOL_TYPE get _ \<Rightarrow> if get base = GENERICL2_PROTOCOL_TYPE then ''L2'' else ''EtherCAT'')"

definition config_print_separator :: string where
  "config_print_separator = replicate 91 (CHR ''-'')"

text \<open>The lines of the global options and of the active classes; \<open>names\<close> is the table of class
  names of the statistics.\<close>

definition config_print_globals :: "application_config \<Rightarrow> string list" where
  "config_print_globals app =
     map (\<lambda>(nm, target). nm @ ''='' @ config_print_value target app) global_options @ [config_print_separator]"

definition config_print_tcs :: "(stat_frame_type \<Rightarrow> string) \<Rightarrow> application_config \<Rightarrow> string list" where
  "config_print_tcs names app =
     concat (map (\<lambda>t. if config_is_tc_active app t
        then map (\<lambda>(nm, target, _).
                 (if t = GENERICL2_FRAME_TYPE then ''GenericL2'' else names t) @ nm @ ''=''
                   @ config_print_value target (classes app t))
               (filter (\<lambda>(_, _, tcs). in_mask t tcs) class_options) @ [config_print_separator]
        else []) frame_types)"

definition config_print_values :: "(stat_frame_type \<Rightarrow> string) \<Rightarrow> application_config \<Rightarrow> string list" where
  "config_print_values names app =
     config_print_separator # config_print_globals app @ config_print_tcs names app"

section \<open>Release\<close>

text \<open>The strings handed to \<^verbatim>\<open>free\<close>, in order.\<close>

definition target_string :: "'r config_target \<Rightarrow> 'r \<Rightarrow> string option" where
  "target_string target base =
     (case target of CONFIG_TYPE_STRING get _ _ \<Rightarrow> get base | CONFIG_TYPE_PAYLOAD get _ _ _ \<Rightarrow> get base | _ \<Rightarrow> None)"

definition config_free :: "application_config \<Rightarrow> string option list" where
  "config_free app =
     map (\<lambda>(_, target). target_string target app) global_options @
     concat (map (\<lambda>t. map (\<lambda>(_, target, _). target_string target (classes app t))
                        (filter (\<lambda>(_, _, tcs). in_mask t tcs) class_options)) frame_types)"

end
