(* ===== verification/TB_Config_Props.thy ===== *)
theory TB_Config_Props
  imports TB_Config
begin

text \<open>
  Properties of the configuration: well-formedness established by the defaults and kept by
  every option, what the sanity check guarantees to the threads, exactness of
  numbers, and that every option of the tables can be reached by its key.
\<close>

section \<open>Well-formed configurations\<close>

text \<open>Lengths belong to their strings, addresses have six bytes, the CPU list fits its array.\<close>

definition class_wf :: "traffic_class_config \<Rightarrow> bool" where
  "class_wf c \<longleftrightarrow>
     payload_pattern_length c = length (ptr_bytes (payload_pattern c)) \<and>
     security_key_length c = length (ptr_bytes (security_key c)) \<and>
     security_iv_prefix_length c = length (ptr_bytes (security_iv_prefix c)) \<and>
     length (l2_destination c) = ETH_ALEN \<and> length (interface c) \<le> 15 \<and>
     length (workload_thread_cpus c) = WORKLOAD_MAX \<and>
     0 \<le> workload_thread_cpus_num c \<and> workload_thread_cpus_num c \<le> int WORKLOAD_MAX \<and>
     list_all (\<lambda>i. 0 \<le> i) (take (nat (workload_thread_cpus_num c)) (workload_thread_cpus c)) \<and>
     num_frames_per_cycle c < 2 ^ 64 \<and> frame_length c < 2 ^ 64"

definition app_wf :: "application_config \<Rightarrow> bool" where
  "app_wf app \<longleftrightarrow> (\<forall>t. class_wf (classes app t))"

text \<open>An option keeps a property if every value accepted for it does.\<close>

definition keeps :: "('r \<Rightarrow> bool) \<Rightarrow> 'r config_target \<Rightarrow> bool" where
  "keeps P target \<longleftrightarrow> (\<forall>m s base base'. P base \<longrightarrow> config_store_value m target s base = Some (None, base') \<longrightarrow> P base')"

lemma store_parsed_None:
  "store_parsed p put_v base = (None, base') \<longleftrightarrow> (\<exists>v. p = Inr v \<and> base' = put_v v base)"
  by (auto simp: store_parsed_def split: sum.splits)

lemma keeps_plain:
  "(\<And>v base. P base \<Longrightarrow> P (p1 v base)) \<Longrightarrow> keeps P (CONFIG_TYPE_BOOL g1 p1)"
  "(\<And>v base. P base \<Longrightarrow> P (p2 v base)) \<Longrightarrow> keeps P (CONFIG_TYPE_INT g2 p2)"
  "(\<And>v base. P base \<Longrightarrow> P (p3 v base)) \<Longrightarrow> keeps P (CONFIG_TYPE_ULONG g3 p3)"
  "(\<And>v base. v < 2 ^ 64 \<Longrightarrow> P base \<Longrightarrow> P (p4 v base)) \<Longrightarrow> keeps P (CONFIG_TYPE_SIZE g4 p4)"
  "(\<And>v base. P base \<Longrightarrow> P (p5 v base)) \<Longrightarrow> keeps P (CONFIG_TYPE_TIME g5 p5)"
  "(\<And>s base. P base \<Longrightarrow> P (l6 (length s) (p6 (Some s) base))) \<Longrightarrow> keeps P (CONFIG_TYPE_STRING g6 p6 l6)"
  "(\<And>s base. P base \<Longrightarrow> P (l7 (length s) (p7 (Some s) base))) \<Longrightarrow> keeps P (CONFIG_TYPE_PAYLOAD g7 p7 h7 l7)"
  "(\<And>v base. length v \<le> 15 \<Longrightarrow> P base \<Longrightarrow> P (p8 v base)) \<Longrightarrow> keeps P (CONFIG_TYPE_INTERFACE g8 p8)"
  "(\<And>v base. length v = ETH_ALEN \<Longrightarrow> P base \<Longrightarrow> P (p9 v base)) \<Longrightarrow> keeps P (CONFIG_TYPE_MAC g9 p9)"
  "(\<And>v base. P base \<Longrightarrow> P (p10 v base)) \<Longrightarrow> keeps P (CONFIG_TYPE_ETHER_TYPE g10 p10)"
  "(\<And>v base. P base \<Longrightarrow> P (p11 v base)) \<Longrightarrow> keeps P (CONFIG_TYPE_SECURITY_MODE g11 p11)"
  "(\<And>v base. P base \<Longrightarrow> P (p12 v base)) \<Longrightarrow> keeps P (CONFIG_TYPE_SECURITY_ALGORITHM g12 p12)"
  "(\<And>v base. P base \<Longrightarrow> P (p13 v base)) \<Longrightarrow> keeps P (CONFIG_TYPE_CLOCKID g13 p13)"
  "(\<And>v base. P base \<Longrightarrow> P (p14 v base)) \<Longrightarrow> keeps P (CONFIG_TYPE_PROTOCOL_TYPE g14 p14)"
  using unsigned_less [where ?'a = nat and ?'b = 64]
  by (auto simp: keeps_def config_store_value_def store_parsed_None store_string_def split: if_splits)

lemma cpu_list_loop_ok:
  assumes "cpu_list_loop ps array i = Some (ret, cpus)" "i \<le> length array"
    and "list_all (\<lambda>v. 0 \<le> v) (take i array)"
  shows "length cpus = length array \<and>
    (case ret of Inl _ \<Rightarrow> True | Inr n \<Rightarrow> n \<le> length array \<and> list_all (\<lambda>v. 0 \<le> v) (take n cpus))"
  using assms
proof (induction ps array i rule: cpu_list_loop.induct)
  case (2 p ps array i)
  obtain v where v: "atoi p = Some v" "i < length array"
    using 2(2) by (auto split: if_splits)
  show ?case
  proof (cases "v < 0 \<or> (Suc i \<ge> length array \<and> ps \<noteq> [])")
    case True
    then show ?thesis using 2(2) v by (auto simp: Let_def split: if_splits)
  next
    case False
    have "list_all (\<lambda>v. 0 \<le> v) (take (Suc i) (array[i := v]))"
      using 2(4) False v(2) by (simp add: take_Suc_conv_app_nth)
    moreover have "cpu_list_loop ps (array[i := v]) (Suc i) = Some (ret, cpus)"
      using 2(2) v False by (simp add: Let_def split: if_splits)
    ultimately show ?thesis using 2(1) [OF v(1,2) refl] False v(2) by (auto split: sum.splits)
  qed
qed (auto split: if_splits)

lemma keeps_cpu_list:
  assumes "\<And>n cpus base. length cpus = length (g base) \<Longrightarrow> n \<le> length (g base) \<Longrightarrow>
    list_all (\<lambda>v. 0 \<le> v) (take n cpus) \<Longrightarrow> P base \<Longrightarrow> P (num (int n) (p cpus base))"
  shows "keeps P (CONFIG_TYPE_CPU_LIST g p h num)"
  unfolding keeps_def
proof (intro allI impI)
  fix m s base base'
  assume base: "P base" and st: "config_store_value m (CONFIG_TYPE_CPU_LIST g p h num) s base = Some (None, base')"
  then obtain ret cpus where r: "config_parse_cpu_list m s (g base) = Some (ret, cpus)"
    "(case ret of Inl _ \<Rightarrow> (Some EINVAL, p cpus base) | Inr n \<Rightarrow> (None, num (int n) (p cpus base))) = (None, base')"
    by (auto simp: config_store_value_def)
  then obtain n where c: "config_parse_cpu_list m s (g base) = Some (Inr n, cpus)" "base' = num (int n) (p cpus base)"
    by (cases ret) auto
  then have "cpu_list_loop (strtok '' ,'' [] s) (g base) 0 = Some (Inr n, cpus)"
    by (auto simp: config_parse_cpu_list_def split: if_splits)
  from cpu_list_loop_ok [OF this] show "P base'" using assms base c(2) by simp
qed

lemma class_options_keep: "list_all (\<lambda>(_, target, _). keeps class_wf target) class_options"
  unfolding class_options_def list.pred_inject prod.case
  by (intro conjI TrueI keeps_plain keeps_cpu_list)
     (simp_all add: class_wf_def ptr_bytes_def)

lemma global_options_keep: "list_all (\<lambda>(_, target). keeps app_wf target) global_options"
  unfolding global_options_def list.pred_inject prod.case
  by (intro conjI TrueI keeps_plain) (simp_all add: app_wf_def)

lemma find_class_option_in: "find_class_option opts t suffix = Some target \<Longrightarrow> \<exists>nm tcs. (nm, target, tcs) \<in> set opts"
  by (induction opts t suffix rule: find_class_option.induct) (auto split: if_splits)

lemma class_option_wf:
  assumes "config_store_class_option m key s app = Some (None, app')" "app_wf app"
  shows "app_wf app'"
proof -
  obtain t suffix where k: "config_opt_to_type key = (t, suffix)" by fastforce
  then obtain target cfg where tg: "find_class_option class_options t suffix = Some target"
    "config_store_value m target s (classes app t) = Some (None, cfg)" "app' = app\<lparr>classes := (classes app)(t := cfg)\<rparr>"
    using assms(1) by (auto simp: config_store_class_option_def split: if_splits option.splits)
  have "keeps class_wf target"
    using class_options_keep find_class_option_in [OF tg(1)] by (auto simp: list_all_iff)
  then have "class_wf cfg" using tg(2) assms(2) by (auto simp: keeps_def app_wf_def)
  then show ?thesis using assms(2) tg(3) by (simp add: app_wf_def)
qed

lemma app_option_wf:
  assumes "config_store_app_option m key s app = Some (None, app')" "app_wf app"
  shows "app_wf app'"
proof -
  obtain target where tg: "map_of global_options key = Some target"
    "config_store_value m target s app = Some (None, app')"
    using assms(1) by (auto simp: config_store_app_option_def split: option.splits)
  then have "keeps app_wf target" using global_options_keep map_of_SomeD [OF tg(1)] by (auto simp: list_all_iff)
  then show ?thesis using tg(2) assms(2) by (auto simp: keeps_def)
qed

lemma class_option_ENOENT:
  assumes "config_store_class_option m key s app = Some (Some ENOENT, app')"
  shows "app' = app"
proof -
  have "r \<noteq> Some ENOENT" if "config_store_value m target s base = Some (r, b)" for target :: "traffic_class_config config_target" and r base b
    using that by (cases target) (auto simp: config_store_value_def store_parsed_def store_string_def
        split: sum.splits if_splits, metis sum.exhaust)
  then show ?thesis using assms
    by (fastforce simp: config_store_class_option_def case_prod_unfold Let_def split: if_splits option.splits)
qed

lemma token_loop_wf:
  assumes "config_token_loop toks sk key seen app = Some (None, seen', app')" "app_wf app"
  shows "app_wf app'"
  using assms
proof (induction toks arbitrary: sk key seen app)
  case (Cons tok toks)
  show ?case
  proof (cases tok)
    case (YAML_SCALAR_TOKEN s m)
    show ?thesis
    proof (cases "sk \<or> key = None")
      case True
      then show ?thesis using Cons YAML_SCALAR_TOKEN by (auto split: if_splits)
    next
      case False
      then obtain k where k: "key = Some k" by auto
      obtain r1 a1 where c: "config_store_class_option m k s app = Some (r1, a1)"
        using Cons.prems(1) YAML_SCALAR_TOKEN False k by (cases "config_store_class_option m k s app") auto
      obtain r2 a2 where d: "(if r1 = Some ENOENT then config_store_app_option m k s a1 else Some (r1, a1)) = Some (r2, a2)"
        using Cons.prems(1) YAML_SCALAR_TOKEN False k c by (auto simp del: bind_eq_Some split: option.splits bind_splits)
      have "r2 = None" and rec: "config_token_loop toks sk None (seen \<or> k = ''ApplicationBaseStartTimeNS'') a2 = Some (None, seen', app')"
        using Cons.prems(1) YAML_SCALAR_TOKEN False k c d by (auto split: option.splits)
      have "app_wf a2"
      proof (cases "r1 = Some ENOENT")
        case True
        then have "a1 = app" using class_option_ENOENT c by blast
        then show ?thesis using app_option_wf [of m k s a1 a2] d \<open>r2 = None\<close> True Cons.prems(2) by simp
      next
        case False
        then show ?thesis using class_option_wf [of m k s app a2] c d \<open>r2 = None\<close> Cons.prems(2) by simp
      qed
      then show ?thesis using Cons.IH rec by blast
    qed
  qed (use Cons in auto)
qed simp

lemma default_wf: "class_wf (default_of t m zero_class_config)"
  by (cases t) (simp_all add: default_tsn_high_def default_tsn_low_def default_rtc_def default_rta_def default_dcp_def
      default_lldp_def default_udp_high_def default_udp_low_def default_generic_l2_def default_class_def
      default_payload_pattern_def default_destination_def default_dcp_identify_def default_lldp_destination_def
      class_wf_def zero_class_config_def ptr_bytes_def)

text \<open>The configuration with which the program goes on: defaults, file, sanity check.\<close>

definition startup_config :: "(nat \<Rightarrow> bool) \<Rightarrow> timespec \<Rightarrow> bool \<Rightarrow> yaml_token list \<Rightarrow> timespec option \<Rightarrow> build \<Rightarrow> application_config option" where
  "startup_config mem now mirror toks current B =
     (case config_set_defaults mem now mirror zero_app_config of
        Inl _ \<Rightarrow> None
      | Inr app \<Rightarrow>
          (case config_read_from_file True True True toks current app of
             Some (None, app) \<Rightarrow> if config_sanity_check B app then Some app else None
           | _ \<Rightarrow> None))"

lemma startup_cases:
  assumes "startup_config mem now mirror toks current B = Some app"
  shows "app_wf app \<and> config_sanity_check B app"
proof -
  obtain app0 where d: "config_set_defaults mem now mirror zero_app_config = Inr app0"
    using assms by (auto simp: startup_config_def split: sum.splits)
  then obtain app1 where r: "config_read_from_file True True True toks current app0 = Some (None, app1)"
    "config_sanity_check B app1" "app = app1"
    using assms by (auto simp: startup_config_def split: option.splits if_splits prod.splits)
  have "app_wf app0" using d default_wf
    by (auto simp: config_set_defaults_def app_wf_def default_services_def default_globals_def zero_app_config_def
        Let_def split: if_splits)
  then have "app_wf app1" using r(1) token_loop_wf
    by (fastforce simp: config_read_from_file_def app_wf_def split: option.splits if_splits)
  then show ?thesis using r by simp
qed

section \<open>Reachability of the options\<close>

primrec class_prefix :: "stat_frame_type \<Rightarrow> string" where
  "class_prefix TSN_HIGH_FRAME_TYPE = ''TsnHigh''"
| "class_prefix TSN_LOW_FRAME_TYPE = ''TsnLow''"
| "class_prefix RTC_FRAME_TYPE = ''Rtc''"
| "class_prefix RTA_FRAME_TYPE = ''Rta''"
| "class_prefix DCP_FRAME_TYPE = ''Dcp''"
| "class_prefix LLDP_FRAME_TYPE = ''Lldp''"
| "class_prefix UDP_HIGH_FRAME_TYPE = ''UdpHigh''"
| "class_prefix UDP_LOW_FRAME_TYPE = ''UdpLow''"
| "class_prefix GENERICL2_FRAME_TYPE = ''GenericL2''"
| "class_prefix NUM_FRAME_TYPES = []"

lemma opt_to_type_prefix: "t \<noteq> NUM_FRAME_TYPES \<Longrightarrow> config_opt_to_type (class_prefix t @ nm) = (t, nm)"
  by (cases t) (simp_all add: config_opt_to_type_def str_match_class_def)

lemma find_class_option_row:
  assumes "(nm, target, tcs) \<in> set opts" "in_mask t tcs"
    and "distinct (map fst (filter (\<lambda>(_, _, tcs). in_mask t tcs) opts))"
  shows "find_class_option opts t nm = Some target"
  using assms
proof (induction opts)
  case (Cons row opts)
  obtain nm' target' tcs' where row: "row = (nm', target', tcs')" by (cases row)
  show ?case
  proof (cases "in_mask t tcs' \<and> nm' = nm")
    case True
    have "(nm, target, tcs) \<notin> set opts"
    proof
      assume "(nm, target, tcs) \<in> set opts"
      then have "nm \<in> fst ` set (filter (\<lambda>(_, _, tcs). in_mask t tcs) opts)" using Cons.prems(2) by force
      then show False using Cons.prems(3) True row by simp
    qed
    then show ?thesis using Cons.prems(1) row True by auto
  next
    case False
    then show ?thesis using Cons row by (auto split: if_splits)
  qed
qed simp

definition class_names :: "(string \<times> u64) list" where
  "class_names = map (\<lambda>(nm, _, tcs). (nm, tcs)) class_options"

lemma class_names_eq: "class_names = [(''Enabled'', TC_ALL), (''XdpEnabled'', TC_XDP), (''XdpSkbMode'', TC_XDP),
  (''XdpZcMode'', TC_XDP), (''XdpWakeupMode'', TC_XDP), (''XdpBusyPollMode'', TC_XDP), (''TxTimeStampEnabled'', TC_XDP),
  (''TxTimeEnabled'', TC_TXTIME), (''TxTimeOffsetNS'', TC_TXTIME), (''IgnoreRxErrors'', TC_ALL), (''Vid'', TC_ALL),
  (''Pcp'', TC_ALL), (''NumFramesPerCycle'', TC_ALL), (''PayloadPattern'', TC_ALL), (''FrameLength'', TC_ALL),
  (''RxQueue'', TC_ALL), (''TxQueue'', TC_ALL), (''SocketPriority'', TC_ALL), (''TxThreadPriority'', TC_ALL),
  (''RxThreadPriority'', TC_ALL), (''TxThreadCpu'', TC_ALL), (''RxThreadCpu'', TC_ALL), (''Interface'', TC_ALL),
  (''BurstPeriodNS'', TC_BURST), (''Destination'', TC_L2), (''Destination'', TC_L3), (''Source'', TC_L3), (''Port'', TC_L3),
  (''Name'', BIT GENERICL2_FRAME_TYPE), (''EtherType'', BIT GENERICL2_FRAME_TYPE), (''ProtocolType'', BIT GENERICL2_FRAME_TYPE),
  (''SecurityMode'', TC_SECURITY), (''SecurityAlgorithm'', TC_SECURITY), (''SecurityKey'', TC_SECURITY),
  (''SecurityIvPrefix'', TC_SECURITY), (''RxWorkloadEnabled'', TC_WORKLOAD), (''RxWorkloadPrewarm'', TC_WORKLOAD),
  (''RxWorkloadSkipCount'', TC_WORKLOAD), (''RxWorkloadFile'', TC_WORKLOAD), (''RxWorkloadSetupFunction'', TC_WORKLOAD),
  (''RxWorkloadSetupArguments'', TC_WORKLOAD), (''RxWorkloadTeardownFunction'', TC_WORKLOAD), (''RxWorkloadFunction'', TC_WORKLOAD),
  (''RxWorkloadArguments'', TC_WORKLOAD), (''RxWorkloadThreadCpu'', TC_WORKLOAD), (''RxWorkloadThreadPriority'', TC_WORKLOAD)]"
  by (simp add: class_names_def class_options_def)

lemma names_filter:
  "map fst (filter (\<lambda>(_, _, tcs). in_mask t tcs) opts) = map fst (filter (\<lambda>(_, tcs). in_mask t tcs) (map (\<lambda>(nm, _, tcs). (nm, tcs)) opts))"
  by (induction opts) auto

text \<open>The two rows named \<open>Destination\<close> belong to disjoint sets of classes.\<close>

lemma class_names_distinct:
  "distinct (map fst (filter (\<lambda>(_, _, tcs). in_mask t tcs) class_options))"
proof -
  let ?in = "\<lambda>(_ :: string, tcs). in_mask t tcs"
  have l: "TC_L2 \<noteq> TC_L3" "\<not> (in_mask t TC_L2 \<and> in_mask t TC_L3)" by (simp add: tc_masks, cases t) (simp_all add: tc_masks)
  have d: "distinct (map fst (filter (\<lambda>r. r \<noteq> (''Destination'', TC_L3)) class_names))"
    "distinct (map fst (filter (\<lambda>r. r \<noteq> (''Destination'', TC_L2)) class_names))"
    using l(1) by (simp_all add: class_names_eq)
  have "filter ?in class_names = filter ?in (filter (\<lambda>r. r \<noteq> (''Destination'', TC_L3)) class_names) \<or>
      filter ?in class_names = filter ?in (filter (\<lambda>r. r \<noteq> (''Destination'', TC_L2)) class_names)"
    using l(2) by (auto simp: filter_filter intro!: filter_cong)
  then have "distinct (map fst (filter ?in class_names))"
    using d distinct_map_filter by metis
  then show ?thesis by (simp add: names_filter class_names_def)
qed

lemma startup_class_sizes:
  assumes "startup_config mem now mirror toks current B = Some app"
    and "t \<in> {TSN_HIGH_FRAME_TYPE, TSN_LOW_FRAME_TYPE, RTC_FRAME_TYPE, RTA_FRAME_TYPE}"
  defines "c \<equiv> classes app t"
  shows "frame_length c \<le> MAX_FRAME_SIZE"
    "(if security_mode c = SECURITY_MODE_NONE then 36 else 60) + length (ptr_bytes (payload_pattern c)) \<le> frame_length c"
    "security_mode c \<noteq> SECURITY_MODE_NONE \<Longrightarrow> length (ptr_bytes (security_iv_prefix c)) = 6"
    "security_mode c \<noteq> SECURITY_MODE_NONE \<Longrightarrow>
       length (ptr_bytes (security_key c)) = (if security_algorithm c = SECURITY_ALGORITHM_AES128_GCM then 16 else 32)"
proof -
  have ok: "config_sanity_check B app" and w: "class_wf c"
    using startup_cases [OF assms(1)] by (simp_all add: app_wf_def c_def)
  have l: "\<not> frame_length_invalid app t"
    and k: "config_check_keys (security_mode c) (security_algorithm c) (security_key_length c) (security_iv_prefix_length c)"
    using ok assms(2) by (auto simp: config_sanity_check_def config_check_features_def config_check_all_keys_def c_def Let_def split: if_splits)
  show "frame_length c \<le> MAX_FRAME_SIZE"
    "(if security_mode c = SECURITY_MODE_NONE then 36 else 60) + length (ptr_bytes (payload_pattern c)) \<le> frame_length c"
    using l w assms(2) by (auto simp: frame_length_invalid_def min_frame_size_def class_wf_def c_def Let_def split: if_splits)
  show "length (ptr_bytes (security_iv_prefix c)) = 6"
    "length (ptr_bytes (security_key c)) = (if security_algorithm c = SECURITY_ALGORITHM_AES128_GCM then 16 else 32)"
    if "security_mode c \<noteq> SECURITY_MODE_NONE"
    using k w that by (auto simp: config_check_keys_def class_wf_def split: if_splits)
qed

section \<open>Properties\<close>

text \<open>C22. The type of a configuration: whatever the file holds, a configuration with which the
  program starts is well-formed for every class.  The lengths the code keeps beside its
  strings are their lengths, MAC addresses have six bytes, interface names fit, and
  the CPU list of the workloads fits its array and holds no negative CPU.\<close>

theorem startup_config_wf:
  assumes "startup_config mem now mirror toks current B = Some app"
  shows "\<forall>t. class_wf (classes app t)"
  using startup_cases [OF assms] by (simp add: app_wf_def)

text \<open>C10. What the sanity check guarantees to the threads: for every PROFINET class, active or
  not, the frame holds headers, payload pattern and, if secured, the checksum, and
  fits a slot; the vector prefix of a secured class has its six bytes and the key
  the length of its algorithm; the receive offset lies before the transmit offset
  and both within a cycle.\<close>

theorem startup_config_sizes:
  assumes "startup_config mem now mirror toks current B = Some app"
    and "t \<in> {TSN_HIGH_FRAME_TYPE, TSN_LOW_FRAME_TYPE, RTC_FRAME_TYPE, RTA_FRAME_TYPE}"
  shows "let c = classes app t in
    frame_length c \<le> MAX_FRAME_SIZE \<and>
    (if security_mode c = SECURITY_MODE_NONE then 36 else 60) + length (ptr_bytes (payload_pattern c)) \<le> frame_length c \<and>
    (security_mode c \<noteq> SECURITY_MODE_NONE \<longrightarrow>
       length (ptr_bytes (security_iv_prefix c)) = 6 \<and>
       length (ptr_bytes (security_key c)) = (if security_algorithm c = SECURITY_ALGORITHM_AES128_GCM then 16 else 32)) \<and>
    application_rx_base_offset_ns app < application_tx_base_offset_ns app \<and>
    application_tx_base_offset_ns app \<le> application_base_cycle_time_ns app"
  using startup_class_sizes [OF assms] startup_cases [OF assms(1)]
  by (auto simp: config_sanity_check_def Let_def split: if_splits)

text \<open>A file that sets the frame length of the first class.\<close>

definition demo_tokens :: "yaml_token list" where
  "demo_tokens = [YAML_OTHER_TOKEN, YAML_KEY_TOKEN, YAML_SCALAR_TOKEN ''TsnHighFrameLength'' True, YAML_VALUE_TOKEN,
     YAML_SCALAR_TOKEN ''256'' True]"

definition demo_switches :: build where
  "demo_switches = \<lparr>HAVE_BUSY_POLL = True, WITH_MQTT = True, HAVE_XDP_TX_TIME = True, RX_TIMESTAMP = True, TX_TIMESTAMP = True\<rparr>"

lemma demo_256: "config_parse_ulong ''256'' = Inr 256"
  by (simp add: config_parse_ulong_def strtoull_def strtox_def sign_of_def is_space_def starts_with_digit_def digit_val_def
      signed_value_def Let_def)

lemma demo_tokens_store:
  "config_store_class_option True ''TsnHighFrameLength'' ''256'' app =
     Some (None, app\<lparr>classes := (classes app)(TSN_HIGH_FRAME_TYPE := (classes app TSN_HIGH_FRAME_TYPE)\<lparr>frame_length := 256\<rparr>)\<rparr>)"
proof -
  have "(''FrameLength'', CONFIG_TYPE_SIZE frame_length (put frame_length_update), TC_ALL) \<in> set class_options"
    by (simp add: class_options_def)
  moreover have "in_mask TSN_HIGH_FRAME_TYPE TC_ALL" by (simp add: tc_masks)
  ultimately have "find_class_option class_options TSN_HIGH_FRAME_TYPE ''FrameLength'' =
      Some (CONFIG_TYPE_SIZE frame_length (put frame_length_update))"
    by (rule find_class_option_row) (rule class_names_distinct)
  then show ?thesis using opt_to_type_prefix [of TSN_HIGH_FRAME_TYPE "''FrameLength''"]
    by (simp add: config_store_class_option_def config_store_value_def store_parsed_def demo_256)
qed

definition demo_defaults :: application_config where
  "demo_defaults = default_services ((default_globals \<lparr>tv_sec = 100, tv_nsec = 0\<rparr> zero_app_config)
     \<lparr>classes := (\<lambda>t. default_of t False zero_class_config)\<rparr>)"

definition demo_app :: application_config where
  "demo_app = demo_defaults\<lparr>classes := (classes demo_defaults)(TSN_HIGH_FRAME_TYPE :=
     (classes demo_defaults TSN_HIGH_FRAME_TYPE)\<lparr>frame_length := 256\<rparr>)\<rparr>"

lemma demo_classes:
  "classes demo_app = (\<lambda>t. default_of t False zero_class_config)
     (TSN_HIGH_FRAME_TYPE := (default_of TSN_HIGH_FRAME_TYPE False zero_class_config)\<lparr>frame_length := 256\<rparr>)"
  "application_clock_id demo_app = CLOCK_TAI" "application_base_cycle_time_ns demo_app = 1000000"
  "application_tx_base_offset_ns demo_app = 800000" "application_rx_base_offset_ns demo_app = 300000"
  "stats_histogram_minimum_ns demo_app = 1000000" "stats_histogram_maximum_ns demo_app = 10000000"
  by (simp_all add: demo_app_def demo_defaults_def default_services_def default_globals_def)

lemmas default_defs = default_tsn_high_def default_tsn_low_def default_rtc_def default_rta_def default_dcp_def
  default_lldp_def default_udp_high_def default_udp_low_def default_generic_l2_def default_class_def
  default_payload_pattern_def zero_class_config_def

lemma demo_sanity: "config_sanity_check demo_switches demo_app"
  by (simp add: config_sanity_check_def config_check_features_def config_check_all_keys_def demo_classes config_is_tc_active_def frame_length_invalid_def min_frame_size_def
      default_defs demo_switches_def config_have_defs config_check_keys_def Let_def)

lemma demo_startup:
  "startup_config (\<lambda>_. True) \<lparr>tv_sec = 100, tv_nsec = 0\<rparr> False demo_tokens None demo_switches = Some demo_app"
proof -
  have "config_set_defaults (\<lambda>_. True) \<lparr>tv_sec = 100, tv_nsec = 0\<rparr> False zero_app_config = Inr demo_defaults"
    by (simp add: config_set_defaults_def demo_defaults_def default_globals_def zero_app_config_def list_all_iff Let_def)
  moreover have "config_read_from_file True True True demo_tokens None demo_defaults = Some (None, demo_app)"
    by (simp add: config_read_from_file_def demo_tokens_def demo_tokens_store demo_app_def demo_classes [unfolded demo_app_def])
  ultimately show ?thesis by (simp add: startup_config_def demo_sanity)
qed

theorem startup_config_wf_witness: "class_wf (classes demo_app TSN_HIGH_FRAME_TYPE)"
  using startup_config_wf [OF demo_startup] by blast

theorem startup_config_sizes_witness:
  "36 + length (ptr_bytes (payload_pattern (classes demo_app TSN_HIGH_FRAME_TYPE))) \<le> frame_length (classes demo_app TSN_HIGH_FRAME_TYPE) \<and>
   frame_length (classes demo_app TSN_HIGH_FRAME_TYPE) = 256"
proof -
  have m: "security_mode (classes demo_app TSN_HIGH_FRAME_TYPE) = SECURITY_MODE_NONE"
    "frame_length (classes demo_app TSN_HIGH_FRAME_TYPE) = 256"
    by (simp_all add: demo_classes default_defs)
  show ?thesis using startup_config_sizes [OF demo_startup, of TSN_HIGH_FRAME_TYPE] m by (simp add: Let_def)
qed

section \<open>Numbers\<close>

lemma no_digit:
  "\<not> starts_with_digit 10 []" "\<not> starts_with_digit 10 ''s''" "\<not> starts_with_digit 10 ''ms''" "\<not> starts_with_digit 10 ''us''"
  by (simp_all add: starts_with_digit_def digit_val_def)

lemma strtoull_show_nat:
  "\<not> starts_with_digit 10 u \<Longrightarrow> strtoull 10 (show_nat n @ u) = (if n < 2 ^ 64 then Some (of_nat n, u) else None)"
  using strtox_show_nat [of u False n] by (simp add: strtoull_def signed_value_def)

lemma mul_u64_of_nat:
  assumes "0 < k"
  shows "(if n < 2 ^ 64 then mul_u64 (of_nat n) k else Inl ERANGE) =
         (if n * k < 2 ^ 64 then Inr (of_nat (n * k)) else Inl ERANGE)"
proof (cases "n < 2 ^ 64")
  case True
  then have "unat (of_nat n :: u64) = n" by (rule unat_of_nat_small)
  then show ?thesis using True unfolding mul_u64_def by presburger
next
  case False
  moreover have "n \<le> n * k" using assms by simp
  ultimately have "\<not> n * k < 2 ^ 64" by (meson le_less_trans)
  then show ?thesis using False by presburger
qed

lemma parse_time_unit:
  "config_parse_time (show_nat n @ ''s'') = (if n < 2 ^ 64 then mul_u64 (of_nat n) 1000000000 else Inl ERANGE)"
  "config_parse_time (show_nat n @ ''ms'') = (if n < 2 ^ 64 then mul_u64 (of_nat n) 1000000 else Inl ERANGE)"
  "config_parse_time (show_nat n @ ''us'') = (if n < 2 ^ 64 then mul_u64 (of_nat n) 1000 else Inl ERANGE)"
  "config_parse_time (show_nat n) = (if n < 2 ^ 64 then Inr (of_nat n) else Inl ERANGE)"
  using strtoull_show_nat [OF no_digit(1), of n]
  by (simp_all add: config_parse_time_def strtoull_show_nat no_digit)

lemma parse_int_show:
  "config_parse_int (show_int i) = (if - (2 ^ 63) \<le> i \<and> i < 2 ^ 63 then Inr i else Inl ERANGE)"
  "config_parse_ulong (show_int i) = (if \<bar>i\<bar> < 2 ^ 64 then Inr (of_int i) else Inl ERANGE)"
proof -
  have sv: "signed_value (i < 0) (nat \<bar>i\<bar>) = i" by (simp add: signed_value_def)
  note s = strtox_show_int [OF no_digit(1), of False i, simplified]
  show "config_parse_int (show_int i) = (if - (2 ^ 63) \<le> i \<and> i < 2 ^ 63 then Inr i else Inl ERANGE)"
    by (simp add: config_parse_int_def strtol_def s sv)
  show "config_parse_ulong (show_int i) = (if \<bar>i\<bar> < 2 ^ 64 then Inr (of_int i) else Inl ERANGE)"
    by (auto simp: config_parse_ulong_def strtoull_def s sv)
qed


section \<open>Keys\<close>

lemma global_names_distinct: "distinct (map fst global_options)"
  by (simp add: global_options_def)

lemma global_no_class: "list_all (\<lambda>(nm, _). config_opt_to_type nm = (NUM_FRAME_TYPES, [])) global_options"
  by (simp add: global_options_def config_opt_to_type_def str_match_class_def)

text \<open>C34. Every option of the tables is reached by its key: no global option is taken for an option
  of a class, its key finds its own row, and the name of a class followed by the
  name of one of its options finds exactly this row for this class, also where two
  rows have the same name.\<close>

theorem config_options_reachable:
  "list_all (\<lambda>(nm, target). \<forall>m s app.
      config_store_class_option m nm s app = Some (Some ENOENT, app) \<and>
      config_store_app_option m nm s app = config_store_value m target s app) global_options \<and>
   list_all (\<lambda>t. list_all (\<lambda>(nm, target, _). \<forall>m s app.
      config_store_class_option m (class_prefix t @ nm) s app =
        map_option (\<lambda>(ret, cfg). (ret, app\<lparr>classes := (classes app)(t := cfg)\<rparr>))
          (config_store_value m target s (classes app t)))
      (filter (\<lambda>(_, _, tcs). in_mask t tcs) class_options)) frame_types"
proof (rule conjI)
  show "list_all (\<lambda>(nm, target). \<forall>m s app.
      config_store_class_option m nm s app = Some (Some ENOENT, app) \<and>
      config_store_app_option m nm s app = config_store_value m target s app) global_options"
    using global_no_class global_names_distinct
    by (auto simp: list_all_iff config_store_class_option_def config_store_app_option_def split: prod.splits)
  show "list_all (\<lambda>t. list_all (\<lambda>(nm, target, _). \<forall>m s app.
      config_store_class_option m (class_prefix t @ nm) s app =
        map_option (\<lambda>(ret, cfg). (ret, app\<lparr>classes := (classes app)(t := cfg)\<rparr>))
          (config_store_value m target s (classes app t)))
      (filter (\<lambda>(_, _, tcs). in_mask t tcs) class_options)) frame_types"
    unfolding list_all_iff
  proof (intro ballI, clarify)
    fix t nm target tcs m s app
    assume "t \<in> set frame_types" "(nm, target, tcs) \<in> set (filter (\<lambda>(_, _, tcs). in_mask t tcs) class_options)"
    then have t: "t \<noteq> NUM_FRAME_TYPES" and row: "(nm, target, tcs) \<in> set class_options" "in_mask t tcs"
      by (simp_all add: frame_types_complete)
    have "find_class_option class_options t nm = Some target"
      by (rule find_class_option_row [OF row class_names_distinct])
    then show "config_store_class_option m (class_prefix t @ nm) s app =
        map_option (\<lambda>(ret, cfg). (ret, app\<lparr>classes := (classes app)(t := cfg)\<rparr>))
          (config_store_value m target s (classes app t))"
      using opt_to_type_prefix [OF t] t
      by (cases "config_store_value m target s (classes app t)") (simp_all add: config_store_class_option_def case_prod_unfold)
  qed
qed

end
