(* ===== verification/TB_Ring_Buffer.thy ===== *)
theory TB_Ring_Buffer
  imports TB_Prelude
begin

text \<open>
  The circular byte buffer of \<^verbatim>\<open>src/src/ring_buffer.c\<close>, which carries mirrored
  frames from the receive to the transmit threads and log messages to the log
  thread.  The two pointers are offsets into \<open>rb_data\<close>; every operation runs
  under the buffer's mutex, so concurrent callers appear as a sequence of
  operations.  The operations refine a bounded byte queue that drops its oldest
  bytes.
\<close>

section \<open>Model\<close>

record ring_buffer =
  rb_size :: nat
  rb_count :: nat
  rb_wp :: nat
  rb_rp :: nat
  rb_data :: bytes

text \<open>The two flags say whether the two \<^verbatim>\<open>calloc\<close> calls succeed.\<close>

definition ring_buffer_allocate :: "bool \<Rightarrow> bool \<Rightarrow> nat \<Rightarrow> ring_buffer option" where
  "ring_buffer_allocate rb_ok data_ok sz =
     (if \<not> rb_ok then None
      else if \<not> data_ok then None
      else Some \<lparr>rb_size = sz, rb_count = 0, rb_wp = 0, rb_rp = 0, rb_data = replicate sz 0\<rparr>)"

text \<open>The first argument is the pointer, \<^const>\<open>None\<close> for \<^verbatim>\<open>NULL\<close>.\<close>

definition ring_buffer_add ::
  "ring_buffer option \<Rightarrow> bytes \<Rightarrow> nat \<Rightarrow> ring_buffer option option" where
  "ring_buffer_add rb data len =
     (case rb of
        None \<Rightarrow> Some None
      | Some rb \<Rightarrow>
          if len > rb_size rb then Some (Some rb)
          else do {
            let available = rb_size rb - rb_wp rb;
            (mem, wp) \<leftarrow>
              (if len \<le> available then do {
                 src \<leftarrow> mem_read 0 len data;
                 mem \<leftarrow> mem_write (rb_wp rb) src (rb_data rb);
                 Some (mem, rb_wp rb + len)
               } else do {
                 src \<leftarrow> mem_read 0 available data;
                 mem \<leftarrow> mem_write (rb_wp rb) src (rb_data rb);
                 src \<leftarrow> mem_read available (len - available) data;
                 mem \<leftarrow> mem_write 0 src mem;
                 Some (mem, len - available)
               });
            let wp = (if rb_size rb = wp then 0 else wp);
            Some (Some
              (if rb_count rb + len > rb_size rb
               then rb\<lparr>rb_data := mem, rb_wp := wp, rb_rp := wp, rb_count := rb_size rb\<rparr>
               else rb\<lparr>rb_data := mem, rb_wp := wp, rb_count := rb_count rb + len\<rparr>))
          })"

text \<open>Returns the new buffer, the destination array and \<^verbatim>\<open>*out_len\<close>.\<close>

definition ring_buffer_fetch ::
  "ring_buffer option \<Rightarrow> bytes \<Rightarrow> nat \<Rightarrow> (ring_buffer option \<times> bytes \<times> nat) option" where
  "ring_buffer_fetch rb data len =
     (case rb of
        None \<Rightarrow> Some (None, data, 0)
      | Some rb \<Rightarrow>
          if len > rb_size rb then Some (Some rb, data, 0)
          else if rb_count rb = 0 then Some (Some rb, data, 0)
          else do {
            let real_len = (if len < rb_count rb then len else rb_count rb);
            let available = rb_size rb - rb_rp rb;
            (data, rp) \<leftarrow>
              (if real_len \<le> available then do {
                 src \<leftarrow> mem_read (rb_rp rb) real_len (rb_data rb);
                 data \<leftarrow> mem_write 0 src data;
                 Some (data, rb_rp rb + real_len)
               } else do {
                 src \<leftarrow> mem_read (rb_rp rb) available (rb_data rb);
                 data \<leftarrow> mem_write 0 src data;
                 src \<leftarrow> mem_read 0 (real_len - available) (rb_data rb);
                 data \<leftarrow> mem_write available src data;
                 Some (data, real_len - available)
               });
            let rp = (if rp = rb_size rb then 0 else rp);
            Some (Some (rb\<lparr>rb_rp := rp, rb_count := rb_count rb - real_len\<rparr>), data, real_len)
          })"

text \<open>
  Ownership of the heap cells behind a ring buffer: \<^verbatim>\<open>ring_buffer_free\<close>
  releases the data array and the structure, and nothing for \<^verbatim>\<open>NULL\<close>.
\<close>

datatype rb_cell = RB_data | RB_struct

definition ring_buffer_free :: "ring_buffer option \<Rightarrow> rb_cell list" where
  "ring_buffer_free rb = (case rb of None \<Rightarrow> [] | Some _ \<Rightarrow> [RB_data, RB_struct])"

section \<open>Abstraction and invariant\<close>

definition rb_inv :: "ring_buffer \<Rightarrow> bool" where
  "rb_inv rb \<longleftrightarrow>
     length (rb_data rb) = rb_size rb \<and>
     rb_count rb \<le> rb_size rb \<and>
     (rb_rp rb < rb_size rb \<or> rb_rp rb = 0) \<and>
     rb_wp rb = (rb_rp rb + rb_count rb) mod rb_size rb"

definition rb_contents :: "ring_buffer \<Rightarrow> bytes" where
  "rb_contents rb = take (rb_count rb) (rotate (rb_rp rb) (rb_data rb))"

text \<open>The abstract queue: at most \<open>cap\<close> bytes, the oldest dropped first.\<close>

definition queue_add :: "nat \<Rightarrow> bytes \<Rightarrow> bytes \<Rightarrow> bytes" where
  "queue_add cap q d = (if length d > cap then q else drop (length q + length d - cap) (q @ d))"

definition queue_fetch :: "nat \<Rightarrow> bytes \<Rightarrow> nat \<Rightarrow> bytes \<times> bytes" where
  "queue_fetch cap q n = (if n > cap then ([], q) else (take n q, drop n q))"

section \<open>The operations on a live buffer\<close>

lemma rb_inv_wp: "rb_inv rb \<Longrightarrow> rb_wp rb < rb_size rb \<or> rb_size rb = 0 \<and> rb_wp rb = 0"
  by (cases "rb_size rb = 0") (auto simp: rb_inv_def)

lemma length_rb_contents [simp]: "rb_inv rb \<Longrightarrow> length (rb_contents rb) = rb_count rb"
  by (simp add: rb_inv_def rb_contents_def)

text \<open>The two-part copy, seen from the write pointer.\<close>

lemma rotate_circular_copy:
  assumes "wp \<le> length m" "length d \<le> length m"
  shows "rotate wp (if length d \<le> length m - wp
                    then take wp m @ d @ drop (wp + length d) m
                    else drop (length m - wp) d @ drop (length d - (length m - wp)) (take wp m)
                         @ take (length m - wp) d)
         = d @ drop (length d) (rotate wp m)"
proof (cases "length d \<le> length m - wp")
  case True
  then show ?thesis using assms by (simp add: rotate_split min_def add.commute)
next
  case False
  let ?a = "length m - wp"
  have "rotate wp (drop ?a d @ drop (length d - ?a) (take wp m) @ take ?a d)
        = take ?a d @ drop ?a d @ drop (length d - ?a) (take wp m)"
    using False assms by (simp add: rotate_split)
  also have "\<dots> = d @ drop (length d) (rotate wp m)"
    using False assms by (simp add: rotate_split)
  finally show ?thesis using False by simp
qed

lemma rotate_advance: "rotate ((p + n) mod length xs) xs = rotate n (rotate p xs)"
  by (metis add.commute rotate_conv_mod rotate_rotate)

definition rb_copied :: "ring_buffer \<Rightarrow> bytes \<Rightarrow> bytes" where
  "rb_copied rb d =
     (let a = rb_size rb - rb_wp rb in
      if length d \<le> a then take (rb_wp rb) (rb_data rb) @ d @ drop (rb_wp rb + length d) (rb_data rb)
      else drop a d @ drop (length d - a) (take (rb_wp rb) (rb_data rb)) @ take a d)"

definition rb_after_add :: "ring_buffer \<Rightarrow> bytes \<Rightarrow> ring_buffer" where
  "rb_after_add rb d =
     (let wp = (rb_wp rb + length d) mod rb_size rb in
      if rb_count rb + length d > rb_size rb
      then rb\<lparr>rb_data := rb_copied rb d, rb_wp := wp, rb_rp := wp, rb_count := rb_size rb\<rparr>
      else rb\<lparr>rb_data := rb_copied rb d, rb_wp := wp, rb_count := rb_count rb + length d\<rparr>)"

lemma wp_wrap:
  fixes wp len sz :: nat
  assumes "wp < sz \<or> sz = 0 \<and> wp = 0" "len \<le> sz"
  shows "len \<le> sz - wp \<Longrightarrow> (if sz = wp + len then 0 else wp + len) = (wp + len) mod sz"
    and "\<not> len \<le> sz - wp \<Longrightarrow>
         (if sz = len - (sz - wp) then 0 else len - (sz - wp)) = (wp + len) mod sz"
proof -
  show "len \<le> sz - wp \<Longrightarrow> (if sz = wp + len then 0 else wp + len) = (wp + len) mod sz"
    using assms by (cases "wp + len = sz") auto
  assume "\<not> len \<le> sz - wp"
  then have "(wp + len) mod sz = wp + len - sz" "wp + len - sz < sz"
    using assms by (auto simp: le_mod_geq)
  then show "(if sz = len - (sz - wp) then 0 else len - (sz - wp)) = (wp + len) mod sz"
    using assms by auto
qed

lemma rb_add_straight:
  assumes "length (rb_data rb) = rb_size rb" "wp = rb_wp rb" "len \<le> rb_size rb - wp" "wp \<le> rb_size rb"
    and "len \<le> length data"
  shows "mem_write wp (take len data) (rb_data rb) = Some (rb_copied rb (take len data))"
  using assms by (simp add: mem_write_ok rb_copied_def Let_def)

lemma rb_add_wrapped:
  assumes "length (rb_data rb) = rb_size rb" "wp \<le> rb_size rb" "a = rb_size rb - wp" "wp = rb_wp rb"
    and "\<not> len \<le> a" "len \<le> rb_size rb" "len \<le> length data"
  shows "mem_write wp (take a data) (rb_data rb) = Some (take wp (rb_data rb) @ take a data)"
    and "mem_write 0 (take (len - a) (drop a data)) (take wp (rb_data rb) @ take a data)
         = Some (rb_copied rb (take len data))"
proof -
  have "length (take (len - a) (drop a data)) = len - a" "length (take a data) = a"
    using assms by simp_all
  then show "mem_write wp (take a data) (rb_data rb) = Some (take wp (rb_data rb) @ take a data)"
    and "mem_write 0 (take (len - a) (drop a data)) (take wp (rb_data rb) @ take a data)
         = Some (rb_copied rb (take len data))"
    using assms by (simp_all add: mem_write_def rb_copied_def Let_def drop_take min_absorb1)
qed

lemma ring_buffer_add_eq:
  assumes inv: "rb_inv rb" and len: "len \<le> rb_size rb" "len \<le> length data"
  shows "ring_buffer_add (Some rb) data len = Some (Some (rb_after_add rb (take len data)))"
proof -
  note wp = rb_inv_wp [OF inv]
  have dl: "length (rb_data rb) = rb_size rb" using inv by (simp add: rb_inv_def)
  have wple: "rb_wp rb \<le> rb_size rb" using wp by auto
  let ?a = "rb_size rb - rb_wp rb"
  have tl: "length (take len data) = len" using len by simp
  show ?thesis
  proof (cases "len \<le> ?a")
    case True
    show ?thesis
      unfolding ring_buffer_add_def rb_after_add_def tl wp_wrap(1) [OF wp len(1) True, symmetric]
      using True len rb_add_straight [OF dl refl True wple len(2)] by (simp add: Let_def)
  next
    case False
    show ?thesis
      unfolding ring_buffer_add_def rb_after_add_def tl wp_wrap(2) [OF wp len(1) False, symmetric]
      using False len rb_add_wrapped [OF dl wple refl refl False len] by (simp add: Let_def)
  qed
qed

lemma rotate_rb_copied:
  assumes "rb_inv rb" "length d \<le> rb_size rb"
  shows "rotate (rb_wp rb) (rb_copied rb d) = d @ drop (length d) (rotate (rb_wp rb) (rb_data rb))"
proof -
  have "rb_wp rb \<le> length (rb_data rb)" "length (rb_data rb) = rb_size rb"
    using rb_inv_wp [OF assms(1)] assms(1) by (auto simp: rb_inv_def)
  then show ?thesis
    using rotate_circular_copy [of "rb_wp rb" "rb_data rb" d] assms(2)
    by (auto simp: rb_copied_def Let_def split: if_splits)
qed

lemma length_rb_copied:
  assumes "rb_inv rb" "length d \<le> rb_size rb"
  shows "length (rb_copied rb d) = rb_size rb"
  using arg_cong [OF rotate_rb_copied [OF assms], of length] assms by (simp add: rb_inv_def)

lemma rb_after_add_ok:
  assumes inv: "rb_inv rb" and len: "length d \<le> rb_size rb"
  shows "rb_inv (rb_after_add rb d)"
    and "rb_size (rb_after_add rb d) = rb_size rb"
    and "rb_contents (rb_after_add rb d) = queue_add (rb_size rb) (rb_contents rb) d"
proof -
  let ?m = "rb_copied rb d" and ?n = "rb_size rb" and ?c = "rb_count rb"
  define r where "r = rotate (rb_rp rb) (rb_data rb)"
  have dl: "length (rb_data rb) = ?n" "?c \<le> ?n" "rb_wp rb = (rb_rp rb + ?c) mod ?n"
    and rp: "rb_rp rb < ?n \<or> rb_rp rb = 0"
    using inv by (auto simp: rb_inv_def)
  have rl: "length r = ?n" by (simp add: r_def dl)
  have r_wp: "rotate (rb_wp rb) (rb_data rb) = drop ?c r @ take ?c r"
    using rotate_advance [of "rb_rp rb" ?c "rb_data rb"] dl rl by (simp add: r_def [symmetric] rotate_split)
  have X: "rotate (rb_wp rb) ?m = d @ drop (length d) (drop ?c r @ take ?c r)" (is "_ = ?X")
    using rotate_rb_copied [OF inv len] r_wp by simp
  have ml: "length ?m = ?n" by (rule length_rb_copied [OF inv len])
  have q: "rb_contents rb = take ?c r" by (simp add: rb_contents_def r_def)
  show "rb_size (rb_after_add rb d) = rb_size rb" by (simp add: rb_after_add_def Let_def)
  show "rb_inv (rb_after_add rb d)"
    using dl rp ml len
    by (cases "?n = 0") (auto simp: rb_after_add_def rb_inv_def Let_def mod_simps ac_simps)
  show "rb_contents (rb_after_add rb d) = queue_add ?n (rb_contents rb) d"
  proof (cases "?c + length d > ?n")
    case True
    have "rotate ((rb_wp rb + length d) mod ?n) ?m = rotate (length d) ?X"
      using rotate_advance [of "rb_wp rb" "length d" ?m] ml X by simp
    also have "\<dots> = drop (?c + length d - ?n) (take ?c r) @ d"
      using True len dl rl by (simp add: rotate_split add.commute)
    finally show ?thesis using True len dl rl ml
      by (simp add: rb_after_add_def rb_contents_def Let_def queue_add_def r_def [symmetric])
  next
    case False
    have "(rb_wp rb + (?n - ?c)) mod ?n = rb_rp rb mod ?n"
      using mod_add_left_eq [of "rb_rp rb + ?c" ?n "?n - ?c"] dl by simp
    then have "rotate (rb_rp rb) ?m = rotate (?n - ?c) ?X"
      using rotate_advance [of "rb_wp rb" "?n - ?c" ?m] ml X rotate_conv_mod [of "rb_rp rb" ?m] by simp
    also have "\<dots> = take ?c r @ d @ drop (?c + length d) r"
      using False dl rl by (simp add: rotate_split add.commute)
    finally show ?thesis using False len dl rl ml
      by (simp add: rb_after_add_def rb_contents_def Let_def queue_add_def r_def [symmetric])
  qed
qed

lemma ring_buffer_fetch_eq:
  assumes inv: "rb_inv rb" and n: "n \<le> rb_size rb" "n \<le> length dst" and k: "k = min n (rb_count rb)"
  shows "ring_buffer_fetch (Some rb) dst n =
     Some (Some (rb\<lparr>rb_rp := (rb_rp rb + k) mod rb_size rb, rb_count := rb_count rb - k\<rparr>),
           take k (rb_contents rb) @ drop k dst, k)"
proof -
  have dl: "length (rb_data rb) = rb_size rb" "rb_count rb \<le> rb_size rb"
    and rp: "rb_rp rb < rb_size rb \<or> rb_rp rb = 0"
    using inv by (auto simp: rb_inv_def)
  let ?a = "rb_size rb - rb_rp rb"
  have rl: "(if n < rb_count rb then n else rb_count rb) = k" using k by auto
  show ?thesis
  proof (cases "rb_count rb = 0")
    case True
    then have "k = 0" using k by simp
    moreover have "rb_rp rb mod rb_size rb = rb_rp rb" using rp by auto
    ultimately show ?thesis using True n by (simp add: ring_buffer_fetch_def)
  next
    case False
    have rp': "rb_rp rb < rb_size rb" and kn: "k \<le> rb_size rb" "k \<le> length dst"
      using rp dl False k n by auto
    have cont: "take k (rb_contents rb) = take k (drop (rb_rp rb) (rb_data rb)) @ take (k - ?a) (rb_data rb)"
    proof -
      have "k \<le> rb_count rb" "k - ?a \<le> rb_rp rb" using k kn rp' by auto
      then have "take k (rb_contents rb) = take k (rotate (rb_rp rb) (rb_data rb))"
        by (simp add: rb_contents_def min_absorb1)
      then show ?thesis
        using rp' dl \<open>k - ?a \<le> rb_rp rb\<close> by (simp add: rotate_split min_absorb1)
    qed
    show ?thesis
    proof (cases "k \<le> ?a")
      case straight: True
      have w: "mem_write 0 (take k (drop (rb_rp rb) (rb_data rb))) dst
            = Some (take k (rb_contents rb) @ drop k dst)"
        using straight kn dl rp' cont by (simp add: mem_write_def)
      show ?thesis
        unfolding ring_buffer_fetch_def
          wp_wrap(1) [OF disjI1 [OF rp'] kn(1) straight, symmetric]
        using False straight n w dl rp' rl by (auto simp: Let_def)
    next
      case wrapped: False
      let ?d = "drop (rb_rp rb) (rb_data rb) @ drop ?a dst"
      have w: "mem_write 0 (drop (rb_rp rb) (rb_data rb)) dst = Some ?d"
        "mem_write ?a (take (k - ?a) (rb_data rb)) ?d = Some (take k (rb_contents rb) @ drop k dst)"
        using wrapped kn dl rp' cont by (simp_all add: mem_write_def min_absorb1)
      show ?thesis
        unfolding ring_buffer_fetch_def
          wp_wrap(2) [OF disjI1 [OF rp'] kn(1) wrapped, symmetric]
        using False wrapped n w dl rp' rl by (auto simp: Let_def)
    qed
  qed
qed

lemma rb_after_fetch_ok:
  assumes inv: "rb_inv rb" and k: "k \<le> rb_count rb"
  defines "rb' \<equiv> rb\<lparr>rb_rp := (rb_rp rb + k) mod rb_size rb, rb_count := rb_count rb - k\<rparr>"
  shows "rb_inv rb'" and "rb_size rb' = rb_size rb" and "rb_contents rb' = drop k (rb_contents rb)"
proof -
  have dl: "length (rb_data rb) = rb_size rb" "rb_count rb \<le> rb_size rb"
    "rb_wp rb = (rb_rp rb + rb_count rb) mod rb_size rb"
    using inv by (auto simp: rb_inv_def)
  show "rb_size rb' = rb_size rb" by (simp add: rb'_def)
  have "rb_wp rb = ((rb_rp rb + k) mod rb_size rb + (rb_count rb - k)) mod rb_size rb"
    using mod_add_left_eq [of "rb_rp rb + k" "rb_size rb" "rb_count rb - k"] k dl by simp
  moreover have "(rb_rp rb + k) mod rb_size rb < rb_size rb \<or> (rb_rp rb + k) mod rb_size rb = 0"
    using inv k by (cases "rb_size rb = 0") (auto simp: rb_inv_def)
  ultimately show "rb_inv rb'"
    using dl by (simp add: rb_inv_def rb'_def)
  have "rotate ((rb_rp rb + k) mod rb_size rb) (rb_data rb) = rotate k (rotate (rb_rp rb) (rb_data rb))"
    using rotate_advance [of "rb_rp rb" k "rb_data rb"] dl by simp
  also have "\<dots> = drop k (rotate (rb_rp rb) (rb_data rb)) @ take k (rotate (rb_rp rb) (rb_data rb))"
    using k dl by (intro rotate_split) simp
  finally show "rb_contents rb' = drop k (rb_contents rb)"
    using k dl by (simp add: rb'_def rb_contents_def drop_take)
qed

lemmas rb_step_facts = ring_buffer_add_eq rb_after_add_ok ring_buffer_fetch_eq rb_after_fetch_ok

section \<open>The queue interface\<close>

text \<open>
  What the clients of the buffer rely on: the receive path of the mirror and the
  log front end add, the transmit path and the log thread fetch.  A fetch gets a
  destination array and reports how many bytes it filled.
\<close>

locale byte_fifo =
  fixes inv :: "'s \<Rightarrow> bool"
    and contents :: "'s \<Rightarrow> bytes"
    and cap :: "'s \<Rightarrow> nat"
    and add :: "'s \<Rightarrow> bytes \<Rightarrow> nat \<Rightarrow> 's option"
    and fetch :: "'s \<Rightarrow> bytes \<Rightarrow> nat \<Rightarrow> ('s \<times> bytes \<times> nat) option"
  assumes add_law:
      "inv s \<Longrightarrow> n \<le> length d \<Longrightarrow>
       \<exists>s'. add s d n = Some s' \<and> inv s' \<and> cap s' = cap s \<and>
            contents s' = queue_add (cap s) (contents s) (take n d)"
    and fetch_law:
      "inv s \<Longrightarrow> n \<le> length dst \<Longrightarrow> queue_fetch (cap s) (contents s) n = (out, rest) \<Longrightarrow>
       \<exists>s'. fetch s dst n = Some (s', out @ drop (length out) dst, length out) \<and>
            inv s' \<and> cap s' = cap s \<and> contents s' = rest"
    and bounded: "inv s \<Longrightarrow> length (contents s) \<le> cap s"

text \<open>A sequence of operations as the mutex orders them.\<close>

datatype fifo_op = Add bytes | Fetch nat

primrec fifo_run ::
  "('s \<Rightarrow> bytes \<Rightarrow> nat \<Rightarrow> 's option) \<Rightarrow> ('s \<Rightarrow> bytes \<Rightarrow> nat \<Rightarrow> ('s \<times> bytes \<times> nat) option) \<Rightarrow>
   fifo_op list \<Rightarrow> 's \<Rightarrow> (bytes list \<times> 's) option" where
  "fifo_run add fetch [] s = Some ([], s)"
| "fifo_run add fetch (op # ops) s =
     (case op of
        Add d \<Rightarrow> Option.bind (add s d (length d)) (fifo_run add fetch ops)
      | Fetch n \<Rightarrow> do {
          (s, dst, l) \<leftarrow> fetch s (replicate n 0) n;
          (outs, s) \<leftarrow> fifo_run add fetch ops s;
          Some (take l dst # outs, s)
        })"

primrec queue_run :: "nat \<Rightarrow> fifo_op list \<Rightarrow> bytes \<Rightarrow> bytes list \<times> bytes" where
  "queue_run cap [] q = ([], q)"
| "queue_run cap (op # ops) q =
     (case op of
        Add d \<Rightarrow> queue_run cap ops (queue_add cap q d)
      | Fetch n \<Rightarrow> (let (out, q) = queue_fetch cap q n; (outs, q) = queue_run cap ops q in (out # outs, q)))"

context byte_fifo
begin

lemma run_refines:
  assumes "inv s" "queue_run (cap s) ops (contents s) = (outs, q)"
  shows "\<exists>s'. fifo_run add fetch ops s = Some (outs, s') \<and> inv s' \<and> contents s' = q \<and> cap s' = cap s"
  using assms
proof (induction ops arbitrary: s outs q)
  case (Cons op ops)
  show ?case
  proof (cases op)
    case (Add d)
    then show ?thesis using Cons add_law [of s "length d" d] by fastforce
  next
    case (Fetch n)
    obtain out rest where f: "queue_fetch (cap s) (contents s) n = (out, rest)" by fastforce
    obtain outs' q' where r: "queue_run (cap s) ops rest = (outs', q')" by fastforce
    have "outs = out # outs'" "q = q'" using Cons.prems Fetch f r by auto
    then show ?thesis
      using Fetch Cons.IH [of _ outs' q'] Cons.prems(1) r fetch_law [OF Cons.prems(1) _ f, of "replicate n 0"]
      by fastforce
  qed
qed auto

lemma adds_no_overflow:
  assumes "inv s" "length (contents s) + sum_list (map length ds) \<le> cap s"
  shows "\<exists>s'. fifo_run add fetch (map Add ds) s = Some ([], s') \<and> inv s' \<and> cap s' = cap s \<and>
              contents s' = contents s @ concat ds"
  using assms
proof (induction ds arbitrary: s)
  case (Cons d ds)
  obtain s1 where s1: "add s d (length d) = Some s1" "inv s1" "cap s1 = cap s"
    "contents s1 = contents s @ d"
    using add_law [OF Cons.prems(1), of "length d" d] Cons.prems(2) by (auto simp: queue_add_def)
  then show ?case using Cons.IH [of s1] Cons.prems(2) by auto
qed auto

lemma fetch_all:
  assumes "inv s" "n = length (contents s)" "n \<le> length dst"
  shows "\<exists>s'. fetch s dst n = Some (s', contents s @ drop n dst, n) \<and> inv s' \<and> cap s' = cap s \<and>
              contents s' = []"
  using fetch_law [of s n dst "contents s" "[]"] assms bounded [of s] by (auto simp: queue_fetch_def)

end

text \<open>The operations on an allocated buffer, in the shape of the interface.\<close>

definition rb_add :: "ring_buffer \<Rightarrow> bytes \<Rightarrow> nat \<Rightarrow> ring_buffer option" where
  "rb_add rb d n = Option.bind (ring_buffer_add (Some rb) d n) id"

definition rb_fetch :: "ring_buffer \<Rightarrow> bytes \<Rightarrow> nat \<Rightarrow> (ring_buffer \<times> bytes \<times> nat) option" where
  "rb_fetch rb dst n =
     do { (rb, dst, l) \<leftarrow> ring_buffer_fetch (Some rb) dst n; rb \<leftarrow> rb; Some (rb, dst, l) }"

lemma rb_add_law:
  assumes "rb_inv s" "n \<le> length d"
  shows "\<exists>s'. rb_add s d n = Some s' \<and> rb_inv s' \<and> rb_size s' = rb_size s \<and>
              rb_contents s' = queue_add (rb_size s) (rb_contents s) (take n d)"
proof (cases "n \<le> rb_size s")
  case True
  then show ?thesis
    using ring_buffer_add_eq [OF assms(1) True assms(2)] rb_after_add_ok [OF assms(1), of "take n d"] assms
    by (simp add: rb_add_def)
next
  case False
  then show ?thesis using assms by (simp add: rb_add_def ring_buffer_add_def queue_add_def)
qed

lemma rb_fetch_law:
  assumes "rb_inv s" "n \<le> length dst" "queue_fetch (rb_size s) (rb_contents s) n = (out, rest)"
  shows "\<exists>s'. rb_fetch s dst n = Some (s', out @ drop (length out) dst, length out) \<and>
              rb_inv s' \<and> rb_size s' = rb_size s \<and> rb_contents s' = rest"
proof (cases "n \<le> rb_size s")
  case True
  let ?k = "min n (rb_count s)"
  have "out = take ?k (rb_contents s)" "rest = drop ?k (rb_contents s)" "length out = ?k"
    using assms True by (auto simp: queue_fetch_def min_def)
  then show ?thesis
    using ring_buffer_fetch_eq [OF assms(1) True assms(2) refl] rb_after_fetch_ok [OF assms(1), of ?k]
    by (simp add: rb_fetch_def)
next
  case False
  then show ?thesis using assms by (auto simp: rb_fetch_def ring_buffer_fetch_def queue_fetch_def)
qed

lemma rb_bounded: "rb_inv s \<Longrightarrow> length (rb_contents s) \<le> rb_size s"
  by (simp add: rb_inv_def)

interpretation rbq: byte_fifo rb_inv rb_contents rb_size rb_add rb_fetch
  by unfold_locales (fact rb_add_law rb_fetch_law rb_bounded)+

lemma rb_allocate_ok:
  "ring_buffer_allocate True True n = Some rb \<Longrightarrow> rb_inv rb \<and> rb_contents rb = [] \<and> rb_size rb = n"
  by (auto simp: ring_buffer_allocate_def rb_inv_def rb_contents_def)

section \<open>Properties\<close>

text \<open>C3. Any sequence of adds and fetches on a freshly allocated ring buffer of
  any size runs without an out-of-bounds access, and every fetch returns exactly
  the bytes a bounded queue returns that drops its oldest bytes on overflow.\<close>

theorem ring_buffer_refines_queue:
  assumes "ring_buffer_allocate True True n = Some rb"
  shows "\<exists>rb'. fifo_run rb_add rb_fetch ops rb = Some (fst (queue_run n ops []), rb') \<and>
               rb_contents rb' = snd (queue_run n ops [])"
  using rbq.run_refines [of rb ops] rb_allocate_ok [OF assms] by (metis prod.collapse)

theorem ring_buffer_refines_queue_witness:
  "\<exists>rb rb'. ring_buffer_allocate True True 3 = Some rb \<and>
     fifo_run rb_add rb_fetch [Add [1, 2], Add [3, 4], Fetch 2] rb = Some ([[2, 3]], rb') \<and>
     rb_contents rb' = [4]"
  using ring_buffer_refines_queue [of 3 _ "[Add [1, 2], Add [3, 4], Fetch 2]"]
  by (auto simp: ring_buffer_allocate_def queue_add_def queue_fetch_def)

end
