(* ===== verification/TB_Double.thy ===== *)
theory TB_Double
  imports TB_Prelude Complex_Main "HOL-Library.Log_Nat"
begin

text \<open>
  The \<^verbatim>\<open>double\<close> values of the statistics: IEEE 754 binary64 with rounding to
  nearest, ties to even, as rationals.  Sums and averages of 64-bit counters stay
  between \<open>2\<^sup>-\<^sup>6\<^sup>4\<close> and \<open>2\<^sup>1\<^sup>2\<^sup>8\<close>, far from the subnormal and overflow ranges, so
  only the 53-bit significand matters.
\<close>

section \<open>Model\<close>

type_synonym double = rat

definition round_half_even :: "rat \<Rightarrow> int" where
  "round_half_even x =
     (let f = \<lfloor>x\<rfloor>; d = x - of_int f
      in if d < 1 / 2 then f else if d > 1 / 2 then f + 1 else if even f then f else f + 1)"

text \<open>The binary exponent: \<open>2 powi e \<le> \<bar>x\<bar> < 2 powi (e + 1)\<close>.\<close>

definition binexp :: "rat \<Rightarrow> int" where
  "binexp x =
     (let (p, q) = quotient_of \<bar>x\<bar>;
          e = int (floorlog 2 (nat p)) - int (floorlog 2 (nat q))
      in if \<bar>x\<bar> \<ge> 2 powi e then e else e - 1)"

definition rnd :: "rat \<Rightarrow> double" where
  "rnd x = (if x = 0 then 0 else of_int (round_half_even (x / 2 powi (binexp x - 52))) * 2 powi (binexp x - 52))"

definition dadd :: "double \<Rightarrow> double \<Rightarrow> double" where "dadd x y = rnd (x + y)"
definition ddiv :: "double \<Rightarrow> double \<Rightarrow> double" where "ddiv x y = rnd (x / y)"
definition u64_to_double :: "u64 \<Rightarrow> double" where "u64_to_double w = rnd (of_nat (unat w))"
definition int_to_double :: "int \<Rightarrow> double" where "int_to_double i = rnd (of_int i)"

section \<open>Exactness on small integers\<close>

lemma round_half_even_of_int [simp]: "round_half_even (of_int k) = k"
  by (simp add: round_half_even_def)

lemma floorlog2_bounds:
  assumes "0 < n"
  shows "2 ^ (floorlog 2 n - 1) \<le> n" "n < 2 ^ floorlog 2 n" "0 < floorlog 2 n"
proof -
  have "2 ^ (floorlog 2 n - 1) \<le> n \<and> n < 2 ^ floorlog 2 n"
    using floorlog_bounds [of n 2] assms by simp
  then show "2 ^ (floorlog 2 n - 1) \<le> n" "n < 2 ^ floorlog 2 n" by blast+
  show "0 < floorlog 2 n" using assms by (simp add: floorlog_def)
qed

lemma binexp_of_int:
  assumes "n \<noteq> 0"
  shows "0 \<le> binexp (of_int n)" "2 ^ nat (binexp (of_int n)) \<le> \<bar>n\<bar>"
proof -
  let ?m = "nat \<bar>n\<bar>"
  define l where "l = floorlog 2 ?m"
  have "0 < ?m" using assms by simp
  note l = floorlog2_bounds(3,1) [OF this, folded l_def]
  have "quotient_of (of_int \<bar>n\<bar>) = (\<bar>n\<bar>, 1)" by (rule quotient_of_rat_of_int)
  then have "quotient_of \<bar>of_int n :: rat\<bar> = (\<bar>n\<bar>, 1)" by simp
  moreover have "floorlog 2 (nat 1) = 1" by (simp add: floorlog_def)
  ultimately have b: "binexp (of_int n) = (if \<bar>of_int n :: rat\<bar> \<ge> 2 powi (int l - 1) then int l - 1 else int l - 2)"
    by (simp add: binexp_def l_def)
  have "(2 :: rat) powi (int l - 1) = of_nat (2 ^ (l - 1))"
    using l(1) by (simp add: power_int_def nat_diff_distrib)
  moreover have "(of_nat (2 ^ (l - 1)) :: rat) \<le> of_nat ?m" using l(2) by (metis of_nat_le_iff)
  ultimately have "binexp (of_int n) = int l - 1" using b by simp
  then show "0 \<le> binexp (of_int n)" "2 ^ nat (binexp (of_int n)) \<le> \<bar>n\<bar>"
    using l by (simp_all add: nat_diff_distrib le_nat_iff)
qed

lemma rnd_of_int:
  assumes "\<bar>n\<bar> \<le> 2 ^ 53"
  shows "rnd (of_int n) = of_int n"
proof (cases "n = 0")
  case False
  define e where "e = binexp (of_int n)"
  note b = binexp_of_int [OF False, folded e_def]
  have "(2 :: int) ^ nat e \<le> 2 ^ 53" using b(2) assms by linarith
  then have e53: "nat e \<le> 53" by (rule power_le_imp_le_exp [rotated]) simp
  have "\<exists>k. of_int n / (2 :: rat) powi (e - 52) = of_int k"
  proof (cases "nat e = 53")
    case True
    then have "\<bar>n\<bar> = 2 ^ 53" "e = 53" using b assms by simp_all
    then have "n = 2 * 2 ^ 52 \<or> n = 2 * (- (2 ^ 52))"
      by (auto simp: abs_if split: if_splits)
    then have "of_int n / (2 :: rat) powi (e - 52) = of_int (n div 2)"
      using \<open>e = 53\<close> by auto
    then show ?thesis by blast
  next
    case False
    then have "e - 52 \<le> 0" using e53 b(1) by linarith
    then have "of_int n / (2 :: rat) powi (e - 52) = of_int (n * 2 ^ nat (52 - e))"
      by (auto simp: power_int_def field_simps)
    then show ?thesis by blast
  qed
  then obtain k where k: "of_int n / (2 :: rat) powi (e - 52) = of_int k" by blast
  then have n: "of_int k * (2 :: rat) powi (e - 52) = of_int n" by (simp add: field_simps)
  have "rnd (of_int n) = of_int (round_half_even (of_int n / 2 powi (e - 52))) * 2 powi (e - 52)"
    using False by (simp add: rnd_def e_def)
  then show ?thesis unfolding k round_half_even_of_int n .
qed (simp add: rnd_def)

lemma rnd_of_nat:
  assumes "n \<le> 2 ^ 53"
  shows "rnd (of_nat n) = of_nat n"
proof -
  have "int n \<le> int (2 ^ 53)" using assms by (rule of_nat_mono)
  then have "\<bar>int n\<bar> \<le> 2 ^ 53" by simp
  then have "rnd (of_int (int n)) = of_int (int n)" by (rule rnd_of_int)
  then show ?thesis by simp
qed

lemma u64_to_double_exact: "unat w \<le> 2 ^ 53 \<Longrightarrow> u64_to_double w = of_nat (unat w)"
  by (simp only: u64_to_double_def rnd_of_nat)

lemma dadd_exact: "m + n \<le> 2 ^ 53 \<Longrightarrow> dadd (of_nat m) (of_nat n) = of_nat (m + n)"
  unfolding dadd_def of_nat_add [symmetric] by (rule rnd_of_nat)

lemma dadd_int_exact: "\<bar>m + n\<bar> \<le> 2 ^ 53 \<Longrightarrow> dadd (of_int m) (of_int n) = of_int (m + n)"
  unfolding dadd_def of_int_add [symmetric] by (rule rnd_of_int)

end
