(* ===== verification/TB_Histogram.thy ===== *)
theory TB_Histogram
  imports TB_Time
begin

text \<open>
  The round-trip time histograms of \<^verbatim>\<open>src/src/hist.c\<close>: one bucket per
  microsecond of the configured range, an underflow and an overflow counter, for
  each traffic class.  The file written at the end is a list of lines.
\<close>

section \<open>Model\<close>

record histogram =
  hg_data :: "u64 list"
  hg_min :: u64
  hg_max :: u64
  hg_underflow :: u64
  hg_overflow :: u64

type_synonym histograms = "stat_frame_type \<Rightarrow> histogram"

text \<open>
  \<open>alloc_ok t\<close> and \<open>fopen_ok\<close> are the results of the allocation for class \<open>t\<close> and
  of opening the file.  An allocation error leaves the later classes untouched.
\<close>

definition histogram_setup :: "application_config \<Rightarrow> histogram \<Rightarrow> histogram" where
  "histogram_setup app h =
     (let mn = stats_histogram_minimum_ns app div 1000;
          mx = stats_histogram_maximum_ns app div 1000
      in h\<lparr>hg_min := mn, hg_max := mx, hg_data := replicate (unat (mx - mn)) 0\<rparr>)"

fun histogram_init_loop ::
  "application_config \<Rightarrow> (stat_frame_type \<Rightarrow> bool) \<Rightarrow> stat_frame_type list \<Rightarrow> histograms \<Rightarrow>
   bool \<times> histograms" where
  "histogram_init_loop app alloc_ok [] H = (True, H)"
| "histogram_init_loop app alloc_ok (t # ts) H =
     (if alloc_ok t then histogram_init_loop app alloc_ok ts (H(t := histogram_setup app (H t)))
      else (False, H(t := (histogram_setup app (H t))\<lparr>hg_data := []\<rparr>)))"

definition histogram_init ::
  "application_config \<Rightarrow> (stat_frame_type \<Rightarrow> bool) \<Rightarrow> bool \<Rightarrow> histograms \<Rightarrow> errno option \<times> histograms" where
  "histogram_init app alloc_ok fopen_ok H =
     (if \<not> stats_histogram_enabled app then (None, H)
      else case histogram_init_loop app alloc_ok frame_types H of
             (False, H) \<Rightarrow> (Some ENOMEM, H)
           | (True, H) \<Rightarrow> (if fopen_ok then (None, H) else (Some EINVAL, H)))"

definition histogram_free :: "application_config \<Rightarrow> stat_frame_type list" where
  "histogram_free app = (if \<not> stats_histogram_enabled app then [] else frame_types)"

definition histogram_update :: "stat_frame_type \<Rightarrow> u64 \<Rightarrow> histograms \<Rightarrow> histograms option" where
  "histogram_update t rtt H =
     (let h = H t; sample = rtt - hg_min h
      in if rtt \<ge> hg_max h then Some (H(t := h\<lparr>hg_overflow := hg_overflow h + 1\<rparr>))
         else if rtt < hg_min h then Some (H(t := h\<lparr>hg_underflow := hg_underflow h + 1\<rparr>))
         else if unat sample < length (hg_data h)
         then Some (H(t := h\<lparr>hg_data := (hg_data h)[unat sample := hg_data h ! unat sample + 1]\<rparr>))
         else None)"

datatype hist_line =
    Hist_header "string list"
  | Hist_row nat "u64 list"
  | Hist_overflow "u64 list"
  | Hist_underflow "u64 list"

definition hist_bucket :: "histogram \<Rightarrow> nat \<Rightarrow> u64 option" where
  "hist_bucket h rtt =
     (let i = unat (of_nat rtt - hg_min h) in if i < length (hg_data h) then Some (hg_data h ! i) else None)"

fun hist_rows :: "histograms \<Rightarrow> nat list \<Rightarrow> hist_line list option" where
  "hist_rows H [] = Some []"
| "hist_rows H (rtt # rs) = do {
     cells \<leftarrow> those (map (\<lambda>t. hist_bucket (H t) rtt) frame_types);
     rest \<leftarrow> hist_rows H rs;
     Some (if list_ex (\<lambda>c. c \<noteq> 0) cells then Hist_row rtt cells # rest else rest)
   }"

text \<open>Version and kernel information lines are left out.\<close>

definition histogram_write ::
  "application_config \<Rightarrow> (stat_frame_type \<Rightarrow> string) \<Rightarrow> histograms \<Rightarrow> hist_line list option" where
  "histogram_write app names H =
     (if \<not> stats_histogram_enabled app then Some []
      else do {
        rows \<leftarrow> hist_rows H [unat (hg_min (H TSN_HIGH_FRAME_TYPE))..<unat (hg_max (H TSN_HIGH_FRAME_TYPE))];
        Some (Hist_header (map names frame_types) # rows @
              [Hist_overflow (map (\<lambda>t. hg_overflow (H t)) frame_types),
               Hist_underflow (map (\<lambda>t. hg_underflow (H t)) frame_types)])
      })"

section \<open>Lemmas\<close>

definition hist_inv :: "application_config \<Rightarrow> histogram \<Rightarrow> bool" where
  "hist_inv app h \<longleftrightarrow>
     hg_min h \<le> hg_max h \<and>
     hg_min h = stats_histogram_minimum_ns app div 1000 \<and>
     hg_max h = stats_histogram_maximum_ns app div 1000 \<and>
     length (hg_data h) = unat (hg_max h - hg_min h)"

text \<open>What a sequence of samples of one class leaves in a fresh histogram.\<close>

definition hist_counts :: "histogram \<Rightarrow> u64 list \<Rightarrow> bool" where
  "hist_counts h rs \<longleftrightarrow>
     hg_overflow h = of_nat (length (filter (\<lambda>r. r \<ge> hg_max h) rs)) \<and>
     hg_underflow h = of_nat (length (filter (\<lambda>r. r < hg_max h \<and> r < hg_min h) rs)) \<and>
     (\<forall>i < length (hg_data h). hg_data h ! i =
        of_nat (count_list rs (hg_min h + of_nat i)))"

fun histogram_updates :: "stat_frame_type \<Rightarrow> u64 list \<Rightarrow> histograms \<Rightarrow> histograms option" where
  "histogram_updates t [] H = Some H"
| "histogram_updates t (r # rs) H = Option.bind (histogram_update t r H) (histogram_updates t rs)"

lemma bucket_value:
  fixes mn mx :: u64
  assumes "mn \<le> mx" "i < unat (mx - mn)"
  shows "unat (mn + of_nat i) = unat mn + i" "unat mn + i < unat mx"
proof -
  have "unat (mx - mn) = unat mx - unat mn" using assms(1) by (rule unat_sub)
  then show lt: "unat mn + i < unat mx" using assms by simp
  have "unat mx < 2 ^ 64" using unsigned_less [of mx, where ?'a = nat] by simp
  then have "i < 2 ^ 64" "unat mn + i < 2 ^ 64" using lt by simp_all
  then show "unat (mn + of_nat i) = unat mn + i"
    using unat_of_nat_small(3) [of i] by (simp add: unat_plus_if')
qed

lemma sample_index:
  fixes r mn mx :: u64
  assumes "\<not> r \<ge> mx" "\<not> r < mn"
  shows "unat (r - mn) < unat (mx - mn)" "mn + of_nat (unat (r - mn)) = r"
  using assms by (simp_all add: word_le_nat_alt word_less_nat_alt unat_sub_if')

lemma hist_update_ok:
  assumes inv: "hist_inv app (H t)" and cnt: "hist_counts (H t) rs"
  shows "\<exists>H'. histogram_update t r H = Some H' \<and> hist_inv app (H' t) \<and> hist_counts (H' t) (rs @ [r]) \<and>
              (\<forall>u. u \<noteq> t \<longrightarrow> H' u = H u)"
proof -
  let ?h = "H t"
  note bv = bucket_value [of "hg_min ?h" "hg_max ?h"]
  have mm: "hg_min ?h \<le> hg_max ?h" and len: "length (hg_data ?h) = unat (hg_max ?h - hg_min ?h)"
    using inv by (auto simp: hist_inv_def)
  consider "r \<ge> hg_max ?h" | "\<not> r \<ge> hg_max ?h" "r < hg_min ?h" | "\<not> r \<ge> hg_max ?h" "\<not> r < hg_min ?h"
    by blast
  then show ?thesis
  proof cases
    case 1
    have "hg_min ?h + of_nat i \<noteq> r" if "i < length (hg_data ?h)" for i
      using bv [OF mm, of i] that len 1 by (auto simp: word_le_nat_alt)
    then show ?thesis using inv cnt 1
      by (auto simp: histogram_update_def Let_def hist_inv_def hist_counts_def)
  next
    case 2
    have "hg_min ?h + of_nat i \<noteq> r" if "i < length (hg_data ?h)" for i
      using bv [OF mm, of i] that len 2 by (auto simp: word_less_nat_alt)
    then show ?thesis using inv cnt 2
      by (auto simp: histogram_update_def Let_def hist_inv_def hist_counts_def)
  next
    case 3
    let ?j = "unat (r - hg_min ?h)"
    have j: "?j < length (hg_data ?h)" "hg_min ?h + of_nat ?j = r"
      using sample_index [OF 3] len by simp_all
    have eq: "hg_min ?h + of_nat i = r \<longleftrightarrow> i = ?j" if "i < length (hg_data ?h)" for i
      using bv(1) [OF mm, of i] bv(1) [OF mm, of ?j] that j len by (metis add_left_cancel)
    have "(hg_data ?h)[?j := hg_data ?h ! ?j + 1] ! i = of_nat (count_list (rs @ [r]) (hg_min ?h + of_nat i))"
      if "i < length (hg_data ?h)" for i
      using eq [OF that] that j cnt by (auto simp: hist_counts_def nth_list_update)
    then show ?thesis using inv cnt 3 j
      by (auto simp: histogram_update_def Let_def hist_inv_def hist_counts_def)
  qed
qed

lemma hist_updates_ok:
  assumes "hist_inv app (H t)" "hist_counts (H t) rs"
  shows "\<exists>H'. histogram_updates t qs H = Some H' \<and> hist_inv app (H' t) \<and> hist_counts (H' t) (rs @ qs) \<and>
              (\<forall>u. u \<noteq> t \<longrightarrow> H' u = H u)"
  using assms
proof (induction qs arbitrary: H rs)
  case (Cons q qs)
  obtain H1 where H1: "histogram_update t q H = Some H1" "hist_inv app (H1 t)"
    "hist_counts (H1 t) (rs @ [q])" "\<forall>u. u \<noteq> t \<longrightarrow> H1 u = H u"
    using hist_update_ok [of app H t rs q] Cons.prems by blast
  then show ?case using Cons.IH [of H1 "rs @ [q]"] by auto
qed auto

lemma hist_init_ok:
  assumes "stats_histogram_minimum_ns app \<le> stats_histogram_maximum_ns app"
    and "hg_overflow h = 0" "hg_underflow h = 0"
  shows "hist_inv app (histogram_setup app h) \<and> hist_counts (histogram_setup app h) []"
proof -
  have "stats_histogram_minimum_ns app div 1000 \<le> stats_histogram_maximum_ns app div 1000"
    using assms(1) by (simp add: word_le_nat_alt unat_div_distrib div_le_mono)
  then show ?thesis using assms(2,3)
    by (simp add: hist_inv_def hist_counts_def histogram_setup_def Let_def)
qed

lemma histogram_init_loop_ok:
  "\<forall>t \<in> set ts. ok t \<Longrightarrow> distinct ts \<Longrightarrow>
   histogram_init_loop app ok ts H = (True, \<lambda>t. if t \<in> set ts then histogram_setup app (H t) else H t)"
  by (induction ts arbitrary: H) (auto simp: fun_eq_iff)

section \<open>Properties\<close>

text \<open>C19. With histograms enabled and a minimum not above the maximum, initialisation
  followed by any sequence of samples of a traffic class stays inside the allocated
  buckets, and in the end each bucket holds the number of samples of its
  microsecond, the overflow counter the number of samples at or above the maximum
  and the underflow counter the number below the minimum.\<close>

theorem histogram_exact:
  assumes "stats_histogram_enabled app"
    and "stats_histogram_minimum_ns app \<le> stats_histogram_maximum_ns app"
    and "H = (\<lambda>_. \<lparr>hg_data = [], hg_min = 0, hg_max = 0, hg_underflow = 0, hg_overflow = 0\<rparr>)"
    and "t \<noteq> NUM_FRAME_TYPES"
  shows "\<exists>H1 H2. histogram_init app (\<lambda>_. True) True H = (None, H1) \<and>
           histogram_updates t rs H1 = Some H2 \<and>
           hg_overflow (H2 t) = of_nat (length (filter (\<lambda>r. r \<ge> hg_max (H2 t)) rs)) \<and>
           hg_underflow (H2 t) = of_nat (length (filter (\<lambda>r. r < hg_min (H2 t)) rs)) \<and>
           (\<forall>r. hg_min (H2 t) \<le> r \<and> r < hg_max (H2 t) \<longrightarrow>
                hist_bucket (H2 t) (unat r) = Some (of_nat (count_list rs r)))"
proof -
  obtain H1 where H1: "histogram_init app (\<lambda>_. True) True H = (None, H1)" "H1 t = histogram_setup app (H t)"
    using histogram_init_loop_ok [of frame_types "\<lambda>_. True" app H] frame_types_order
      frame_types_complete [of t] assms(1,4) by (auto simp: histogram_init_def)
  obtain H2 where H2: "histogram_updates t rs H1 = Some H2" "hist_inv app (H2 t)" "hist_counts (H2 t) rs"
    using hist_updates_ok [of app H1 t "[]" rs] hist_init_ok [OF assms(2), of "H t"] H1 assms(3) by auto
  have mm: "hg_min (H2 t) \<le> hg_max (H2 t)" using H2(2) unfolding hist_inv_def by blast
  then have "filter (\<lambda>r. r < hg_max (H2 t) \<and> r < hg_min (H2 t)) rs = filter (\<lambda>r. r < hg_min (H2 t)) rs"
    by (intro filter_cong refl) (auto intro: less_le_trans)
  moreover have "hist_bucket (H2 t) (unat r) = Some (of_nat (count_list rs r))"
    if "hg_min (H2 t) \<le> r" "r < hg_max (H2 t)" for r
    using sample_index [of "hg_max (H2 t)" r "hg_min (H2 t)"] that H2(2,3)
    by (auto simp: hist_bucket_def Let_def hist_inv_def hist_counts_def)
  ultimately show ?thesis using H1(1) H2(1,3) by (auto simp: hist_counts_def)
qed

definition demo_hist_config :: application_config where
  "demo_hist_config = zero_app_config\<lparr>stats_histogram_enabled := True,
     stats_histogram_minimum_ns := 1000, stats_histogram_maximum_ns := 9000\<rparr>"

theorem histogram_exact_witness:
  "\<exists>H1 H2. histogram_init demo_hist_config (\<lambda>_. True) True
       (\<lambda>_. \<lparr>hg_data = [], hg_min = 0, hg_max = 0, hg_underflow = 0, hg_overflow = 0\<rparr>) = (None, H1) \<and>
     histogram_updates RTC_FRAME_TYPE [5, 20, 5] H1 = Some H2"
  using histogram_exact [of demo_hist_config _ RTC_FRAME_TYPE "[5, 20, 5]", OF _ _ refl]
  by (auto simp: demo_hist_config_def)

end
