(* ===== verification/TB_Stat.thy ===== *)
theory TB_Stat
  imports TB_Double TB_Histogram
begin

text \<open>
  The statistics component \<^verbatim>\<open>src/src/stat.c\<close>: per-class counters and latency
  accumulators, the backlog of send time stamps that round-trip times are
  computed from, and the periodic snapshot for the log threads.  Its file-scope
  variables are the record \<open>stat_state\<close>; an array indexed by traffic class is a
  function.  Debug messages are left out.
\<close>

section \<open>State\<close>

record workload_statistics =
  rx_workload_min :: u64
  rx_workload_max :: u64
  rx_workload_count :: u64
  rx_workload_sum :: double
  rx_workload_avg :: double
  rx_workload_outliers :: u64

record statistics =
  time_stamp :: u64
  frames_sent :: u64
  frames_received :: u64
  out_of_order_errors :: u64
  frame_id_errors :: u64
  payload_errors :: u64
  round_trip_min :: u64
  round_trip_max :: u64
  round_trip_count :: u64
  round_trip_outliers :: u64
  round_trip_sum :: double
  round_trip_avg :: double
  oneway_min :: int
  oneway_max :: int
  oneway_count :: u64
  oneway_outliers :: u64
  oneway_sum :: double
  oneway_avg :: double
  proc_first_min :: u64
  proc_first_max :: u64
  proc_first_count :: u64
  proc_first_outliers :: u64
  proc_first_sum :: double
  proc_first_avg :: double
  proc_batch_min :: u64
  proc_batch_max :: u64
  proc_batch_count :: u64
  proc_batch_outliers :: u64
  proc_batch_sum :: double
  proc_batch_avg :: double
  rx_min :: u64
  rx_max :: u64
  rx_count :: u64
  rx_sum :: double
  rx_avg :: double
  rx_hw2sw_min :: u64
  rx_hw2sw_max :: u64
  rx_hw2sw_sum :: double
  rx_hw2sw_avg :: double
  rx_sw2app_min :: u64
  rx_sw2app_max :: u64
  rx_sw2app_sum :: double
  rx_sw2app_avg :: double
  workload :: "workload_statistics list"
  tx_min :: u64
  tx_max :: u64
  tx_count :: u64
  tx_hw_timestamp_missing :: u64
  tx_sum :: double
  tx_avg :: double

record rtt_entry =
  sw_ts :: u64
  hw_ts :: u64
  rx_hw_ts :: u64

text \<open>\<open>None\<close> is the \<^verbatim>\<open>NULL\<close> backlog of a class that needs none.\<close>

record round_trip_context =
  backlog :: "rtt_entry list option"
  backlog_len :: nat

record stat_state =
  global_statistics :: "stat_frame_type \<Rightarrow> statistics"
  global_statistics_for_log :: "stat_frame_type \<Rightarrow> statistics"
  statistics_per_period :: "stat_frame_type \<Rightarrow> statistics"
  statistics_per_period_for_log :: "stat_frame_type \<Rightarrow> statistics"
  round_trip_contexts :: "stat_frame_type \<Rightarrow> round_trip_context"
  rtt_expected_rt_limit :: u64
  log_stat_user_selected :: log_stat_options
  last_ts :: u64
  reset_stats :: bool
  stat_histograms :: histograms

abbreviation (input) "UINT64_MAX \<equiv> - 1 :: u64"
abbreviation (input) "INT64_MAX \<equiv> 2 ^ 63 - 1 :: int"
abbreviation (input) "INT64_MIN \<equiv> - (2 ^ 63) :: int"

definition zero_workload :: workload_statistics where
  "zero_workload = \<lparr>rx_workload_min = 0, rx_workload_max = 0, rx_workload_count = 0,
     rx_workload_sum = 0, rx_workload_avg = 0, rx_workload_outliers = 0\<rparr>"

definition zero_statistics :: statistics where
  "zero_statistics = \<lparr>time_stamp = 0, frames_sent = 0, frames_received = 0, out_of_order_errors = 0,
     frame_id_errors = 0, payload_errors = 0, round_trip_min = 0, round_trip_max = 0,
     round_trip_count = 0, round_trip_outliers = 0, round_trip_sum = 0, round_trip_avg = 0,
     oneway_min = 0, oneway_max = 0, oneway_count = 0, oneway_outliers = 0, oneway_sum = 0,
     oneway_avg = 0, proc_first_min = 0, proc_first_max = 0, proc_first_count = 0,
     proc_first_outliers = 0, proc_first_sum = 0, proc_first_avg = 0, proc_batch_min = 0,
     proc_batch_max = 0, proc_batch_count = 0, proc_batch_outliers = 0, proc_batch_sum = 0,
     proc_batch_avg = 0, rx_min = 0, rx_max = 0, rx_count = 0, rx_sum = 0, rx_avg = 0,
     rx_hw2sw_min = 0, rx_hw2sw_max = 0, rx_hw2sw_sum = 0, rx_hw2sw_avg = 0, rx_sw2app_min = 0,
     rx_sw2app_max = 0, rx_sw2app_sum = 0, rx_sw2app_avg = 0,
     workload = replicate WORKLOAD_MAX zero_workload, tx_min = 0, tx_max = 0, tx_count = 0,
     tx_hw_timestamp_missing = 0, tx_sum = 0, tx_avg = 0\<rparr>"

definition stat_reset :: statistics where
  "stat_reset = zero_statistics\<lparr>round_trip_min := UINT64_MAX, oneway_min := INT64_MAX,
     oneway_max := INT64_MIN, rx_min := UINT64_MAX, rx_hw2sw_min := UINT64_MAX,
     rx_sw2app_min := UINT64_MAX,
     workload := replicate WORKLOAD_MAX (zero_workload\<lparr>rx_workload_min := UINT64_MAX\<rparr>),
     tx_min := UINT64_MAX, proc_first_min := UINT64_MAX, proc_batch_min := UINT64_MAX\<rparr>"

definition zero_stat_state :: stat_state where
  "zero_stat_state = \<lparr>global_statistics = (\<lambda>_. zero_statistics),
     global_statistics_for_log = (\<lambda>_. zero_statistics), statistics_per_period = (\<lambda>_. zero_statistics),
     statistics_per_period_for_log = (\<lambda>_. zero_statistics),
     round_trip_contexts = (\<lambda>_. \<lparr>backlog = None, backlog_len = 0\<rparr>),
     rtt_expected_rt_limit = 0, log_stat_user_selected = LOG_REFERENCE, last_ts = 0, reset_stats = False,
     stat_histograms = (\<lambda>_. \<lparr>hg_data = [], hg_min = 0, hg_max = 0, hg_underflow = 0, hg_overflow = 0\<rparr>)\<rparr>"

section \<open>Initialisation, snapshot and reset\<close>

definition stat_needs_backlog :: "application_config \<Rightarrow> log_stat_options \<Rightarrow> stat_frame_type \<Rightarrow> bool" where
  "stat_needs_backlog app sel t \<longleftrightarrow>
     sel = LOG_REFERENCE \<or> sel = LOG_TX_TIMESTAMPS \<and> tx_hwtstamp_enabled (classes app t)"

definition stat_alloc_backlog :: "application_config \<Rightarrow> stat_frame_type \<Rightarrow> round_trip_context" where
  "stat_alloc_backlog app t =
     (let n = STAT_MAX_BACKLOG * num_frames_per_cycle (classes app t)
      in \<lparr>backlog = Some (replicate n \<lparr>sw_ts = 0, hw_ts = 0, rx_hw_ts = 0\<rparr>), backlog_len = n\<rparr>)"

text \<open>
  \<open>alloc_ok\<close> are the allocation results, \<open>trace_ok\<close> whether both tracing files
  open.  An error carries the classes whose backlog is released on the way out.
\<close>

definition stat_init ::
  "application_config \<Rightarrow> (stat_frame_type \<Rightarrow> bool) \<Rightarrow> bool \<Rightarrow> log_stat_options \<Rightarrow> stat_state \<Rightarrow>
   (errno \<times> stat_frame_type list) + stat_state" where
  "stat_init app alloc_ok trace_ok sel S =
     (if sel = LOG_NUM_OPTIONS then Inl (EINVAL, [])
      else
        let need = filter (stat_needs_backlog app sel) frame_types
        in if (sel = LOG_REFERENCE \<or> sel = LOG_TX_TIMESTAMPS) \<and> \<not> list_all alloc_ok need
           then Inl (ENOMEM, frame_types)
           else
             let rtc = (if sel = LOG_REFERENCE \<or> sel = LOG_TX_TIMESTAMPS
                        then (\<lambda>t. if t \<in> set need then stat_alloc_backlog app t else round_trip_contexts S t)
                        else round_trip_contexts S);
                 S = S\<lparr>round_trip_contexts := rtc,
                       global_statistics := (\<lambda>t. if t \<in> set frame_types then stat_reset else global_statistics S t),
                       statistics_per_period :=
                         (\<lambda>t. if t \<in> set frame_types then stat_reset else statistics_per_period S t)\<rparr>
             in if debug_stop_trace_on_outlier app \<and> \<not> trace_ok then Inl (EOTHER, [])
                else Inr (S\<lparr>rtt_expected_rt_limit := (application_base_cycle_time_ns app * 2) div 1000,
                            log_stat_user_selected := sel\<rparr>))"

definition stat_free :: "stat_frame_type list" where
  "stat_free = frame_types"

definition stat_update :: "build \<Rightarrow> application_config \<Rightarrow> timespec option \<Rightarrow> stat_state \<Rightarrow> stat_state" where
  "stat_update B app clk S =
     (let curr_time = clock_ns clk;
          S = (if last_ts S = 0 then S\<lparr>last_ts := curr_time\<rparr> else S);
          elapsed = curr_time - last_ts S
      in if \<not> elapsed \<ge> stats_collection_interval_ns app then S
         else
           let S = S\<lparr>last_ts := curr_time, global_statistics_for_log := global_statistics S\<rparr>;
               S = (if WITH_MQTT B
                    then S\<lparr>statistics_per_period_for_log := statistics_per_period S,
                           statistics_per_period :=
                             (\<lambda>t. if t \<in> set frame_types then stat_reset else statistics_per_period S t)\<rparr>
                    else S)
           in if reset_stats S
              then S\<lparr>global_statistics :=
                        (\<lambda>t. if t \<in> set frame_types then stat_reset else global_statistics S t),
                     reset_stats := False\<rparr>
              else S)"

text \<open>The size of the copied arrays: nine structures of 241 eight-byte members.\<close>

abbreviation (input) "sizeof_statistics_array \<equiv> 9 * 1928 :: nat"

definition stat_get_global_stats ::
  "stat_state \<Rightarrow> (stat_frame_type \<Rightarrow> statistics) \<Rightarrow> nat \<Rightarrow> stat_frame_type \<Rightarrow> statistics" where
  "stat_get_global_stats S stats len =
     (if len < sizeof_statistics_array then stats else global_statistics_for_log S)"

definition stat_get_stats_per_period ::
  "stat_state \<Rightarrow> (stat_frame_type \<Rightarrow> statistics) \<Rightarrow> nat \<Rightarrow> stat_frame_type \<Rightarrow> statistics" where
  "stat_get_stats_per_period S stats len =
     (if len < sizeof_statistics_array then stats else statistics_per_period_for_log S)"

section \<open>Accumulators\<close>

text \<open>New minimum and maximum.\<close>

definition stat_update_min_max :: "u64 \<Rightarrow> u64 \<Rightarrow> u64 \<Rightarrow> u64 \<times> u64" where
  "stat_update_min_max v mn mx = (if v < mn then v else mn, if v > mx then v else mx)"

definition stat_update_min_max_s :: "int \<Rightarrow> int \<Rightarrow> int \<Rightarrow> int \<times> int" where
  "stat_update_min_max_s v mn mx = (if v < mn then v else mn, if v > mx then v else mx)"

definition get_first_frame_backlog_idx :: "u64 \<Rightarrow> nat \<Rightarrow> nat \<Rightarrow> nat option" where
  "get_first_frame_backlog_idx cycle_number n len =
     (if n = 0 \<or> len = 0 then None else Some ((unat cycle_number div n * n) mod len))"

definition rcv_round_trip :: "u64 \<Rightarrow> stat_frame_type \<Rightarrow> u64 \<Rightarrow> statistics \<Rightarrow> statistics \<times> bool" where
  "rcv_round_trip limit t rt_time st =
     (let outlier = (stat_frame_type_is_real_time t \<and> rt_time > limit);
          st = (if outlier then st\<lparr>round_trip_outliers := round_trip_outliers st + 1\<rparr> else st);
          (mn, mx) = stat_update_min_max rt_time (round_trip_min st) (round_trip_max st);
          st = st\<lparr>round_trip_min := mn, round_trip_max := mx,
                  round_trip_count := round_trip_count st + 1,
                  round_trip_sum := dadd (round_trip_sum st) (u64_to_double rt_time)\<rparr>;
          st = st\<lparr>round_trip_avg := ddiv (round_trip_sum st) (u64_to_double (round_trip_count st))\<rparr>
      in (st, outlier))"

definition rcv_oneway :: "u64 \<Rightarrow> stat_frame_type \<Rightarrow> int \<Rightarrow> statistics \<Rightarrow> statistics \<times> bool" where
  "rcv_oneway limit t oneway_time st =
     (let (mn, mx) = stat_update_min_max_s oneway_time (oneway_min st) (oneway_max st);
          st = st\<lparr>oneway_min := mn, oneway_max := mx\<rparr>;
          outlier = (stat_frame_type_is_real_time t \<and> oneway_time > sint (limit div 2));
          st = (if outlier then st\<lparr>oneway_outliers := oneway_outliers st + 1\<rparr> else st);
          st = st\<lparr>oneway_count := oneway_count st + 1,
                  oneway_sum := dadd (oneway_sum st) (int_to_double oneway_time)\<rparr>;
          st = st\<lparr>oneway_avg := ddiv (oneway_sum st) (u64_to_double (oneway_count st))\<rparr>
      in (st, outlier))"

definition rcv_rx_times :: "u64 \<Rightarrow> u64 \<Rightarrow> u64 \<Rightarrow> statistics \<Rightarrow> statistics" where
  "rcv_rx_times hw2app hw2sw sw2app st =
     (if hw2app \<noteq> 0 \<and> hw2sw \<noteq> 0 \<and> sw2app \<noteq> 0
      then
        let st = st\<lparr>rx_count := rx_count st + 1\<rparr>;
            (mn, mx) = stat_update_min_max hw2app (rx_min st) (rx_max st);
            st = st\<lparr>rx_min := mn, rx_max := mx, rx_sum := dadd (rx_sum st) (u64_to_double hw2app)\<rparr>;
            st = st\<lparr>rx_avg := ddiv (rx_sum st) (u64_to_double (rx_count st))\<rparr>;
            (mn, mx) = stat_update_min_max hw2sw (rx_hw2sw_min st) (rx_hw2sw_max st);
            st = st\<lparr>rx_hw2sw_min := mn, rx_hw2sw_max := mx,
                    rx_hw2sw_sum := dadd (rx_hw2sw_sum st) (u64_to_double hw2sw)\<rparr>;
            st = st\<lparr>rx_hw2sw_avg := ddiv (rx_hw2sw_sum st) (u64_to_double (rx_count st))\<rparr>;
            (mn, mx) = stat_update_min_max sw2app (rx_sw2app_min st) (rx_sw2app_max st);
            st = st\<lparr>rx_sw2app_min := mn, rx_sw2app_max := mx,
                    rx_sw2app_sum := dadd (rx_sw2app_sum st) (u64_to_double sw2app)\<rparr>
        in st\<lparr>rx_sw2app_avg := ddiv (rx_sw2app_sum st) (u64_to_double (rx_count st))\<rparr>
      else st)"

text \<open>The updated statistics and whether the frame is an outlier.\<close>

definition stat_frame_received_common ::
  "log_stat_options \<Rightarrow> u64 \<Rightarrow> statistics \<Rightarrow> stat_frame_type \<Rightarrow> u64 \<Rightarrow> int \<Rightarrow> bool \<Rightarrow> bool \<Rightarrow> bool \<Rightarrow>
   u64 \<Rightarrow> u64 \<Rightarrow> u64 \<Rightarrow> statistics \<times> bool" where
  "stat_frame_received_common sel limit st t rt_time oneway_time out_of_order payload_mismatch
     frame_id_mismatch hw2app hw2sw sw2app =
     (let (st, o1) = (if sel = LOG_REFERENCE then rcv_round_trip limit t rt_time st else (st, False));
          (st, o2) = rcv_oneway limit t oneway_time st;
          st = rcv_rx_times hw2app hw2sw sw2app st
      in (st\<lparr>frames_received := frames_received st + 1,
             out_of_order_errors := out_of_order_errors st + of_bool out_of_order,
             payload_errors := payload_errors st + of_bool payload_mismatch,
             frame_id_errors := frame_id_errors st + of_bool frame_id_mismatch\<rparr>, o1 \<or> o2))"

definition stat_frame_sent_latency_common :: "statistics \<Rightarrow> u64 \<Rightarrow> statistics" where
  "stat_frame_sent_latency_common st v =
     (let (mn, mx) = stat_update_min_max v (tx_min st) (tx_max st);
          st = st\<lparr>tx_min := mn, tx_max := mx, tx_count := tx_count st + 1,
                  tx_sum := dadd (tx_sum st) (u64_to_double v)\<rparr>
      in st\<lparr>tx_avg := ddiv (tx_sum st) (u64_to_double (tx_count st))\<rparr>)"

definition stat_frame_proc_first_common :: "application_config \<Rightarrow> statistics \<Rightarrow> u64 \<Rightarrow> statistics" where
  "stat_frame_proc_first_common app st v =
     (let st = (if v > application_base_cycle_time_ns app div 1000
                then st\<lparr>proc_first_outliers := proc_first_outliers st + 1\<rparr> else st);
          (mn, mx) = stat_update_min_max v (proc_first_min st) (proc_first_max st);
          st = st\<lparr>proc_first_min := mn, proc_first_max := mx, proc_first_count := proc_first_count st + 1,
                  proc_first_sum := dadd (proc_first_sum st) (u64_to_double v)\<rparr>
      in st\<lparr>proc_first_avg := ddiv (proc_first_sum st) (u64_to_double (proc_first_count st))\<rparr>)"

definition stat_frame_proc_batch_common :: "application_config \<Rightarrow> statistics \<Rightarrow> u64 \<Rightarrow> statistics" where
  "stat_frame_proc_batch_common app st v =
     (let st = (if v > application_base_cycle_time_ns app div 1000
                then st\<lparr>proc_batch_outliers := proc_batch_outliers st + 1\<rparr> else st);
          (mn, mx) = stat_update_min_max v (proc_batch_min st) (proc_batch_max st);
          st = st\<lparr>proc_batch_min := mn, proc_batch_max := mx, proc_batch_count := proc_batch_count st + 1,
                  proc_batch_sum := dadd (proc_batch_sum st) (u64_to_double v)\<rparr>
      in st\<lparr>proc_batch_avg := ddiv (proc_batch_sum st) (u64_to_double (proc_batch_count st))\<rparr>)"

definition workload_sample :: "u64 \<Rightarrow> workload_statistics \<Rightarrow> u64 \<Rightarrow> workload_statistics" where
  "workload_sample skip w v =
     (let (mn, mx) = (if rx_workload_count w > skip
                      then stat_update_min_max v (rx_workload_min w) (rx_workload_max w)
                      else (rx_workload_min w, rx_workload_max w));
          w = w\<lparr>rx_workload_min := mn, rx_workload_max := mx, rx_workload_count := rx_workload_count w + 1,
                rx_workload_sum := dadd (rx_workload_sum w) (u64_to_double v)\<rparr>
      in w\<lparr>rx_workload_avg := ddiv (rx_workload_sum w) (u64_to_double (rx_workload_count w))\<rparr>)"

section \<open>Per-period statistics\<close>

text \<open>Without MQTT support these functions are empty.\<close>

definition stat_frame_received_per_period ::
  "build \<Rightarrow> stat_frame_type \<Rightarrow> u64 \<Rightarrow> u64 \<Rightarrow> int \<Rightarrow> bool \<Rightarrow> bool \<Rightarrow> bool \<Rightarrow> u64 \<Rightarrow> u64 \<Rightarrow> u64 \<Rightarrow>
   stat_state \<Rightarrow> stat_state" where
  "stat_frame_received_per_period B t curr_time rt_time oneway_time ooo pm fm hw2app hw2sw sw2app S =
     (if WITH_MQTT B
      then S\<lparr>statistics_per_period := (statistics_per_period S)(t :=
               fst (stat_frame_received_common (log_stat_user_selected S) (rtt_expected_rt_limit S)
                      ((statistics_per_period S t)\<lparr>time_stamp := curr_time\<rparr>) t rt_time oneway_time
                      ooo pm fm hw2app hw2sw sw2app))\<rparr>
      else S)"

definition stat_frame_sent_per_period :: "build \<Rightarrow> stat_frame_type \<Rightarrow> stat_state \<Rightarrow> stat_state" where
  "stat_frame_sent_per_period B t S =
     (if WITH_MQTT B
      then let st = statistics_per_period S t
           in S\<lparr>statistics_per_period := (statistics_per_period S)(t := st\<lparr>frames_sent := frames_sent st + 1\<rparr>)\<rparr>
      else S)"

definition stat_frame_workload_per_period ::
  "build \<Rightarrow> application_config \<Rightarrow> nat \<Rightarrow> stat_frame_type \<Rightarrow> u64 \<Rightarrow> stat_state \<Rightarrow> stat_state option" where
  "stat_frame_workload_per_period B app wid t v S =
     (if WITH_MQTT B
      then let st = statistics_per_period S t
           in if wid < length (workload st)
              then Some (S\<lparr>statistics_per_period := (statistics_per_period S)(t := st\<lparr>workload :=
                     (workload st)[wid := workload_sample (rx_workload_skip_count (classes app t))
                                             (workload st ! wid) v]\<rparr>)\<rparr>)
              else None
      else Some S)"

definition stat_frame_sent_latency_per_period ::
  "build \<Rightarrow> stat_frame_type \<Rightarrow> u64 \<Rightarrow> stat_state \<Rightarrow> stat_state" where
  "stat_frame_sent_latency_per_period B t v S =
     (if WITH_MQTT B
      then S\<lparr>statistics_per_period := (statistics_per_period S)(t :=
               stat_frame_sent_latency_common (statistics_per_period S t) v)\<rparr>
      else S)"

definition stat_frame_proc_first_per_period ::
  "build \<Rightarrow> application_config \<Rightarrow> stat_frame_type \<Rightarrow> u64 \<Rightarrow> stat_state \<Rightarrow> stat_state" where
  "stat_frame_proc_first_per_period B app t v S =
     (if WITH_MQTT B
      then S\<lparr>statistics_per_period := (statistics_per_period S)(t :=
               stat_frame_proc_first_common app (statistics_per_period S t) v)\<rparr>
      else S)"

definition stat_frame_proc_batch_per_period ::
  "build \<Rightarrow> application_config \<Rightarrow> stat_frame_type \<Rightarrow> u64 \<Rightarrow> stat_state \<Rightarrow> stat_state" where
  "stat_frame_proc_batch_per_period B app t v S =
     (if WITH_MQTT B
      then S\<lparr>statistics_per_period := (statistics_per_period S)(t :=
               stat_frame_proc_batch_common app (statistics_per_period S t) v)\<rparr>
      else S)"

section \<open>Events\<close>

text \<open>Access to a backlog slot; \<^const>\<open>None\<close> for the \<^verbatim>\<open>NULL\<close> array or an index outside it.\<close>

definition backlog_get :: "round_trip_context \<Rightarrow> nat \<Rightarrow> rtt_entry option" where
  "backlog_get rtt i =
     (case backlog rtt of None \<Rightarrow> None | Some b \<Rightarrow> if i < length b then Some (b ! i) else None)"

definition backlog_upd ::
  "stat_frame_type \<Rightarrow> nat \<Rightarrow> (rtt_entry \<Rightarrow> rtt_entry) \<Rightarrow> stat_state \<Rightarrow> stat_state option" where
  "backlog_upd t i f S =
     (let rtt = round_trip_contexts S t
      in case backlog rtt of
           None \<Rightarrow> None
         | Some b \<Rightarrow> if i < length b
             then Some (S\<lparr>round_trip_contexts := (round_trip_contexts S)(t :=
                          rtt\<lparr>backlog := Some (b[i := f (b ! i)])\<rparr>)\<rparr>)
             else None)"

text \<open>
  \<^verbatim>\<open>for (c = base; c < end; c += fpc)\<close> on 64-bit words.  The fuel suffices unless
  \<open>c\<close> wraps around; running out of it stands for a loop that does not end.
\<close>

fun cycle_starts :: "nat \<Rightarrow> u64 \<Rightarrow> u64 \<Rightarrow> u64 \<Rightarrow> u64 list option" where
  "cycle_starts 0 c fpc e = None"
| "cycle_starts (Suc fuel) c fpc e =
     (if c < e then do { cs \<leftarrow> cycle_starts fuel (c + fpc) fpc e; Some (c # cs) } else Some [])"

fun stamp_slots :: "stat_frame_type \<Rightarrow> u64 \<Rightarrow> nat list \<Rightarrow> stat_state \<Rightarrow> stat_state option" where
  "stamp_slots t ts [] S = Some S"
| "stamp_slots t ts (c # cs) S =
     (let len = backlog_len (round_trip_contexts S t)
      in if len = 0 then None
         else Option.bind (backlog_upd t (c mod len) (\<lambda>e. e\<lparr>sw_ts := ts\<rparr>) S) (stamp_slots t ts cs))"

text \<open>The frame numbers whose backlog slot a batch stamps.\<close>

definition stat_sent_slots ::
  "application_config \<Rightarrow> stat_frame_type \<Rightarrow> u64 \<Rightarrow> u64 \<Rightarrow> nat list option" where
  "stat_sent_slots app t cycle_number frame_count =
     (let e = cycle_number + frame_count
      in if tx_hwtstamp_enabled (classes app t)
         then let fpc = (of_nat (num_frames_per_cycle (classes app t)) :: u64)
              in if fpc = 0 then None
                 else do {
                   cs \<leftarrow> cycle_starts (unat frame_count + 2) ((cycle_number div fpc) * fpc) fpc e;
                   Some (map unat (filter (\<lambda>c. \<not> c < cycle_number) cs))
                 }
         else Some [unat cycle_number..<unat e])"

definition stat_frames_sent_batch ::
  "build \<Rightarrow> application_config \<Rightarrow> timespec option \<Rightarrow> stat_frame_type \<Rightarrow> u64 \<Rightarrow> u64 \<Rightarrow>
   stat_state \<Rightarrow> stat_state option" where
  "stat_frames_sent_batch B app clk t cycle_number frame_count S = do {
     S \<leftarrow> (if (log_stat_user_selected S = LOG_REFERENCE \<or> log_stat_user_selected S = LOG_TX_TIMESTAMPS) \<and>
             backlog (round_trip_contexts S t) \<noteq> None
          then do {
            cs \<leftarrow> stat_sent_slots app t cycle_number frame_count;
            stamp_slots t (clock_ns clk) cs S
          }
          else Some S);
     let S = (stat_frame_sent_per_period B t ^^ unat frame_count) S;
     let st = global_statistics S t;
     Some (S\<lparr>global_statistics := (global_statistics S)(t := st\<lparr>frames_sent := frames_sent st + frame_count\<rparr>)\<rparr>)
   }"

definition stat_frame_sent ::
  "build \<Rightarrow> application_config \<Rightarrow> timespec option \<Rightarrow> stat_frame_type \<Rightarrow> u64 \<Rightarrow> stat_state \<Rightarrow> stat_state option" where
  "stat_frame_sent B app clk t cycle_number S = stat_frames_sent_batch B app clk t cycle_number 1 S"

definition stat_frame_sent_latency ::
  "build \<Rightarrow> application_config \<Rightarrow> stat_frame_type \<Rightarrow> u64 \<Rightarrow> stat_state \<Rightarrow> stat_state option" where
  "stat_frame_sent_latency B app t seq S =
     (let rtt = round_trip_contexts S t
      in if backlog_len rtt = 0 then None
         else do {
           let idx = unat seq mod backlog_len rtt;
           entry \<leftarrow> backlog_get rtt idx;
           if \<not> tx_hwtstamp_enabled (classes app t) then Some S
           else if sw_ts entry \<noteq> 0 \<and> hw_ts entry = 0 then Some S
           else if hw_ts entry > sw_ts entry
           then do {
             let latency = (of_int (sint (hw_ts entry - sw_ts entry) sdiv 1000) :: u64);
             let S = S\<lparr>global_statistics := (global_statistics S)(t :=
                         stat_frame_sent_latency_common (global_statistics S t) latency)\<rparr>;
             let S = stat_frame_sent_latency_per_period B t latency S;
             backlog_upd t idx (\<lambda>e. e\<lparr>hw_ts := 0\<rparr>) S
           }
           else
             let g = global_statistics S t; p = statistics_per_period S t
             in Some (S\<lparr>global_statistics := (global_statistics S)(t :=
                          g\<lparr>tx_hw_timestamp_missing := tx_hw_timestamp_missing g + 1\<rparr>),
                        statistics_per_period := (statistics_per_period S)(t :=
                          p\<lparr>tx_hw_timestamp_missing := tx_hw_timestamp_missing p + 1\<rparr>)\<rparr>)
         })"

text \<open>The mirror remembers the hardware receive time of the first frame of a cycle.\<close>

definition stat_store_rx_hw_ts ::
  "build \<Rightarrow> application_config \<Rightarrow> stat_frame_type \<Rightarrow> u64 \<Rightarrow> u64 \<Rightarrow> stat_state \<Rightarrow> stat_state option" where
  "stat_store_rx_hw_ts B app t cycle_number rx_hw_timestamp S =
     (let rtt = round_trip_contexts S t; n = num_frames_per_cycle (classes app t)
      in if log_stat_user_selected S = LOG_TX_TIMESTAMPS \<and> tx_hwtstamp_enabled (classes app t) \<and>
            config_have_rx_timestamp B \<and> rx_hw_timestamp \<noteq> 0 \<and> backlog rtt \<noteq> None
         then (if n = 0 then None
               else if unat cycle_number mod n = 0
               then do {
                 idx \<leftarrow> get_first_frame_backlog_idx cycle_number n (backlog_len rtt);
                 backlog_upd t idx (\<lambda>e. e\<lparr>rx_hw_ts := rx_hw_timestamp\<rparr>) S
               }
               else Some S)
         else Some S)"

text \<open>The round-trip time in microseconds, and the histogram sample.\<close>

definition stat_round_trip ::
  "application_config \<Rightarrow> u64 \<Rightarrow> stat_frame_type \<Rightarrow> u64 \<Rightarrow> stat_state \<Rightarrow> (stat_state \<times> u64) option" where
  "stat_round_trip app curr_time t cycle_number S =
     (if log_stat_user_selected S = LOG_REFERENCE
      then do {
        let rtt = round_trip_contexts S t;
        idx \<leftarrow> (if tx_hwtstamp_enabled (classes app t)
               then get_first_frame_backlog_idx cycle_number (num_frames_per_cycle (classes app t)) (backlog_len rtt)
               else if backlog_len rtt = 0 then None else Some (unat cycle_number mod backlog_len rtt));
        entry \<leftarrow> backlog_get rtt idx;
        let rt_time = (if sw_ts entry \<noteq> 0 then (curr_time - sw_ts entry) div 1000 else 0);
        H \<leftarrow> (if stats_histogram_enabled app then histogram_update t rt_time (stat_histograms S)
             else Some (stat_histograms S));
        Some (S\<lparr>stat_histograms := H\<rparr>, rt_time)
      }
      else Some (S, 0))"

definition stat_rx_times :: "u64 \<Rightarrow> u64 \<Rightarrow> u64 \<Rightarrow> u64 \<times> u64 \<times> u64" where
  "stat_rx_times curr_time hw sw =
     (if hw \<noteq> 0 \<and> sw \<noteq> 0 \<and> hw \<le> sw \<and> sw \<le> curr_time
      then ((curr_time - hw) div 1000, (sw - hw) div 1000, (curr_time - sw) div 1000)
      else (0, 0, 0))"

text \<open>Signed 64-bit subtraction; an overflow is undefined behaviour.\<close>

definition int64_sub :: "int \<Rightarrow> int \<Rightarrow> int option" where
  "int64_sub a b = (if INT64_MIN \<le> a - b \<and> a - b \<le> INT64_MAX then Some (a - b) else None)"

text \<open>The new state, and whether the program exits because of an outlier.\<close>

definition stat_frame_received ::
  "build \<Rightarrow> application_config \<Rightarrow> timespec option \<Rightarrow> stat_frame_type \<Rightarrow> u64 \<Rightarrow> bool \<Rightarrow> bool \<Rightarrow> bool \<Rightarrow>
   u64 \<Rightarrow> u64 \<Rightarrow> u64 \<Rightarrow> stat_state \<Rightarrow> (stat_state \<times> bool) option" where
  "stat_frame_received B app clk t cycle_number ooo pm fm tx_timestamp rx_hw rx_sw S = do {
     let curr_time = clock_ns clk;
     S \<leftarrow> stat_store_rx_hw_ts B app t cycle_number rx_hw S;
     (S, rt_time) \<leftarrow> stat_round_trip app curr_time t cycle_number S;
     diff \<leftarrow> int64_sub (sint curr_time) (sint tx_timestamp);
     let oneway_time = diff sdiv 1000;
     let (hw2app, hw2sw, sw2app) = stat_rx_times curr_time rx_hw rx_sw;
     let (st, outlier) = stat_frame_received_common (log_stat_user_selected S) (rtt_expected_rt_limit S)
            (global_statistics S t) t rt_time oneway_time ooo pm fm hw2app hw2sw sw2app;
     let S = S\<lparr>global_statistics := (global_statistics S)(t := st)\<rparr>;
     let S = stat_frame_received_per_period B t curr_time rt_time oneway_time ooo pm fm hw2app hw2sw sw2app S;
     Some (S, debug_stop_trace_on_outlier app \<and> outlier)
   }"

definition stat_proc_first_latency ::
  "build \<Rightarrow> application_config \<Rightarrow> stat_frame_type \<Rightarrow> u64 \<Rightarrow> u64 \<Rightarrow> stat_state \<Rightarrow> stat_state option" where
  "stat_proc_first_latency B app t cycle_number tx_hw S = do {
     let rtt = round_trip_contexts S t;
     idx \<leftarrow> get_first_frame_backlog_idx cycle_number (num_frames_per_cycle (classes app t)) (backlog_len rtt);
     entry \<leftarrow> backlog_get rtt idx;
     if \<not> config_have_rx_timestamp B \<or> \<not> tx_hwtstamp_enabled (classes app t) then Some S
     else if rx_hw_ts entry = 0 \<or> tx_hw = 0 then Some S
     else if tx_hw > rx_hw_ts entry
     then
       let latency = (tx_hw - rx_hw_ts entry) div 1000;
           S = S\<lparr>global_statistics := (global_statistics S)(t :=
                   stat_frame_proc_first_common app (global_statistics S t) latency)\<rparr>
       in Some (stat_frame_proc_first_per_period B app t latency S)
     else Some S
   }"

definition stat_proc_batch_latency ::
  "build \<Rightarrow> application_config \<Rightarrow> stat_frame_type \<Rightarrow> u64 \<Rightarrow> u64 \<Rightarrow> stat_state \<Rightarrow> stat_state option" where
  "stat_proc_batch_latency B app t cycle_number last_tx_hw S = do {
     let rtt = round_trip_contexts S t;
     idx \<leftarrow> get_first_frame_backlog_idx cycle_number (num_frames_per_cycle (classes app t)) (backlog_len rtt);
     entry \<leftarrow> backlog_get rtt idx;
     S \<leftarrow> backlog_upd t idx (\<lambda>e. e\<lparr>rx_hw_ts := 0\<rparr>) S;
     if \<not> config_have_rx_timestamp B \<or> \<not> tx_hwtstamp_enabled (classes app t) then Some S
     else if rx_hw_ts entry = 0 \<or> last_tx_hw = 0 then Some S
     else if last_tx_hw > rx_hw_ts entry
     then
       let latency = (last_tx_hw - rx_hw_ts entry) div 1000;
           S = S\<lparr>global_statistics := (global_statistics S)(t :=
                   stat_frame_proc_batch_common app (global_statistics S t) latency)\<rparr>
       in Some (stat_frame_proc_batch_per_period B app t latency S)
     else Some S
   }"

definition stat_frame_workload ::
  "build \<Rightarrow> application_config \<Rightarrow> timespec option \<Rightarrow> nat \<Rightarrow> stat_frame_type \<Rightarrow> timespec \<Rightarrow>
   stat_state \<Rightarrow> stat_state option" where
  "stat_frame_workload B app clk wid t start_ts S =
     (let st = global_statistics S t;
          workload_time = (clock_ns clk - of_int (ts_to_ns start_ts)) div 1000
      in if wid < length (workload st)
         then stat_frame_workload_per_period B app wid t workload_time
                (S\<lparr>global_statistics := (global_statistics S)(t := st\<lparr>workload :=
                   (workload st)[wid := workload_sample (rx_workload_skip_count (classes app t))
                                           (workload st ! wid) workload_time]\<rparr>)\<rparr>)
         else None)"

definition stat_inc_workload_outlier ::
  "application_config \<Rightarrow> nat \<Rightarrow> stat_frame_type \<Rightarrow> stat_state \<Rightarrow> stat_state option" where
  "stat_inc_workload_outlier app wid t S =
     (let st = global_statistics S t
      in if wid < length (workload st)
         then let w = workload st ! wid
              in Some (if rx_workload_count w > rx_workload_skip_count (classes app t)
                       then S\<lparr>global_statistics := (global_statistics S)(t := st\<lparr>workload :=
                              (workload st)[wid := w\<lparr>rx_workload_outliers := rx_workload_outliers w + 1\<rparr>]\<rparr>)\<rparr>
                       else S)
         else None)"

end
