(* ===== verification/TB_Stat_Props.thy ===== *)
theory TB_Stat_Props
  imports TB_Stat
begin

text \<open>
  Correctness of the statistics: every latency accumulator computes count,
  minimum, maximum, sum and average of its samples, round-trip times are measured
  from the send time stamp of the right frame, hardware time stamps are consumed
  once, and the per-period statistics add up to the global ones.
\<close>

section \<open>The accumulator interface\<close>

text \<open>
  A latency accumulator: samples of type \<open>'v\<close> with a value, added one by one to a
  structure of type \<open>'s\<close>.
\<close>

locale latency_acc =
  fixes step :: "'v \<Rightarrow> 's \<Rightarrow> 's"
    and val :: "'v \<Rightarrow> u64"
    and valid :: "'v \<Rightarrow> bool"
    and mn mx cnt :: "'s \<Rightarrow> u64"
    and sm av :: "'s \<Rightarrow> double"
  assumes mn_step: "valid v \<Longrightarrow> mn (step v s) = min (val v) (mn s)"
    and mx_step: "valid v \<Longrightarrow> mx (step v s) = max (val v) (mx s)"
    and cnt_step: "valid v \<Longrightarrow> cnt (step v s) = cnt s + 1"
    and sm_step: "valid v \<Longrightarrow> sm (step v s) = dadd (sm s) (u64_to_double (val v))"
    and av_step: "valid v \<Longrightarrow> av (step v s) = ddiv (sm (step v s)) (u64_to_double (cnt (step v s)))"
begin

lemma run_min: "list_all valid vs \<Longrightarrow> mn (fold step vs s) = Min (insert (mn s) (val ` set vs))"
proof (induction vs arbitrary: s)
  case (Cons v vs)
  then have "mn (fold step (v # vs) s) = Min (insert (min (val v) (mn s)) (val ` set vs))"
    by (simp add: mn_step)
  also have "\<dots> = Min (insert (mn s) (val ` set (v # vs)))"
    by (cases "vs = []") (simp_all add: min.commute min.left_commute)
  finally show ?case .
qed simp

lemma run_max: "list_all valid vs \<Longrightarrow> mx (fold step vs s) = Max (insert (mx s) (val ` set vs))"
proof (induction vs arbitrary: s)
  case (Cons v vs)
  then have "mx (fold step (v # vs) s) = Max (insert (max (val v) (mx s)) (val ` set vs))"
    by (simp add: mx_step)
  also have "\<dots> = Max (insert (mx s) (val ` set (v # vs)))"
    by (cases "vs = []") (simp_all add: max.commute max.left_commute)
  finally show ?case .
qed simp

lemma run_count: "list_all valid vs \<Longrightarrow> cnt (fold step vs s) = cnt s + of_nat (length vs)"
  by (induction vs arbitrary: s) (simp_all add: cnt_step)

lemma run_sum:
  assumes "list_all valid vs" "sm s = of_nat a" "a + (\<Sum>v\<leftarrow>vs. unat (val v)) \<le> 2 ^ 53"
  shows "sm (fold step vs s) = of_nat (a + (\<Sum>v\<leftarrow>vs. unat (val v)))"
  using assms
proof (induction vs arbitrary: s a)
  case (Cons v vs)
  have "unat (val v) \<le> 2 ^ 53" "a + unat (val v) \<le> 2 ^ 53" using Cons.prems(3) by auto
  then have "sm (step v s) = of_nat (a + unat (val v))"
    using Cons.prems by (simp only: list_all_iff list.set_intros sm_step u64_to_double_exact dadd_exact)
  then show ?case using Cons.IH [of "step v s" "a + unat (val v)"] Cons.prems
    by (simp add: add.assoc)
qed simp

lemma run_avg:
  assumes "list_all valid vs" "vs \<noteq> []"
  shows "av (fold step vs s) = ddiv (sm (fold step vs s)) (u64_to_double (cnt (fold step vs s)))"
proof -
  obtain ws w where "vs = ws @ [w]" using assms(2) by (metis rev_exhaust)
  then show ?thesis using assms(1) by (simp add: av_step)
qed

text \<open>A run from a reset structure.\<close>

lemma run_exact:
  assumes "list_all valid vs" "vs \<noteq> []" "mn s = - 1" "mx s = 0" "cnt s = 0" "sm s = 0"
    and "(\<Sum>v\<leftarrow>vs. unat (val v)) \<le> 2 ^ 53" "length vs \<le> 2 ^ 53"
  defines "s' \<equiv> fold step vs s"
  shows "mn s' = Min (val ` set vs)" "mx s' = Max (val ` set vs)"
    and "cnt s' = of_nat (length vs)"
    and "sm s' = of_nat (\<Sum>v\<leftarrow>vs. unat (val v))"
    and "av s' = rnd (of_nat (\<Sum>v\<leftarrow>vs. unat (val v)) / of_nat (length vs))"
proof -
  have ne: "val ` set vs \<noteq> {}" "finite (val ` set vs)" using assms(2) by auto
  have "min (- 1) x = x" for x :: u64 by (simp add: min_absorb2)
  then show "mn s' = Min (val ` set vs)" using run_min [OF assms(1), of s] assms(3) ne
    by (simp add: s'_def)
  show "mx s' = Max (val ` set vs)" using run_max [OF assms(1), of s] assms(4) ne
    by (simp add: s'_def max_absorb2)
  show c: "cnt s' = of_nat (length vs)" using run_count [OF assms(1), of s] assms(5) by (simp add: s'_def)
  show sm: "sm s' = of_nat (\<Sum>v\<leftarrow>vs. unat (val v))"
    using run_sum [OF assms(1), of s 0] assms(6,7) by (simp add: s'_def)
  have "unat (cnt s') = length vs" unfolding c using assms(8) by (intro unat_of_nat_small) simp
  then have "u64_to_double (cnt s') = of_nat (length vs)"
    using u64_to_double_exact [of "cnt s'"] assms(8) by simp
  then show "av s' = rnd (of_nat (\<Sum>v\<leftarrow>vs. unat (val v)) / of_nat (length vs))"
    using run_avg [OF assms(1,2), of s] sm by (simp add: s'_def ddiv_def)
qed

end

section \<open>The accumulators of the program\<close>

text \<open>The arguments of one received frame on the reference: round-trip time, one-way
  time, the three error flags and the three receive path latencies.\<close>

type_synonym rx_sample = "u64 \<times> int \<times> bool \<times> bool \<times> bool \<times> u64 \<times> u64 \<times> u64"

definition rx_step :: "u64 \<Rightarrow> stat_frame_type \<Rightarrow> rx_sample \<Rightarrow> statistics \<Rightarrow> statistics" where
  "rx_step limit t = (\<lambda>(rt, ow, ooo, pm, fm, hw2app, hw2sw, sw2app) st.
     fst (stat_frame_received_common LOG_REFERENCE limit st t rt ow ooo pm fm hw2app hw2sw sw2app))"

lemma stat_update_min_max_eq: "stat_update_min_max v mn mx = (min v mn, max v mx)"
  by (auto simp: stat_update_min_max_def min_def max_def)

lemma rcv_round_trip_sel:
  "round_trip_min (fst (rcv_round_trip l t v st)) = min v (round_trip_min st)"
  "round_trip_max (fst (rcv_round_trip l t v st)) = max v (round_trip_max st)"
  "round_trip_count (fst (rcv_round_trip l t v st)) = round_trip_count st + 1"
  "round_trip_sum (fst (rcv_round_trip l t v st)) = dadd (round_trip_sum st) (u64_to_double v)"
  "round_trip_avg (fst (rcv_round_trip l t v st)) =
     ddiv (dadd (round_trip_sum st) (u64_to_double v)) (u64_to_double (round_trip_count st + 1))"
  by (simp_all add: rcv_round_trip_def stat_update_min_max_eq Let_def)

lemma rcv_round_trip_keeps:
  "frames_received (fst (rcv_round_trip l t v st)) = frames_received st"
  "out_of_order_errors (fst (rcv_round_trip l t v st)) = out_of_order_errors st"
  "payload_errors (fst (rcv_round_trip l t v st)) = payload_errors st"
  "frame_id_errors (fst (rcv_round_trip l t v st)) = frame_id_errors st"
  by (simp_all add: rcv_round_trip_def stat_update_min_max_def Let_def)

lemma rcv_oneway_keeps:
  "round_trip_min (fst (rcv_oneway l t w st)) = round_trip_min st"
  "round_trip_max (fst (rcv_oneway l t w st)) = round_trip_max st"
  "round_trip_count (fst (rcv_oneway l t w st)) = round_trip_count st"
  "round_trip_sum (fst (rcv_oneway l t w st)) = round_trip_sum st"
  "round_trip_avg (fst (rcv_oneway l t w st)) = round_trip_avg st"
  "frames_received (fst (rcv_oneway l t w st)) = frames_received st"
  "out_of_order_errors (fst (rcv_oneway l t w st)) = out_of_order_errors st"
  "payload_errors (fst (rcv_oneway l t w st)) = payload_errors st"
  "frame_id_errors (fst (rcv_oneway l t w st)) = frame_id_errors st"
  by (simp_all add: rcv_oneway_def stat_update_min_max_s_def Let_def)

lemma rcv_rx_times_keeps:
  "round_trip_min (rcv_rx_times a b c st) = round_trip_min st"
  "round_trip_max (rcv_rx_times a b c st) = round_trip_max st"
  "round_trip_count (rcv_rx_times a b c st) = round_trip_count st"
  "round_trip_sum (rcv_rx_times a b c st) = round_trip_sum st"
  "round_trip_avg (rcv_rx_times a b c st) = round_trip_avg st"
  "frames_received (rcv_rx_times a b c st) = frames_received st"
  "out_of_order_errors (rcv_rx_times a b c st) = out_of_order_errors st"
  "payload_errors (rcv_rx_times a b c st) = payload_errors st"
  "frame_id_errors (rcv_rx_times a b c st) = frame_id_errors st"
  by (simp_all add: rcv_rx_times_def stat_update_min_max_def Let_def)

lemmas rcv_sel = rcv_round_trip_sel rcv_round_trip_keeps rcv_oneway_keeps rcv_rx_times_keeps

lemma received_common_ref:
  "fst (stat_frame_received_common LOG_REFERENCE l st t rt ow ooo pm fm a b c) =
   (let st = rcv_rx_times a b c (fst (rcv_oneway l t ow (fst (rcv_round_trip l t rt st))))
    in st\<lparr>frames_received := frames_received st + 1,
          out_of_order_errors := out_of_order_errors st + of_bool ooo,
          payload_errors := payload_errors st + of_bool pm,
          frame_id_errors := frame_id_errors st + of_bool fm\<rparr>)"
  by (simp add: stat_frame_received_common_def Let_def case_prod_unfold)

interpretation rtt: latency_acc "rx_step limit t" fst "\<lambda>_. True"
  round_trip_min round_trip_max round_trip_count round_trip_sum round_trip_avg
  for limit t
  by unfold_locales (simp_all add: rx_step_def case_prod_unfold received_common_ref Let_def rcv_sel)

lemmas stat_lat_defs = stat_frame_sent_latency_common_def stat_frame_proc_first_common_def
  stat_frame_proc_batch_common_def stat_update_min_max_eq

interpretation txl: latency_acc "\<lambda>v st. stat_frame_sent_latency_common st v" id "\<lambda>_. True"
  tx_min tx_max tx_count tx_sum tx_avg
  by unfold_locales (simp_all add: stat_lat_defs Let_def)

interpretation pfirst: latency_acc "\<lambda>v st. stat_frame_proc_first_common app st v" id "\<lambda>_. True"
  proc_first_min proc_first_max proc_first_count proc_first_sum proc_first_avg
  for app
  by unfold_locales (simp_all add: stat_lat_defs Let_def)

interpretation pbatch: latency_acc "\<lambda>v st. stat_frame_proc_batch_common app st v" id "\<lambda>_. True"
  proc_batch_min proc_batch_max proc_batch_count proc_batch_sum proc_batch_avg
  for app
  by unfold_locales (simp_all add: stat_lat_defs Let_def)

lemmas rcv_rx_simps = rcv_rx_times_def stat_update_min_max_eq Let_def

text \<open>The three receive path latencies share the counter \<^const>\<open>rx_count\<close>.\<close>

interpretation rxa: latency_acc "\<lambda>(a, b, c). rcv_rx_times a b c" fst
  "\<lambda>(a, b, c). a \<noteq> 0 \<and> b \<noteq> 0 \<and> c \<noteq> 0" rx_min rx_max rx_count rx_sum rx_avg
  by unfold_locales (auto simp: rcv_rx_simps)

interpretation rxh: latency_acc "\<lambda>(a, b, c). rcv_rx_times a b c" "\<lambda>(a, b, c). b"
  "\<lambda>(a, b, c). a \<noteq> 0 \<and> b \<noteq> 0 \<and> c \<noteq> 0" rx_hw2sw_min rx_hw2sw_max rx_count rx_hw2sw_sum rx_hw2sw_avg
  by unfold_locales (auto simp: rcv_rx_simps)

interpretation rxs: latency_acc "\<lambda>(a, b, c). rcv_rx_times a b c" "\<lambda>(a, b, c). c"
  "\<lambda>(a, b, c). a \<noteq> 0 \<and> b \<noteq> 0 \<and> c \<noteq> 0" rx_sw2app_min rx_sw2app_max rx_count rx_sw2app_sum rx_sw2app_avg
  by unfold_locales (auto simp: rcv_rx_simps)

lemma rx_step_counters:
  "frames_received (fold (rx_step l t) vs st) = frames_received st + of_nat (length vs)"
  "out_of_order_errors (fold (rx_step l t) vs st) =
     out_of_order_errors st + of_nat (length (filter (\<lambda>(_, _, ooo, _). ooo) vs))"
  "payload_errors (fold (rx_step l t) vs st) =
     payload_errors st + of_nat (length (filter (\<lambda>(_, _, _, pm, _). pm) vs))"
  "frame_id_errors (fold (rx_step l t) vs st) =
     frame_id_errors st + of_nat (length (filter (\<lambda>(_, _, _, _, fm, _). fm) vs))"
  by (induction vs arbitrary: st)
     (simp_all add: rx_step_def case_prod_unfold received_common_ref Let_def rcv_sel)

section \<open>The backlog\<close>

definition rtc_ok :: "round_trip_context \<Rightarrow> bool" where
  "rtc_ok r \<longleftrightarrow> (\<exists>b. backlog r = Some b \<and> length b = backlog_len r) \<and> 0 < backlog_len r"

definition with_backlog :: "stat_frame_type \<Rightarrow> rtt_entry list \<Rightarrow> stat_state \<Rightarrow> stat_state" where
  "with_backlog t b S = S\<lparr>round_trip_contexts := (round_trip_contexts S)(t :=
     (round_trip_contexts S t)\<lparr>backlog := Some b\<rparr>)\<rparr>"

lemma with_backlog_simps [simp]:
  "backlog (round_trip_contexts (with_backlog t b S) t) = Some b"
  "backlog_len (round_trip_contexts (with_backlog t b S) t) = backlog_len (round_trip_contexts S t)"
  "with_backlog t b' (with_backlog t b S) = with_backlog t b' S"
  "global_statistics (with_backlog t b S) = global_statistics S"
  "statistics_per_period (with_backlog t b S) = statistics_per_period S"
  "log_stat_user_selected (with_backlog t b S) = log_stat_user_selected S"
  "stat_histograms (with_backlog t b S) = stat_histograms S"
  by (simp_all add: with_backlog_def)

lemma with_backlog_same: "backlog (round_trip_contexts S t) = Some b \<Longrightarrow> with_backlog t b S = S"
  by (cases S) (auto simp: with_backlog_def fun_eq_iff)

lemma backlog_upd_eq:
  "backlog (round_trip_contexts S t) = Some b \<Longrightarrow> i < length b \<Longrightarrow>
   backlog_upd t i f S = Some (with_backlog t (b[i := f (b ! i)]) S)"
  by (simp add: backlog_upd_def with_backlog_def)

lemma stamp_slots_ok:
  assumes "backlog (round_trip_contexts S t) = Some b" "length b = backlog_len (round_trip_contexts S t)"
    and "0 < length b"
  shows "\<exists>b'. stamp_slots t ts cs S = Some (with_backlog t b' S) \<and> length b' = length b \<and>
           (\<forall>i < length b. b' ! i = (if i \<in> (\<lambda>c. c mod length b) ` set cs then (b ! i)\<lparr>sw_ts := ts\<rparr> else b ! i))"
  using assms
proof (induction cs arbitrary: S b)
  case Nil
  then show ?case using with_backlog_same [OF Nil(1)] by (intro exI [of _ b]) auto
next
  case (Cons c cs)
  let ?b = "b[c mod length b := (b ! (c mod length b))\<lparr>sw_ts := ts\<rparr>]"
  let ?S = "with_backlog t ?b S"
  have lt: "c mod length b < length b" using Cons.prems by simp
  have "stamp_slots t ts (c # cs) S = stamp_slots t ts cs ?S"
    using Cons.prems backlog_upd_eq [OF Cons.prems(1) lt] by (simp add: Let_def)
  moreover obtain b' where b': "stamp_slots t ts cs ?S = Some (with_backlog t b' ?S)" "length b' = length ?b"
    "\<forall>i < length ?b. b' ! i = (if i \<in> (\<lambda>c. c mod length ?b) ` set cs then (?b ! i)\<lparr>sw_ts := ts\<rparr> else ?b ! i)"
    using Cons.IH [of ?S ?b] Cons.prems by auto
  moreover have "b' ! i = (if i \<in> (\<lambda>c. c mod length b) ` set (c # cs) then (b ! i)\<lparr>sw_ts := ts\<rparr> else b ! i)"
    if "i < length b" for i
    using b'(3) that by (cases "i = c mod length b") auto
  ultimately show ?case by auto
qed

text \<open>The loop over the cycle starts of a batch, away from the wrap-around.\<close>

lemma cycle_starts_ok:
  assumes "0 < unat fpc" "unat e + unat fpc < 2 ^ 64" "unat e \<le> unat c + fuel * unat fpc"
  shows "\<exists>cs. cycle_starts (Suc fuel) c fpc e = Some cs \<and>
           unat ` set cs = {unat c + k * unat fpc |k. unat c + k * unat fpc < unat e}"
  using assms(3)
proof (induction fuel arbitrary: c)
  case 0
  then show ?case by (auto simp: word_less_nat_alt)
next
  case (Suc fuel)
  show ?case
  proof (cases "c < e")
    case True
    have lt: "unat c < unat e" using True by (simp add: word_less_nat_alt)
    have u: "unat (c + fpc) = unat c + unat fpc"
      using lt assms(2) by (simp add: unat_plus_if')
    obtain cs where cs: "cycle_starts (Suc fuel) (c + fpc) fpc e = Some cs"
      "unat ` set cs = {unat (c + fpc) + k * unat fpc |k. unat (c + fpc) + k * unat fpc < unat e}"
      using Suc.IH [of "c + fpc"] Suc.prems u by (auto simp: algebra_simps)
    have "{unat c + k * unat fpc |k. unat c + k * unat fpc < unat e} =
          insert (unat c) {unat (c + fpc) + k * unat fpc |k. unat (c + fpc) + k * unat fpc < unat e}"
      (is "?L = insert _ ?R")
    proof (intro equalityI subsetI)
      fix x assume "x \<in> ?L"
      then obtain k where k: "x = unat c + k * unat fpc" "x < unat e" by auto
      show "x \<in> insert (unat c) ?R"
      proof (cases k)
        case (Suc j)
        then have "x = unat (c + fpc) + j * unat fpc" using k u by simp
        then show ?thesis using k(2) by auto
      qed (use k in simp)
    next
      fix x assume "x \<in> insert (unat c) ?R"
      then show "x \<in> ?L"
      proof (elim insertE)
        assume "x = unat c"
        then have "x = unat c + 0 * unat fpc" "x < unat e" using lt by simp_all
        then show ?thesis by blast
      next
        assume "x \<in> ?R"
        then obtain j where "x = unat (c + fpc) + j * unat fpc" "x < unat e" by auto
        then have "x = unat c + Suc j * unat fpc" "x < unat e" using u by simp_all
        then show ?thesis by blast
      qed
    qed
    then show ?thesis using True cs by simp
  next
    case False
    then have "unat e \<le> unat c" by (simp add: word_less_nat_alt)
    then show ?thesis using False by auto
  qed
qed

text \<open>The slot a frame's round-trip time is computed from.\<close>

definition rtt_slot :: "application_config \<Rightarrow> stat_frame_type \<Rightarrow> u64 \<Rightarrow> nat" where
  "rtt_slot app t seq =
     (let n = num_frames_per_cycle (classes app t)
      in if tx_hwtstamp_enabled (classes app t) then unat seq div n * n else unat seq)"

lemma per_period_sent_keeps:
  "round_trip_contexts ((stat_frame_sent_per_period B t ^^ k) S) = round_trip_contexts S"
  "log_stat_user_selected ((stat_frame_sent_per_period B t ^^ k) S) = log_stat_user_selected S"
  "stat_histograms ((stat_frame_sent_per_period B t ^^ k) S) = stat_histograms S"
  by (induction k) (simp_all add: stat_frame_sent_per_period_def Let_def)

text \<open>The frames of a batch whose slot is stamped, away from the wrap-around.\<close>

definition batch_slots :: "application_config \<Rightarrow> stat_frame_type \<Rightarrow> u64 \<Rightarrow> u64 \<Rightarrow> nat set" where
  "batch_slots app t c0 cnt =
     {x. unat c0 \<le> x \<and> x < unat c0 + unat cnt \<and>
         (tx_hwtstamp_enabled (classes app t) \<longrightarrow> num_frames_per_cycle (classes app t) dvd x)}"

lemma cycle_base:
  assumes "0 < n" "n < 2 ^ 64"
  defines "f \<equiv> of_nat n :: u64"
  shows "unat f = n" "unat (c div f * f) = unat c div n * n" "unat c < unat (c div f * f) + n"
proof -
  show f: "unat f = n" unfolding f_def using assms(2) by (rule unat_of_nat_small)
  have "unat c div n * n < 2 ^ 64"
    using unsigned_less [of c, where ?'a = nat] by (simp add: order.strict_trans1 [OF div_times_less_eq_dividend])
  moreover have "c div f * f = of_nat (unat c div n * n)"
    using arg_cong [OF unat_div_distrib [of c f, unfolded f], of "of_nat :: nat \<Rightarrow> u64"] by (simp add: f_def)
  ultimately show b: "unat (c div f * f) = unat c div n * n" by (simp only: unat_of_nat_small)
  show "unat c < unat (c div f * f) + n" unfolding b using assms(1)
    by (metis div_mod_decomp mod_less_divisor nat_add_left_cancel_less)
qed

lemma sent_slots_cover:
  assumes n: "0 < num_frames_per_cycle (classes app t)"
    and ovf: "unat c0 + unat cnt + num_frames_per_cycle (classes app t) < 2 ^ 64"
  shows "\<exists>cs. stat_sent_slots app t c0 cnt = Some cs \<and> batch_slots app t c0 cnt \<subseteq> set cs"
proof (cases "tx_hwtstamp_enabled (classes app t)")
  case True
  define n where "n = num_frames_per_cycle (classes app t)"
  let ?f = "of_nat n :: u64" and ?e = "c0 + cnt"
  let ?base = "c0 div ?f * ?f"
  have e: "unat ?e = unat c0 + unat cnt" using ovf by (simp add: unat_plus_if')
  have n0: "0 < n" "n < 2 ^ 64" using n ovf by (simp_all add: n_def)
  note base = cycle_base(1) [OF n0] cycle_base(2,3) [OF n0, of c0]
  have "unat cnt \<le> unat cnt * n" using n0(1) by simp
  moreover have "Suc (unat cnt) * unat ?f = n + unat cnt * n" using base(1) by simp
  ultimately have "unat ?e \<le> unat ?base + Suc (unat cnt) * unat ?f"
    using e base(3) by linarith
  moreover have "unat ?e + unat ?f < 2 ^ 64" using ovf e base(1) by (simp add: n_def)
  ultimately obtain cs where cs: "cycle_starts (unat cnt + 2) ?base ?f ?e = Some cs"
    "unat ` set cs = {unat ?base + k * unat ?f |k. unat ?base + k * unat ?f < unat ?e}"
    using cycle_starts_ok [of ?f ?e ?base "Suc (unat cnt)"] base(1) n0(1) by auto
  have "x \<in> unat ` set cs" "unat c0 \<le> x" if x: "x \<in> batch_slots app t c0 cnt" for x
  proof -
    have x: "unat c0 \<le> x" "x < unat ?e" "n dvd x" using that True e by (auto simp: batch_slots_def n_def)
    then have "x = x div n * n" "unat c0 div n \<le> x div n" by (auto intro: div_le_mono)
    then obtain k where "x = (unat c0 div n + k) * n" by (metis le_Suc_ex)
    then have "x = unat ?base + k * unat ?f" using base(1,2) by (simp add: algebra_simps)
    then show "x \<in> unat ` set cs" "unat c0 \<le> x" using x(1,2) cs(2) by auto
  qed
  then have "batch_slots app t c0 cnt \<subseteq> set (map unat (filter (\<lambda>c. \<not> c < c0) cs))"
    by (fastforce simp: word_less_nat_alt)
  moreover have "?f \<noteq> 0" using base(1) n0(1) by auto
  ultimately show ?thesis using True cs(1) by (simp add: stat_sent_slots_def Let_def n_def)
next
  case False
  have "unat (c0 + cnt) = unat c0 + unat cnt" using ovf by (simp add: unat_plus_if')
  then show ?thesis using False by (auto simp: stat_sent_slots_def Let_def batch_slots_def)
qed

lemma stamped_slots:
  assumes rtc: "rtc_ok (round_trip_contexts S t)"
    and n: "0 < num_frames_per_cycle (classes app t)"
    and ovf: "unat c0 + unat cnt + num_frames_per_cycle (classes app t) < 2 ^ 64"
    and sel: "log_stat_user_selected S = LOG_REFERENCE"
  shows "\<exists>S1 b. stat_frames_sent_batch B app clk t c0 cnt S = Some S1 \<and>
           log_stat_user_selected S1 = LOG_REFERENCE \<and> stat_histograms S1 = stat_histograms S \<and>
           backlog (round_trip_contexts S1 t) = Some b \<and>
           backlog_len (round_trip_contexts S1 t) = length b \<and> 0 < length b \<and>
           (\<forall>x \<in> batch_slots app t c0 cnt. sw_ts (b ! (x mod length b)) = clock_ns clk)"
proof -
  obtain b where b: "backlog (round_trip_contexts S t) = Some b"
    "length b = backlog_len (round_trip_contexts S t)" "0 < length b"
    using rtc by (auto simp: rtc_ok_def)
  obtain cs where cs: "stat_sent_slots app t c0 cnt = Some cs" "batch_slots app t c0 cnt \<subseteq> set cs"
    using sent_slots_cover [OF n ovf] by blast
  obtain b' where b': "stamp_slots t (clock_ns clk) cs S = Some (with_backlog t b' S)" "length b' = length b"
    "\<forall>i < length b. b' ! i = (if i \<in> (\<lambda>c. c mod length b) ` set cs then (b ! i)\<lparr>sw_ts := clock_ns clk\<rparr> else b ! i)"
    using stamp_slots_ok [OF b, of "clock_ns clk" cs] by blast
  have "sw_ts (b' ! (x mod length b')) = clock_ns clk" if "x \<in> batch_slots app t c0 cnt" for x
    using b' cs(2) that b(3) by auto
  then show ?thesis using cs(1) b' b sel
    by (intro exI [of _ b'] exI)
       (auto simp: stat_frames_sent_batch_def Let_def per_period_sent_keeps)
qed

section \<open>Runs of the component\<close>

text \<open>Send and receive events and the periodic update, in any order.\<close>

datatype stat_op =
    Op_received "timespec option" stat_frame_type u64 bool bool bool u64 u64 u64
  | Op_sent "timespec option" stat_frame_type u64 u64
  | Op_update "timespec option"

text \<open>Whether an update takes a snapshot.\<close>

definition stat_due :: "application_config \<Rightarrow> timespec option \<Rightarrow> stat_state \<Rightarrow> bool" where
  "stat_due app clk S \<longleftrightarrow>
     clock_ns clk - (if last_ts S = 0 then clock_ns clk else last_ts S) \<ge> stats_collection_interval_ns app"

text \<open>The snapshots handed to the log threads, and the final state.\<close>

fun stat_run ::
  "build \<Rightarrow> application_config \<Rightarrow> stat_op list \<Rightarrow> stat_state \<Rightarrow>
   ((stat_frame_type \<Rightarrow> statistics) list \<times> stat_state) option" where
  "stat_run B app [] S = Some ([], S)"
| "stat_run B app (Op_received clk t seq ooo pm fm ts hw sw # ops) S = do {
     (S, _) \<leftarrow> stat_frame_received B app clk t seq ooo pm fm ts hw sw S;
     stat_run B app ops S
   }"
| "stat_run B app (Op_sent clk t seq cnt # ops) S = do {
     S \<leftarrow> stat_frames_sent_batch B app clk t seq cnt S;
     stat_run B app ops S
   }"
| "stat_run B app (Op_update clk # ops) S = do {
     let S' = stat_update B app clk S;
     (snaps, R) \<leftarrow> stat_run B app ops S';
     Some (if stat_due app clk S then statistics_per_period_for_log S' # snaps else snaps, R)
   }"

text \<open>Frames counted globally but not in the running period.\<close>

definition settled :: "(statistics \<Rightarrow> u64) \<Rightarrow> stat_frame_type \<Rightarrow> stat_state \<Rightarrow> u64" where
  "settled cnt t S = cnt (global_statistics S t) - cnt (statistics_per_period S t)"

lemma received_common_counts:
  "frames_received (fst (stat_frame_received_common sel l st t rt ow ooo pm fm a b c)) = frames_received st + 1"
  "frames_sent (fst (stat_frame_received_common sel l st t rt ow ooo pm fm a b c)) = frames_sent st"
proof -
  have "frames_sent (fst (rcv_round_trip l t rt st)) = frames_sent st"
    "frames_sent (fst (rcv_oneway l t ow st')) = frames_sent st'"
    "frames_sent (rcv_rx_times a b c st') = frames_sent st'" for st'
    by (simp_all add: rcv_round_trip_def rcv_oneway_def rcv_rx_times_def stat_update_min_max_eq
        stat_update_min_max_s_def Let_def)
  then show "frames_received (fst (stat_frame_received_common sel l st t rt ow ooo pm fm a b c)) = frames_received st + 1"
    "frames_sent (fst (stat_frame_received_common sel l st t rt ow ooo pm fm a b c)) = frames_sent st"
    by (simp_all add: stat_frame_received_common_def Let_def case_prod_unfold rcv_sel)
qed

lemma backlog_upd_keeps:
  assumes "backlog_upd t i f S = Some S'"
  shows "global_statistics S' = global_statistics S" "statistics_per_period S' = statistics_per_period S"
    "reset_stats S' = reset_stats S"
  using assms by (auto simp: backlog_upd_def Let_def split: option.splits if_splits)

lemma stamp_slots_keeps:
  "stamp_slots t ts cs S = Some S' \<Longrightarrow>
   global_statistics S' = global_statistics S \<and> statistics_per_period S' = statistics_per_period S \<and>
   reset_stats S' = reset_stats S"
  by (induction t ts cs S rule: stamp_slots.induct)
     (auto simp: Let_def backlog_upd_keeps split: if_splits)

lemma sent_per_period_counts:
  assumes "WITH_MQTT B"
  shows "frames_sent (statistics_per_period ((stat_frame_sent_per_period B t ^^ k) S) u) =
           frames_sent (statistics_per_period S u) + (if u = t then of_nat k else 0)"
    and "frames_received (statistics_per_period ((stat_frame_sent_per_period B t ^^ k) S) u) =
           frames_received (statistics_per_period S u)"
    and "global_statistics ((stat_frame_sent_per_period B t ^^ k) S) = global_statistics S"
    and "reset_stats ((stat_frame_sent_per_period B t ^^ k) S) = reset_stats S"
  using assms by (induction k) (auto simp: stat_frame_sent_per_period_def Let_def)

lemma settled_received:
  assumes "stat_frame_received B app clk t seq ooo pm fm ts hw sw S = Some (S', out)" "WITH_MQTT B"
  shows "settled frames_received u S' = settled frames_received u S"
    and "settled frames_sent u S' = settled frames_sent u S" and "reset_stats S' = reset_stats S"
proof -
  obtain S1 where s1: "stat_store_rx_hw_ts B app t seq hw S = Some S1"
    using assms(1) by (auto simp: stat_frame_received_def Let_def)
  obtain S2 rt where s2: "stat_round_trip app (clock_ns clk) t seq S1 = Some (S2, rt)"
    using assms(1) s1 by (auto simp: stat_frame_received_def Let_def)
  obtain diff where d: "int64_sub (sint (clock_ns clk)) (sint ts) = Some diff"
    using assms(1) s1 s2 by (auto simp: stat_frame_received_def Let_def)
  obtain a b c where r: "stat_rx_times (clock_ns clk) hw sw = (a, b, c)" by (metis prod_cases3)
  have rest: "global_statistics S' = (global_statistics S2)(t := fst (stat_frame_received_common
        (log_stat_user_selected S2) (rtt_expected_rt_limit S2) (global_statistics S2 t) t rt (diff sdiv 1000)
        ooo pm fm a b c))"
    "statistics_per_period S' = (statistics_per_period S2)(t := fst (stat_frame_received_common
        (log_stat_user_selected S2) (rtt_expected_rt_limit S2)
        ((statistics_per_period S2 t)\<lparr>time_stamp := clock_ns clk\<rparr>) t rt (diff sdiv 1000) ooo pm fm a b c))"
    "reset_stats S' = reset_stats S2"
    using assms s1 s2 d r
    by (auto simp: stat_frame_received_def stat_frame_received_per_period_def Let_def case_prod_unfold)
  have "global_statistics S1 = global_statistics S \<and> statistics_per_period S1 = statistics_per_period S \<and>
        reset_stats S1 = reset_stats S"
    using s1 by (auto simp: stat_store_rx_hw_ts_def Let_def backlog_upd_keeps split: if_splits)
  moreover have "global_statistics S2 = global_statistics S1 \<and> statistics_per_period S2 = statistics_per_period S1 \<and>
        reset_stats S2 = reset_stats S1"
    using s2 by (auto simp: stat_round_trip_def Let_def split: if_splits)
  ultimately show "settled frames_received u S' = settled frames_received u S"
    "settled frames_sent u S' = settled frames_sent u S" "reset_stats S' = reset_stats S"
    using rest by (simp_all add: settled_def received_common_counts)
qed

lemma settled_sent:
  assumes "stat_frames_sent_batch B app clk t seq cnt S = Some S'" "WITH_MQTT B"
  shows "settled frames_received u S' = settled frames_received u S"
    and "settled frames_sent u S' = settled frames_sent u S" and "reset_stats S' = reset_stats S"
proof -
  obtain S1 where S1: "global_statistics S1 = global_statistics S" "statistics_per_period S1 = statistics_per_period S"
    "reset_stats S1 = reset_stats S"
    and S': "S' = (let R = (stat_frame_sent_per_period B t ^^ unat cnt) S1; st = global_statistics R t
       in R\<lparr>global_statistics := (global_statistics R)(t := st\<lparr>frames_sent := frames_sent st + cnt\<rparr>)\<rparr>)"
    using assms(1) stamp_slots_keeps [of t "clock_ns clk" _ S]
    by (auto simp: stat_frames_sent_batch_def Let_def split: if_splits)
  show "settled frames_received u S' = settled frames_received u S"
    "settled frames_sent u S' = settled frames_sent u S" "reset_stats S' = reset_stats S"
    using S1 S' by (auto simp: settled_def Let_def sent_per_period_counts [OF assms(2)])
qed

lemma settled_update:
  fixes app clk
  assumes "WITH_MQTT B" "\<not> reset_stats S" "u \<noteq> NUM_FRAME_TYPES" "cnt stat_reset = 0"
  defines "S' \<equiv> stat_update B app clk S"
  shows "settled cnt u S' = settled cnt u S +
           (if stat_due app clk S then cnt (statistics_per_period_for_log S' u) else 0)"
    and "\<not> reset_stats S'"
  using assms frame_types_complete [of u]
  by (auto simp: S'_def stat_update_def stat_due_def settled_def Let_def)

lemma settled_run:
  assumes "stat_run B app ops S = Some (snaps, S')" "WITH_MQTT B" "\<not> reset_stats S" "u \<noteq> NUM_FRAME_TYPES"
    and "cnt = frames_received \<or> cnt = frames_sent"
  shows "settled cnt u S' = settled cnt u S + (\<Sum>st\<leftarrow>snaps. cnt (st u))"
proof -
  have c: "cnt stat_reset = 0" using assms(5) by (auto simp: stat_reset_def zero_statistics_def)
  show ?thesis using assms(1,3)
  proof (induction ops arbitrary: S snaps)
    case (Cons op ops)
    show ?case
    proof (cases op)
      case (Op_received clk t seq ooo pm fm ts hw sw)
      then obtain S1 out where r: "stat_frame_received B app clk t seq ooo pm fm ts hw sw S = Some (S1, out)"
        "stat_run B app ops S1 = Some (snaps, S')"
        using Cons.prems(1) by auto
      then show ?thesis using Cons.IH [of S1 snaps] settled_received [OF r(1) assms(2)]
          assms(5) Cons.prems(2) by auto
    next
      case (Op_sent clk t seq n)
      then obtain S1 where r: "stat_frames_sent_batch B app clk t seq n S = Some S1"
        "stat_run B app ops S1 = Some (snaps, S')"
        using Cons.prems(1) by auto
      then show ?thesis using Cons.IH [of S1 snaps] settled_sent [OF r(1) assms(2)]
          assms(5) Cons.prems(2) by auto
    next
      case (Op_update clk)
      let ?S1 = "stat_update B app clk S"
      obtain rest where r: "stat_run B app ops ?S1 = Some (rest, S')"
        "snaps = (if stat_due app clk S then statistics_per_period_for_log ?S1 # rest else rest)"
        using Cons.prems(1) Op_update by (auto simp: Let_def)
      then show ?thesis using Cons.IH [OF r(1)] settled_update [of B S u cnt app clk] assms(2,4) c Cons.prems(2)
        by (auto simp: algebra_simps)
    qed
  qed simp
qed

section \<open>Properties\<close>

text \<open>C23. On the reference, after any non-empty series of received frames of a class
  starting from reset statistics, the counters hold the number of frames and of
  each kind of error, and the round-trip minimum, maximum, count, sum and average
  are those of the series: exact as long as the sum stays below \<open>2\<^sup>5\<^sup>3\<close>, the average
  rounded once.\<close>

theorem rx_statistics_exact:
  assumes "vs \<noteq> []" "(\<Sum>v\<leftarrow>vs. unat (fst v)) \<le> 2 ^ 53" "length vs \<le> 2 ^ 53"
  shows "\<exists>st. st = fold (rx_step limit t) vs stat_reset \<and>
    frames_received st = of_nat (length vs) \<and>
    out_of_order_errors st = of_nat (length (filter (\<lambda>(_, _, ooo, _). ooo) vs)) \<and>
    payload_errors st = of_nat (length (filter (\<lambda>(_, _, _, pm, _). pm) vs)) \<and>
    frame_id_errors st = of_nat (length (filter (\<lambda>(_, _, _, _, fm, _). fm) vs)) \<and>
    round_trip_min st = Min (fst ` set vs) \<and> round_trip_max st = Max (fst ` set vs) \<and>
    round_trip_count st = of_nat (length vs) \<and>
    round_trip_sum st = of_nat (\<Sum>v\<leftarrow>vs. unat (fst v)) \<and>
    round_trip_avg st = rnd (of_nat (\<Sum>v\<leftarrow>vs. unat (fst v)) / of_nat (length vs))"
proof -
  have reset: "round_trip_min stat_reset = - 1" "round_trip_max stat_reset = 0"
    "round_trip_count stat_reset = 0" "round_trip_sum stat_reset = 0"
    by (simp_all add: stat_reset_def zero_statistics_def)
  have "list_all (\<lambda>_. True) vs" by (simp add: list_all_iff)
  note run = rtt.run_exact [OF this assms(1) reset assms(2,3), of limit t]
  show ?thesis
    using run rx_step_counters [of limit t vs stat_reset]
    by (simp add: stat_reset_def zero_statistics_def del: fold.simps)
qed

theorem rx_statistics_exact_witness:
  "\<exists>st. st = fold (rx_step 2000 RTC_FRAME_TYPE)
            [(40, 20, False, False, False, 0, 0, 0), (60, 25, True, False, False, 5, 2, 3)] stat_reset \<and>
     frames_received st = 2 \<and> out_of_order_errors st = 1 \<and> round_trip_min st = 40 \<and> round_trip_sum st = 100"
  using rx_statistics_exact [of "[(40, 20, False, False, False, 0, 0, 0), (60, 25, True, False, False, 5, 2, 3)]"
      2000 RTC_FRAME_TYPE]
  by (simp del: fold.simps)

text \<open>C20. On the reference, the round-trip time of a frame received after the batch
  that contains it was sent is the time between the two events in microseconds,
  and exactly that value goes to the histogram.  With hardware transmit stamps
  this holds for all frames of a cycle whose first frame is in the batch.\<close>

theorem round_trip_exact:
  assumes "rtc_ok (round_trip_contexts S t)" "log_stat_user_selected S = LOG_REFERENCE"
    and n: "0 < num_frames_per_cycle (classes app t)"
    and ovf: "unat c0 + unat cnt + num_frames_per_cycle (classes app t) < 2 ^ 64"
    and seq: "unat c0 \<le> rtt_slot app t seq" "unat seq < unat c0 + unat cnt"
    and clk: "clock_ns clk \<noteq> 0"
    and hist: "stats_histogram_enabled app \<longrightarrow> hist_inv app (stat_histograms S t) \<and> hist_counts (stat_histograms S t) rs"
  shows "\<exists>S1 S2. stat_frames_sent_batch B app clk t c0 cnt S = Some S1 \<and>
           stat_round_trip app now t seq S1 = Some (S2, (now - clock_ns clk) div 1000) \<and>
           (stats_histogram_enabled app \<longrightarrow>
              hist_counts (stat_histograms S2 t) (rs @ [(now - clock_ns clk) div 1000]))"
proof -
  obtain S1 b where S1: "stat_frames_sent_batch B app clk t c0 cnt S = Some S1"
    "log_stat_user_selected S1 = LOG_REFERENCE" "stat_histograms S1 = stat_histograms S"
    "backlog (round_trip_contexts S1 t) = Some b" "backlog_len (round_trip_contexts S1 t) = length b" "0 < length b"
    "\<forall>x \<in> batch_slots app t c0 cnt. sw_ts (b ! (x mod length b)) = clock_ns clk"
    using stamped_slots [OF assms(1) n ovf assms(2), of B clk] by blast
  let ?i = "rtt_slot app t seq mod length b"
  let ?rt = "(now - clock_ns clk) div 1000"
  have "rtt_slot app t seq \<le> unat seq" by (simp add: rtt_slot_def Let_def)
  then have "rtt_slot app t seq \<in> batch_slots app t c0 cnt"
    using seq by (auto simp: batch_slots_def rtt_slot_def Let_def)
  then have sw: "sw_ts (b ! ?i) = clock_ns clk" using S1(7) by blast
  have idx: "(if tx_hwtstamp_enabled (classes app t)
       then get_first_frame_backlog_idx seq (num_frames_per_cycle (classes app t)) (length b)
       else if length b = 0 then None else Some (unat seq mod length b)) = Some ?i"
    using n S1(6) by (simp add: get_first_frame_backlog_idx_def rtt_slot_def Let_def)
  obtain H where H: "(if stats_histogram_enabled app then histogram_update t ?rt (stat_histograms S1)
      else Some (stat_histograms S1)) = Some H"
    "stats_histogram_enabled app \<longrightarrow> hist_counts (H t) (rs @ [?rt])"
    using hist_update_ok [of app "stat_histograms S" t rs ?rt] hist S1(3)
    by (cases "stats_histogram_enabled app") auto
  have get: "backlog_get (round_trip_contexts S1 t) ?i = Some (b ! ?i)"
    using S1(4,6) by (simp add: backlog_get_def)
  have "stat_round_trip app now t seq S1 = Some (S1\<lparr>stat_histograms := H\<rparr>, ?rt)"
    unfolding stat_round_trip_def Let_def S1(2,5) idx
    using clk by (simp add: get sw H(1) cong: if_cong split del: if_split)
  then show ?thesis using S1(1) H(2) by auto
qed

definition demo_stat_app :: application_config where
  "demo_stat_app = zero_app_config\<lparr>application_base_cycle_time_ns := 1000000,
     classes := (\<lambda>_. zero_class_config\<lparr>num_frames_per_cycle := 2\<rparr>)\<rparr>"

definition demo_stat :: stat_state where
  "demo_stat = (case stat_init demo_stat_app (\<lambda>_. True) True LOG_REFERENCE zero_stat_state of
     Inr S \<Rightarrow> S | Inl _ \<Rightarrow> zero_stat_state)"

lemma demo_stat_facts:
  "log_stat_user_selected demo_stat = LOG_REFERENCE"
  "round_trip_contexts demo_stat RTC_FRAME_TYPE = stat_alloc_backlog demo_stat_app RTC_FRAME_TYPE"
  by (simp_all add: demo_stat_def stat_init_def demo_stat_app_def zero_app_config_def zero_class_config_def
      frame_types_def stat_needs_backlog_def Let_def)

theorem round_trip_exact_witness:
  "\<exists>S1 S2. stat_frames_sent_batch \<lparr>HAVE_BUSY_POLL = False, WITH_MQTT = False, HAVE_XDP_TX_TIME = False,
        RX_TIMESTAMP = False, TX_TIMESTAMP = False\<rparr> demo_stat_app demo_clock RTC_FRAME_TYPE 4 2 demo_stat = Some S1 \<and>
     stat_round_trip demo_stat_app 5001500000 RTC_FRAME_TYPE 5 S1 = Some (S2, 1000)"
  using round_trip_exact [of demo_stat RTC_FRAME_TYPE demo_stat_app 4 2 5 demo_clock "[]" _ 5001500000]
  by (simp add: demo_stat_facts demo_stat_app_def zero_app_config_def zero_class_config_def rtc_ok_def
      stat_alloc_backlog_def rtt_slot_def demo_clock_ns Let_def)

text \<open>A hardware transmit time stamp is turned into a latency sample once: the
  first evaluation counts one sample, a second evaluation of the same frame
  without a new time stamp changes nothing.\<close>

lemma tx_latency_counted_once:
  assumes "tx_hwtstamp_enabled (classes app t)" "backlog (round_trip_contexts S t) = Some b"
    and "length b = backlog_len (round_trip_contexts S t)" "0 < length b"
    and "sw_ts (b ! (unat seq mod length b)) \<noteq> 0"
    and "hw_ts (b ! (unat seq mod length b)) > sw_ts (b ! (unat seq mod length b))"
  shows "\<exists>S1. stat_frame_sent_latency B app t seq S = Some S1 \<and>
           tx_count (global_statistics S1 t) = tx_count (global_statistics S t) + 1 \<and>
           stat_frame_sent_latency B app t seq S1 = Some S1"
proof -
  let ?i = "unat seq mod length b"
  let ?v = "of_int (sint (hw_ts (b ! ?i) - sw_ts (b ! ?i)) sdiv 1000) :: u64"
  define R where "R = stat_frame_sent_latency_per_period B t ?v (S\<lparr>global_statistics :=
    (global_statistics S)(t := stat_frame_sent_latency_common (global_statistics S t) ?v)\<rparr>)"
  let ?b = "b[?i := (b ! ?i)\<lparr>hw_ts := 0\<rparr>]"
  have R: "round_trip_contexts R = round_trip_contexts S"
    "global_statistics R t = stat_frame_sent_latency_common (global_statistics S t) ?v"
    by (simp_all add: R_def stat_frame_sent_latency_per_period_def)
  have i: "?i < length b" using assms(4) by simp
  have hw: "hw_ts (b ! ?i) \<noteq> 0" using assms(6) by (auto simp: word_less_nat_alt)
  have "backlog_upd t ?i (\<lambda>e. e\<lparr>hw_ts := 0\<rparr>) R = Some (with_backlog t ?b R)"
    using backlog_upd_eq [of R t b ?i] R(1) assms(2) i by simp
  then have "stat_frame_sent_latency B app t seq S = Some (with_backlog t ?b R)"
    using assms i hw by (simp add: stat_frame_sent_latency_def backlog_get_def Let_def R_def)
  moreover have "stat_frame_sent_latency B app t seq (with_backlog t ?b R) = Some (with_backlog t ?b R)"
    using assms i R(1) by (simp add: stat_frame_sent_latency_def backlog_get_def Let_def)
  ultimately show ?thesis using R(2) txl.cnt_step [where v = ?v] by simp
qed

definition demo_hw_app :: application_config where
  "demo_hw_app = zero_app_config\<lparr>classes := (\<lambda>_. zero_class_config\<lparr>tx_hwtstamp_enabled := True\<rparr>)\<rparr>"

definition demo_hw_stat :: stat_state where
  "demo_hw_stat = zero_stat_state\<lparr>round_trip_contexts :=
     (\<lambda>_. \<lparr>backlog = Some [\<lparr>sw_ts = 1000, hw_ts = 5000, rx_hw_ts = 0\<rparr>], backlog_len = 1\<rparr>)\<rparr>"

text \<open>C21. With per-period statistics compiled in and no reset requested, for any
  sequence of send, receive and update events the frames sent and received of a
  class in all published periods plus the running period add up to the global
  counters: no frame is lost or counted twice at a period boundary.\<close>

theorem periods_add_up:
  assumes "stat_run B app ops S = Some (snaps, S')" "WITH_MQTT B" "\<not> reset_stats S" "t \<noteq> NUM_FRAME_TYPES"
    and "global_statistics S t = stat_reset" "statistics_per_period S t = stat_reset"
  shows "frames_received (global_statistics S' t) =
           (\<Sum>st\<leftarrow>snaps. frames_received (st t)) + frames_received (statistics_per_period S' t) \<and>
         frames_sent (global_statistics S' t) =
           (\<Sum>st\<leftarrow>snaps. frames_sent (st t)) + frames_sent (statistics_per_period S' t)"
  using settled_run [OF assms(1-4), of frames_received] settled_run [OF assms(1-4), of frames_sent] assms(5,6)
  by (simp_all add: settled_def algebra_simps)

definition demo_mqtt :: build where
  "demo_mqtt = \<lparr>HAVE_BUSY_POLL = False, WITH_MQTT = True, HAVE_XDP_TX_TIME = False,
     RX_TIMESTAMP = False, TX_TIMESTAMP = False\<rparr>"

definition demo_mirror_stat :: stat_state where
  "demo_mirror_stat = zero_stat_state\<lparr>log_stat_user_selected := LOG_MIRROR,
     global_statistics := (\<lambda>_. stat_reset), statistics_per_period := (\<lambda>_. stat_reset)\<rparr>"

theorem periods_add_up_witness:
  "\<exists>snaps S'. stat_run demo_mqtt demo_stat_app
       [Op_sent demo_clock RTC_FRAME_TYPE 0 2, Op_update demo_clock, Op_sent demo_clock RTC_FRAME_TYPE 2 1]
       demo_mirror_stat = Some (snaps, S') \<and>
     frames_sent (global_statistics S' RTC_FRAME_TYPE) =
       (\<Sum>st\<leftarrow>snaps. frames_sent (st RTC_FRAME_TYPE)) + frames_sent (statistics_per_period S' RTC_FRAME_TYPE)"
proof -
  let ?ops = "[Op_sent demo_clock RTC_FRAME_TYPE 0 2, Op_update demo_clock, Op_sent demo_clock RTC_FRAME_TYPE 2 1]"
  have sent: "\<exists>R'. stat_frames_sent_batch demo_mqtt demo_stat_app demo_clock t c n R = Some R' \<and>
      log_stat_user_selected R' = LOG_MIRROR" if "log_stat_user_selected R = LOG_MIRROR" for t c n R
    using that by (simp add: stat_frames_sent_batch_def per_period_sent_keeps Let_def)
  have upd: "log_stat_user_selected (stat_update demo_mqtt demo_stat_app demo_clock R) = log_stat_user_selected R" for R
    by (simp add: stat_update_def Let_def)
  obtain R1 where R1: "stat_frames_sent_batch demo_mqtt demo_stat_app demo_clock RTC_FRAME_TYPE 0 2
      demo_mirror_stat = Some R1" "log_stat_user_selected R1 = LOG_MIRROR"
    using sent [of demo_mirror_stat RTC_FRAME_TYPE 0 2] by (auto simp: demo_mirror_stat_def)
  obtain R2 where R2: "stat_frames_sent_batch demo_mqtt demo_stat_app demo_clock RTC_FRAME_TYPE 2 1
      (stat_update demo_mqtt demo_stat_app demo_clock R1) = Some R2"
    using sent [of "stat_update demo_mqtt demo_stat_app demo_clock R1" RTC_FRAME_TYPE 2 1] upd R1(2) by auto
  obtain snaps S' where run: "stat_run demo_mqtt demo_stat_app ?ops demo_mirror_stat = Some (snaps, S')"
    using R1(1) R2 by (simp add: Let_def)
  have "WITH_MQTT demo_mqtt" "\<not> reset_stats demo_mirror_stat"
    "global_statistics demo_mirror_stat RTC_FRAME_TYPE = stat_reset"
    "statistics_per_period demo_mirror_stat RTC_FRAME_TYPE = stat_reset"
    by (simp_all add: demo_mqtt_def demo_mirror_stat_def zero_stat_state_def)
  with periods_add_up [OF run, of RTC_FRAME_TYPE] show ?thesis
    using run by (intro exI [of _ snaps] exI [of _ S']) (simp del: stat_run.simps)
qed

end
