(* ===== verification/TB_Rx.thy ===== *)
theory TB_Rx
  imports TB_Security TB_Ring_Buffer TB_Stat_Props
begin

text \<open>
  What the receive handlers of all traffic classes share: the thread context of
  \<^verbatim>\<open>thread.h\<close>, the header check for frames with or without VLAN tag, the
  accounting of a received frame (statistics, sequence counter, warnings) and the
  two mirror paths.  A handler works on the frame in its receive slot; external
  inputs of one call (clock reads, hardware time stamps, the initial contents of
  its stack buffers) are the record \<open>rx_env\<close>.
\<close>

section \<open>Contexts\<close>

text \<open>
  \<^verbatim>\<open>struct thread_context\<close> without its operating system handles.  The pointer
  \<^verbatim>\<open>payload_pattern\<close> points into \<^verbatim>\<open>frame_copy\<close> and is an offset into it; \<open>next_ctx\<close>
  is the index of the next traffic class.
\<close>

record 'c thread_context =
  rx_sequence_counter :: u64
  ctx_stop :: bool
  tx_frame_data :: bytes
  rx_frame_data :: bytes
  source :: bytes
  mirror_buffer :: "ring_buffer option"
  received_frames :: nat
  next_ctx :: "nat option"
  num_frames_available :: nat
  is_first :: bool
  is_last :: bool
  tx_security_context :: "'c security_context option"
  rx_security_context :: "'c security_context option"
  ctx_payload_pattern :: "nat option"
  ctx_payload_pattern_length :: nat
  frame_copy :: "bytes option"
  conf :: traffic_class_config
  tx_model :: tc_tx_model
  frame_type :: stat_frame_type
  traffic_class :: string
  meta_data_offset :: nat
  frame_id :: u16

datatype rx_log =
    Rx_too_small
  | Rx_wrong_type
  | Rx_wrong_length
  | Rx_not_processed
  | Rx_not_authenticated u64
  | Rx_frame_id_mismatch u64
  | Rx_seq_mismatch u64 u64
  | Rx_payload_mismatch u64

text \<open>The clock is read once for the mirror time stamp and once for the statistics.\<close>

record rx_env =
  re_build :: build
  re_app :: application_config
  re_clk_est :: "timespec option"
  re_clk_stat :: "timespec option"
  re_rx_meta :: "u64 \<times> u64"
  re_stack_plaintext :: bytes
  re_stack_new_frame :: bytes

text \<open>The state a handler changes; \<open>rx_exited\<close> if the program ended because of an outlier.\<close>

record 'c rx_state =
  rx_ctx :: "'c thread_context"
  rx_stat :: stat_state
  rx_frame :: bytes
  rx_logs :: "rx_log list"
  rx_exited :: bool

text \<open>What a handler read out of an accepted frame, with the frame as it left it.\<close>

record rx_parsed =
  pr_seq :: u64
  pr_tx_timestamp :: u64
  pr_payload_mismatch :: bool
  pr_frame_id_mismatch :: bool
  pr_vlan_tag_missing :: bool
  pr_frame :: bytes
  pr_logs :: "rx_log list"

section \<open>Header check\<close>

text \<open>
  Offset behind the Ethernet header and whether the VLAN tag is missing, or the
  warning of a rejected frame.
\<close>

definition rx_check_header ::
  "nat \<Rightarrow> u16 \<Rightarrow> bytes \<Rightarrow> nat \<Rightarrow> (rx_log + nat \<times> bool) option" where
  "rx_check_header expected_length ethertype frame len =
     (if len < sizeof_vlan_ethernet_header then Some (Inl Rx_too_small)
      else do {
        h_proto \<leftarrow> mem_read 12 2 frame;
        (proto, p, vlan_tag_missing) \<leftarrow>
          (if h_proto = be16_bytes ETH_P_8021Q
           then do { encap \<leftarrow> mem_read 16 2 frame; Some (encap, sizeof_vlan_ethernet_header, False) }
           else Some (h_proto, sizeof_ethhdr, True));
        if proto \<noteq> be16_bytes ethertype then Some (Inl Rx_wrong_type)
        else if (if vlan_tag_missing then len + sizeof_vlan_header else len) \<noteq> expected_length
        then Some (Inl Rx_wrong_length)
        else Some (Inr (p, vlan_tag_missing))
      })"

text \<open>\<^verbatim>\<open>memcmp\<close> against the configured payload pattern.\<close>

definition payload_differs :: "traffic_class_config \<Rightarrow> nat \<Rightarrow> bytes \<Rightarrow> bool option" where
  "payload_differs cfg p buf = do {
     a \<leftarrow> mem_read p (payload_pattern_length cfg) buf;
     b \<leftarrow> mem_read 0 (payload_pattern_length cfg) (ptr_bytes (payload_pattern cfg));
     Some (a \<noteq> b)
   }"

section \<open>Accounting\<close>

definition rx_account ::
  "rx_env \<Rightarrow> stat_frame_type \<Rightarrow> u64 \<Rightarrow> bool \<Rightarrow> bool \<Rightarrow> u64 \<Rightarrow> u64 \<Rightarrow> u64 \<Rightarrow>
   'c rx_state \<Rightarrow> 'c rx_state option" where
  "rx_account env t seq payload_mismatch frame_id_mismatch tx_timestamp rx_hw rx_sw w = do {
     let ctx = rx_ctx w;
     let expected = rx_sequence_counter ctx;
     let out_of_order = (seq \<noteq> expected);
     (S, exited) \<leftarrow> stat_frame_received (re_build env) (re_app env) (re_clk_stat env) t seq out_of_order
                      payload_mismatch frame_id_mismatch tx_timestamp rx_hw rx_sw (rx_stat w);
     if exited then Some (w\<lparr>rx_stat := S, rx_exited := True\<rparr>)
     else Some (w\<lparr>rx_stat := S,
       rx_logs := rx_logs w
         @ (if frame_id_mismatch then [Rx_frame_id_mismatch seq] else [])
         @ (if out_of_order \<and> \<not> ignore_rx_errors (conf ctx) then [Rx_seq_mismatch seq expected] else [])
         @ (if payload_mismatch then [Rx_payload_mismatch seq] else []),
       rx_ctx := ctx\<lparr>rx_sequence_counter := expected + (if out_of_order then 1 else 0) + 1\<rparr>\<rparr>)
   }"

section \<open>Mirroring\<close>

text \<open>\<^verbatim>\<open>ring_buffer_add\<close> on the mirror buffer of a context.\<close>

definition mirror_add :: "bytes \<Rightarrow> nat \<Rightarrow> 'c rx_state \<Rightarrow> 'c rx_state option" where
  "mirror_add data len w = do {
     rb \<leftarrow> ring_buffer_add (mirror_buffer (rx_ctx w)) data len;
     Some (w\<lparr>rx_ctx := (rx_ctx w)\<lparr>mirror_buffer := rb\<rparr>\<rparr>)
   }"

text \<open>In place for AF_XDP, through a new frame in the mirror buffer otherwise.\<close>

definition rx_mirror :: "rx_env \<Rightarrow> u16 \<Rightarrow> bool \<Rightarrow> nat \<Rightarrow> 'c rx_state \<Rightarrow> 'c rx_state option" where
  "rx_mirror env ethertype vlan_tag_missing len w =
     (let cfg = conf (rx_ctx w)
      in if xdp_enabled cfg
         then do {
           frame \<leftarrow> (if vlan_tag_missing then insert_vlan_tag (rx_frame w) len ethertype (vlan_tci_of cfg)
                    else Some (rx_frame w));
           frame \<leftarrow> swap_mac_addresses frame len;
           Some (w\<lparr>rx_frame := frame\<rparr>)
         }
         else do {
           new_frame \<leftarrow> build_vlan_frame_from_rx (rx_frame w) len (re_stack_new_frame env) MAX_FRAME_SIZE
                          ethertype (vlan_tci_of cfg);
           mirror_add new_frame (len + sizeof_vlan_header) w
         })"

text \<open>The time stamps of the receive path, zero unless compiled in.\<close>

definition rx_timestamps :: "rx_env \<Rightarrow> u64 \<times> u64" where
  "rx_timestamps env = (if config_have_rx_timestamp (re_build env) then re_rx_meta env else (0, 0))"

text \<open>
  The frame every handler has: a rejected frame is logged, an accepted one is
  accounted for and, if the class mirrors, handed to the mirror step.
\<close>

definition rx_handle ::
  "rx_env \<Rightarrow> stat_frame_type \<Rightarrow> u64 \<times> u64 \<Rightarrow>
   ('c thread_context \<Rightarrow> bytes \<Rightarrow> nat \<Rightarrow> (rx_log + rx_parsed) option) \<Rightarrow>
   (bool \<Rightarrow> nat \<Rightarrow> 'c rx_state \<Rightarrow> 'c rx_state option) \<Rightarrow>
   nat \<Rightarrow> 'c rx_state \<Rightarrow> (errno option \<times> 'c rx_state) option" where
  "rx_handle env t hw_sw parse mirror len w = do {
     r \<leftarrow> parse (rx_ctx w) (rx_frame w) len;
     case r of
       Inl e \<Rightarrow> Some (Some EINVAL, w\<lparr>rx_logs := rx_logs w @ [e]\<rparr>)
     | Inr pr \<Rightarrow> do {
         w \<leftarrow> rx_account env t (pr_seq pr) (pr_payload_mismatch pr)
                (pr_frame_id_mismatch pr) (pr_tx_timestamp pr) (fst hw_sw) (snd hw_sw)
                (w\<lparr>rx_frame := pr_frame pr, rx_logs := rx_logs w @ pr_logs pr\<rparr>);
         if rx_exited w \<or> \<not> rx_mirror_enabled (conf (rx_ctx w)) then Some (None, w)
         else do {
           w \<leftarrow> mirror (pr_vlan_tag_missing pr) len w;
           Some (None, w)
         }
       }
   }"

section \<open>Lemmas\<close>

lemma rx_account_seq:
  assumes "rx_account env t seq pm fm ts hw sw w = Some w'" "\<not> rx_exited w'"
  shows "rx_sequence_counter (rx_ctx w') =
           rx_sequence_counter (rx_ctx w) + (if seq = rx_sequence_counter (rx_ctx w) then 1 else 2)"
    and "rx_ctx w' = (rx_ctx w)\<lparr>rx_sequence_counter := rx_sequence_counter (rx_ctx w')\<rparr>"
    and "rx_frame w' = rx_frame w"
  using assms by (auto simp: rx_account_def Let_def split: if_splits)

lemma rx_check_header_reject:
  assumes "rx_check_header n et frame len = Some (Inl e)"
  shows "e \<in> {Rx_too_small, Rx_wrong_type, Rx_wrong_length}"
  using assms by (auto simp: rx_check_header_def split: if_splits)

lemma rx_check_header_total:
  assumes "18 \<le> length frame" 
  shows "\<exists>r. rx_check_header n et frame len = Some r"
  using assms by (auto simp: rx_check_header_def split: if_splits)

lemma rx_check_header_ok:
  assumes "rx_check_header n et frame len = Some (Inr (p, missing))"
  shows "18 \<le> len" "p = (if missing then 14 else 18)" "n = (if missing then len + 4 else len)"
  using assms by (auto simp: rx_check_header_def split: if_splits)

section \<open>What one frame does to the statistics\<close>

lemma common_errors:
  "out_of_order_errors (fst (stat_frame_received_common sel l st t rt ow ooo pm fm a b c)) =
     out_of_order_errors st + of_bool ooo"
  "payload_errors (fst (stat_frame_received_common sel l st t rt ow ooo pm fm a b c)) =
     payload_errors st + of_bool pm"
  "frame_id_errors (fst (stat_frame_received_common sel l st t rt ow ooo pm fm a b c)) =
     frame_id_errors st + of_bool fm"
  by (simp_all add: stat_frame_received_common_def Let_def case_prod_unfold rcv_sel)

lemma stat_received_counts:
  assumes "stat_frame_received B app clk t seq ooo pm fm ts hw sw S = Some (S', out)"
  shows "frames_received (global_statistics S' t) = frames_received (global_statistics S t) + 1"
    and "out_of_order_errors (global_statistics S' t) = out_of_order_errors (global_statistics S t) + of_bool ooo"
    and "payload_errors (global_statistics S' t) = payload_errors (global_statistics S t) + of_bool pm"
    and "frame_id_errors (global_statistics S' t) = frame_id_errors (global_statistics S t) + of_bool fm"
    and "u \<noteq> t \<Longrightarrow> global_statistics S' u = global_statistics S u"
proof -
  obtain S1 where s1: "stat_store_rx_hw_ts B app t seq hw S = Some S1"
    using assms(1) by (auto simp: stat_frame_received_def Let_def)
  obtain S2 rt where s2: "stat_round_trip app (clock_ns clk) t seq S1 = Some (S2, rt)"
    using assms(1) s1 by (auto simp: stat_frame_received_def Let_def)
  obtain diff where d: "int64_sub (sint (clock_ns clk)) (sint ts) = Some diff"
    using assms(1) s1 s2 by (auto simp: stat_frame_received_def Let_def)
  obtain a b c where r: "stat_rx_times (clock_ns clk) hw sw = (a, b, c)" by (metis prod_cases3)
  have g: "global_statistics S' = (global_statistics S2)(t := fst (stat_frame_received_common
        (log_stat_user_selected S2) (rtt_expected_rt_limit S2) (global_statistics S2 t) t rt (diff sdiv 1000)
        ooo pm fm a b c))"
    using assms s1 s2 d r
    by (auto simp: stat_frame_received_def stat_frame_received_per_period_def Let_def case_prod_unfold)
  have "global_statistics S1 = global_statistics S"
    using s1 by (auto simp: stat_store_rx_hw_ts_def Let_def backlog_upd_keeps split: if_splits)
  moreover have "global_statistics S2 = global_statistics S1"
    using s2 by (auto simp: stat_round_trip_def Let_def split: if_splits)
  ultimately show "frames_received (global_statistics S' t) = frames_received (global_statistics S t) + 1"
    "out_of_order_errors (global_statistics S' t) = out_of_order_errors (global_statistics S t) + of_bool ooo"
    "payload_errors (global_statistics S' t) = payload_errors (global_statistics S t) + of_bool pm"
    "frame_id_errors (global_statistics S' t) = frame_id_errors (global_statistics S t) + of_bool fm"
    "u \<noteq> t \<Longrightarrow> global_statistics S' u = global_statistics S u"
    using g by (simp_all add: common_errors received_common_counts)
qed

text \<open>When the statistics of a class can take a frame.\<close>

definition stat_ready :: "application_config \<Rightarrow> stat_frame_type \<Rightarrow> stat_state \<Rightarrow> bool" where
  "stat_ready app t S \<longleftrightarrow>
     rtc_ok (round_trip_contexts S t) \<and> 0 < num_frames_per_cycle (classes app t) \<and>
     (stats_histogram_enabled app \<longrightarrow>
        hist_inv app (stat_histograms S t) \<and> (\<exists>rs. hist_counts (stat_histograms S t) rs))"

lemma store_rx_hw_ready:
  assumes "stat_ready app t S"
  shows "\<exists>S'. stat_store_rx_hw_ts B app t seq hw S = Some S' \<and> stat_ready app t S'"
proof -
  obtain b where b: "backlog (round_trip_contexts S t) = Some b" "length b = backlog_len (round_trip_contexts S t)"
    "0 < length b"
    using assms by (auto simp: stat_ready_def rtc_ok_def)
  have "\<exists>S'. backlog_upd t i f S = Some S' \<and> stat_ready app t S'" if "i < length b" for i f
    using backlog_upd_eq [OF b(1) that] assms b by (auto simp: stat_ready_def rtc_ok_def)
  then show ?thesis
    using assms b by (auto simp: stat_store_rx_hw_ts_def get_first_frame_backlog_idx_def Let_def stat_ready_def)
qed

lemma round_trip_ready:
  assumes "stat_ready app t S"
  shows "\<exists>S' rt. stat_round_trip app now t seq S = Some (S', rt) \<and> stat_ready app t S'"
proof -
  obtain b where b: "backlog (round_trip_contexts S t) = Some b" "length b = backlog_len (round_trip_contexts S t)"
    "0 < length b"
    using assms by (auto simp: stat_ready_def rtc_ok_def)
  have g: "\<exists>e. backlog_get (round_trip_contexts S t) i = Some e" if "i < length b" for i
    using that b by (simp add: backlog_get_def)
  have h: "\<exists>H. histogram_update t r (stat_histograms S) = Some H \<and> hist_inv app (H t) \<and> (\<exists>rs. hist_counts (H t) rs)"
    if "stats_histogram_enabled app" for r
    using that assms hist_update_ok [of app "stat_histograms S" t] unfolding stat_ready_def by blast
  let ?i = "rtt_slot app t seq mod length b"
  have i: "(if tx_hwtstamp_enabled (classes app t)
       then get_first_frame_backlog_idx seq (num_frames_per_cycle (classes app t)) (backlog_len (round_trip_contexts S t))
       else if backlog_len (round_trip_contexts S t) = 0 then None
       else Some (unat seq mod backlog_len (round_trip_contexts S t))) = Some ?i"
    using b assms by (simp add: get_first_frame_backlog_idx_def rtt_slot_def stat_ready_def Let_def)
  obtain e where e: "backlog_get (round_trip_contexts S t) ?i = Some e" using g [of ?i] b(3) by auto
  define rt where "rt = (if sw_ts e \<noteq> 0 then (now - sw_ts e) div 1000 else 0)"
  show ?thesis
  proof (cases "log_stat_user_selected S = LOG_REFERENCE")
    case True
    show ?thesis
    proof (cases "stats_histogram_enabled app")
      case hist: True
      obtain H where "histogram_update t rt (stat_histograms S) = Some H" "hist_inv app (H t)"
        "\<exists>rs. hist_counts (H t) rs"
        using h [OF hist] by blast
      then show ?thesis using True hist e i assms
        by (auto simp: stat_round_trip_def rt_def stat_ready_def Let_def cong: if_cong split del: if_split)
    next
      case False
      then show ?thesis using True e i assms
        by (simp add: stat_round_trip_def stat_ready_def Let_def cong: if_cong split del: if_split)
    qed
  qed (use assms in \<open>simp add: stat_round_trip_def\<close>)
qed

lemma sint_small: "w < 2 ^ 63 \<Longrightarrow> sint w = uint w" for w :: u64
proof -
  assume "w < 2 ^ 63"
  then have "uint w < 2 ^ 63" by (simp add: word_less_def)
  moreover have "- (2 ^ 63) \<le> uint w" by (rule order_trans [of _ 0]) simp_all
  ultimately show ?thesis by (simp add: sint_uint signed_take_bit_int_eq_self)
qed

lemma stat_received_total:
  assumes "stat_ready app t S" "clock_ns clk < 2 ^ 63" "ts < 2 ^ 63"
  shows "\<exists>S' out. stat_frame_received B app clk t seq ooo pm fm ts hw sw S = Some (S', out) \<and> stat_ready app t S'"
proof -
  obtain S1 where s1: "stat_store_rx_hw_ts B app t seq hw S = Some S1" "stat_ready app t S1"
    using store_rx_hw_ready [OF assms(1)] by blast
  obtain S2 rt where s2: "stat_round_trip app (clock_ns clk) t seq S1 = Some (S2, rt)" "stat_ready app t S2"
    using round_trip_ready [OF s1(2)] by blast
  have "0 \<le> sint (clock_ns clk)" "sint (clock_ns clk) < 2 ^ 63" "0 \<le> sint ts" "sint ts < 2 ^ 63"
    using assms(2,3) by (simp_all add: sint_small) (simp_all add: word_less_def)
  then obtain d where d: "int64_sub (sint (clock_ns clk)) (sint ts) = Some d"
    by (auto simp: int64_sub_def)
  show ?thesis using s1 s2 d
    by (auto simp: stat_frame_received_def stat_frame_received_per_period_def stat_ready_def Let_def case_prod_unfold)
qed

lemma rx_account_eq:
  assumes "stat_frame_received (re_build env) (re_app env) (re_clk_stat env) t seq
      (seq \<noteq> rx_sequence_counter (rx_ctx w)) pm fm ts hw sw (rx_stat w) = Some (S, out)"
  shows "\<exists>L. rx_account env t seq pm fm ts hw sw w = Some (if out then w\<lparr>rx_stat := S, rx_exited := True\<rparr>
       else w\<lparr>rx_stat := S, rx_logs := L,
              rx_ctx := (rx_ctx w)\<lparr>rx_sequence_counter := rx_sequence_counter (rx_ctx w)
                + (if seq \<noteq> rx_sequence_counter (rx_ctx w) then 1 else 0) + 1\<rparr>\<rparr>)"
  using assms unfolding rx_account_def Let_def
  by (cases out) (simp_all cong: if_cong split del: if_split, blast)

section \<open>The contract of the receive handlers\<close>

text \<open>A handler on a series of frames: the slot contents and the length of each.\<close>

primrec rx_run ::
  "(rx_env \<Rightarrow> nat \<Rightarrow> 'c rx_state \<Rightarrow> (errno option \<times> 'c rx_state) option) \<Rightarrow>
   (rx_env \<times> bytes \<times> nat) list \<Rightarrow> 'c rx_state \<Rightarrow> (errno option list \<times> 'c rx_state) option" where
  "rx_run handle [] w = Some ([], w)"
| "rx_run handle (f # fs) w = (case f of (env, slot, len) \<Rightarrow> do {
     (ret, w) \<leftarrow> handle env len (w\<lparr>rx_frame := slot\<rparr>);
     if rx_exited w then Some ([ret], w)
     else do { (rets, w) \<leftarrow> rx_run handle fs w; Some (ret # rets, w) }
   })"

text \<open>
  What the code around the handlers (the loops over received messages) relies on:
  a rejected frame is only logged; an accepted one is counted once, for its class
  alone, and moves the sequence counter by one, or two if it is out of order.
\<close>

locale rx_handler =
  fixes handle :: "rx_env \<Rightarrow> nat \<Rightarrow> 'c rx_state \<Rightarrow> (errno option \<times> 'c rx_state) option"
    and tc_of :: "'c thread_context \<Rightarrow> stat_frame_type"
  assumes rejects: "handle env len w = Some (Some e, w') \<Longrightarrow>
      e = EINVAL \<and> (\<exists>l. w' = w\<lparr>rx_logs := rx_logs w @ [l]\<rparr>)"
    and accepts: "handle env len w = Some (None, w') \<Longrightarrow>
      conf (rx_ctx w') = conf (rx_ctx w) \<and> tc_of (rx_ctx w') = tc_of (rx_ctx w) \<and>
      frames_received (global_statistics (rx_stat w') (tc_of (rx_ctx w))) =
        frames_received (global_statistics (rx_stat w) (tc_of (rx_ctx w))) + 1 \<and>
      (\<forall>u. u \<noteq> tc_of (rx_ctx w) \<longrightarrow> global_statistics (rx_stat w') u = global_statistics (rx_stat w) u) \<and>
      (\<not> rx_exited w' \<longrightarrow> rx_sequence_counter (rx_ctx w') = rx_sequence_counter (rx_ctx w) + 1 +
         (out_of_order_errors (global_statistics (rx_stat w') (tc_of (rx_ctx w))) -
          out_of_order_errors (global_statistics (rx_stat w) (tc_of (rx_ctx w)))))"
begin

lemma run_counts:
  assumes "rx_run handle fs w = Some (rets, w')" "\<not> rx_exited w'"
  defines "t \<equiv> tc_of (rx_ctx w)"
  shows "length rets = length fs"
    and "frames_received (global_statistics (rx_stat w') t) =
           frames_received (global_statistics (rx_stat w) t) + of_nat (length (filter (\<lambda>r. r = None) rets))"
    and "u \<noteq> t \<Longrightarrow> global_statistics (rx_stat w') u = global_statistics (rx_stat w) u"
    and "rx_sequence_counter (rx_ctx w') - frames_received (global_statistics (rx_stat w') t)
             - out_of_order_errors (global_statistics (rx_stat w') t) =
         rx_sequence_counter (rx_ctx w) - frames_received (global_statistics (rx_stat w) t)
             - out_of_order_errors (global_statistics (rx_stat w) t)"
    and "conf (rx_ctx w') = conf (rx_ctx w)"
proof -
  have "length rets = length fs \<and>
    frames_received (global_statistics (rx_stat w') t) =
           frames_received (global_statistics (rx_stat w) t) + of_nat (length (filter (\<lambda>r. r = None) rets)) \<and>
    (\<forall>u. u \<noteq> t \<longrightarrow> global_statistics (rx_stat w') u = global_statistics (rx_stat w) u) \<and>
    rx_sequence_counter (rx_ctx w') - frames_received (global_statistics (rx_stat w') t)
             - out_of_order_errors (global_statistics (rx_stat w') t) =
         rx_sequence_counter (rx_ctx w) - frames_received (global_statistics (rx_stat w) t)
             - out_of_order_errors (global_statistics (rx_stat w) t) \<and>
    conf (rx_ctx w') = conf (rx_ctx w)"
    using assms(1) unfolding t_def
  proof (induction fs arbitrary: w rets)
    case (Cons f fs)
    obtain env slot len where f: "f = (env, slot, len)" by (metis prod_cases3)
    let ?w = "w\<lparr>rx_frame := slot\<rparr>"
    obtain ret w1 where h: "handle env len ?w = Some (ret, w1)"
      using Cons.prems f by (auto split: if_splits)
    show ?case
    proof (cases "rx_exited w1")
      case True
      then have "w' = w1" using Cons.prems f h by (auto split: if_splits)
      then show ?thesis using True assms(2) by simp
    next
      case False
      obtain rets' where r: "rx_run handle fs w1 = Some (rets', w')" "rets = ret # rets'"
        using Cons.prems f h False by auto
      note IH = Cons.IH [OF r(1)]
      show ?thesis
      proof (cases ret)
        case None
        note a = accepts [OF h [unfolded None]]
        have t: "tc_of (rx_ctx w1) = tc_of (rx_ctx w)" using a by simp
        let ?T = "tc_of (rx_ctx w)"
        let ?g = "\<lambda>v. global_statistics (rx_stat v) ?T"
        have k: "rx_sequence_counter (rx_ctx w1) - frames_received (?g w1) - out_of_order_errors (?g w1) =
            rx_sequence_counter (rx_ctx w) - frames_received (?g w) - out_of_order_errors (?g w)"
          using a False by (simp add: algebra_simps)
        have "frames_received (?g w') = frames_received (?g w) + of_nat (length (filter (\<lambda>r. r = None) rets))"
          using a IH None r(2) unfolding t by (simp add: algebra_simps)
        moreover have "rx_sequence_counter (rx_ctx w') - frames_received (?g w') - out_of_order_errors (?g w') =
            rx_sequence_counter (rx_ctx w) - frames_received (?g w) - out_of_order_errors (?g w)"
          using IH k unfolding t by argo
        moreover have "\<forall>u. u \<noteq> ?T \<longrightarrow> global_statistics (rx_stat w') u = global_statistics (rx_stat w) u"
          using a IH unfolding t by auto
        moreover have "length rets = length (f # fs)" "conf (rx_ctx w') = conf (rx_ctx w)"
          using a IH r(2) by auto
        ultimately show ?thesis by blast
      next
        case (Some e)
        obtain l where "w1 = ?w\<lparr>rx_logs := rx_logs ?w @ [l]\<rparr>" using rejects [OF h [unfolded Some]] by blast
        then have e: "rx_stat w1 = rx_stat w" "rx_ctx w1 = rx_ctx w" by simp_all
        have "length rets = length (f # fs)" "filter (\<lambda>r. r = None) rets = filter (\<lambda>r. r = None) rets'"
          using IH Some r(2) by auto
        then show ?thesis using IH unfolding e by metis
      qed
    qed
  qed simp
  then show "length rets = length fs"
    "frames_received (global_statistics (rx_stat w') t) =
           frames_received (global_statistics (rx_stat w) t) + of_nat (length (filter (\<lambda>r. r = None) rets))"
    "u \<noteq> t \<Longrightarrow> global_statistics (rx_stat w') u = global_statistics (rx_stat w) u"
    "rx_sequence_counter (rx_ctx w') - frames_received (global_statistics (rx_stat w') t)
             - out_of_order_errors (global_statistics (rx_stat w') t) =
         rx_sequence_counter (rx_ctx w) - frames_received (global_statistics (rx_stat w) t)
             - out_of_order_errors (global_statistics (rx_stat w) t)"
    "conf (rx_ctx w') = conf (rx_ctx w)"
    by blast+
qed

end

text \<open>The handlers built on \<^const>\<open>rx_handle\<close> keep the contract if their mirror step
  touches nothing but the frame and the mirror buffer.\<close>

locale rx_shape =
  fixes handle :: "rx_env \<Rightarrow> nat \<Rightarrow> 'c rx_state \<Rightarrow> (errno option \<times> 'c rx_state) option"
    and tc_of :: "'c thread_context \<Rightarrow> stat_frame_type"
    and hw_sw :: "rx_env \<Rightarrow> u64 \<times> u64"
    and parse :: "rx_env \<Rightarrow> 'c thread_context \<Rightarrow> bytes \<Rightarrow> nat \<Rightarrow> (rx_log + rx_parsed) option"
    and mirror :: "rx_env \<Rightarrow> bool \<Rightarrow> nat \<Rightarrow> 'c rx_state \<Rightarrow> 'c rx_state option"
  assumes handle_eq:
      "handle env len w = rx_handle env (tc_of (rx_ctx w)) (hw_sw env) (parse env) (mirror env) len w"
    and tc_stable: "tc_of (c\<lparr>rx_sequence_counter := x\<rparr>) = tc_of c" "tc_of (c\<lparr>mirror_buffer := b\<rparr>) = tc_of c"
    and mirror_keeps: "mirror env m len w = Some w' \<Longrightarrow>
      rx_stat w' = rx_stat w \<and> rx_ctx w' = (rx_ctx w)\<lparr>mirror_buffer := mirror_buffer (rx_ctx w')\<rparr>"
begin

lemma account_law:
  assumes "rx_account env t seq pm fm ts hw sw w = Some w'"
  shows "\<exists>x. rx_ctx w' = (rx_ctx w)\<lparr>rx_sequence_counter := x\<rparr> \<and> (\<not> rx_exited w' \<longrightarrow> x = rx_sequence_counter (rx_ctx w) + 1 +
         (out_of_order_errors (global_statistics (rx_stat w') t) -
          out_of_order_errors (global_statistics (rx_stat w) t)))"
    and "frames_received (global_statistics (rx_stat w') t) = frames_received (global_statistics (rx_stat w) t) + 1"
    and "u \<noteq> t \<Longrightarrow> global_statistics (rx_stat w') u = global_statistics (rx_stat w) u"
proof -
  let ?n = "rx_sequence_counter (rx_ctx w)"
  obtain S out where s: "stat_frame_received (re_build env) (re_app env) (re_clk_stat env) t seq
      (seq \<noteq> ?n) pm fm ts hw sw (rx_stat w) = Some (S, out)"
    using assms by (auto simp: rx_account_def Let_def split del: if_split)
  obtain L where w': "w' = (if out then w\<lparr>rx_stat := S, rx_exited := True\<rparr>
       else w\<lparr>rx_stat := S, rx_logs := L,
              rx_ctx := (rx_ctx w)\<lparr>rx_sequence_counter := ?n + (if seq \<noteq> ?n then 1 else 0) + 1\<rparr>\<rparr>)"
    using rx_account_eq [OF s] assms by auto
  note c = stat_received_counts [OF s]
  have s: "rx_stat w' = S" using w' by simp
  show "\<exists>x. rx_ctx w' = (rx_ctx w)\<lparr>rx_sequence_counter := x\<rparr> \<and> (\<not> rx_exited w' \<longrightarrow> x = ?n + 1 +
         (out_of_order_errors (global_statistics (rx_stat w') t) -
          out_of_order_errors (global_statistics (rx_stat w) t)))"
  proof (cases out)
    case True
    then show ?thesis using w' by (intro exI [of _ ?n]) simp
  next
    case False
    then show ?thesis using w' s c(2)
      by (intro exI [of _ "?n + (if seq \<noteq> ?n then 1 else 0) + 1"]) simp
  qed
  show "frames_received (global_statistics (rx_stat w') t) = frames_received (global_statistics (rx_stat w) t) + 1"
    using c(1) s by simp
  show "u \<noteq> t \<Longrightarrow> global_statistics (rx_stat w') u = global_statistics (rx_stat w) u"
    using c(5) s by simp
qed

lemma handle_parse:
  assumes "handle env len w = Some (ret, w')"
  obtains l where "parse env (rx_ctx w) (rx_frame w) len = Some (Inl l)" "ret = Some EINVAL"
      "w' = w\<lparr>rx_logs := rx_logs w @ [l]\<rparr>"
    | pr w1 where "parse env (rx_ctx w) (rx_frame w) len = Some (Inr pr)" "ret = None"
      "rx_account env (tc_of (rx_ctx w)) (pr_seq pr) (pr_payload_mismatch pr) (pr_frame_id_mismatch pr)
         (pr_tx_timestamp pr) (fst (hw_sw env)) (snd (hw_sw env))
         (w\<lparr>rx_frame := pr_frame pr, rx_logs := rx_logs w @ pr_logs pr\<rparr>) = Some w1"
      "w' = w1 \<or> \<not> rx_exited w1 \<and> mirror env (pr_vlan_tag_missing pr) len w1 = Some w'"
proof -
  obtain r where r: "parse env (rx_ctx w) (rx_frame w) len = Some r"
    using assms unfolding handle_eq rx_handle_def by auto
  show thesis
  proof (cases r)
    case (Inl l)
    then show thesis using that(1) r assms unfolding handle_eq by (simp add: rx_handle_def)
  next
    case (Inr pr)
    then show thesis using that(2) r assms unfolding handle_eq
      by (auto simp: rx_handle_def split: if_splits)
  qed
qed

lemma handle_rejects:
  "handle env len w = Some (Some e, w') \<Longrightarrow> e = EINVAL \<and> (\<exists>l. w' = w\<lparr>rx_logs := rx_logs w @ [l]\<rparr>)"
  by (erule handle_parse) auto

lemma handle_accepts:
  assumes "handle env len w = Some (None, w')"
  defines "t \<equiv> tc_of (rx_ctx w)"
  shows "conf (rx_ctx w') = conf (rx_ctx w) \<and> tc_of (rx_ctx w') = t \<and>
      frames_received (global_statistics (rx_stat w') t) = frames_received (global_statistics (rx_stat w) t) + 1 \<and>
      (\<forall>u. u \<noteq> t \<longrightarrow> global_statistics (rx_stat w') u = global_statistics (rx_stat w) u) \<and>
      (\<not> rx_exited w' \<longrightarrow> rx_sequence_counter (rx_ctx w') = rx_sequence_counter (rx_ctx w) + 1 +
         (out_of_order_errors (global_statistics (rx_stat w') t) -
          out_of_order_errors (global_statistics (rx_stat w) t)))"
proof -
  obtain pr :: rx_parsed and w1 where p: "rx_account env t (pr_seq pr) (pr_payload_mismatch pr) (pr_frame_id_mismatch pr)
         (pr_tx_timestamp pr) (fst (hw_sw env)) (snd (hw_sw env))
         (w\<lparr>rx_frame := pr_frame pr, rx_logs := rx_logs w @ pr_logs pr\<rparr>) = Some w1"
      "w' = w1 \<or> \<not> rx_exited w1 \<and> mirror env (pr_vlan_tag_missing pr) len w1 = Some w'"
    unfolding t_def by (rule handle_parse [OF assms(1)]) (simp, blast)
  have m: "rx_stat w' = rx_stat w1 \<and> rx_ctx w' = (rx_ctx w1)\<lparr>mirror_buffer := mirror_buffer (rx_ctx w')\<rparr> \<and>
      (rx_exited w1 \<longrightarrow> rx_exited w')"
    using p(2) mirror_keeps by auto
  obtain x where x: "rx_ctx w1 = (rx_ctx w)\<lparr>rx_sequence_counter := x\<rparr>"
    "\<not> rx_exited w1 \<longrightarrow> x = rx_sequence_counter (rx_ctx w) + 1 +
         (out_of_order_errors (global_statistics (rx_stat w1) t) -
          out_of_order_errors (global_statistics (rx_stat w) t))"
    using account_law(1) [OF p(1)] by auto
  have c: "rx_ctx w' = (rx_ctx w)\<lparr>rx_sequence_counter := x, mirror_buffer := mirror_buffer (rx_ctx w')\<rparr>"
    using m x(1) by metis
  have "conf (rx_ctx w') = conf (rx_ctx w)" "rx_sequence_counter (rx_ctx w') = x"
    by (subst c, simp)+
  moreover have "tc_of (rx_ctx w') = t" by (subst c) (simp add: tc_stable t_def)
  ultimately show ?thesis using m x(2) account_law(2,3) [OF p(1)] by auto
qed

end

sublocale rx_shape \<subseteq> contract: rx_handler handle tc_of
  by unfold_locales (rule handle_rejects, assumption, rule handle_accepts)

lemma rx_mirror_keeps:
  "rx_mirror env et m len w = Some w' \<Longrightarrow>
   rx_stat w' = rx_stat w \<and> rx_ctx w' = (rx_ctx w)\<lparr>mirror_buffer := mirror_buffer (rx_ctx w')\<rparr>"
  by (auto simp: rx_mirror_def mirror_add_def Let_def split: if_splits)

section \<open>Streams of frames\<close>

text \<open>The accounting of a stream of frames of one class, given by the environment,
  the sequence counter and the time stamp of each.\<close>

primrec rx_stream ::
  "stat_frame_type \<Rightarrow> (rx_env \<times> u64 \<times> u64) list \<Rightarrow> 'c rx_state \<Rightarrow> 'c rx_state option" where
  "rx_stream t [] w = Some w"
| "rx_stream t (f # fs) w = (case f of (env, seq, ts) \<Rightarrow> do {
     w \<leftarrow> rx_account env t seq False False ts (fst (rx_timestamps env)) (snd (rx_timestamps env)) w;
     if rx_exited w then Some w else rx_stream t fs w
   })"

definition env_ok :: "application_config \<Rightarrow> rx_env \<times> u64 \<Rightarrow> bool" where
  "env_ok app x \<longleftrightarrow> re_app (fst x) = app \<and> clock_ns (re_clk_stat (fst x)) < 2 ^ 63 \<and> snd x < 2 ^ 63"

text \<open>Frames numbered consecutively from \<open>s\<close>.\<close>

primrec numbered :: "u64 \<Rightarrow> (rx_env \<times> u64) list \<Rightarrow> (rx_env \<times> u64 \<times> u64) list" where
  "numbered s [] = []"
| "numbered s (f # fs) = (fst f, s, snd f) # numbered (s + 1) fs"

lemma stream_tracking:
  assumes "stat_ready app t (rx_stat w)" "\<not> debug_stop_trace_on_outlier app" "\<not> rx_exited w"
    and "list_all (env_ok app) fs"
  defines "d \<equiv> \<lambda>s w. unat (s - rx_sequence_counter (rx_ctx w))"
  shows "\<exists>w'. rx_stream t (numbered s fs) w = Some w' \<and> \<not> rx_exited w' \<and>
    rx_sequence_counter (rx_ctx w') =
      rx_sequence_counter (rx_ctx w) + of_nat (length fs) + of_nat (min (length fs) (d s w)) \<and>
    frames_received (global_statistics (rx_stat w') t) =
      frames_received (global_statistics (rx_stat w) t) + of_nat (length fs) \<and>
    out_of_order_errors (global_statistics (rx_stat w') t) =
      out_of_order_errors (global_statistics (rx_stat w) t) + of_nat (min (length fs) (d s w))"
  using assms(1,3,4)
proof (induction fs arbitrary: s w)
  case Nil
  then show ?case by simp
next
  case (Cons f fs)
  obtain env ts where f: "f = (env, ts)" by fastforce
  let ?n = "rx_sequence_counter (rx_ctx w)"
  have e: "re_app env = app" "clock_ns (re_clk_stat env) < 2 ^ 63" "ts < 2 ^ 63" "list_all (env_ok app) fs"
    using Cons.prems(3) f by (simp_all add: env_ok_def [of _ "(env, ts)"])
  obtain S out where S: "stat_frame_received (re_build env) app (re_clk_stat env) t s (s \<noteq> ?n) False False ts
      (fst (rx_timestamps env)) (snd (rx_timestamps env)) (rx_stat w) = Some (S, out)" "stat_ready app t S"
    using stat_received_total [OF Cons.prems(1) e(2,3)] by blast
  have "\<not> out" using S(1) assms(2) by (auto simp: stat_frame_received_def Let_def case_prod_unfold)
  then obtain L where a: "rx_account env t s False False ts (fst (rx_timestamps env)) (snd (rx_timestamps env)) w
      = Some (w\<lparr>rx_stat := S, rx_logs := L,
          rx_ctx := (rx_ctx w)\<lparr>rx_sequence_counter := ?n + (if s \<noteq> ?n then 1 else 0) + 1\<rparr>\<rparr>)" (is "_ = Some ?w")
    using rx_account_eq [of env t s w False False ts] S(1) e(1) by fastforce
  note c = stat_received_counts [OF S(1)]
  obtain w' where w': "rx_stream t (numbered (s + 1) fs) ?w = Some w'" "\<not> rx_exited w'"
    "rx_sequence_counter (rx_ctx w') = rx_sequence_counter (rx_ctx ?w) + of_nat (length fs)
       + of_nat (min (length fs) (d (s + 1) ?w))"
    "frames_received (global_statistics (rx_stat w') t) = frames_received (global_statistics S t) + of_nat (length fs)"
    "out_of_order_errors (global_statistics (rx_stat w') t) =
       out_of_order_errors (global_statistics S t) + of_nat (min (length fs) (d (s + 1) ?w))"
    using Cons.IH [of ?w "s + 1"] S(2) Cons.prems(2) e(4) by auto
  have d: "d s w = (if s \<noteq> ?n then Suc (d (s + 1) ?w) else 0)" "s = ?n \<Longrightarrow> d (s + 1) ?w = 0"
  proof -
    have "unat (s - ?n) = Suc (unat (s - ?n - 1))" if "s \<noteq> ?n"
      using that unat_minus_one [of "s - ?n"] unat_gt_0 [of "s - ?n"] by simp
    then show "d s w = (if s \<noteq> ?n then Suc (d (s + 1) ?w) else 0)" "s = ?n \<Longrightarrow> d (s + 1) ?w = 0"
      by (auto simp: d_def algebra_simps)
  qed
  show ?case
    using w' a c(1,2) d Cons.prems(2) by (auto simp: f algebra_simps)
qed

text \<open>A context as \<^verbatim>\<open>calloc\<close> delivers it, for a class.\<close>

definition fresh_context :: "traffic_class_config \<Rightarrow> stat_frame_type \<Rightarrow> 'c thread_context" where
  "fresh_context cfg t = \<lparr>rx_sequence_counter = 0, ctx_stop = False, tx_frame_data = [], rx_frame_data = [],
     source = replicate ETH_ALEN 0, mirror_buffer = None, received_frames = 0, next_ctx = None,
     num_frames_available = 0, is_first = False, is_last = False, tx_security_context = None,
     rx_security_context = None, ctx_payload_pattern = None, ctx_payload_pattern_length = 0,
     frame_copy = None, conf = cfg, tx_model = TC_TX_CYCLIC, frame_type = t, traffic_class = '''',
     meta_data_offset = 0, frame_id = 0\<rparr>"

section \<open>Properties\<close>

text \<open>C9. The receiver's own counter and consecutively numbered frames: if the first of
  \<open>n\<close> frames is \<open>d\<close> ahead of the expected number (modulo \<open>2\<^sup>6\<^sup>4\<close>), exactly the first
  \<open>min n d\<close> of them are counted as out of order, after which counter and frames
  agree again.  So the loss of \<open>d\<close> frames is reported as \<open>d\<close> errors, and a stream in
  sequence (\<open>d = 0\<close>) as none.\<close>

theorem sequence_tracking:
  assumes "stat_ready app t (rx_stat w)" "\<not> debug_stop_trace_on_outlier app" "\<not> rx_exited w"
    and "list_all (env_ok app) fs"
  shows "\<exists>w'. rx_stream t (numbered s fs) w = Some w' \<and>
    rx_sequence_counter (rx_ctx w') = rx_sequence_counter (rx_ctx w) + of_nat (length fs)
      + of_nat (min (length fs) (unat (s - rx_sequence_counter (rx_ctx w)))) \<and>
    frames_received (global_statistics (rx_stat w') t) =
      frames_received (global_statistics (rx_stat w) t) + of_nat (length fs) \<and>
    out_of_order_errors (global_statistics (rx_stat w') t) =
      out_of_order_errors (global_statistics (rx_stat w) t)
      + of_nat (min (length fs) (unat (s - rx_sequence_counter (rx_ctx w))))"
  using stream_tracking [OF assms, of s] by blast

definition demo_rx :: "unit rx_state" where
  "demo_rx = \<lparr>rx_ctx = (fresh_context (classes demo_stat_app RTC_FRAME_TYPE) RTC_FRAME_TYPE)
       \<lparr>rx_sequence_counter := 3\<rparr>,
     rx_stat = demo_stat, rx_frame = [], rx_logs = [], rx_exited = False\<rparr>"

definition demo_env :: rx_env where
  "demo_env = \<lparr>re_build = \<lparr>HAVE_BUSY_POLL = False, WITH_MQTT = False, HAVE_XDP_TX_TIME = False,
       RX_TIMESTAMP = False, TX_TIMESTAMP = False\<rparr>, re_app = demo_stat_app, re_clk_est = demo_clock,
     re_clk_stat = demo_clock, re_rx_meta = (0, 0), re_stack_plaintext = replicate 4096 0,
     re_stack_new_frame = replicate 4096 0\<rparr>"

lemma demo_rx_ready:
  "stat_ready demo_stat_app RTC_FRAME_TYPE (rx_stat demo_rx)" "\<not> debug_stop_trace_on_outlier demo_stat_app"
  "\<not> rx_exited demo_rx" "env_ok demo_stat_app (demo_env, 5000000000)"
  "rx_sequence_counter (rx_ctx demo_rx) = 3"
  by (simp_all add: stat_ready_def demo_rx_def demo_stat_facts demo_stat_app_def zero_app_config_def rtc_ok_def
      stat_alloc_backlog_def zero_class_config_def env_ok_def demo_env_def demo_clock_ns fresh_context_def Let_def)

theorem sequence_tracking_witness:
  "\<exists>w'. rx_stream RTC_FRAME_TYPE (numbered 5 (replicate 6 (demo_env, 5000000000))) demo_rx = Some w' \<and>
     rx_sequence_counter (rx_ctx w') = 11 \<and>
     out_of_order_errors (global_statistics (rx_stat w') RTC_FRAME_TYPE) =
       out_of_order_errors (global_statistics demo_stat RTC_FRAME_TYPE) + 2"
  using sequence_tracking [OF demo_rx_ready(1-3), where fs = "replicate 6 (demo_env, 5000000000)" and s = 5]
    demo_rx_ready(4,5)
  by (auto simp: list_all_iff demo_rx_def)

text \<open>C31. A frame that arrives twice makes the receiver lose the stream for good: when
  the frame before the expected one comes again, it and all the frames after it
  (for the next \<open>2\<^sup>6\<^sup>4 - 1\<close>) are counted as out of order, though none is missing.\<close>

theorem duplicate_frame_desynchronises:
  assumes "stat_ready app t (rx_stat w)" "\<not> debug_stop_trace_on_outlier app" "\<not> rx_exited w"
    and "list_all (env_ok app) fs" "length fs < 2 ^ 64"
  shows "\<exists>w'. rx_stream t (numbered (rx_sequence_counter (rx_ctx w) - 1) fs) w = Some w' \<and>
    out_of_order_errors (global_statistics (rx_stat w') t) =
      out_of_order_errors (global_statistics (rx_stat w) t) + of_nat (length fs)"
proof -
  let ?n = "rx_sequence_counter (rx_ctx w)"
  have "unat (- 1 :: u64) = 2 ^ 64 - 1" by (simp add: unsigned_minus_1_eq_mask mask_eq_exp_minus_1)
  then have "min (length fs) (unat (?n - 1 - ?n)) = length fs" using assms(5) by simp
  then show ?thesis using stream_tracking [OF assms(1-4), of "?n - 1"] by auto
qed

theorem duplicate_frame_desynchronises_witness:
  "\<exists>w'. rx_stream RTC_FRAME_TYPE (numbered 2 (replicate 50 (demo_env, 5000000000))) demo_rx = Some w' \<and>
     out_of_order_errors (global_statistics (rx_stat w') RTC_FRAME_TYPE) =
       out_of_order_errors (global_statistics demo_stat RTC_FRAME_TYPE) + 50"
  using duplicate_frame_desynchronises [OF demo_rx_ready(1-3), where fs = "replicate 50 (demo_env, 5000000000)"]
    demo_rx_ready(4,5)
  by (auto simp: list_all_iff demo_rx_def)

end
