(* ===== verification/TB_Profinet.thy ===== *)
theory TB_Profinet
  imports TB_Rx
begin

text \<open>
  PROFINET frames, \<^verbatim>\<open>profinet.c\<close>: building the frame template in its three security
  modes and the receive handler of the TSN, RTC, RTA and DCP classes.
\<close>

section \<open>Building frames\<close>

text \<open>Ethernet header with VLAN tag, as every template starts.\<close>

definition write_vlan_ethernet_header ::
  "bytes \<Rightarrow> bytes \<Rightarrow> u16 \<Rightarrow> u16 \<Rightarrow> bytes \<Rightarrow> bytes option" where
  "write_vlan_ethernet_header src_mac dst_mac vlan_tci ethertype frame = do {
     dst \<leftarrow> mem_read 0 ETH_ALEN dst_mac;
     frame \<leftarrow> mem_write 0 dst frame;
     src \<leftarrow> mem_read 0 ETH_ALEN src_mac;
     frame \<leftarrow> mem_write ETH_ALEN src frame;
     frame \<leftarrow> mem_write 12 (be16_bytes ETH_P_8021Q) frame;
     frame \<leftarrow> mem_write 14 (be16_bytes vlan_tci) frame;
     mem_write 16 (be16_bytes ethertype) frame
   }"

text \<open>The \<^verbatim>\<open>uint16_t\<close> security length truncates the \<^verbatim>\<open>size_t\<close> difference.\<close>

definition initialize_secure_profinet_frame ::
  "security_mode \<Rightarrow> bytes \<Rightarrow> nat \<Rightarrow> bytes \<Rightarrow> bytes \<Rightarrow> bytes \<Rightarrow> nat \<Rightarrow> u16 \<Rightarrow> u16 \<Rightarrow> bytes option" where
  "initialize_secure_profinet_frame mode frame flen src_mac dst_mac pattern
     pattern_length vlan_tci fid = do {
     frame \<leftarrow> mem_write 0 (replicate flen 0) frame;
     frame \<leftarrow> write_vlan_ethernet_header src_mac dst_mac vlan_tci ETH_P_PROFINET_RT frame;
     let security_length = (of_nat flen - 18 - 16 :: u16);
     frame \<leftarrow> mem_write 18 (be16_bytes fid) frame;
     frame \<leftarrow> mem_write 20 [if mode = SECURITY_MODE_AO then 0 else 1] frame;
     frame \<leftarrow> mem_write 26 (be16_bytes security_length) frame;
     frame \<leftarrow> mem_write 28 (be32_bytes 0) frame;
     frame \<leftarrow> mem_write 32 (be32_bytes 0) frame;
     payload \<leftarrow> mem_read 0 pattern_length pattern;
     mem_write (sizeof_vlan_ethernet_header + sizeof_profinet_secure_header) payload frame
   }"

definition initialize_rt_profinet_frame ::
  "bytes \<Rightarrow> nat \<Rightarrow> bytes \<Rightarrow> bytes \<Rightarrow> bytes \<Rightarrow> nat \<Rightarrow> u16 \<Rightarrow> u16 \<Rightarrow> bytes option" where
  "initialize_rt_profinet_frame frame flen src_mac dst_mac pattern
     pattern_length vlan_tci fid = do {
     frame \<leftarrow> mem_write 0 (replicate flen 0) frame;
     frame \<leftarrow> write_vlan_ethernet_header src_mac dst_mac vlan_tci ETH_P_PROFINET_RT frame;
     frame \<leftarrow> mem_write 18 (be16_bytes fid) frame;
     frame \<leftarrow> mem_write 20 (be32_bytes 0) frame;
     frame \<leftarrow> mem_write 24 (be32_bytes 0) frame;
     payload \<leftarrow> mem_read 0 pattern_length pattern;
     mem_write (sizeof_vlan_ethernet_header + sizeof_profinet_rt_header) payload frame
   }"

definition initialize_profinet_frame ::
  "security_mode \<Rightarrow> bytes \<Rightarrow> nat \<Rightarrow> bytes \<Rightarrow> bytes \<Rightarrow> bytes \<Rightarrow> nat \<Rightarrow> u16 \<Rightarrow> u16 \<Rightarrow> bytes option" where
  "initialize_profinet_frame mode frame flen src_mac dst_mac pattern
     pattern_length vlan_tci fid =
     (case mode of
        SECURITY_MODE_NONE \<Rightarrow>
          initialize_rt_profinet_frame frame flen src_mac dst_mac pattern
            pattern_length vlan_tci fid
      | _ \<Rightarrow>
          initialize_secure_profinet_frame mode frame flen src_mac dst_mac pattern
            pattern_length vlan_tci fid)"

section \<open>Receiving frames\<close>

text \<open>The branch without security: the parsed fields and the offset of the payload.\<close>

definition receive_profinet_plain ::
  "rx_env \<Rightarrow> 'c thread_context \<Rightarrow> nat \<Rightarrow> bool \<Rightarrow> bytes \<Rightarrow> rx_parsed option" where
  "receive_profinet_plain env ctx p vlan_tag_missing frame = do {
     fid \<leftarrow> mem_read p 2 frame;
     seq \<leftarrow> meta_data_to_sequence_counter (p + 2) (num_frames_per_cycle (conf ctx)) frame;
     ts \<leftarrow> meta_data_to_tx_timestamp (p + 2) frame;
     frame \<leftarrow> set_mirror_tx_timestamp_est (re_app env) (re_clk_est env) (p + 2) frame;
     pm \<leftarrow> payload_differs (conf ctx) (p + sizeof_profinet_rt_header) frame;
     Some \<lparr>pr_seq = seq, pr_tx_timestamp = ts, pr_payload_mismatch = pm,
           pr_frame_id_mismatch = (be16_word fid \<noteq> frame_id ctx),
           pr_vlan_tag_missing = vlan_tag_missing, pr_frame = frame, pr_logs = []\<rparr>
   }"

text \<open>Authentication only: everything behind the Ethernet header up to the tag is
  authenticated, and authenticated again after the time stamp was rewritten.\<close>

definition receive_profinet_ao ::
  "('c, 's) evp \<Rightarrow> rx_env \<Rightarrow> 'c thread_context \<Rightarrow> nat \<Rightarrow> bool \<Rightarrow> bytes \<Rightarrow> nat \<Rightarrow> rx_parsed option" where
  "receive_profinet_ao E env ctx p vlan_tag_missing frame len = do {
     fid \<leftarrow> mem_read p 2 frame;
     seq \<leftarrow> meta_data_to_sequence_counter (p + 10) (num_frames_per_cycle (conf ctx)) frame;
     ts \<leftarrow> meta_data_to_tx_timestamp (p + 10) frame;
     if len < p + sizeof_security_checksum then None
     else do {
       let size_of_aad_data = len - p - sizeof_security_checksum;
       let begin_of_security_checksum = len - sizeof_security_checksum;
       iv \<leftarrow> prepare_iv (ptr_bytes (security_iv_prefix (conf ctx))) seq;
       context \<leftarrow> rx_security_context ctx;
       aad \<leftarrow> mem_read p size_of_aad_data frame;
       tag \<leftarrow> mem_read begin_of_security_checksum sizeof_security_checksum frame;
       (ret, _) \<leftarrow> security_decrypt E context None aad tag iv [];
       frame \<leftarrow> set_mirror_tx_timestamp_est (re_app env) (re_clk_est env) (p + 10) frame;
       aad \<leftarrow> mem_read p size_of_aad_data frame;
       (_, frame) \<leftarrow> security_encrypt E context None aad iv 0 begin_of_security_checksum frame;
       pm \<leftarrow> payload_differs (conf ctx) (p + sizeof_profinet_secure_header) frame;
       Some \<lparr>pr_seq = seq, pr_tx_timestamp = ts, pr_payload_mismatch = pm,
             pr_frame_id_mismatch = (be16_word fid \<noteq> frame_id ctx),
             pr_vlan_tag_missing = vlan_tag_missing, pr_frame = frame,
             pr_logs = (if ret = None then [] else [Rx_not_authenticated seq])\<rparr>
     }
   }"

text \<open>\<^verbatim>\<open>thread_context->payload_pattern\<close> as an argument of \<^verbatim>\<open>security_encrypt\<close>.\<close>

definition context_pattern :: "'c thread_context \<Rightarrow> bytes option option" where
  "context_pattern ctx =
     (case ctx_payload_pattern ctx of
        None \<Rightarrow> Some None
      | Some off \<Rightarrow> do {
          copy \<leftarrow> frame_copy ctx;
          pt \<leftarrow> mem_read off (ctx_payload_pattern_length ctx) copy;
          Some (Some pt)
        })"

text \<open>Authentication and encryption.\<close>

definition receive_profinet_ae ::
  "('c, 's) evp \<Rightarrow> rx_env \<Rightarrow> 'c thread_context \<Rightarrow> nat \<Rightarrow> bool \<Rightarrow> bytes \<Rightarrow> nat \<Rightarrow> rx_parsed option" where
  "receive_profinet_ae E env ctx p vlan_tag_missing frame len = do {
     fid \<leftarrow> mem_read p 2 frame;
     seq \<leftarrow> meta_data_to_sequence_counter (p + 10) (num_frames_per_cycle (conf ctx)) frame;
     ts \<leftarrow> meta_data_to_tx_timestamp (p + 10) frame;
     if len < p + sizeof_profinet_secure_header + sizeof_security_checksum then None
     else do {
       let begin_of_security_checksum = len - sizeof_security_checksum;
       let begin_of_ciphertext = p + sizeof_profinet_secure_header;
       let size_of_ciphertext = len - p - sizeof_profinet_secure_header - sizeof_security_checksum;
       iv \<leftarrow> prepare_iv (ptr_bytes (security_iv_prefix (conf ctx))) seq;
       context \<leftarrow> rx_security_context ctx;
       ct \<leftarrow> mem_read begin_of_ciphertext size_of_ciphertext frame;
       aad \<leftarrow> mem_read p sizeof_profinet_secure_header frame;
       tag \<leftarrow> mem_read begin_of_security_checksum sizeof_security_checksum frame;
       (ret, plaintext) \<leftarrow> security_decrypt E context (Some ct) aad tag iv (re_stack_plaintext env);
       frame \<leftarrow> set_mirror_tx_timestamp_est (re_app env) (re_clk_est env) (p + 10) frame;
       aad \<leftarrow> mem_read p sizeof_profinet_secure_header frame;
       pt \<leftarrow> context_pattern ctx;
       (_, frame) \<leftarrow> security_encrypt E context pt aad iv begin_of_ciphertext
                      begin_of_security_checksum frame;
       pm \<leftarrow> payload_differs (conf ctx) 0 plaintext;
       Some \<lparr>pr_seq = seq, pr_tx_timestamp = ts, pr_payload_mismatch = pm,
             pr_frame_id_mismatch = (be16_word fid \<noteq> frame_id ctx),
             pr_vlan_tag_missing = vlan_tag_missing, pr_frame = frame,
             pr_logs = (if ret = None then [] else [Rx_not_authenticated seq])\<rparr>
     }
   }"

text \<open>Everything up to the accounting.\<close>

definition receive_profinet_parse ::
  "('c, 's) evp \<Rightarrow> rx_env \<Rightarrow> 'c thread_context \<Rightarrow> bytes \<Rightarrow> nat \<Rightarrow> (rx_log + rx_parsed) option" where
  "receive_profinet_parse E env ctx frame len = do {
     hdr \<leftarrow> rx_check_header (frame_length (conf ctx)) ETH_P_PROFINET_RT frame len;
     case hdr of
       Inl e \<Rightarrow> Some (Inl e)
     | Inr (p, vlan_tag_missing) \<Rightarrow>
         map_option Inr
           (case security_mode (conf ctx) of
              SECURITY_MODE_NONE \<Rightarrow> receive_profinet_plain env ctx p vlan_tag_missing frame
            | SECURITY_MODE_AO \<Rightarrow> receive_profinet_ao E env ctx p vlan_tag_missing frame len
            | SECURITY_MODE_AE \<Rightarrow> receive_profinet_ae E env ctx p vlan_tag_missing frame len)
   }"

text \<open>The whole handler: return code (\<^const>\<open>None\<close> for 0) and state.\<close>

definition receive_profinet_frame ::
  "('c, 's) evp \<Rightarrow> rx_env \<Rightarrow> nat \<Rightarrow> 'c rx_state \<Rightarrow> (errno option \<times> 'c rx_state) option" where
  "receive_profinet_frame E env len w =
     rx_handle env (frame_type (rx_ctx w)) (rx_timestamps env) (receive_profinet_parse E env)
       (rx_mirror env ETH_P_PROFINET_RT) len w"

interpretation pn: rx_shape "receive_profinet_frame E" frame_type rx_timestamps "receive_profinet_parse E"
  "\<lambda>env. rx_mirror env ETH_P_PROFINET_RT" for E
  by unfold_locales (simp add: receive_profinet_frame_def, simp, simp, erule rx_mirror_keeps)

section \<open>Templates\<close>

lemma write_header_eq:
  assumes "length s = 6" "length d = 6" "18 \<le> length frame"
  shows "write_vlan_ethernet_header s d tci et frame =
         Some (d @ s @ be16_bytes ETH_P_8021Q @ be16_bytes tci @ be16_bytes et @ drop 18 frame)"
  using assms by (simp add: write_vlan_ethernet_header_def mem_read_def mem_write_def) arith

lemma initialize_rt_eq:
  assumes "length s = 6" "length d = 6" "length frame = flen" "length pat = pl" "36 + pl \<le> flen"
  shows "initialize_rt_profinet_frame frame flen s d pat pl tci fid =
         Some (d @ s @ be16_bytes ETH_P_8021Q @ be16_bytes tci @ be16_bytes ETH_P_PROFINET_RT @ be16_bytes fid
               @ be32_bytes 0 @ be32_bytes 0 @ replicate 8 0 @ pat @ replicate (flen - 36 - pl) 0)"
  using assms
  by (simp add: initialize_rt_profinet_frame_def write_header_eq mem_read_def mem_write_def) arith

lemma initialize_secure_eq:
  assumes "length s = 6" "length d = 6" "length frame = flen" "length pat = pl" "44 + pl \<le> flen"
  shows "initialize_secure_profinet_frame mode frame flen s d pat pl tci fid =
         Some (d @ s @ be16_bytes ETH_P_8021Q @ be16_bytes tci @ be16_bytes ETH_P_PROFINET_RT @ be16_bytes fid
               @ [if mode = SECURITY_MODE_AO then 0 else 1] @ replicate 5 0 
               @ be16_bytes (of_nat flen - 18 - 16) 
               @ be32_bytes 0 @ be32_bytes 0 @ replicate 8 0 @ pat @ replicate (flen - 44 - pl) 0)"
proof -
  define info where "info = [if mode = SECURITY_MODE_AO then 0 else 1 :: u8]"
  have "length info = 1" by (simp add: info_def)
  then show ?thesis
    using assms unfolding initialize_secure_profinet_frame_def info_def [symmetric]
    by (simp add: write_header_eq mem_read_def mem_write_def Let_def) arith
qed

section \<open>The wire format\<close>

text \<open>
  The header of a frame as received: complete, or with the VLAN tag stripped by
  the network card; and the sixteen bytes of meta data.
\<close>

definition rx_hdr :: "bool \<Rightarrow> bytes \<Rightarrow> bytes \<Rightarrow> u16 \<Rightarrow> u16 \<Rightarrow> bytes" where
  "rx_hdr stripped d s tci et =
     (if stripped then d @ s @ be16_bytes et
      else d @ s @ be16_bytes ETH_P_8021Q @ be16_bytes tci @ be16_bytes et)"

definition meta_bytes :: "u64 \<Rightarrow> nat \<Rightarrow> u64 \<Rightarrow> bytes" where
  "meta_bytes seq n ts =
     be32_bytes (of_nat (unat seq mod n)) @ be32_bytes (of_nat (unat seq div n)) @ be64_bytes ts"

lemma length_meta_bytes [simp]: "length (meta_bytes seq n ts) = 16"
  by (simp add: meta_bytes_def)

lemma length_rx_hdr [simp]:
  "length s = 6 \<Longrightarrow> length d = 6 \<Longrightarrow> length (rx_hdr st d s tci et) = (if st then 14 else 18)"
  by (simp add: rx_hdr_def)

lemma be16_bytes_inject [simp]: "be16_bytes a = be16_bytes b \<longleftrightarrow> a = b"
  by (metis be16_roundtrip)

lemma rx_check_header_wire:
  assumes "length s = 6" "length d = 6" "et \<noteq> ETH_P_8021Q" "4 \<le> length body"
    and "len = (if st then 14 else 18) + length body" "n = 18 + length body"
  shows "rx_check_header n et (rx_hdr st d s tci et @ body @ rest) len =
         Some (Inr (if st then 14 else 18, st))"
  using assms by (auto simp: rx_check_header_def rx_hdr_def)

lemma meta_set:
  assumes "length pre = off" "length m = 16" "0 < n"
  shows "sequence_counter_to_meta_data off seq n (pre @ m @ post) \<bind> tx_timestamp_to_meta_data off ts =
         Some (pre @ meta_bytes seq n ts @ post)"
  using assms
  by (simp add: set_seq_ok tx_timestamp_to_meta_data_def mem_write_def meta_bytes_def)

lemma meta_get_seq:
  assumes "0 < n" "n \<le> 2 ^ 32" "length pre = off" "unat seq < n * 2 ^ 32"
  shows "meta_data_to_sequence_counter off n (pre @ meta_bytes seq n ts @ post) = Some seq"
proof -
  have a: "sequence_counter_to_meta_data off seq n (pre @ replicate 8 0 @ be64_bytes ts @ post) =
      Some (pre @ meta_bytes seq n ts @ post)"
    using assms by (simp add: set_seq_ok meta_bytes_def)
  have "off + 8 \<le> length (pre @ replicate 8 0 @ be64_bytes ts @ post)" using assms by simp
  from get_set_seq [OF this assms(1,2) a] show ?thesis using assms(4) by simp
qed

lemma meta_get_ts:
  assumes "length pre = off"
  shows "meta_data_to_tx_timestamp off (pre @ meta_bytes seq n ts @ post) = Some ts"
  using assms by (simp add: meta_data_to_tx_timestamp_def meta_bytes_def)

lemma meta_mirror:
  assumes "length pre = off"
  shows "set_mirror_tx_timestamp_est app clk off (pre @ meta_bytes seq n ts @ post) =
         Some (pre @ meta_bytes seq n
           (clock_ns clk + (application_tx_base_offset_ns app - application_rx_base_offset_ns app)) @ post)"
  using assms
  by (simp add: set_mirror_tx_timestamp_est_def tx_timestamp_to_meta_data_def mem_write_def meta_bytes_def)

section \<open>Sealed frames\<close>

lemma aead_seal:
  assumes "evp_aead E c" "length iv = 12"
  obtains ct tag where "evp_seal E c iv aad pt = Some (ct, [], tag)" "length tag = 16"
    "length ct = (case pt of None \<Rightarrow> 0 | Some p \<Rightarrow> length p)"
  using assms unfolding evp_aead_def by blast

lemma aead_open:
  assumes "evp_aead E c" "length iv = 12" "evp_seal E c iv aad pt = Some (ct, [], tag)"
  shows "\<exists>ret > 0. evp_open E c iv aad (map_option (\<lambda>_. ct) pt) tag =
           Some (ret, case pt of None \<Rightarrow> [] | Some p \<Rightarrow> p, [])"
proof -
  obtain ret out where "evp_open E c iv aad (map_option (\<lambda>_. ct) pt) tag = Some (ret, out, [])"
    "ret > 0" "Some out = (case pt of None \<Rightarrow> Some [] | p \<Rightarrow> p)"
    using assms unfolding evp_aead_def by (metis Pair_inject option.inject)
  then show ?thesis by (cases pt) auto
qed

lemma prepare_iv_ok:
  assumes "6 \<le> length prefix"
  obtains iv where "prepare_iv prefix seq = Some iv" "length (take 12 iv) = 12"
  using assms by (simp add: prepare_iv_def)

lemma encrypt_ao:
  assumes "evp_aead E (sc_ctx sc)" "length (take 12 iv) = 12" "length oldtag = 16" "length pre = off"
  obtains tag where "evp_seal E (sc_ctx sc) (take 12 iv) aad None = Some ([], [], tag)" "length tag = 16"
    "security_encrypt E sc None aad iv 0 off (pre @ oldtag @ rest) = Some (None, pre @ tag @ rest)"
proof -
  obtain ct tag where s: "evp_seal E (sc_ctx sc) (take 12 iv) aad None = Some (ct, [], tag)"
    "length tag = 16" "ct = []"
    using aead_seal [OF assms(1,2), of aad None] by auto
  have "security_encrypt E sc None aad iv 0 off (pre @ oldtag @ rest) = Some (None, pre @ tag @ rest)"
    using security_encrypt_seal [OF s(1), where buf = "pre @ oldtag @ rest" and ct_off = 0 and tag_off = off]
      s assms(3,4) by (simp add: mem_write_def)
  then show thesis using that s by simp
qed

lemma encrypt_ae:
  assumes "evp_aead E (sc_ctx sc)" "length (take 12 iv) = 12" "length oldtag = 16" "length pre = off"
    and "length oldct = length pt" "toff = off + length pt"
  obtains ct tag where "evp_seal E (sc_ctx sc) (take 12 iv) aad (Some pt) = Some (ct, [], tag)"
    "length tag = 16" "length ct = length pt"
    "security_encrypt E sc (Some pt) aad iv off toff (pre @ oldct @ oldtag @ rest) =
       Some (None, pre @ ct @ tag @ rest)"
proof -
  obtain ct tag where s: "evp_seal E (sc_ctx sc) (take 12 iv) aad (Some pt) = Some (ct, [], tag)"
    "length tag = 16" "length ct = length pt"
    using aead_seal [OF assms(1,2), of aad "Some pt"] by auto
  have "security_encrypt E sc (Some pt) aad iv off toff (pre @ oldct @ oldtag @ rest) =
      Some (None, pre @ ct @ tag @ rest)"
    using security_encrypt_seal [OF s(1), where buf = "pre @ oldct @ oldtag @ rest" and ct_off = off
        and tag_off = toff] s assms(3-6) by (simp add: mem_write_def)
  then show thesis using that s by simp
qed

section \<open>Preparing frames\<close>

lemma bind_bind_Some:
  "m \<bind> f = Some y \<Longrightarrow> m \<bind> (\<lambda>x. f x \<bind> g) = g y"
  by (cases m) auto

lemma prepare_none:
  assumes "pf_mode fc = SECURITY_MODE_NONE" "pf_frame_type fc \<noteq> GENERICL2_FRAME_TYPE"
    and "length pre = pf_meta_data_offset fc" "length m = 16" "0 < pf_num_frames_per_cycle fc"
  shows "prepare_frame_for_tx E fc (pre @ m @ post) =
         Some (None, pre @ meta_bytes (pf_sequence_counter fc) (pf_num_frames_per_cycle fc)
                              (pf_tx_timestamp fc) @ post)"
  using assms meta_set [OF assms(3-5), where seq = "pf_sequence_counter fc" and ts = "pf_tx_timestamp fc" and post = post]
  by (simp add: prepare_frame_for_tx_def bind_bind_Some)

lemma prepare_ao:
  assumes "pf_mode fc = SECURITY_MODE_AO" "pf_frame_type fc \<noteq> GENERICL2_FRAME_TYPE"
    and "pf_security_context fc = Some sc" "evp_aead E (sc_ctx sc)"
    and "6 \<le> length (pf_iv_prefix fc)" "0 < pf_num_frames_per_cycle fc"
    and "length h = 18" "length f = 10" "length m = 16" "length t = 16"
    and "pf_frame_length fc = 60 + length body"
  defines "M \<equiv> meta_bytes (pf_sequence_counter fc) (pf_num_frames_per_cycle fc) (pf_tx_timestamp fc)"
  obtains iv tag where "prepare_iv (pf_iv_prefix fc) (pf_sequence_counter fc) = Some iv"
    "length (take 12 iv) = 12"
    "evp_seal E (sc_ctx sc) (take 12 iv) (f @ M @ body) None = Some ([], [], tag)" "length tag = 16"
    "prepare_frame_for_tx E fc (h @ f @ m @ body @ t @ rest) = Some (None, h @ f @ M @ body @ tag @ rest)"
proof -
  obtain iv where iv: "prepare_iv (pf_iv_prefix fc) (pf_sequence_counter fc) = Some iv"
    "length (take 12 iv) = 12"
    using assms(5) by (rule prepare_iv_ok)
  obtain tag where s: "evp_seal E (sc_ctx sc) (take 12 iv) (f @ M @ body) None = Some ([], [], tag)"
    "length tag = 16"
    "security_encrypt E sc None (f @ M @ body) iv 0 (44 + length body) ((h @ f @ M @ body) @ t @ rest) =
       Some (None, (h @ f @ M @ body) @ tag @ rest)"
    using encrypt_ao [OF assms(4) iv(2) assms(10), of "h @ f @ M @ body" "44 + length body" "f @ M @ body" rest]
      assms by (auto simp: M_def)
  have "length (h @ f) = 28" using assms by simp
  from meta_set [OF this assms(9,6), where seq = "pf_sequence_counter fc" and ts = "pf_tx_timestamp fc"
      and post = "body @ t @ rest"]
  have "sequence_counter_to_meta_data 28 (pf_sequence_counter fc) (pf_num_frames_per_cycle fc)
      (h @ f @ m @ body @ t @ rest) \<bind> tx_timestamp_to_meta_data 28 (pf_tx_timestamp fc) =
      Some (h @ f @ M @ body @ t @ rest)" by (simp add: M_def)
  moreover have "take (26 + length body) (drop 18 (h @ f @ M @ body @ t @ rest)) = f @ M @ body"
    using assms by (simp add: M_def)
  ultimately have "prepare_frame_for_tx E fc (h @ f @ m @ body @ t @ rest) =
      Some (None, h @ f @ M @ body @ tag @ rest)"
    using assms(1-3,7-11) iv s(3)
    by (simp add: prepare_frame_for_tx_def bind_bind_Some M_def)
  then show thesis using that iv s(1,2) by simp
qed

lemma prepare_ae:
  assumes "pf_mode fc = SECURITY_MODE_AE" "pf_frame_type fc \<noteq> GENERICL2_FRAME_TYPE"
    and "pf_security_context fc = Some sc" "evp_aead E (sc_ctx sc)"
    and "6 \<le> length (pf_iv_prefix fc)" "0 < pf_num_frames_per_cycle fc"
    and "length h = 18" "length f = 10" "length m = 16" "length t = 16"
    and "pf_frame_length fc = 60 + length body"
    and "mem_read 0 (pf_payload_pattern_length fc) (pf_payload_pattern fc) = Some pt" "length body = length pt"
  defines "M \<equiv> meta_bytes (pf_sequence_counter fc) (pf_num_frames_per_cycle fc) (pf_tx_timestamp fc)"
  obtains iv ct tag where "prepare_iv (pf_iv_prefix fc) (pf_sequence_counter fc) = Some iv"
    "length (take 12 iv) = 12"
    "evp_seal E (sc_ctx sc) (take 12 iv) (f @ M) (Some pt) = Some (ct, [], tag)" "length tag = 16"
    "length ct = length pt"
    "prepare_frame_for_tx E fc (h @ f @ m @ body @ t @ rest) = Some (None, h @ f @ M @ ct @ tag @ rest)"
proof -
  obtain iv where iv: "prepare_iv (pf_iv_prefix fc) (pf_sequence_counter fc) = Some iv"
    "length (take 12 iv) = 12"
    using assms(5) by (rule prepare_iv_ok)
  obtain ct tag where s: "evp_seal E (sc_ctx sc) (take 12 iv) (f @ M) (Some pt) = Some (ct, [], tag)"
    "length tag = 16" "length ct = length pt"
    "security_encrypt E sc (Some pt) (f @ M) iv 44 (44 + length pt) ((h @ f @ M) @ body @ t @ rest) =
       Some (None, (h @ f @ M) @ ct @ tag @ rest)"
    using encrypt_ae [OF assms(4) iv(2) assms(10), of "h @ f @ M" 44 body pt "44 + length pt" "f @ M" rest]
      assms by (auto simp: M_def)
  have "length (h @ f) = 28" using assms by simp
  from meta_set [OF this assms(9,6), where seq = "pf_sequence_counter fc" and ts = "pf_tx_timestamp fc"
      and post = "body @ t @ rest"]
  have "sequence_counter_to_meta_data 28 (pf_sequence_counter fc) (pf_num_frames_per_cycle fc)
      (h @ f @ m @ body @ t @ rest) \<bind> tx_timestamp_to_meta_data 28 (pf_tx_timestamp fc) =
      Some (h @ f @ M @ body @ t @ rest)" by (simp add: M_def)
  moreover have "take 26 (drop 18 (h @ f @ M @ body @ t @ rest)) = f @ M"
    using assms by (simp add: M_def)
  ultimately have "prepare_frame_for_tx E fc (h @ f @ m @ body @ t @ rest) =
      Some (None, h @ f @ M @ ct @ tag @ rest)"
    using assms(1-3,7-13) iv s(4)
    by (simp add: prepare_frame_for_tx_def bind_bind_Some M_def)
  then show thesis using that iv s(1-3) by simp
qed

section \<open>Receiving prepared frames\<close>

lemma payload_differs_eq:
  assumes "payload_pattern_length cfg = length (ptr_bytes (payload_pattern cfg))"
    and "length pre = off" "length (ptr_bytes (payload_pattern cfg)) \<le> length body"
  shows "payload_differs cfg off (pre @ body @ rest) =
         Some (take (length (ptr_bytes (payload_pattern cfg))) body \<noteq> ptr_bytes (payload_pattern cfg))"
  using assms by (simp add: payload_differs_def)

lemma receive_plain:
  assumes "length h = p" "num_frames_per_cycle (conf ctx) = n" "0 < n" "n \<le> 2 ^ 32"
    and "unat seq < n * 2 ^ 32" "payload_pattern_length (conf ctx) = length (ptr_bytes (payload_pattern (conf ctx)))"
    and "body = ptr_bytes (payload_pattern (conf ctx)) @ pad"
  shows "\<exists>pr. receive_profinet_plain env ctx p st (h @ be16_bytes fid @ meta_bytes seq n ts @ body @ rest) = Some pr \<and>
           pr_seq pr = seq \<and> pr_tx_timestamp pr = ts \<and> \<not> pr_payload_mismatch pr \<and>
           (pr_frame_id_mismatch pr \<longleftrightarrow> fid \<noteq> frame_id ctx) \<and> pr_vlan_tag_missing pr = st \<and> pr_logs pr = [] \<and>
           pr_frame pr = h @ be16_bytes fid @ meta_bytes seq n (clock_ns (re_clk_est env) +
             (application_tx_base_offset_ns (re_app env) - application_rx_base_offset_ns (re_app env))) @ body @ rest"
proof -
  let ?pre = "h @ be16_bytes fid"
  have l: "length ?pre = p + 2" using assms by simp
  note seq = meta_get_seq [OF assms(3,4) l assms(5), of ts "body @ rest"]
  note ts = meta_get_ts [OF l, of seq n ts "body @ rest"]
  note mir = meta_mirror [OF l, of "re_app env" "re_clk_est env" seq n ts "body @ rest"]
  have pd: "payload_differs (conf ctx) (p + 18) (?pre @ meta_bytes seq n t @ body @ rest) = Some False" for t
    using payload_differs_eq [OF assms(6), of "?pre @ meta_bytes seq n t" "p + 18" body rest] assms
    by simp
  show ?thesis using seq ts mir pd assms(1,2) by (simp add: receive_profinet_plain_def)
qed

text \<open>The time stamp a mirrored frame carries.\<close>

definition mirror_ts :: "rx_env \<Rightarrow> u64" where
  "mirror_ts env = clock_ns (re_clk_est env) +
     (application_tx_base_offset_ns (re_app env) - application_rx_base_offset_ns (re_app env))"

lemma receive_ao:
  assumes "length h = p" "num_frames_per_cycle (conf ctx) = n" "0 < n" "n \<le> 2 ^ 32"
    and "unat seq < n * 2 ^ 32" "payload_pattern_length (conf ctx) = length (ptr_bytes (payload_pattern (conf ctx)))"
    and "body = ptr_bytes (payload_pattern (conf ctx)) @ pad" "f = be16_bytes fid @ sec" "length sec = 8"
    and "rx_security_context ctx = Some sc" "evp_aead E (sc_ctx sc)"
    and "prepare_iv (ptr_bytes (security_iv_prefix (conf ctx))) seq = Some iv" "length (take 12 iv) = 12"
    and "evp_seal E (sc_ctx sc) (take 12 iv) (f @ meta_bytes seq n ts @ body) None = Some ([], [], tag)"
    and "length tag = 16" "len = p + 42 + length body"
  shows "\<exists>pr tag'. receive_profinet_ao E env ctx p st (h @ f @ meta_bytes seq n ts @ body @ tag @ rest) len = Some pr \<and>
           pr_seq pr = seq \<and> pr_tx_timestamp pr = ts \<and> \<not> pr_payload_mismatch pr \<and>
           (pr_frame_id_mismatch pr \<longleftrightarrow> fid \<noteq> frame_id ctx) \<and> pr_vlan_tag_missing pr = st \<and> pr_logs pr = [] \<and>
           pr_frame pr = h @ f @ meta_bytes seq n (mirror_ts env) @ body @ tag' @ rest \<and>
           evp_seal E (sc_ctx sc) (take 12 iv) (f @ meta_bytes seq n (mirror_ts env) @ body) None = Some ([], [], tag')"
proof -
  have l: "length (h @ f) = p + 10" using assms by simp
  note seq = meta_get_seq [OF assms(3,4) l assms(5), of ts "body @ tag @ rest"]
  note ts = meta_get_ts [OF l, of seq n ts "body @ tag @ rest"]
  note mir = meta_mirror [OF l, of "re_app env" "re_clk_est env" seq n ts "body @ tag @ rest", folded mirror_ts_def]
  let ?pre = "\<lambda>t. h @ f @ meta_bytes seq n t @ body"
  obtain tag' where s: "evp_seal E (sc_ctx sc) (take 12 iv) (f @ meta_bytes seq n (mirror_ts env) @ body) None
      = Some ([], [], tag')" "length tag' = 16"
    "security_encrypt E sc None (f @ meta_bytes seq n (mirror_ts env) @ body) iv 0 (p + 26 + length body)
       (?pre (mirror_ts env) @ tag @ rest) = Some (None, ?pre (mirror_ts env) @ tag' @ rest)"
    using encrypt_ao [OF assms(11,13,15), of "?pre (mirror_ts env)" "p + 26 + length body"
        "f @ meta_bytes seq n (mirror_ts env) @ body" rest] assms(1,8,9) by auto
  obtain ret where "ret > 0" "evp_open E (sc_ctx sc) (take 12 iv) (f @ meta_bytes seq n ts @ body) None tag
      = Some (ret, [], [])"
    using aead_open [OF assms(11,13,14)] by auto
  then have d: "security_decrypt E sc None (f @ meta_bytes seq n ts @ body) tag iv [] = Some (None, [])"
    using security_decrypt_open [of E sc iv _ None tag _ "[]" "[]"] by simp
  have pd: "payload_differs (conf ctx) (p + 26) (h @ f @ meta_bytes seq n t @ body @ r) = Some False" for t r
    using payload_differs_eq [OF assms(6), of "h @ f @ meta_bytes seq n t" "p + 26" body r] assms by simp
  have rd: "mem_read p (26 + length body) (h @ f @ meta_bytes seq n t @ body @ r) = Some (f @ meta_bytes seq n t @ body)"
    "mem_read p 2 (h @ f @ meta_bytes seq n t @ body @ r) = Some (be16_bytes fid)" for t r
    using assms by simp_all
  have "mem_read (p + 26 + length body) 16 (h @ f @ meta_bytes seq n ts @ body @ tag @ rest) = Some tag"
    using assms by simp
  then show ?thesis using seq ts mir s d pd rd assms(2,10,12,16)
    by (simp add: receive_profinet_ao_def Let_def add_ac del: mem_read_ok)
qed

lemma receive_ae:
  assumes "length h = p" "num_frames_per_cycle (conf ctx) = n" "0 < n" "n \<le> 2 ^ 32"
    and "unat seq < n * 2 ^ 32" "payload_pattern_length (conf ctx) = length (ptr_bytes (payload_pattern (conf ctx)))"
    and "pt = ptr_bytes (payload_pattern (conf ctx)) @ pad" "f = be16_bytes fid @ sec" "length sec = 8"
    and "rx_security_context ctx = Some sc" "evp_aead E (sc_ctx sc)"
    and "prepare_iv (ptr_bytes (security_iv_prefix (conf ctx))) seq = Some iv" "length (take 12 iv) = 12"
    and "evp_seal E (sc_ctx sc) (take 12 iv) (f @ meta_bytes seq n ts) (Some pt) = Some (ct, [], tag)"
    and "length tag = 16" "length ct = length pt" "len = p + 42 + length ct"
    and "context_pattern ctx = Some (Some pt')" "length pt' = length ct"
    and "length ct \<le> length (re_stack_plaintext env)"
  shows "\<exists>pr ct' tag'. receive_profinet_ae E env ctx p st (h @ f @ meta_bytes seq n ts @ ct @ tag @ rest) len = Some pr \<and>
           pr_seq pr = seq \<and> pr_tx_timestamp pr = ts \<and> \<not> pr_payload_mismatch pr \<and>
           (pr_frame_id_mismatch pr \<longleftrightarrow> fid \<noteq> frame_id ctx) \<and> pr_vlan_tag_missing pr = st \<and> pr_logs pr = [] \<and>
           pr_frame pr = h @ f @ meta_bytes seq n (mirror_ts env) @ ct' @ tag' @ rest \<and>
           evp_seal E (sc_ctx sc) (take 12 iv) (f @ meta_bytes seq n (mirror_ts env)) (Some pt') = Some (ct', [], tag')"
proof -
  have l: "length (h @ f) = p + 10" using assms by simp
  note seq = meta_get_seq [OF assms(3,4) l assms(5), of ts "ct @ tag @ rest"]
  note ts = meta_get_ts [OF l, of seq n ts "ct @ tag @ rest"]
  note mir = meta_mirror [OF l, of "re_app env" "re_clk_est env" seq n ts "ct @ tag @ rest", folded mirror_ts_def]
  let ?pre = "h @ f @ meta_bytes seq n (mirror_ts env)"
  have a: "length ?pre = p + 26" "length ct = length pt'" "p + 26 + length ct = p + 26 + length pt'"
    using assms(1,8,9,19) by simp_all
  obtain ct' tag' where s: "evp_seal E (sc_ctx sc) (take 12 iv) (f @ meta_bytes seq n (mirror_ts env)) (Some pt')
      = Some (ct', [], tag')" "length tag' = 16" "length ct' = length pt'"
    "security_encrypt E sc (Some pt') (f @ meta_bytes seq n (mirror_ts env)) iv (p + 26) (p + 26 + length ct)
       (?pre @ ct @ tag @ rest) = Some (None, ?pre @ ct' @ tag' @ rest)"
    by (rule encrypt_ae [OF assms(11,13,15) a])
  obtain ret where "ret > 0" "evp_open E (sc_ctx sc) (take 12 iv) (f @ meta_bytes seq n ts) (Some ct) tag
      = Some (ret, pt, [])"
    using aead_open [OF assms(11,13,14)] by auto
  then have d: "security_decrypt E sc (Some ct) (f @ meta_bytes seq n ts) tag iv (re_stack_plaintext env) =
      Some (None, pt @ drop (length pt) (re_stack_plaintext env))"
    using security_decrypt_open [of E sc iv _ "Some ct" tag _ pt "re_stack_plaintext env"] assms(16,20) by simp
  have pd: "payload_differs (conf ctx) 0 (pt @ r) = Some False" for r
    using payload_differs_eq [OF assms(6), of "[]" 0 pt r] assms by simp
  have rd: "mem_read p 26 (h @ f @ meta_bytes seq n t @ r) = Some (f @ meta_bytes seq n t)"
    "mem_read p 2 (h @ f @ meta_bytes seq n t @ r) = Some (be16_bytes fid)" for t r
    using assms by simp_all
  have "mem_read (p + 26 + length ct) 16 (h @ f @ meta_bytes seq n ts @ ct @ tag @ rest) = Some tag"
    "mem_read (p + 26) (length ct) (h @ f @ meta_bytes seq n ts @ ct @ tag @ rest) = Some ct"
    using assms by simp_all
  then show ?thesis using seq ts mir s d pd rd assms(2,10,12,17,18)
    by (simp add: receive_profinet_ae_def Let_def add_ac del: mem_read_ok)
qed

section \<open>Arbitrary frames\<close>

text \<open>What the code relies on of the lengths OpenSSL writes, whatever the message.\<close>

definition evp_bounded :: "('c, 's) evp \<Rightarrow> bool" where
  "evp_bounded E \<longleftrightarrow>
     (\<forall>s pt s' out. EVP_EncryptUpdate E s pt = Some (s', out) \<longrightarrow> length out = length pt) \<and>
     (\<forall>s s' fin. EVP_EncryptFinal E s = Some (s', fin) \<longrightarrow> fin = []) \<and>
     (\<forall>s tag. EVP_get_tag E s = Some tag \<longrightarrow> length tag = 16) \<and>
     (\<forall>s ct s' out. EVP_DecryptUpdate E s ct = Some (s', out) \<longrightarrow> length out = length ct) \<and>
     (\<forall>s. snd (EVP_DecryptFinal E s) = [])"

lemma evp_boundedD:
  assumes "evp_bounded E"
  shows "EVP_EncryptUpdate E s pt = Some (s', out) \<Longrightarrow> length out = length pt"
    and "EVP_EncryptFinal E s = Some (s', fin) \<Longrightarrow> fin = []"
    and "EVP_get_tag E s = Some tag \<Longrightarrow> length tag = 16"
    and "EVP_DecryptUpdate E s pt = Some (s', out) \<Longrightarrow> length out = length pt"
    and "EVP_DecryptFinal E s = (r, fin) \<Longrightarrow> fin = []"
  using assms unfolding evp_bounded_def by (blast, blast, blast, blast, metis snd_conv)

lemma encrypt_finish:
  assumes "evp_bounded E" "toff + 16 \<le> length buf" "pt \<noteq> None \<longrightarrow> o2 \<le> length buf"
  shows "\<exists>r buf'. (case EVP_EncryptFinal E s of
             None \<Rightarrow> Some (Some EINVAL, buf)
           | Some (s, fin) \<Rightarrow> do {
               buf \<leftarrow> (if pt = None then Some buf else mem_write o2 fin buf);
               (case EVP_get_tag E s of
                  None \<Rightarrow> Some (Some EINVAL, buf)
                | Some t \<Rightarrow> do { buf \<leftarrow> mem_write toff t buf; Some (None, buf) })
             }) = Some (r, buf') \<and> length buf' = length buf"
proof (cases "EVP_EncryptFinal E s")
  case (Some x)
  obtain s' where x: "EVP_EncryptFinal E s = Some (s', [])"
    using Some evp_boundedD(2) [OF assms(1)] by (cases x) auto
  have w: "(if pt = None then Some buf else mem_write o2 [] buf) = Some buf" using assms(3) by simp
  show ?thesis
  proof (cases "EVP_get_tag E s'")
    case (Some t)
    then obtain b' where "mem_write toff t buf = Some b'" "length b' = length buf"
      using evp_boundedD(3) [OF assms(1)] assms(2) mem_write_total [of toff t buf] mem_write_length by metis
    then show ?thesis using Some x w by simp
  qed (simp add: x w)
qed simp

lemma security_encrypt_total:
  assumes "evp_bounded E" "toff + 16 \<le> length buf"
    and "pt \<noteq> None \<longrightarrow> off + length (the pt) \<le> length buf"
  shows "\<exists>r buf'. security_encrypt E sc pt aad iv off toff buf = Some (r, buf') \<and> length buf' = length buf"
proof (cases "EVP_EncryptInit_iv E (sc_ctx sc) (take 12 iv)")
  case (Some s1)
  note iv = this
  show ?thesis
  proof (cases "EVP_EncryptUpdate_aad E s1 aad")
    case (Some s2)
    note aad = this
    show ?thesis
    proof (cases pt)
      case None
      then show ?thesis using encrypt_finish [OF assms(1,2), where ?o2.0 = "off + length ([] :: bytes)" and s = s2 and pt = "None :: bytes option"] iv aad
        by (simp add: security_encrypt_def)
    next
      case (Some p)
      note pt = this
      show ?thesis
      proof (cases "EVP_EncryptUpdate E s2 p")
        case (Some x)
        obtain s3 out where x: "EVP_EncryptUpdate E s2 p = Some (s3, out)" using Some by (cases x) auto
        then have l: "off + length out \<le> length buf"
          using evp_boundedD(1) [OF assms(1)] assms(3) pt by fastforce
        then obtain b where b: "mem_write off out buf = Some b" using mem_write_total by blast
        then have "length b = length buf" by (rule mem_write_length)
        then show ?thesis using encrypt_finish [OF assms(1), where toff = toff and buf = b and ?o2.0 = "off + length out" and s = s3 and pt = "Some p"] iv aad pt x b l assms(2)
          by (simp add: security_encrypt_def)
      qed (simp add: security_encrypt_def iv aad pt)
    qed
  qed (simp add: security_encrypt_def iv)
qed (simp add: security_encrypt_def)

lemma decrypt_finish:
  assumes "evp_bounded E" "ct \<noteq> None \<longrightarrow> o2 \<le> length dst"
  shows "\<exists>r dst'. (case EVP_set_tag E s tag of
             None \<Rightarrow> Some (Some EINVAL, dst)
           | Some s \<Rightarrow> do {
               let (ret, fin) = EVP_DecryptFinal E s;
               dst \<leftarrow> (if ct = None then Some dst else mem_write o2 fin dst);
               Some (if ret > 0 then None else Some EPERM, dst)
             }) = Some (r, dst') \<and> length dst' = length dst"
proof (cases "EVP_set_tag E s tag")
  case (Some s')
  obtain r fin where x: "EVP_DecryptFinal E s' = (r, fin)" by fastforce
  then show ?thesis using Some evp_boundedD(5) [OF assms(1) x] assms(2) by simp
qed simp

lemma security_decrypt_total:
  assumes "evp_bounded E" "ct \<noteq> None \<longrightarrow> length (the ct) \<le> length dst"
  shows "\<exists>r dst'. security_decrypt E sc ct aad tag iv dst = Some (r, dst') \<and> length dst' = length dst"
proof (cases "EVP_DecryptInit_iv E (sc_ctx sc) (take 12 iv)")
  case (Some s1)
  note iv = this
  show ?thesis
  proof (cases "EVP_DecryptUpdate_aad E s1 aad")
    case (Some s2)
    note aad = this
    show ?thesis
    proof (cases ct)
      case None
      then show ?thesis using decrypt_finish [OF assms(1), where ?o2.0 = "length ([] :: bytes)" and dst = dst and s = s2 and tag = tag and ct = "None :: bytes option"] iv aad
        by (simp add: security_decrypt_def)
    next
      case (Some p)
      note ct = this
      show ?thesis
      proof (cases "EVP_DecryptUpdate E s2 p")
        case (Some x)
        obtain s3 out where x: "EVP_DecryptUpdate E s2 p = Some (s3, out)" using Some by (cases x) auto
        then have l: "length out \<le> length dst"
          using evp_boundedD(4) [OF assms(1)] assms(2) ct by fastforce
        then obtain b where b: "mem_write 0 out dst = Some b" using mem_write_total [of 0 out dst] by auto
        then have "length b = length dst" by (rule mem_write_length)
        then show ?thesis using decrypt_finish [OF assms(1), where ?o2.0 = "length out" and dst = b and s = s3 and tag = tag and ct = "Some p"] iv aad ct x b l
          by (simp add: security_decrypt_def)
      qed (simp add: security_decrypt_def iv aad ct)
    qed
  qed (simp add: security_decrypt_def iv)
qed (simp add: security_decrypt_def)

text \<open>What the sanity check of the configuration and the creation of the threads
  establish for a PROFINET class.\<close>

definition pn_ctx_ok :: "'c thread_context \<Rightarrow> bool" where
  "pn_ctx_ok ctx \<longleftrightarrow>
     (let cfg = conf ctx; secure = (security_mode cfg \<noteq> SECURITY_MODE_NONE)
      in frame_length cfg \<le> MAX_FRAME_SIZE \<and>
         (if secure then 60 else 36) + payload_pattern_length cfg \<le> frame_length cfg \<and>
         payload_pattern_length cfg \<le> length (ptr_bytes (payload_pattern cfg)) \<and>
         (secure \<longrightarrow> rx_security_context ctx \<noteq> None \<and> 6 \<le> length (ptr_bytes (security_iv_prefix cfg))) \<and>
         ctx_payload_pattern ctx = Some 44 \<and> ctx_payload_pattern_length ctx + 60 = frame_length cfg \<and>
         (\<exists>copy. frame_copy ctx = Some copy \<and> length copy = MAX_FRAME_SIZE))"

lemma meta_total:
  assumes "m + 16 \<le> length buf"
  shows "\<exists>s. meta_data_to_sequence_counter m n buf = Some s" "\<exists>t. meta_data_to_tx_timestamp m buf = Some t"
    "\<exists>b. set_mirror_tx_timestamp_est app clk m buf = Some b \<and> length b = length buf"
  using assms set_ts_ok [OF assms] length_set_ts
  by (auto simp: meta_data_to_sequence_counter_def meta_data_to_tx_timestamp_def set_mirror_tx_timestamp_est_def Let_def)
    blast

lemma payload_differs_total:
  assumes "p + payload_pattern_length cfg \<le> length buf"
    and "payload_pattern_length cfg \<le> length (ptr_bytes (payload_pattern cfg))"
  shows "\<exists>b. payload_differs cfg p buf = Some b"
  using assms by (simp add: payload_differs_def)

lemma prepare_iv_total: "6 \<le> length prefix \<Longrightarrow> \<exists>iv. prepare_iv prefix seq = Some iv"
  by (simp add: prepare_iv_def)

lemma plain_total:
  assumes "pn_ctx_ok ctx" "security_mode (conf ctx) = SECURITY_MODE_NONE" "p \<le> 18" "MAX_FRAME_SIZE \<le> length frame"
  shows "\<exists>r. receive_profinet_plain env ctx p st frame = Some r"
proof -
  have m: "p + 2 + 16 \<le> length frame" using assms by simp
  obtain s t b where s: "meta_data_to_sequence_counter (p + 2) (num_frames_per_cycle (conf ctx)) frame = Some s"
    "meta_data_to_tx_timestamp (p + 2) frame = Some t"
    "set_mirror_tx_timestamp_est (re_app env) (re_clk_est env) (p + 2) frame = Some b" "length b = length frame"
    using meta_total [OF m] by blast
  obtain d where "payload_differs (conf ctx) (p + 18) b = Some d"
    using payload_differs_total [of "p + 18" "conf ctx" b] assms s(4) by (auto simp: pn_ctx_ok_def Let_def)
  then show ?thesis using s assms(3,4) by (simp add: receive_profinet_plain_def)
qed

lemma ao_total:
  assumes "pn_ctx_ok ctx" "security_mode (conf ctx) \<noteq> SECURITY_MODE_NONE" "evp_bounded E"
    and "p \<le> 18" "p + 42 \<le> len" "len \<le> MAX_FRAME_SIZE" "MAX_FRAME_SIZE \<le> length frame"
  shows "\<exists>r. receive_profinet_ao E env ctx p st frame len = Some r"
proof -
  have m: "p + 10 + 16 \<le> length frame" using assms by simp
  obtain s t b where s: "meta_data_to_sequence_counter (p + 10) (num_frames_per_cycle (conf ctx)) frame = Some s"
    "meta_data_to_tx_timestamp (p + 10) frame = Some t"
    "set_mirror_tx_timestamp_est (re_app env) (re_clk_est env) (p + 10) frame = Some b" "length b = length frame"
    using meta_total [OF m] by blast
  obtain iv sc where iv: "prepare_iv (ptr_bytes (security_iv_prefix (conf ctx))) s = Some iv"
    "rx_security_context ctx = Some sc"
    using assms(1,2) prepare_iv_total by (fastforce simp: pn_ctx_ok_def Let_def)
  obtain r d where d: "security_decrypt E sc None (take (len - p - 16) (drop p frame))
      (take 16 (drop (len - 16) frame)) iv [] = Some (r, d)"
    using security_decrypt_total [OF assms(3), where ct = None] by fastforce
  obtain r' b' where e: "security_encrypt E sc None (take (len - p - 16) (drop p b)) iv 0 (len - 16) b = Some (r', b')"
    "length b' = length b"
    using security_encrypt_total [OF assms(3), where pt = None and toff = "len - 16" and buf = b]
      assms(5-7) s(4) by fastforce
  obtain c where "payload_differs (conf ctx) (p + 26) b' = Some c"
    using payload_differs_total [of "p + 26" "conf ctx" b'] assms(1,2,4,7) s(4) e(2)
    by (auto simp: pn_ctx_ok_def Let_def)
  then show ?thesis using s iv d e assms(4-7) by (simp add: receive_profinet_ao_def Let_def)
qed

lemma ae_total:
  assumes "pn_ctx_ok ctx" "security_mode (conf ctx) \<noteq> SECURITY_MODE_NONE" "evp_bounded E"
    and "p \<le> 18" "p + 42 \<le> len" "len \<le> MAX_FRAME_SIZE" "MAX_FRAME_SIZE \<le> length frame"
    and "frame_length (conf ctx) + p = len + 18" "length (re_stack_plaintext env) = MAX_FRAME_SIZE"
  shows "\<exists>r. receive_profinet_ae E env ctx p st frame len = Some r"
proof -
  have m: "p + 10 + 16 \<le> length frame" using assms by simp
  obtain s t b where s: "meta_data_to_sequence_counter (p + 10) (num_frames_per_cycle (conf ctx)) frame = Some s"
    "meta_data_to_tx_timestamp (p + 10) frame = Some t"
    "set_mirror_tx_timestamp_est (re_app env) (re_clk_est env) (p + 10) frame = Some b" "length b = length frame"
    using meta_total [OF m] by blast
  obtain iv sc where iv: "prepare_iv (ptr_bytes (security_iv_prefix (conf ctx))) s = Some iv"
    "rx_security_context ctx = Some sc"
    using assms(1,2) prepare_iv_total by (fastforce simp: pn_ctx_ok_def Let_def)
  obtain pt where pt: "context_pattern ctx = Some (Some pt)" "length pt + 60 = frame_length (conf ctx)"
    using assms(1,2) by (auto simp: pn_ctx_ok_def context_pattern_def Let_def)
  obtain r d where d: "security_decrypt E sc (Some (take (len - p - 42) (drop (p + 26) frame))) (take 26 (drop p frame))
      (take 16 (drop (len - 16) frame)) iv (re_stack_plaintext env) = Some (r, d)"
    "length d = length (re_stack_plaintext env)"
    using security_decrypt_total [OF assms(3), where ct = "Some (take (len - p - 42) (drop (p + 26) frame))"
        and dst = "re_stack_plaintext env"] assms(6,7,9) by fastforce
  obtain r' b' where e: "security_encrypt E sc (Some pt) (take 26 (drop p b)) iv (p + 26) (len - 16) b = Some (r', b')"
    using security_encrypt_total [OF assms(3), where pt = "Some pt" and off = "p + 26" and toff = "len - 16" and buf = b]
      assms(4-8) s(4) pt(2) by fastforce
  obtain c where "payload_differs (conf ctx) 0 d = Some c"
    using payload_differs_total [of 0 "conf ctx" d] assms(1,2,9) d(2)
    by (auto simp: pn_ctx_ok_def Let_def)
  then show ?thesis using s iv d e pt assms(4-7) by (simp add: receive_profinet_ae_def Let_def add_ac)
qed

lemma parse_reject:
  assumes "receive_profinet_parse E env ctx frame len = Some (Inl l)"
  shows "l \<in> {Rx_too_small, Rx_wrong_type, Rx_wrong_length}"
proof -
  obtain hdr where h: "rx_check_header (frame_length (conf ctx)) ETH_P_PROFINET_RT frame len = Some hdr"
    using assms by (auto simp: receive_profinet_parse_def)
  then have "hdr = Inl l" using assms by (cases hdr) (auto simp: receive_profinet_parse_def)
  then show ?thesis using h rx_check_header_reject by blast
qed

section \<open>A concrete cipher\<close>

text \<open>
  An instance of the OpenSSL parameter on which the hypotheses about it hold: the
  cipher text is the plaintext and the only valid tag is sixteen zero bytes.  The
  state of a message is the tag set for verification.
\<close>

definition demo_evp :: "(bytes, bytes) evp" where
  "demo_evp = \<lparr>EVP_CIPHER_fetch = (\<lambda>_. True), EVP_CIPHER_CTX_new = True,
     EVP_EncryptInit_key = (\<lambda>_ key. Some key), EVP_EncryptInit_iv = (\<lambda>_ _. Some []),
     EVP_EncryptUpdate_aad = (\<lambda>s _. Some s), EVP_EncryptUpdate = (\<lambda>s pt. Some (s, pt)),
     EVP_EncryptFinal = (\<lambda>s. Some (s, [])), EVP_get_tag = (\<lambda>_. Some (replicate 16 0)),
     EVP_DecryptInit_iv = (\<lambda>_ _. Some []), EVP_DecryptUpdate_aad = (\<lambda>s _. Some s),
     EVP_DecryptUpdate = (\<lambda>s ct. Some (s, ct)), EVP_set_tag = (\<lambda>_ tag. Some tag),
     EVP_DecryptFinal = (\<lambda>s. (of_bool (s = replicate 16 0), []))\<rparr>"

lemma demo_evp_bounded: "evp_bounded demo_evp"
  by (simp add: evp_bounded_def demo_evp_def)

lemma demo_evp_aead: "evp_aead demo_evp c"
  by (auto simp: evp_aead_def evp_seal_def evp_open_def demo_evp_def split: option.splits)

definition demo_pn_config :: traffic_class_config where
  "demo_pn_config = zero_class_config\<lparr>num_frames_per_cycle := 2, frame_length := 200,
     payload_pattern := Some ''Payload'', payload_pattern_length := 7,
     security_mode := SECURITY_MODE_AE, security_iv_prefix := Some ''000000'', security_iv_prefix_length := 6,
     l2_destination := [1, 14, 207, 0, 0, 0], vid := 0x100, pcp := 6\<rparr>"

definition demo_pn_context :: "bytes thread_context" where
  "demo_pn_context = (fresh_context demo_pn_config TSN_HIGH_FRAME_TYPE)
     \<lparr>tx_security_context := Some \<lparr>sc_algorithm = SECURITY_ALGORITHM_AES256_GCM, sc_ctx = []\<rparr>,
      rx_security_context := Some \<lparr>sc_algorithm = SECURITY_ALGORITHM_AES256_GCM, sc_ctx = []\<rparr>,
      ctx_payload_pattern := Some 44, ctx_payload_pattern_length := 140,
      frame_copy := Some (replicate 4096 0), frame_id := 0x0100\<rparr>"

lemma demo_pn_ok: "pn_ctx_ok demo_pn_context"
  by (simp add: pn_ctx_ok_def demo_pn_context_def demo_pn_config_def fresh_context_def ptr_bytes_def str_bytes_def Let_def)

section \<open>Properties\<close>

text \<open>C8. Whatever bytes arrive, in whatever length the slot can hold, the PROFINET
  handler reads and checks the frame without an access outside the receive slot,
  the pattern or its stack buffers, in all three security modes, for every class
  the configuration check accepts.\<close>

theorem profinet_parse_safe:
  assumes "pn_ctx_ok ctx" "evp_bounded E"
    and "len \<le> MAX_FRAME_SIZE" "MAX_FRAME_SIZE \<le> length slot" "length (re_stack_plaintext env) = MAX_FRAME_SIZE"
  shows "\<exists>r. receive_profinet_parse E env ctx slot len = Some r"
proof -
  obtain hdr where hdr: "rx_check_header (frame_length (conf ctx)) ETH_P_PROFINET_RT slot len = Some hdr"
    using rx_check_header_total [of slot] assms(4) by fastforce
  show ?thesis
  proof (cases hdr)
    case (Inr x)
    obtain p st where x: "x = (p, st)" by fastforce
    note h = rx_check_header_ok [OF hdr [unfolded Inr x]]
    have "p + 42 \<le> len" if "security_mode (conf ctx) \<noteq> SECURITY_MODE_NONE"
      using assms(1) that h(2,3) by (auto simp: pn_ctx_ok_def Let_def split: if_splits)
    moreover have "p \<le> 18" "frame_length (conf ctx) + p = len + 18" using h(2,3) by auto
    ultimately show ?thesis
      using plain_total [OF assms(1)] ao_total [OF assms(1) _ assms(2)] ae_total [OF assms(1) _ assms(2)]
        assms(3-5) hdr Inr x
      by (cases "security_mode (conf ctx)") (fastforce simp: receive_profinet_parse_def)+
  qed (simp add: receive_profinet_parse_def hdr)
qed

theorem profinet_parse_safe_witness:
  "\<exists>r. receive_profinet_parse demo_evp demo_env demo_pn_context (replicate 4096 0x81) 196 = Some r"
  using profinet_parse_safe [OF demo_pn_ok demo_evp_bounded, of 196 "replicate 4096 0x81" demo_env]
  by (simp add: demo_env_def)

text \<open>C30. A frame the handler rejects (too short, another ether type, another length)
  costs nothing but a warning: the return code is \<^const>\<open>EINVAL\<close>, and statistics,
  sequence counter, mirror buffer and the frame itself are as before.\<close>

theorem profinet_reject_inert:
  assumes "receive_profinet_frame E env len w = Some (Some e, w')"
  shows "e = EINVAL \<and>
    (\<exists>l \<in> {Rx_too_small, Rx_wrong_type, Rx_wrong_length}. w' = w\<lparr>rx_logs := rx_logs w @ [l]\<rparr>)"
  using assms
proof (rule pn.handle_parse)
  fix l assume "receive_profinet_parse E env (rx_ctx w) (rx_frame w) len = Some (Inl l)"
    "Some e = Some EINVAL" "w' = w\<lparr>rx_logs := rx_logs w @ [l]\<rparr>"
  moreover from this have "l \<in> {Rx_too_small, Rx_wrong_type, Rx_wrong_length}"
    by (intro parse_reject)
  ultimately show ?thesis by auto
qed simp

definition demo_pn_rx :: "bytes rx_state" where
  "demo_pn_rx = \<lparr>rx_ctx = demo_pn_context, rx_stat = zero_stat_state, rx_frame = replicate 4096 0, rx_logs = [],
     rx_exited = False\<rparr>"

lemma demo_pn_short:
  "receive_profinet_frame demo_evp demo_env 12 demo_pn_rx = Some (Some EINVAL, demo_pn_rx\<lparr>rx_logs := [Rx_too_small]\<rparr>)"
  by (simp add: receive_profinet_frame_def rx_handle_def receive_profinet_parse_def rx_check_header_def demo_pn_rx_def)

theorem profinet_reject_inert_witness:
  "receive_profinet_frame demo_evp demo_env 12 demo_pn_rx = Some (Some EINVAL, demo_pn_rx\<lparr>rx_logs := [Rx_too_small]\<rparr>) \<and>
   (\<exists>l \<in> {Rx_too_small, Rx_wrong_type, Rx_wrong_length}.
      demo_pn_rx\<lparr>rx_logs := [Rx_too_small]\<rparr> = demo_pn_rx\<lparr>rx_logs := rx_logs demo_pn_rx @ [l]\<rparr>)"
  using profinet_reject_inert [OF demo_pn_short] demo_pn_short by simp

text \<open>Over any run of the PROFINET handler the receiver's sequence counter stays tied
  to the statistics: it exceeds the sum of received frames and out-of-order errors
  of the class by the same amount at all times, every frame is either counted once
  or rejected with an error code, and no other class is touched.\<close>

lemma profinet_counter_invariant:
  assumes "rx_run (receive_profinet_frame E) fs w = Some (rets, w')" "\<not> rx_exited w'"
  shows "length rets = length fs \<and>
    (let t = frame_type (rx_ctx w); g = (\<lambda>v. global_statistics (rx_stat v) t)
     in rx_sequence_counter (rx_ctx w') - frames_received (g w') - out_of_order_errors (g w') =
          rx_sequence_counter (rx_ctx w) - frames_received (g w) - out_of_order_errors (g w) \<and>
        frames_received (g w') = frames_received (g w) + of_nat (length (filter (\<lambda>r. r = None) rets)) \<and>
        (\<forall>u. u \<noteq> t \<longrightarrow> global_statistics (rx_stat w') u = global_statistics (rx_stat w) u))"
  unfolding Let_def using pn.contract.run_counts [OF assms] by blast

end
