(* ===== verification/TB_Layer2.thy ===== *)
theory TB_Layer2
  imports TB_Profinet
begin

text \<open>
  The remaining traffic classes: frame templates and receive handlers of generic
  layer 2 (\<^verbatim>\<open>layer2_thread.c\<close>), LLDP (\<^verbatim>\<open>lldp_thread.c\<close>), DCP (\<^verbatim>\<open>dcp_thread.c\<close>),
  EtherCAT (\<^verbatim>\<open>ethercat.c\<close>) and UDP (\<^verbatim>\<open>udp_thread.c\<close>), and the template function of
  the TSN, RTC and RTA classes.
\<close>

section \<open>Templates\<close>

definition TSN_HIGH_FRAMEID :: u16 where "TSN_HIGH_FRAMEID = 0x0100"
definition TSN_HIGH_SEC_FRAMEID :: u16 where "TSN_HIGH_SEC_FRAMEID = 0x0101"
definition TSN_LOW_FRAMEID :: u16 where "TSN_LOW_FRAMEID = 0x0200"
definition TSN_LOW_SEC_FRAMEID :: u16 where "TSN_LOW_SEC_FRAMEID = 0x0201"
definition RTC_FRAMEID :: u16 where "RTC_FRAMEID = 0x8000"
definition RTC_SEC_FRAMEID :: u16 where "RTC_SEC_FRAMEID = 0x8001"
definition RTA_FRAMEID :: u16 where "RTA_FRAMEID = 0xfc01"
definition RTA_SEC_FRAMEID :: u16 where "RTA_SEC_FRAMEID = 0xfc02"
definition DCP_FRAMEID :: u16 where "DCP_FRAMEID = 0xfefe"

lemmas frameid_defs [tb_defs] = TSN_HIGH_FRAMEID_def TSN_HIGH_SEC_FRAMEID_def TSN_LOW_FRAMEID_def
  TSN_LOW_SEC_FRAMEID_def RTC_FRAMEID_def RTC_SEC_FRAMEID_def RTA_FRAMEID_def RTA_SEC_FRAMEID_def
  DCP_FRAMEID_def

text \<open>\<^verbatim>\<open>tsn_initialize_frame\<close>, and the same function of the RTC and RTA modules.\<close>

definition tsn_initialize_frame ::
  "'c thread_context \<Rightarrow> bytes \<Rightarrow> nat \<Rightarrow> bytes \<Rightarrow> bytes \<Rightarrow> bytes option" where
  "tsn_initialize_frame ctx frame flen src_mac dst_mac =
     initialize_profinet_frame (security_mode (conf ctx)) frame flen src_mac dst_mac
       (ptr_bytes (payload_pattern (conf ctx))) (payload_pattern_length (conf ctx))
       (vlan_tci_of (conf ctx)) (frame_id ctx)"

definition dcp_initialize_frame ::
  "'c thread_context \<Rightarrow> bytes \<Rightarrow> nat \<Rightarrow> bytes \<Rightarrow> bytes \<Rightarrow> bytes option" where
  "dcp_initialize_frame ctx frame flen src_mac dst_mac =
     initialize_profinet_frame SECURITY_MODE_NONE frame flen src_mac dst_mac
       (ptr_bytes (payload_pattern (conf ctx))) (payload_pattern_length (conf ctx))
       (vlan_tci_of (conf ctx)) DCP_FRAMEID"

definition generic_l2_initialize_frame ::
  "'c thread_context \<Rightarrow> bytes \<Rightarrow> nat \<Rightarrow> bytes \<Rightarrow> bytes \<Rightarrow> bytes option" where
  "generic_l2_initialize_frame ctx frame flen src_mac dst_mac = do {
     frame \<leftarrow> mem_write 0 (replicate flen 0) frame;
     frame \<leftarrow> write_vlan_ethernet_header src_mac dst_mac (vlan_tci_of (conf ctx))
                (ucast (ether_type (conf ctx))) frame;
     frame \<leftarrow> mem_write 18 (be32_bytes 0) frame;
     frame \<leftarrow> mem_write 22 (be32_bytes 0) frame;
     payload \<leftarrow> mem_read 0 (payload_pattern_length (conf ctx)) (ptr_bytes (payload_pattern (conf ctx)));
     mem_write (sizeof_vlan_ethernet_header + sizeof_generic_l2_header) payload frame
   }"

definition lldp_initialize_frame ::
  "'c thread_context \<Rightarrow> bytes \<Rightarrow> nat \<Rightarrow> bytes \<Rightarrow> bytes \<Rightarrow> bytes option" where
  "lldp_initialize_frame ctx frame flen src_mac dst_mac = do {
     frame \<leftarrow> mem_write 0 (replicate flen 0) frame;
     dst \<leftarrow> mem_read 0 ETH_ALEN dst_mac;
     frame \<leftarrow> mem_write 0 dst frame;
     src \<leftarrow> mem_read 0 ETH_ALEN src_mac;
     frame \<leftarrow> mem_write ETH_ALEN src frame;
     frame \<leftarrow> mem_write 12 (be16_bytes ETH_P_LLDP) frame;
     frame \<leftarrow> mem_write sizeof_ethhdr (replicate sizeof_reference_meta_data 0) frame;
     payload \<leftarrow> mem_read 0 (payload_pattern_length (conf ctx)) (ptr_bytes (payload_pattern (conf ctx)));
     mem_write (sizeof_ethhdr + sizeof_reference_meta_data) payload frame
   }"

definition ethercat_nop_cmd :: bytes where
  "ethercat_nop_cmd = [0, 0, 0, 0, 0, 0, 8, 0, 0, 0, 0, 0, 0, 0, 0, 0, 0, 0, 0, 0]"

definition initialize_ethercat_frame ::
  "'c thread_context \<Rightarrow> bytes \<Rightarrow> nat \<Rightarrow> bytes \<Rightarrow> bytes \<Rightarrow> bytes option" where
  "initialize_ethercat_frame ctx frame flen src_mac dst_mac = do {
     frame \<leftarrow> mem_write 0 (replicate flen 0) frame;
     dst \<leftarrow> mem_read 0 ETH_ALEN dst_mac;
     frame \<leftarrow> mem_write 0 dst frame;
     src \<leftarrow> mem_read 0 ETH_ALEN src_mac;
     frame \<leftarrow> mem_write ETH_ALEN src frame;
     frame \<leftarrow> mem_write 12 (be16_bytes ETH_P_ETHERCAT) frame;
     frame \<leftarrow> mem_write sizeof_ethhdr [0x16, 0x10] frame;
     mem_write (sizeof_ethhdr + 2) ethercat_nop_cmd frame
   }"

definition udp_initialize_frame :: "'c thread_context \<Rightarrow> bytes \<Rightarrow> bytes option" where
  "udp_initialize_frame ctx frame = do {
     frame \<leftarrow> mem_write 0 (replicate sizeof_reference_meta_data 0) frame;
     payload \<leftarrow> mem_read 0 (payload_pattern_length (conf ctx)) (ptr_bytes (payload_pattern (conf ctx)));
     mem_write sizeof_reference_meta_data payload frame
   }"

section \<open>Receive handlers\<close>

subsection \<open>Generic layer 2\<close>

definition generic_l2_parse ::
  "rx_env \<Rightarrow> 'c thread_context \<Rightarrow> bytes \<Rightarrow> nat \<Rightarrow> (rx_log + rx_parsed) option" where
  "generic_l2_parse env ctx frame len = do {
     hdr \<leftarrow> rx_check_header (frame_length (conf ctx)) (ucast (ether_type (conf ctx))) frame len;
     case hdr of
       Inl e \<Rightarrow> Some (Inl e)
     | Inr (p, vlan_tag_missing) \<Rightarrow> do {
         seq \<leftarrow> meta_data_to_sequence_counter p (num_frames_per_cycle (conf ctx)) frame;
         ts \<leftarrow> meta_data_to_tx_timestamp p frame;
         frame \<leftarrow> set_mirror_tx_timestamp_est (re_app env) (re_clk_est env) p frame;
         pm \<leftarrow> payload_differs (conf ctx) (p + sizeof_generic_l2_header) frame;
         Some (Inr \<lparr>pr_seq = seq, pr_tx_timestamp = ts, pr_payload_mismatch = pm,
                    pr_frame_id_mismatch = False, pr_vlan_tag_missing = vlan_tag_missing,
                    pr_frame = frame, pr_logs = []\<rparr>)
       }
   }"

text \<open>The ether type given to the mirror functions is the configured one, truncated
  to their 16-bit parameter.\<close>

definition generic_l2_mirror :: "rx_env \<Rightarrow> bool \<Rightarrow> nat \<Rightarrow> 'c rx_state \<Rightarrow> 'c rx_state option" where
  "generic_l2_mirror env m len w = rx_mirror env (ucast (ether_type (conf (rx_ctx w)))) m len w"

definition generic_l2_rx_frame ::
  "rx_env \<Rightarrow> nat \<Rightarrow> 'c rx_state \<Rightarrow> (errno option \<times> 'c rx_state) option" where
  "generic_l2_rx_frame env len w =
     rx_handle env GENERICL2_FRAME_TYPE (rx_timestamps env) (generic_l2_parse env) (generic_l2_mirror env) len w"

subsection \<open>LLDP\<close>

definition lldp_parse ::
  "rx_env \<Rightarrow> 'c thread_context \<Rightarrow> bytes \<Rightarrow> nat \<Rightarrow> (rx_log + rx_parsed) option" where
  "lldp_parse env ctx frame len =
     (if len \<noteq> frame_length (conf ctx) then Some (Inl Rx_wrong_length)
      else do {
        seq \<leftarrow> meta_data_to_sequence_counter sizeof_ethhdr (num_frames_per_cycle (conf ctx)) frame;
        ts \<leftarrow> meta_data_to_tx_timestamp sizeof_ethhdr frame;
        pm \<leftarrow> payload_differs (conf ctx) (sizeof_ethhdr + sizeof_reference_meta_data) frame;
        Some (Inr \<lparr>pr_seq = seq, pr_tx_timestamp = ts, pr_payload_mismatch = pm,
                   pr_frame_id_mismatch = False, pr_vlan_tag_missing = False, pr_frame = frame, pr_logs = []\<rparr>)
      })"

definition lldp_build_frame_from_rx :: "rx_env \<Rightarrow> bytes \<Rightarrow> bytes \<Rightarrow> bytes option" where
  "lldp_build_frame_from_rx env frame src_mac = do {
     src \<leftarrow> mem_read 0 ETH_ALEN src_mac;
     frame \<leftarrow> mem_write ETH_ALEN src frame;
     set_mirror_tx_timestamp_est (re_app env) (re_clk_est env) sizeof_ethhdr frame
   }"

definition lldp_mirror :: "rx_env \<Rightarrow> bool \<Rightarrow> nat \<Rightarrow> 'c rx_state \<Rightarrow> 'c rx_state option" where
  "lldp_mirror env m len w = do {
     frame \<leftarrow> lldp_build_frame_from_rx env (rx_frame w) (source (rx_ctx w));
     mirror_add frame len (w\<lparr>rx_frame := frame\<rparr>)
   }"

definition lldp_rx_frame :: "rx_env \<Rightarrow> nat \<Rightarrow> 'c rx_state \<Rightarrow> (errno option \<times> 'c rx_state) option" where
  "lldp_rx_frame env len w = rx_handle env LLDP_FRAME_TYPE (0, 0) (lldp_parse env) (lldp_mirror env) len w"

subsection \<open>DCP\<close>

definition dcp_parse ::
  "rx_env \<Rightarrow> 'c thread_context \<Rightarrow> bytes \<Rightarrow> nat \<Rightarrow> (rx_log + rx_parsed) option" where
  "dcp_parse env ctx frame len =
     (if len + 4 \<noteq> frame_length (conf ctx) then Some (Inl Rx_wrong_length)
      else do {
        seq \<leftarrow> meta_data_to_sequence_counter (sizeof_ethhdr + 2) (num_frames_per_cycle (conf ctx)) frame;
        ts \<leftarrow> meta_data_to_tx_timestamp (sizeof_ethhdr + 2) frame;
        pm \<leftarrow> payload_differs (conf ctx) (sizeof_ethhdr + sizeof_profinet_rt_header) frame;
        Some (Inr \<lparr>pr_seq = seq, pr_tx_timestamp = ts, pr_payload_mismatch = pm,
                   pr_frame_id_mismatch = False, pr_vlan_tag_missing = False, pr_frame = frame, pr_logs = []\<rparr>)
      })"

definition dcp_build_frame_from_rx ::
  "rx_env \<Rightarrow> 'c thread_context \<Rightarrow> bytes \<Rightarrow> nat \<Rightarrow> bytes \<Rightarrow> nat \<Rightarrow> bytes \<Rightarrow> bytes option" where
  "dcp_build_frame_from_rx env ctx old_frame old_len new_frame new_len src_mac =
     (if new_len < old_len + sizeof_vlan_header then Some new_frame
      else if old_len < 2 * ETH_ALEN then None
      else do {
        payload \<leftarrow> mem_read (2 * ETH_ALEN) (old_len - 2 * ETH_ALEN) old_frame;
        new_frame \<leftarrow> mem_write (2 * ETH_ALEN + sizeof_vlan_header) payload new_frame;
        dst \<leftarrow> mem_read 0 ETH_ALEN old_frame;
        new_frame \<leftarrow> mem_write 0 dst new_frame;
        src \<leftarrow> mem_read 0 ETH_ALEN src_mac;
        new_frame \<leftarrow> mem_write ETH_ALEN src new_frame;
        new_frame \<leftarrow> mem_write 12 (be16_bytes ETH_P_8021Q) new_frame;
        new_frame \<leftarrow> mem_write 14 (be16_bytes (vlan_tci_of (conf ctx))) new_frame;
        new_frame \<leftarrow> mem_write 16 (be16_bytes ETH_P_PROFINET_RT) new_frame;
        set_mirror_tx_timestamp_est (re_app env) (re_clk_est env) (sizeof_vlan_ethernet_header + 2) new_frame
      })"

definition dcp_mirror :: "rx_env \<Rightarrow> bool \<Rightarrow> nat \<Rightarrow> 'c rx_state \<Rightarrow> 'c rx_state option" where
  "dcp_mirror env m len w = do {
     new_frame \<leftarrow> dcp_build_frame_from_rx env (rx_ctx w) (rx_frame w) len (re_stack_new_frame env)
                    MAX_FRAME_SIZE (source (rx_ctx w));
     mirror_add new_frame (len + sizeof_vlan_header) w
   }"

definition dcp_rx_frame :: "rx_env \<Rightarrow> nat \<Rightarrow> 'c rx_state \<Rightarrow> (errno option \<times> 'c rx_state) option" where
  "dcp_rx_frame env len w = rx_handle env DCP_FRAME_TYPE (0, 0) (dcp_parse env) (dcp_mirror env) len w"

subsection \<open>UDP\<close>

text \<open>
  The loop body for one received packet.  The routine's local variable
  \<^verbatim>\<open>sequence_counter\<close> is the field \<^const>\<open>rx_sequence_counter\<close>, which UDP does not use
  otherwise.
\<close>

definition udp_parse ::
  "rx_env \<Rightarrow> 'c thread_context \<Rightarrow> bytes \<Rightarrow> nat \<Rightarrow> (rx_log + rx_parsed) option" where
  "udp_parse env ctx frame len =
     (if len \<noteq> frame_length (conf ctx) then Some (Inl Rx_wrong_length)
      else do {
        seq \<leftarrow> meta_data_to_sequence_counter 0 (num_frames_per_cycle (conf ctx)) frame;
        ts \<leftarrow> meta_data_to_tx_timestamp 0 frame;
        frame \<leftarrow> set_mirror_tx_timestamp_est (re_app env) (re_clk_est env) 0 frame;
        pm \<leftarrow> payload_differs (conf ctx) sizeof_reference_meta_data frame;
        Some (Inr \<lparr>pr_seq = seq, pr_tx_timestamp = ts, pr_payload_mismatch = pm,
                   pr_frame_id_mismatch = False, pr_vlan_tag_missing = False, pr_frame = frame, pr_logs = []\<rparr>)
      })"

definition udp_mirror :: "rx_env \<Rightarrow> bool \<Rightarrow> nat \<Rightarrow> 'c rx_state \<Rightarrow> 'c rx_state option" where
  "udp_mirror env m len w = mirror_add (rx_frame w) len w"

definition udp_rx_packet :: "rx_env \<Rightarrow> nat \<Rightarrow> 'c rx_state \<Rightarrow> (errno option \<times> 'c rx_state) option" where
  "udp_rx_packet env len w = rx_handle env (frame_type (rx_ctx w)) (0, 0) (udp_parse env) (udp_mirror env) len w"

text \<open>What \<^verbatim>\<open>recv\<close> on the non-blocking socket delivers.\<close>

datatype recv_result = Recv_data bytes | Recv_again | Recv_error

text \<open>\<^verbatim>\<open>while (true)\<close>: until the socket is drained or fails.  Each packet overwrites the
  beginning of the routine's frame array; empty packets are skipped.\<close>

fun udp_rx_loop :: "(rx_env \<times> recv_result) list \<Rightarrow> 'c rx_state \<Rightarrow> 'c rx_state option" where
  "udp_rx_loop [] w = Some w"
| "udp_rx_loop ((env, Recv_again) # rs) w = Some w"
| "udp_rx_loop ((env, Recv_error) # rs) w = Some w"
| "udp_rx_loop ((env, Recv_data d) # rs) w =
     (if d = [] then udp_rx_loop rs w
      else do {
        frame \<leftarrow> mem_write 0 d (rx_frame w);
        (_, w) \<leftarrow> udp_rx_packet env (length d) (w\<lparr>rx_frame := frame\<rparr>);
        if rx_exited w then Some w else udp_rx_loop rs w
      })"

subsection \<open>EtherCAT\<close>

definition receive_ethercat_frame ::
  "rx_env \<Rightarrow> nat \<Rightarrow> 'c rx_state \<Rightarrow> (errno option \<times> 'c rx_state) option" where
  "receive_ethercat_frame env len w =
     (if len < sizeof_ethhdr + 2 + 20 then Some (Some EINVAL, w\<lparr>rx_logs := rx_logs w @ [Rx_too_small]\<rparr>)
      else do {
        proto \<leftarrow> mem_read 12 2 (rx_frame w);
        if proto \<noteq> be16_bytes ETH_P_ETHERCAT
        then Some (Some EINVAL, w\<lparr>rx_logs := rx_logs w @ [Rx_wrong_type]\<rparr>)
        else do {
          s0 \<leftarrow> mem_read ETH_ALEN 1 (rx_frame w);
          own \<leftarrow> mem_read 0 1 (source (rx_ctx w));
          if s0 = own then Some (Some EINVAL, w\<lparr>rx_logs := rx_logs w @ [Rx_not_processed]\<rparr>)
          else do {
            ts \<leftarrow> mem_read 26 8 (rx_frame w);
            (S, exited) \<leftarrow> stat_frame_received (re_build env) (re_app env) (re_clk_stat env)
              (frame_type (rx_ctx w)) (rx_sequence_counter (rx_ctx w)) False False False
              (of_nat (le_to_nat ts)) 0 (clock_ns (re_clk_est env)) (rx_stat w);
            if exited then Some (None, w\<lparr>rx_stat := S, rx_exited := True\<rparr>)
            else Some (None, w\<lparr>rx_stat := S, rx_ctx := (rx_ctx w)
                   \<lparr>rx_sequence_counter := rx_sequence_counter (rx_ctx w) + 1\<rparr>\<rparr>)
          }
        }
      })"

section \<open>The handlers keep the contract\<close>

lemma mirror_add_keeps:
  "mirror_add d len w = Some w' \<Longrightarrow>
   rx_stat w' = rx_stat w \<and> rx_ctx w' = (rx_ctx w)\<lparr>mirror_buffer := mirror_buffer (rx_ctx w')\<rparr>"
  by (auto simp: mirror_add_def)

lemma lldp_mirror_keeps:
  "lldp_mirror env m len w = Some w' \<Longrightarrow>
   rx_stat w' = rx_stat w \<and> rx_ctx w' = (rx_ctx w)\<lparr>mirror_buffer := mirror_buffer (rx_ctx w')\<rparr>"
  by (auto simp: lldp_mirror_def mirror_add_def)

interpretation l2: rx_shape generic_l2_rx_frame "\<lambda>_. GENERICL2_FRAME_TYPE" rx_timestamps generic_l2_parse
  generic_l2_mirror
  by unfold_locales (simp add: generic_l2_rx_frame_def, simp, simp, unfold generic_l2_mirror_def, erule rx_mirror_keeps)

interpretation lldp: rx_shape lldp_rx_frame "\<lambda>_. LLDP_FRAME_TYPE" "\<lambda>_. (0, 0)" lldp_parse lldp_mirror
  by unfold_locales (simp add: lldp_rx_frame_def, simp, simp, erule lldp_mirror_keeps)

interpretation dcp: rx_shape dcp_rx_frame "\<lambda>_. DCP_FRAME_TYPE" "\<lambda>_. (0, 0)" dcp_parse dcp_mirror
  by unfold_locales (simp add: dcp_rx_frame_def, simp, simp, auto simp: dcp_mirror_def dest!: mirror_add_keeps)

interpretation udp: rx_shape udp_rx_packet frame_type "\<lambda>_. (0, 0)" udp_parse udp_mirror
  by unfold_locales (simp add: udp_rx_packet_def, simp, simp, unfold udp_mirror_def, erule mirror_add_keeps)

lemma ethercat_rejects:
  "receive_ethercat_frame env len w = Some (Some e, w') \<Longrightarrow>
   e = EINVAL \<and> (\<exists>l. w' = w\<lparr>rx_logs := rx_logs w @ [l]\<rparr>)"
  by (auto simp: receive_ethercat_frame_def split: if_splits)

lemma ethercat_accepts:
  assumes "receive_ethercat_frame env len w = Some (None, w')"
  defines "t \<equiv> frame_type (rx_ctx w)"
  shows "conf (rx_ctx w') = conf (rx_ctx w) \<and> frame_type (rx_ctx w') = t \<and>
      frames_received (global_statistics (rx_stat w') t) = frames_received (global_statistics (rx_stat w) t) + 1 \<and>
      (\<forall>u. u \<noteq> t \<longrightarrow> global_statistics (rx_stat w') u = global_statistics (rx_stat w) u) \<and>
      (\<not> rx_exited w' \<longrightarrow> rx_sequence_counter (rx_ctx w') = rx_sequence_counter (rx_ctx w) + 1 +
         (out_of_order_errors (global_statistics (rx_stat w') t) -
          out_of_order_errors (global_statistics (rx_stat w) t)))"
proof -
  obtain ts S out where s: "stat_frame_received (re_build env) (re_app env) (re_clk_stat env) t
      (rx_sequence_counter (rx_ctx w)) False False False ts 0 (clock_ns (re_clk_est env)) (rx_stat w) = Some (S, out)"
    "w' = (if out then w\<lparr>rx_stat := S, rx_exited := True\<rparr>
           else w\<lparr>rx_stat := S, rx_ctx := (rx_ctx w)\<lparr>rx_sequence_counter := rx_sequence_counter (rx_ctx w) + 1\<rparr>\<rparr>)"
    using assms by (auto simp: receive_ethercat_frame_def split: if_splits)
  show ?thesis using stat_received_counts [OF s(1)] s(2) by (cases out) (auto simp: t_def)
qed

interpretation ecat: rx_handler receive_ethercat_frame frame_type
  by unfold_locales (rule ethercat_rejects, assumption, rule ethercat_accepts)

end
