(* ===== verification/TB_Packet.thy ===== *)
theory TB_Packet
  imports TB_Layer2
begin

text \<open>
  The raw socket path, \<^verbatim>\<open>packet.c\<close>: allocation of the packet context, batched
  sending and receiving, and the transmit completions of the error queue.

  The kernel is a parameter: \<^verbatim>\<open>sendmmsg\<close> is a function from its state and the number
  of messages offered to the new state and the result, an error or the number of
  messages accepted; what it accepted is appended to the \<open>wire\<close>.  The results of
  \<^verbatim>\<open>recvmmsg\<close> and \<^verbatim>\<open>recvmsg\<close> are lists.
\<close>

section \<open>Allocation\<close>

datatype packet_cell =
    PC_context | PC_rx_frames | PC_rx_iovecs | PC_rx_msgs | PC_tx_iovecs | PC_tx_msgs
  | PC_tx_control_msgs | PC_rx_control_msgs | PC_tx_completion_frame

text \<open>
  \<^verbatim>\<open>packet_init\<close> with its chain of error labels: each allocation may fail, and the
  cells of the earlier ones are released.  The result is whether a context is
  returned, and the cells allocated and not freed.
\<close>

definition packet_init :: "(packet_cell \<Rightarrow> bool) \<Rightarrow> bool \<times> packet_cell list" where
  "packet_init ok =
     (let h0 = [PC_context];
          h1 = PC_rx_frames # h0;
          h2 = PC_rx_iovecs # h1;
          h3 = PC_rx_msgs # h2;
          h4 = PC_tx_iovecs # h3;
          h5 = PC_tx_msgs # h4;
          h6 = PC_tx_control_msgs # h5;
          h7 = PC_rx_control_msgs # h6;
          err_rx_frames = remove1 PC_context;
          err_rx_iovecs = err_rx_frames \<circ> remove1 PC_rx_frames;
          err_rx_msgs = err_rx_iovecs \<circ> remove1 PC_rx_iovecs;
          err_tx_iovecs = err_rx_msgs \<circ> remove1 PC_rx_msgs;
          err_tx_msgs = err_tx_iovecs \<circ> remove1 PC_tx_iovecs;
          err_tx_ctrl_msgs = err_tx_msgs \<circ> remove1 PC_tx_msgs;
          err_rx_ctrl_msgs = err_tx_ctrl_msgs \<circ> remove1 PC_tx_control_msgs;
          err_tx_completion_frame = err_rx_ctrl_msgs \<circ> remove1 PC_rx_control_msgs
      in if \<not> ok PC_context then (False, [])
         else if \<not> ok PC_rx_frames then (False, err_rx_frames h0)
         else if \<not> ok PC_rx_iovecs then (False, err_rx_iovecs h1)
         else if \<not> ok PC_rx_msgs then (False, err_rx_msgs h2)
         else if \<not> ok PC_tx_iovecs then (False, err_tx_iovecs h3)
         else if \<not> ok PC_tx_msgs then (False, err_tx_msgs h4)
         else if \<not> ok PC_tx_control_msgs then (False, err_tx_ctrl_msgs h5)
         else if \<not> ok PC_rx_control_msgs then (False, err_rx_ctrl_msgs h6)
         else if \<not> ok PC_tx_completion_frame then (False, err_tx_completion_frame h7)
         else (True, PC_tx_completion_frame # h7))"

text \<open>The cells released, for a context that exists.\<close>

definition packet_free :: "bool \<Rightarrow> packet_cell list" where
  "packet_free context =
     (if \<not> context then []
      else [PC_rx_frames, PC_rx_iovecs, PC_tx_iovecs, PC_rx_msgs, PC_tx_msgs, PC_tx_control_msgs,
            PC_rx_control_msgs, PC_tx_completion_frame, PC_context])"

section \<open>Sending\<close>

record packet_send_request =
  sr_frame_data :: bytes
  sr_num_frames :: nat
  sr_frame_length :: nat
  sr_duration :: u64
  sr_tx_time_offset :: u64
  sr_meta_data_offset :: nat
  sr_mirror_enabled :: bool
  sr_tx_time_enabled :: bool
  sr_tx_hwtstamp_enabled :: bool

text \<open>A message as the kernel sees it: its bytes and the two control messages.\<close>

record tx_msg =
  tm_data :: bytes
  tm_tx_time :: "u64 option"
  tm_hw_timestamp :: bool

text \<open>The loop body that fills in message \<open>idx\<close>; \<open>npc\<close> is the context's number of
  frames per cycle.\<close>

definition packet_build_msg ::
  "application_config \<Rightarrow> (nat \<Rightarrow> timespec option) \<Rightarrow> nat \<Rightarrow> packet_send_request \<Rightarrow> nat \<Rightarrow> tx_msg option" where
  "packet_build_msg app clk npc req idx = do {
     let off = (if sr_mirror_enabled req then idx * sr_frame_length req else idx * MAX_FRAME_SIZE);
     d \<leftarrow> mem_read off (sr_frame_length req) (sr_frame_data req);
     if sr_tx_time_enabled req \<or> sr_tx_hwtstamp_enabled req
     then do {
       seq \<leftarrow> get_sequence_counter (sr_frame_data req) (off + sr_meta_data_offset req) npc;
       if npc = 0 then None
       else do {
         let frame_in_cycle = unat seq mod npc;
         tx \<leftarrow> (if sr_tx_time_enabled req
               then do {
                 (t, _) \<leftarrow> tx_time_get_frame_tx_time app (clk idx) seq (sr_duration req) npc
                            (sr_tx_time_offset req);
                 Some (Some t)
               }
               else Some None);
         Some \<lparr>tm_data = d, tm_tx_time = tx,
               tm_hw_timestamp = (sr_tx_hwtstamp_enabled req \<and>
                 (frame_in_cycle = 0 \<or> frame_in_cycle = npc - 1))\<rparr>
       }
     }
     else Some \<lparr>tm_data = d, tm_tx_time = None, tm_hw_timestamp = False\<rparr>
   }"

fun packet_build_msgs ::
  "application_config \<Rightarrow> (nat \<Rightarrow> timespec option) \<Rightarrow> nat \<Rightarrow> packet_send_request \<Rightarrow> nat list \<Rightarrow> tx_msg list option" where
  "packet_build_msgs app clk npc req [] = Some []"
| "packet_build_msgs app clk npc req (i # is) = do {
     m \<leftarrow> packet_build_msg app clk npc req i;
     ms \<leftarrow> packet_build_msgs app clk npc req is;
     Some (m # ms)
   }"

text \<open>\<^verbatim>\<open>while (inner_sent < to_be_sent)\<close>; the accepted messages go to the wire.\<close>

partial_function (option) packet_send_inner ::
  "('k \<Rightarrow> nat \<Rightarrow> 'k \<times> (errno + nat)) \<Rightarrow> tx_msg list \<Rightarrow> nat \<Rightarrow> 'k \<Rightarrow> tx_msg list \<Rightarrow>
   ((errno + nat) \<times> 'k \<times> tx_msg list) option" where
  "packet_send_inner sendmmsg msgs inner_sent k wire =
     (if inner_sent < length msgs
      then (case sendmmsg k (length msgs - inner_sent) of
              (k, Inl e) \<Rightarrow> Some (Inl e, k, wire)
            | (k, Inr len) \<Rightarrow> packet_send_inner sendmmsg msgs (inner_sent + len) k
                                (wire @ take len (drop inner_sent msgs)))
      else Some (Inr inner_sent, k, wire))"

text \<open>\<^verbatim>\<open>while (sent < num_frames)\<close>, in batches of at most \<open>npc\<close> messages.\<close>

partial_function (option) packet_send_loop ::
  "application_config \<Rightarrow> (nat \<Rightarrow> timespec option) \<Rightarrow> ('k \<Rightarrow> nat \<Rightarrow> 'k \<times> (errno + nat)) \<Rightarrow> nat \<Rightarrow>
   packet_send_request \<Rightarrow> nat \<Rightarrow> 'k \<Rightarrow> tx_msg list \<Rightarrow> ((errno + nat) \<times> 'k \<times> tx_msg list) option" where
  "packet_send_loop app clk sendmmsg npc req sent k wire =
     (if sent < sr_num_frames req
      then do {
        let to_be_sent = min (sr_num_frames req - sent) npc;
        msgs \<leftarrow> packet_build_msgs app clk npc req [sent..<sent + to_be_sent];
        (r, k, wire) \<leftarrow> packet_send_inner sendmmsg msgs 0 k wire;
        (case r of
           Inl e \<Rightarrow> Some (Inl e, k, wire)
         | Inr inner \<Rightarrow> packet_send_loop app clk sendmmsg npc req (sent + inner) k wire)
      }
      else Some (Inr sent, k, wire))"

definition packet_send_messages ::
  "application_config \<Rightarrow> (nat \<Rightarrow> timespec option) \<Rightarrow> ('k \<Rightarrow> nat \<Rightarrow> 'k \<times> (errno + nat)) \<Rightarrow> nat \<Rightarrow>
   packet_send_request \<Rightarrow> 'k \<Rightarrow> ((errno + nat) \<times> 'k \<times> tx_msg list) option" where
  "packet_send_messages app clk sendmmsg npc req k = packet_send_loop app clk sendmmsg npc req 0 k []"

section \<open>Receiving\<close>

text \<open>Control messages of the socket level: the three time stamps, or another kind.\<close>

datatype cmsg = Scm_timestamping timespec timespec timespec | Cmsg_other

definition ts_set :: "timespec \<Rightarrow> bool" where
  "ts_set t \<longleftrightarrow> tv_sec t \<noteq> 0 \<or> tv_nsec t \<noteq> 0"

text \<open>The meta data stored in front of a slot: hardware and software time stamp of
  the first \<^verbatim>\<open>SCM_TIMESTAMPING\<close> message.\<close>

fun packet_store_rx_timestamps :: "int \<Rightarrow> cmsg list \<Rightarrow> u64 \<times> u64" where
  "packet_store_rx_timestamps tai [] = (0, 0)"
| "packet_store_rx_timestamps tai (Cmsg_other # cs) = packet_store_rx_timestamps tai cs"
| "packet_store_rx_timestamps tai (Scm_timestamping t0 t1 t2 # cs) =
     (if ts_set t2 then of_int (ts_to_ns t2) else 0,
      if ts_set t0 then of_int (ts_to_ns t0 + tai) else 0)"

record rx_msg =
  rm_env :: rx_env
  rm_slot :: bytes
  rm_len :: nat
  rm_cmsgs :: "cmsg list"

text \<open>
  \<^verbatim>\<open>packet_receive_messages\<close> on the results of \<^verbatim>\<open>recvmmsg\<close>, an error ending the loop;
  the meta data of a slot reaches the handler as \<^const>\<open>re_rx_meta\<close>.
\<close>

definition rx_msg_frame :: "int \<Rightarrow> bool \<Rightarrow> rx_msg \<Rightarrow> rx_env \<times> bytes \<times> nat" where
  "rx_msg_frame tai rx_hwtstamp_enabled m =
     ((rm_env m)\<lparr>re_rx_meta := (if rx_hwtstamp_enabled then packet_store_rx_timestamps tai (rm_cmsgs m)
                                else (0, 0))\<rparr>, rm_slot m, rm_len m)"

fun packet_receive_messages ::
  "(rx_env \<Rightarrow> nat \<Rightarrow> 'c rx_state \<Rightarrow> (errno option \<times> 'c rx_state) option) \<Rightarrow> int \<Rightarrow> bool \<Rightarrow>
   (errno + rx_msg list) list \<Rightarrow> 'c rx_state \<Rightarrow> (nat \<times> 'c rx_state) option" where
  "packet_receive_messages receive tai hwts [] w = Some (0, w)"
| "packet_receive_messages receive tai hwts (Inl e # rs) w = Some (0, w)"
| "packet_receive_messages receive tai hwts (Inr msgs # rs) w = do {
     (_, w) \<leftarrow> rx_run receive (map (rx_msg_frame tai hwts) msgs) w;
     if rx_exited w then Some (0, w)
     else do {
       (received, w) \<leftarrow> packet_receive_messages receive tai hwts rs w;
       Some (length msgs + received, w)
     }
   }"

section \<open>Transmit completions\<close>

record tx_completion =
  cp_frame :: bytes
  cp_len :: nat
  cp_cmsgs :: "cmsg list"

fun completion_hw_ts :: "cmsg list \<Rightarrow> u64" where
  "completion_hw_ts [] = 0"
| "completion_hw_ts (Cmsg_other # cs) = completion_hw_ts cs"
| "completion_hw_ts (Scm_timestamping t0 t1 t2 # cs) = (if ts_set t2 then of_int (ts_to_ns t2) else 0)"

text \<open>The statistics updates of one completion with hardware time stamp \<open>hw\<close> for frame \<open>seq\<close>.\<close>

definition packet_completion_stat ::
  "build \<Rightarrow> application_config \<Rightarrow> stat_frame_type \<Rightarrow> nat \<Rightarrow> u64 \<Rightarrow> u64 \<Rightarrow> stat_state \<Rightarrow> stat_state option" where
  "packet_completion_stat B app t n seq hw S =
     (if n = 0 \<or> backlog_len (round_trip_contexts S t) = 0 then None
      else do {
        let cycle_seq = (of_nat (unat seq div n * n) :: u64);
        let frame_in_cycle = unat seq mod n;
        let first = (frame_in_cycle = 0);
        let last = (frame_in_cycle = n - 1);
        let idx = unat cycle_seq mod backlog_len (round_trip_contexts S t);
        entry \<leftarrow> backlog_get (round_trip_contexts S t) idx;
        if sw_ts entry = 0 then Some S
        else do {
          S \<leftarrow> (if first
               then do {
                 S \<leftarrow> backlog_upd t idx (\<lambda>e. e\<lparr>hw_ts := hw\<rparr>) S;
                 stat_frame_sent_latency B app t cycle_seq S
               }
               else Some S);
          entry \<leftarrow> backlog_get (round_trip_contexts S t) idx;
          if log_stat_user_selected S = LOG_TX_TIMESTAMPS \<and> config_have_rx_timestamp B \<and> hw > sw_ts entry
          then (if first then stat_proc_first_latency B app t cycle_seq hw S
                else if last then stat_proc_batch_latency B app t cycle_seq hw S
                else Some S)
          else Some S
        }
      })"

text \<open>The loop over the error queue, which the list of completions stands for; empty
  without time stamp support.\<close>

fun packet_process_tx_completions ::
  "build \<Rightarrow> application_config \<Rightarrow> stat_frame_type \<Rightarrow> nat \<Rightarrow> nat \<Rightarrow> tx_completion list \<Rightarrow>
   stat_state \<Rightarrow> stat_state option" where
  "packet_process_tx_completions B app t off n [] S = Some S"
| "packet_process_tx_completions B app t off n (c # cs) S =
     (if \<not> TX_TIMESTAMP B then Some S
      else do {
        let hw = completion_hw_ts (cp_cmsgs c);
        S \<leftarrow> (if hw = 0 \<or> cp_len c < off + sizeof_reference_meta_data then Some S
             else do {
               seq \<leftarrow> get_sequence_counter (cp_frame c) off n;
               packet_completion_stat B app t n seq hw S
             });
        packet_process_tx_completions B app t off n cs S
      })"

section \<open>Sending lemmas\<close>

text \<open>What the code relies on of \<^verbatim>\<open>sendmmsg\<close>: it fails, or it accepts at least one and at
  most all of the messages offered.\<close>

definition sendmmsg_ok :: "('k \<Rightarrow> nat \<Rightarrow> 'k \<times> (errno + nat)) \<Rightarrow> bool" where
  "sendmmsg_ok sendmmsg \<longleftrightarrow>
     (\<forall>k n. 0 < n \<longrightarrow> (case snd (sendmmsg k n) of Inl _ \<Rightarrow> True | Inr len \<Rightarrow> 0 < len \<and> len \<le> n))"

definition req_off :: "packet_send_request \<Rightarrow> nat \<Rightarrow> nat" where
  "req_off req i = (if sr_mirror_enabled req then i * sr_frame_length req else i * MAX_FRAME_SIZE)"

definition req_frame :: "packet_send_request \<Rightarrow> nat \<Rightarrow> bytes" where
  "req_frame req i = take (sr_frame_length req) (drop (req_off req i) (sr_frame_data req))"

text \<open>A request the function can serve: all frames and their meta data inside the buffer.\<close>

definition send_req_ok :: "application_config \<Rightarrow> nat \<Rightarrow> packet_send_request \<Rightarrow> bool" where
  "send_req_ok app npc req \<longleftrightarrow>
     0 < npc \<and>
     (\<forall>i < sr_num_frames req. req_off req i + sr_frame_length req \<le> length (sr_frame_data req)) \<and>
     (sr_tx_time_enabled req \<or> sr_tx_hwtstamp_enabled req \<longrightarrow>
        sr_meta_data_offset req + sizeof_reference_meta_data \<le> sr_frame_length req) \<and>
     (sr_tx_time_enabled req \<longrightarrow> application_base_cycle_time_ns app \<noteq> 0)"

lemma build_msg_ok:
  assumes "send_req_ok app npc req" "i < sr_num_frames req"
  shows "\<exists>m. packet_build_msg app clk npc req i = Some m \<and> tm_data m = req_frame req i"
proof -
  have b: "req_off req i + sr_frame_length req \<le> length (sr_frame_data req)" "0 < npc"
    using assms by (auto simp: send_req_ok_def)
  show ?thesis
  proof (cases "sr_tx_time_enabled req \<or> sr_tx_hwtstamp_enabled req")
    case True
    have "\<exists>s. get_sequence_counter (sr_frame_data req) (req_off req i + sr_meta_data_offset req) npc = Some s"
      using True assms(1) b(1)
      by (auto simp: get_sequence_counter_def meta_data_to_sequence_counter_def send_req_ok_def Let_def)
    then show ?thesis using True assms(1) b
      by (fastforce simp: packet_build_msg_def req_off_def [symmetric] req_frame_def send_req_ok_def
          tx_time_get_frame_tx_time_def Let_def)
  next
    case False
    then show ?thesis using b
      by (simp add: packet_build_msg_def req_off_def [symmetric] req_frame_def Let_def)
  qed
qed

lemma build_msgs_ok:
  assumes "send_req_ok app npc req" "set is \<subseteq> {..<sr_num_frames req}"
  shows "\<exists>ms. packet_build_msgs app clk npc req is = Some ms \<and> map tm_data ms = map (req_frame req) is"
  using assms(2)
proof (induction "is")
  case (Cons i "is")
  then obtain ms where "packet_build_msgs app clk npc req is = Some ms" "map tm_data ms = map (req_frame req) is"
    by auto
  moreover obtain m where "packet_build_msg app clk npc req i = Some m" "tm_data m = req_frame req i"
    using build_msg_ok [OF assms(1), of i clk] Cons.prems by auto
  ultimately show ?case by auto
qed simp

lemma send_inner_ok:
  assumes "sendmmsg_ok sendmmsg" "inner \<le> length msgs"
  shows "\<exists>r k' n. packet_send_inner sendmmsg msgs inner k wire =
           Some (r, k', wire @ take n (drop inner msgs)) \<and>
           (case r of Inl _ \<Rightarrow> inner + n < length msgs
                    | Inr x \<Rightarrow> x = length msgs \<and> inner + n = length msgs)"
  using assms(2)
proof (induction "length msgs - inner" arbitrary: inner k wire rule: less_induct)
  case less
  show ?case
  proof (cases "inner < length msgs")
    case True
    obtain k1 r1 where s: "sendmmsg k (length msgs - inner) = (k1, r1)" by fastforce
    show ?thesis
    proof (cases r1)
      case (Inl e)
      then have "packet_send_inner sendmmsg msgs inner k wire = Some (Inl e, k1, wire)"
        using True s by (simp add: packet_send_inner.simps)
      then show ?thesis using True by (intro exI [of _ "Inl e"] exI [of _ k1] exI [of _ 0]) simp
    next
      case (Inr len)
      have len: "0 < len" "len \<le> length msgs - inner"
        using assms(1) [unfolded sendmmsg_ok_def, rule_format, of "length msgs - inner" k] s Inr True by simp_all
      let ?w = "wire @ take len (drop inner msgs)"
      obtain r k' n where ih: "packet_send_inner sendmmsg msgs (inner + len) k1 ?w =
          Some (r, k', ?w @ take n (drop (inner + len) msgs))"
        "case r of Inl _ \<Rightarrow> inner + len + n < length msgs
                 | Inr x \<Rightarrow> x = length msgs \<and> inner + len + n = length msgs"
        using less.hyps [of "inner + len" k1 ?w] len True by fastforce
      have "packet_send_inner sendmmsg msgs inner k wire = packet_send_inner sendmmsg msgs (inner + len) k1 ?w"
        using True s Inr by (simp add: packet_send_inner.simps [of _ _ inner])
      moreover have "take len (drop inner msgs) @ take n (drop (inner + len) msgs) = take (len + n) (drop inner msgs)"
        by (simp add: take_add add.commute)
      ultimately show ?thesis using ih
        by (intro exI [of _ r] exI [of _ k'] exI [of _ "len + n"]) (simp add: add.assoc split: sum.splits)
    qed
  next
    case False
    then show ?thesis using less.prems
      by (intro exI [of _ "Inr (length msgs)"] exI [of _ k] exI [of _ 0]) (simp add: packet_send_inner.simps)
  qed
qed

lemma send_loop_ok:
  assumes "sendmmsg_ok sendmmsg" "send_req_ok app npc req" "sent \<le> sr_num_frames req"
  shows "\<exists>r k' ms. packet_send_loop app clk sendmmsg npc req sent k wire = Some (r, k', wire @ ms) \<and>
           map tm_data ms = map (req_frame req) [sent..<sent + length ms] \<and>
           (case r of Inl _ \<Rightarrow> sent + length ms < sr_num_frames req
                    | Inr x \<Rightarrow> x = sr_num_frames req \<and> sent + length ms = sr_num_frames req)"
  using assms(3)
proof (induction "sr_num_frames req - sent" arbitrary: sent k wire rule: less_induct)
  case less
  let ?N = "sr_num_frames req"
  show ?case
  proof (cases "sent < ?N")
    case True
    define b where "b = min (?N - sent) npc"
    have b: "0 < b" "sent + b \<le> ?N" using True assms(2) by (auto simp: b_def send_req_ok_def)
    obtain msgs where m: "packet_build_msgs app clk npc req [sent..<sent + b] = Some msgs"
      "map tm_data msgs = map (req_frame req) [sent..<sent + b]"
      using build_msgs_ok [OF assms(2), of "[sent..<sent + b]"] b by fastforce
    have lm: "length msgs = b" using arg_cong [OF m(2), of length] by simp
    obtain r k' n where i: "packet_send_inner sendmmsg msgs 0 k wire = Some (r, k', wire @ take n msgs)"
      "case r of Inl _ \<Rightarrow> n < b | Inr x \<Rightarrow> x = b \<and> n = b"
      using send_inner_ok [OF assms(1), of 0 msgs k wire] unfolding lm drop0 add_0 by blast
    show ?thesis
    proof (cases r)
      case (Inl e)
      then have "packet_send_loop app clk sendmmsg npc req sent k wire = Some (Inl e, k', wire @ take n msgs)"
        using True m(1) i by (simp add: packet_send_loop.simps [of _ _ _ _ _ sent] b_def [symmetric] Let_def)
      moreover have "map tm_data (take n msgs) = map (req_frame req) [sent..<sent + length (take n msgs)]"
        using lm i(2) Inl arg_cong [OF m(2), of "take n"] by (simp add: take_map take_upt)
      moreover have "sent + length (take n msgs) < ?N" using i(2) Inl b lm by simp
      ultimately show ?thesis by (intro exI [of _ "Inl e"] exI [of _ k'] exI [of _ "take n msgs"]) simp
    next
      case (Inr x)
      obtain r' k'' ms where ih: "packet_send_loop app clk sendmmsg npc req (sent + b) k' (wire @ msgs) =
          Some (r', k'', (wire @ msgs) @ ms)"
        "map tm_data ms = map (req_frame req) [sent + b..<sent + b + length ms]"
        "case r' of Inl _ \<Rightarrow> sent + b + length ms < ?N | Inr x \<Rightarrow> x = ?N \<and> sent + b + length ms = ?N"
        using less.hyps [OF _ b(2), of k' "wire @ msgs"] b by (metis add_diff_cancel_left' diff_less_mono2 less_add_same_cancel1 True)
      have "packet_send_loop app clk sendmmsg npc req sent k wire = Some (r', k'', wire @ msgs @ ms)"
        using True m(1) i Inr ih(1) lm
        by (simp add: packet_send_loop.simps [of _ _ _ _ _ sent] b_def [symmetric] Let_def)
      moreover have "map tm_data (msgs @ ms) = map (req_frame req) [sent..<sent + length (msgs @ ms)]"
        using m(2) ih(2) lm upt_add_eq_append [of sent "sent + b" "length ms"] by (simp add: add.assoc)
      ultimately show ?thesis using ih(3) lm
        by (intro exI [of _ r'] exI [of _ k''] exI [of _ "msgs @ ms"]) (simp add: add.assoc split: sum.splits)
    qed
  next
    case False
    then show ?thesis using less.prems
      by (intro exI [of _ "Inr ?N"] exI [of _ k] exI [of _ "[]"]) (simp add: packet_send_loop.simps)
  qed
qed

section \<open>Receiving lemmas\<close>

text \<open>The messages the loop hands to the handler: those before the first error.\<close>

fun rx_delivered :: "(errno + rx_msg list) list \<Rightarrow> rx_msg list" where
  "rx_delivered [] = []"
| "rx_delivered (Inl e # rs) = []"
| "rx_delivered (Inr msgs # rs) = msgs @ rx_delivered rs"

context rx_handler
begin

lemma run_tc: "rx_run handle fs w = Some (rets, w') \<Longrightarrow> tc_of (rx_ctx w') = tc_of (rx_ctx w)"
proof (induction fs arbitrary: w rets)
  case (Cons f fs)
  obtain env slot len where f: "f = (env, slot, len)" by (metis prod_cases3)
  obtain ret w1 where h: "handle env len (w\<lparr>rx_frame := slot\<rparr>) = Some (ret, w1)"
    using Cons.prems f by (auto split: if_splits)
  have t: "tc_of (rx_ctx w1) = tc_of (rx_ctx w)"
  proof (cases ret)
    case None
    then show ?thesis using accepts [OF h [unfolded None]] by simp
  next
    case (Some e)
    then show ?thesis using rejects [OF h [unfolded Some]] by auto
  qed
  show ?case
  proof (cases "rx_exited w1")
    case True
    then show ?thesis using Cons.prems f h t by auto
  next
    case False
    then obtain rets' where "rx_run handle fs w1 = Some (rets', w')" using Cons.prems f h by auto
    then show ?thesis using Cons.IH t by simp
  qed
qed simp

lemma messages_counts:
  assumes "packet_receive_messages handle tai hwts rs w = Some (n, w')" "\<not> rx_exited w'"
  defines "t \<equiv> tc_of (rx_ctx w)"
  shows "n = length (rx_delivered rs) \<and>
    rx_sequence_counter (rx_ctx w') - frames_received (global_statistics (rx_stat w') t)
         - out_of_order_errors (global_statistics (rx_stat w') t) =
       rx_sequence_counter (rx_ctx w) - frames_received (global_statistics (rx_stat w) t)
         - out_of_order_errors (global_statistics (rx_stat w) t) \<and>
    (\<exists>k \<le> n. frames_received (global_statistics (rx_stat w') t) =
       frames_received (global_statistics (rx_stat w) t) + of_nat k) \<and>
    (\<forall>u. u \<noteq> t \<longrightarrow> global_statistics (rx_stat w') u = global_statistics (rx_stat w) u)"
  using assms(1) unfolding t_def
proof (induction rs arbitrary: w n)
  case (Cons r rs)
  show ?case
  proof (cases r)
    case (Inr msgs)
    obtain rets w1 where h: "rx_run handle (map (rx_msg_frame tai hwts) msgs) w = Some (rets, w1)"
      using Cons.prems Inr by auto
    have e: "\<not> rx_exited w1" using Cons.prems Inr h assms(2) by (auto split: if_splits)
    obtain m where m: "packet_receive_messages handle tai hwts rs w1 = Some (m, w')" "n = length msgs + m"
      using Cons.prems Inr h e by auto
    note IH = Cons.IH [OF m(1), unfolded run_tc [OF h]]
    note c = run_counts [OF h e]
    obtain k where k: "k \<le> m" "frames_received (global_statistics (rx_stat w') (tc_of (rx_ctx w))) =
        frames_received (global_statistics (rx_stat w1) (tc_of (rx_ctx w))) + of_nat k"
      using IH by blast
    let ?a = "length (filter (\<lambda>r. r = None) rets)"
    have "?a \<le> length msgs" using c(1) length_filter_le [of "\<lambda>r. r = None" rets] by simp
    then have "?a + k \<le> n" using k(1) m(2) by simp
    moreover have "frames_received (global_statistics (rx_stat w') (tc_of (rx_ctx w))) =
        frames_received (global_statistics (rx_stat w) (tc_of (rx_ctx w))) + of_nat (?a + k)"
      using k(2) c(2) by simp
    moreover have "n = length (rx_delivered (r # rs))" using IH m(2) Inr by simp
    ultimately show ?thesis using IH c(3,4) by metis
  qed (use Cons.prems in auto)
qed auto

end

section \<open>Completion lemmas\<close>

lemma backlog_upd_rtc:
  assumes "rtc_ok (round_trip_contexts S t)" "i < backlog_len (round_trip_contexts S t)"
  shows "\<exists>S'. backlog_upd t i f S = Some S' \<and> rtc_ok (round_trip_contexts S' t) \<and>
    backlog_len (round_trip_contexts S' t) = backlog_len (round_trip_contexts S t) \<and>
    log_stat_user_selected S' = log_stat_user_selected S"
proof -
  obtain b where b: "backlog (round_trip_contexts S t) = Some b" "length b = backlog_len (round_trip_contexts S t)"
    using assms(1) by (auto simp: rtc_ok_def)
  then show ?thesis using backlog_upd_eq [OF b(1), of i f] assms by (auto simp: rtc_ok_def)
qed

lemma backlog_get_rtc:
  "rtc_ok (round_trip_contexts S t) \<Longrightarrow> i < backlog_len (round_trip_contexts S t) \<Longrightarrow>
   \<exists>e. backlog_get (round_trip_contexts S t) i = Some e"
  by (auto simp: rtc_ok_def backlog_get_def)

lemma sent_latency_rtc:
  assumes "rtc_ok (round_trip_contexts S t)"
  shows "\<exists>S'. stat_frame_sent_latency B app t seq S = Some S' \<and> rtc_ok (round_trip_contexts S' t) \<and>
    backlog_len (round_trip_contexts S' t) = backlog_len (round_trip_contexts S t)"
proof -
  let ?i = "unat seq mod backlog_len (round_trip_contexts S t)"
  have i: "?i < backlog_len (round_trip_contexts S t)" "backlog_len (round_trip_contexts S t) \<noteq> 0"
    using assms by (auto simp: rtc_ok_def)
  obtain e where e: "backlog_get (round_trip_contexts S t) ?i = Some e"
    using backlog_get_rtc [OF assms i(1)] by blast
  have "\<exists>S'. backlog_upd t ?i f R = Some S' \<and> rtc_ok (round_trip_contexts S' t) \<and>
      backlog_len (round_trip_contexts S' t) = backlog_len (round_trip_contexts S t)"
    if "round_trip_contexts R = round_trip_contexts S" for R f
    using backlog_upd_rtc [of R t ?i f] that assms i(1) by auto
  then show ?thesis using assms i(2) e
    by (auto simp: stat_frame_sent_latency_def stat_frame_sent_latency_per_period_def Let_def)
qed

lemma proc_latency_rtc:
  assumes "rtc_ok (round_trip_contexts S t)" "0 < num_frames_per_cycle (classes app t)"
  shows "\<exists>S'. stat_proc_first_latency B app t seq hw S = Some S' \<and> rtc_ok (round_trip_contexts S' t)"
    "\<exists>S'. stat_proc_batch_latency B app t seq hw S = Some S' \<and> rtc_ok (round_trip_contexts S' t)"
proof -
  let ?n = "num_frames_per_cycle (classes app t)"
  let ?i = "(unat seq div ?n * ?n) mod backlog_len (round_trip_contexts S t)"
  have i: "?i < backlog_len (round_trip_contexts S t)"
    "get_first_frame_backlog_idx seq ?n (backlog_len (round_trip_contexts S t)) = Some ?i"
    using assms by (auto simp: rtc_ok_def get_first_frame_backlog_idx_def)
  obtain e where e: "backlog_get (round_trip_contexts S t) ?i = Some e"
    using backlog_get_rtc [OF assms(1) i(1)] by blast
  show "\<exists>S'. stat_proc_first_latency B app t seq hw S = Some S' \<and> rtc_ok (round_trip_contexts S' t)"
    using assms(1) i(2) e by (simp add: stat_proc_first_latency_def stat_frame_proc_first_per_period_def Let_def)
  obtain S1 where "backlog_upd t ?i (\<lambda>e. e\<lparr>rx_hw_ts := 0\<rparr>) S = Some S1" "rtc_ok (round_trip_contexts S1 t)"
    using backlog_upd_rtc [OF assms(1) i(1)] by blast
  then show "\<exists>S'. stat_proc_batch_latency B app t seq hw S = Some S' \<and> rtc_ok (round_trip_contexts S' t)"
    using i(2) e by (simp add: stat_proc_batch_latency_def stat_frame_proc_batch_per_period_def Let_def)
qed

lemma completion_stat_rtc:
  assumes "rtc_ok (round_trip_contexts S t)" "0 < num_frames_per_cycle (classes app t)" "0 < n"
  shows "\<exists>S'. packet_completion_stat B app t n seq hw S = Some S' \<and> rtc_ok (round_trip_contexts S' t)"
proof -
  let ?c = "of_nat (unat seq div n * n) :: u64"
  let ?L = "backlog_len (round_trip_contexts S t)"
  let ?i = "unat ?c mod ?L"
  have i: "?i < ?L" "?L \<noteq> 0" using assms(1) by (auto simp: rtc_ok_def)
  obtain e where e: "backlog_get (round_trip_contexts S t) ?i = Some e"
    using backlog_get_rtc [OF assms(1) i(1)] by blast
  obtain S1 where S1: "(if unat seq mod n = 0
         then backlog_upd t ?i (\<lambda>e. e\<lparr>hw_ts := hw\<rparr>) S \<bind> stat_frame_sent_latency B app t ?c
         else Some S) = Some S1" "rtc_ok (round_trip_contexts S1 t)" "backlog_len (round_trip_contexts S1 t) = ?L"
  proof (cases "unat seq mod n = 0")
    case True
    obtain S2 where S2: "backlog_upd t ?i (\<lambda>e. e\<lparr>hw_ts := hw\<rparr>) S = Some S2" "rtc_ok (round_trip_contexts S2 t)"
      "backlog_len (round_trip_contexts S2 t) = ?L"
      using backlog_upd_rtc [OF assms(1) i(1)] by blast
    then show ?thesis using that True sent_latency_rtc [OF S2(2), of B app ?c] by auto
  qed (use that assms(1) in auto)
  obtain e1 where e1: "backlog_get (round_trip_contexts S1 t) ?i = Some e1"
    using backlog_get_rtc [OF S1(2), of ?i] i(1) S1(3) by auto
  note p = proc_latency_rtc [OF S1(2) assms(2), of B ?c hw]
  show ?thesis
    using assms(1,3) i(2) e S1(1,2) e1 p
    by (auto simp: packet_completion_stat_def Let_def cong: if_cong split del: if_split)
       (auto split: if_splits)
qed

lemma completions_rtc:
  assumes "rtc_ok (round_trip_contexts S t)" "0 < num_frames_per_cycle (classes app t)" "0 < n"
    and "list_all (\<lambda>c. cp_len c \<le> length (cp_frame c)) cs"
  shows "\<exists>S'. packet_process_tx_completions B app t off n cs S = Some S' \<and> rtc_ok (round_trip_contexts S' t)"
  using assms(1,4)
proof (induction cs arbitrary: S)
  case (Cons c cs)
  let ?hw = "completion_hw_ts (cp_cmsgs c)"
  have g: "\<exists>s. get_sequence_counter (cp_frame c) off n = Some s" if "off + 16 \<le> cp_len c"
    using that Cons.prems(2) by (simp add: get_sequence_counter_def meta_data_to_sequence_counter_def Let_def)
  have "\<exists>S1. (if ?hw = 0 \<or> cp_len c < off + 16 then Some S
       else get_sequence_counter (cp_frame c) off n \<bind> (\<lambda>seq. packet_completion_stat B app t n seq ?hw S)) = Some S1 \<and>
       rtc_ok (round_trip_contexts S1 t)"
    using g Cons.prems(1) completion_stat_rtc [OF Cons.prems(1) assms(2,3)] by auto
  then obtain S1 where S1: "(if ?hw = 0 \<or> cp_len c < off + 16 then Some S
       else get_sequence_counter (cp_frame c) off n \<bind> (\<lambda>seq. packet_completion_stat B app t n seq ?hw S)) = Some S1"
    "rtc_ok (round_trip_contexts S1 t)" by blast
  then show ?case using Cons.IH [OF S1(2)] Cons.prems
    by (auto simp: Let_def split del: if_split) (auto split: if_splits)
qed simp

section \<open>Properties\<close>

text \<open>C4. \<^verbatim>\<open>packet_send_messages\<close> always returns, whatever batches the kernel accepts: either
  all frames of the request went out, in order and each exactly once, and the
  number of frames is returned; or an error is returned, and what went out is a
  proper initial part of them.\<close>

theorem packet_send_delivers:
  assumes "sendmmsg_ok sendmmsg" "send_req_ok app npc req"
  shows "\<exists>r k' wire. packet_send_messages app clk sendmmsg npc req k = Some (r, k', wire) \<and>
           map tm_data wire = map (req_frame req) [0..<length wire] \<and>
           (case r of Inr n \<Rightarrow> n = sr_num_frames req \<and> length wire = sr_num_frames req
                    | Inl _ \<Rightarrow> length wire < sr_num_frames req)"
proof -
  obtain r k' ms where "packet_send_loop app clk sendmmsg npc req 0 k [] = Some (r, k', [] @ ms)"
    "map tm_data ms = map (req_frame req) [0..<0 + length ms]"
    "case r of Inl _ \<Rightarrow> 0 + length ms < sr_num_frames req
             | Inr x \<Rightarrow> x = sr_num_frames req \<and> 0 + length ms = sr_num_frames req"
    using send_loop_ok [OF assms, of 0 clk k "[]"] by blast
  then show ?thesis
    by (intro exI [of _ r] exI [of _ k'] exI [of _ ms]) (simp add: packet_send_messages_def split: sum.splits)
qed

definition demo_send_req :: packet_send_request where
  "demo_send_req = \<lparr>sr_frame_data = replicate (3 * 4096) 7, sr_num_frames = 3, sr_frame_length = 64,
     sr_duration = 0, sr_tx_time_offset = 0, sr_meta_data_offset = 20, sr_mirror_enabled = False,
     sr_tx_time_enabled = False, sr_tx_hwtstamp_enabled = False\<rparr>"

theorem packet_send_delivers_witness:
  "\<exists>r k' wire. packet_send_messages demo_time_config (\<lambda>_. demo_clock)
       (\<lambda>k n. (Suc k, if k < 2 then Inr 1 else Inl EAGAIN)) 2 demo_send_req 0 = Some (r, k', wire) \<and>
     map tm_data wire = map (req_frame demo_send_req) [0..<length wire]"
proof -
  have a: "sendmmsg_ok (\<lambda>k n. (Suc k, if k < (2 :: nat) then Inr 1 else Inl EAGAIN))"
    by (simp add: sendmmsg_ok_def)
  have b: "send_req_ok demo_time_config 2 demo_send_req"
    by (simp add: send_req_ok_def demo_send_req_def req_off_def)
  show ?thesis using packet_send_delivers [OF a b, of "\<lambda>_. demo_clock" 0] by blast
qed

text \<open>Initialising a packet context never leaks: whichever allocation fails, nothing
  stays allocated; and if all succeed, freeing the context releases exactly what
  was allocated.\<close>

lemma packet_init_no_leak:
  "mset (snd (packet_init ok)) = mset (packet_free (fst (packet_init ok)))"
  by (simp add: packet_init_def packet_free_def Let_def)



text \<open>Draining the error queue is safe for whatever frames the kernel echoes: with
  the backlog of the class allocated, no completion leads to an access outside it,
  and the backlog stays well formed.\<close>

lemma tx_completions_safe:
  assumes "rtc_ok (round_trip_contexts S t)" "0 < num_frames_per_cycle (classes app t)" "0 < n"
    and "list_all (\<lambda>c. cp_len c \<le> length (cp_frame c)) cs"
  shows "\<exists>S'. packet_process_tx_completions B app t off n cs S = Some S' \<and> rtc_ok (round_trip_contexts S' t)"
  by (rule completions_rtc [OF assms])

end
