(* ===== verification/TB_Workload.thy ===== *)
theory TB_Workload
  imports TB_Rx TB_Text
begin

text \<open>
  Workload threads, \<^verbatim>\<open>workload.c\<close>: argument splitting, set-up and tear-down with all
  error paths, and the hand-shake between the receive thread that signals a
  workload, the workload thread and the transmit thread that checks it.
\<close>

section \<open>Arguments\<close>

text \<open>Return code, \<^verbatim>\<open>argc\<close> and \<^verbatim>\<open>argv\<close>; the flags say whether the copy of the input, the
  array and the name of the program can be allocated.\<close>

definition string_to_argc_argv ::
  "bool \<Rightarrow> bool \<Rightarrow> bool \<Rightarrow> string \<Rightarrow> errno + (nat \<times> string list)" where
  "string_to_argc_argv copy_ok argv_ok name_ok input =
     (if \<not> copy_ok then Inl ENOMEM
      else let tokens = strtok '' '' [] input; count = Suc (length tokens)
           in if \<not> argv_ok then Inl ENOMEM
              else if \<not> name_ok then Inl ENOMEM
              else Inr (count, ''Workload'' # tokens))"

section \<open>Set-up and tear-down\<close>

datatype wl_cell = WL_struct | WL_handler | WL_argv | WL_setup_argv

text \<open>What the outside decides: allocation, \<^verbatim>\<open>dlopen\<close>, the three \<^verbatim>\<open>dlsym\<close> calls, the two
  argument vectors, the set-up function and thread creation per instance.\<close>

record wl_outcome =
  wo_calloc :: bool
  wo_dlopen :: bool
  wo_setup_sym :: bool
  wo_teardown_sym :: bool
  wo_sym :: bool
  wo_args :: "errno option"
  wo_setup_args :: "errno option"
  wo_setup :: "nat \<Rightarrow> errno option"
  wo_thread :: "nat \<Rightarrow> errno option"

text \<open>What is left: cells not freed, instances set up and not torn down, threads running.\<close>

record wl_result =
  wr_cells :: "wl_cell list"
  wr_set_up :: "nat list"
  wr_threads :: "nat list"

abbreviation (input) "wl_nothing \<equiv> \<lparr>wr_cells = [], wr_set_up = [], wr_threads = []\<rparr>"

text \<open>A loop over the instances that stops at the first error: its index and code.\<close>

fun wl_loop :: "(nat \<Rightarrow> errno option) \<Rightarrow> nat list \<Rightarrow> (nat \<times> errno) option" where
  "wl_loop f [] = None"
| "wl_loop f (i # is) = (case f i of Some e \<Rightarrow> Some (i, e) | None \<Rightarrow> wl_loop f is)"

definition wl_config_num :: "traffic_class_config \<Rightarrow> nat" where
  "wl_config_num cfg = nat (workload_thread_cpus_num cfg)"

definition workload_context_init ::
  "wl_outcome \<Rightarrow> traffic_class_config \<Rightarrow> errno option \<times> wl_result" where
  "workload_context_init wo cfg =
     (let n = wl_config_num cfg;
          has_setup = (workload_setup_function cfg \<noteq> None);
          has_teardown = (workload_teardown_function cfg \<noteq> None)
      in if \<not> rx_workload_enabled cfg then (None, wl_nothing)
         else if \<not> wo_calloc wo then (Some ENOMEM, wl_nothing)
         else if \<not> wo_dlopen wo then (Some EINVAL, \<lparr>wr_cells = remove1 WL_struct [WL_struct], wr_set_up = [], wr_threads = []\<rparr>)
         else let dl = (\<lambda>h. remove1 WL_struct (remove1 WL_handler h));
                  argv = (\<lambda>h. dl (remove1 WL_argv h));
                  setup = (\<lambda>h. argv (remove1 WL_setup_argv h));
                  h = [WL_handler, WL_struct]
         in if (has_setup \<and> \<not> wo_setup_sym wo) \<or> (has_teardown \<and> \<not> wo_teardown_sym wo) \<or> \<not> wo_sym wo
            then (Some EINVAL, \<lparr>wr_cells = dl h, wr_set_up = [], wr_threads = []\<rparr>)
            else (case (if workload_arguments cfg \<noteq> None then wo_args wo else None) of
              Some e \<Rightarrow> (Some e, \<lparr>wr_cells = dl h, wr_set_up = [], wr_threads = []\<rparr>)
            | None \<Rightarrow>
              let h = (if workload_arguments cfg \<noteq> None then WL_argv # h else h)
              in (case (if workload_setup_arguments cfg \<noteq> None then wo_setup_args wo else None) of
                Some e \<Rightarrow> (Some e, \<lparr>wr_cells = argv h, wr_set_up = [], wr_threads = []\<rparr>)
              | None \<Rightarrow>
                let h = (if workload_setup_arguments cfg \<noteq> None then WL_setup_argv # h else h);
                    set_up = (\<lambda>is. if has_setup then is else [])
                in (case (if has_setup then wl_loop (wo_setup wo) [0..<n] else None) of
                  Some (i, e) \<Rightarrow>
                    (Some e, \<lparr>wr_cells = setup h,
                              wr_set_up = (if has_teardown then filter (\<lambda>j. \<not> j < i) [0..<i] else set_up [0..<i]),
                              wr_threads = []\<rparr>)
                | None \<Rightarrow>
                  (case wl_loop (wo_thread wo) [0..<n] of
                    Some (i, e) \<Rightarrow>
                      (Some e, \<lparr>wr_cells = setup h,
                                wr_set_up = (if has_teardown then filter (\<lambda>j. \<not> j < i) (set_up [0..<n]) else set_up [0..<n]),
                                wr_threads = filter (\<lambda>j. \<not> j < i) [0..<i]\<rparr>)
                  | None \<Rightarrow> (None, \<lparr>wr_cells = h, wr_set_up = set_up [0..<n], wr_threads = [0..<n]\<rparr>))))))"

text \<open>After the threads were joined: the instances torn down and the cells freed.\<close>

definition workload_thread_free :: "traffic_class_config \<Rightarrow> nat list \<times> wl_cell list" where
  "workload_thread_free cfg =
     (if \<not> rx_workload_enabled cfg then ([], [])
      else (if workload_teardown_function cfg \<noteq> None then [0..<wl_config_num cfg] else [],
            (if workload_arguments cfg \<noteq> None then [WL_argv] else []) @
            (if workload_setup_arguments cfg \<noteq> None then [WL_setup_argv] else []) @
            [WL_handler, WL_struct]))"

definition workload_thread_wait_for_finish :: "traffic_class_config \<Rightarrow> nat list" where
  "workload_thread_wait_for_finish cfg =
     (if \<not> rx_workload_enabled cfg then [] else [0..<wl_config_num cfg])"

section \<open>The hand-shake\<close>

record workload_thread =
  workload_sequence_counter :: u64
  workload_running :: bool

text \<open>\<^verbatim>\<open>workload_check_finished\<close> of the transmit thread counts the workloads still running.\<close>

definition workload_check_finished ::
  "application_config \<Rightarrow> 'c thread_context \<Rightarrow> workload_thread list \<Rightarrow> stat_state \<Rightarrow> stat_state option" where
  "workload_check_finished app ctx threads S =
     (if \<not> rx_workload_enabled (conf ctx) then Some S
      else for_upto (wl_config_num (conf ctx))
             (\<lambda>i S. if i < length threads
                     then (if workload_running (threads ! i) then stat_inc_workload_outlier app i (frame_type ctx) S
                           else Some S)
                     else None) S)"

definition workload_signal ::
  "'c thread_context \<Rightarrow> nat \<Rightarrow> workload_thread list \<Rightarrow> workload_thread list option" where
  "workload_signal ctx received threads =
     (if \<not> rx_workload_enabled (conf ctx) then Some threads
      else if received \<noteq> 0 \<or> rx_workload_prewarm (conf ctx)
      then for_upto (wl_config_num (conf ctx))
             (\<lambda>i ths. if i < length ths then Some (ths[i := (ths ! i)\<lparr>workload_running := True\<rparr>]) else None) threads
      else Some threads)"

text \<open>The end of one run of the workload function on thread \<open>id\<close>, started at \<open>start_ts\<close>.\<close>

definition workload_finish ::
  "build \<Rightarrow> application_config \<Rightarrow> timespec option \<Rightarrow> stat_frame_type \<Rightarrow> nat \<Rightarrow> timespec \<Rightarrow>
   workload_thread list \<Rightarrow> stat_state \<Rightarrow> (workload_thread list \<times> stat_state) option" where
  "workload_finish B app clk t wid start_ts threads S =
     (if wid < length threads
      then do {
        S \<leftarrow> stat_frame_workload B app clk wid t start_ts S;
        let th = threads ! wid;
        Some (threads[wid := th\<lparr>workload_running := False,
                              workload_sequence_counter := workload_sequence_counter th + 1\<rparr>], S)
      }
      else None)"

text \<open>
  One workload thread as a state machine.  Between its start or the end of a run
  and the wait it is \<open>Idle\<close>; a signal of the condition variable reaches it only
  while it is \<open>Waiting\<close>; a wait that times out goes back to the loop condition.  The
  wait has no predicate: if POSIX wakes the thread spuriously (\<open>sp\<close>), it runs as well.
\<close>

datatype wl_phase = Idle | Waiting | Running

record wl_machine =
  wm_phase :: wl_phase
  wm_flag :: bool
  wm_signals :: nat
  wm_runs :: nat
  wm_overruns :: nat

definition wl_initial :: wl_machine where
  "wl_initial = \<lparr>wm_phase = Idle, wm_flag = False, wm_signals = 0, wm_runs = 0, wm_overruns = 0\<rparr>"

inductive wl_step :: "bool \<Rightarrow> wl_machine \<Rightarrow> wl_machine \<Rightarrow> bool" for sp where
  wl_wait: "wm_phase s = Idle \<Longrightarrow> wl_step sp s (s\<lparr>wm_phase := Waiting\<rparr>)"
| wl_timeout: "wm_phase s = Waiting \<Longrightarrow> wl_step sp s (s\<lparr>wm_phase := Idle\<rparr>)"
| wl_signal_waiting: "wm_phase s = Waiting \<Longrightarrow>
    wl_step sp s (s\<lparr>wm_phase := Running, wm_flag := True, wm_signals := Suc (wm_signals s), wm_runs := Suc (wm_runs s)\<rparr>)"
| wl_spurious: "sp \<Longrightarrow> wm_phase s = Waiting \<Longrightarrow>
    wl_step sp s (s\<lparr>wm_phase := Running, wm_runs := Suc (wm_runs s)\<rparr>)"
| wl_signal_missed: "wm_phase s \<noteq> Waiting \<Longrightarrow>
    wl_step sp s (s\<lparr>wm_flag := True, wm_signals := Suc (wm_signals s)\<rparr>)"
| wl_finish: "wm_phase s = Running \<Longrightarrow> wl_step sp s (s\<lparr>wm_phase := Idle, wm_flag := False\<rparr>)"
| wl_check_overrun: "wm_flag s \<Longrightarrow> wl_step sp s (s\<lparr>wm_overruns := Suc (wm_overruns s)\<rparr>)"
| wl_check_ok: "\<not> wm_flag s \<Longrightarrow> wl_step sp s s"

inductive wl_reachable :: "bool \<Rightarrow> wl_machine \<Rightarrow> bool" for sp where
  wl_start: "wl_reachable sp wl_initial"
| wl_next: "wl_reachable sp s \<Longrightarrow> wl_step sp s s' \<Longrightarrow> wl_reachable sp s'"

inductive_cases wl_step_elim: "wl_step False s s'"

section \<open>Lemmas\<close>

lemma wl_loop_None: "wl_loop f is = None \<longleftrightarrow> (\<forall>i \<in> set is. f i = None)"
  by (induction "is") (auto split: option.splits)

lemma wl_loop_Some: "wl_loop f [0..<n] = Some (i, e) \<Longrightarrow> i < n \<and> f i = Some e"
proof -
  have "wl_loop f is = Some (i, e) \<Longrightarrow> i \<in> set is \<and> f i = Some e" for "is"
    by (induction "is") (auto split: option.splits)
  then show "wl_loop f [0..<n] = Some (i, e) \<Longrightarrow> i < n \<and> f i = Some e" by fastforce
qed

lemma wl_running_flag: "wl_reachable False s \<Longrightarrow> wm_phase s = Running \<Longrightarrow> wm_flag s"
proof (induction rule: wl_reachable.induct)
  case (wl_next s s')
  then show ?case by (auto elim!: wl_step_elim)
qed (simp add: wl_initial_def)

lemma wl_runs_bounded: "wl_reachable False s \<Longrightarrow> wm_runs s \<le> wm_signals s"
proof (induction rule: wl_reachable.induct)
  case (wl_next s s')
  then show ?case by (auto elim!: wl_step_elim)
qed (simp add: wl_initial_def)

section \<open>Properties\<close>

text \<open>The argument vector of a workload: the program name followed by the blank
  separated words, none empty and none with a blank, which together are the input
  without its blanks; the count is their number plus one.\<close>

lemma workload_arguments_split:
  "\<exists>words. string_to_argc_argv True True True input = Inr (Suc (length words), ''Workload'' # words) \<and>
     concat words = filter (\<lambda>c. c \<noteq> CHR '' '') input \<and>
     list_all (\<lambda>w. w \<noteq> [] \<and> CHR '' '' \<notin> set w) words"
  using strtok_tokens [of "'' ''" "[]" input] strtok_no_delim [of "[]" "'' ''" input]
  by (simp add: string_to_argc_argv_def Let_def)

text \<open>Whatever fails while a workload is set up, no memory, library handle or thread
  is left behind; and after success the release function frees exactly the cells
  allocated and, if the workload has both functions, tears down exactly the
  instances set up.\<close>

lemma workload_init_no_leak:
  assumes "workload_context_init wo cfg = (ret, r)"
  shows "case ret of
     Some e \<Rightarrow> wr_cells r = [] \<and> wr_threads r = []
   | None \<Rightarrow> mset (wr_cells r) = mset (snd (workload_thread_free cfg)) \<and>
       wr_threads r = workload_thread_wait_for_finish cfg \<and>
       ((workload_setup_function cfg \<noteq> None) = (workload_teardown_function cfg \<noteq> None) \<longrightarrow>
          wr_set_up r = fst (workload_thread_free cfg))"
  using assms
  by (auto simp: workload_context_init_def workload_thread_free_def workload_thread_wait_for_finish_def Let_def
      split: if_splits option.splits)

definition demo_wl_config :: traffic_class_config where
  "demo_wl_config = zero_class_config\<lparr>rx_workload_enabled := True, workload_thread_cpus_num := 3,
     workload_setup_function := Some ''setup'', workload_teardown_function := Some ''teardown'',
     workload_arguments := Some ''1 2''\<rparr>"

definition demo_wl_outcome :: "nat option \<Rightarrow> wl_outcome" where
  "demo_wl_outcome bad = \<lparr>wo_calloc = True, wo_dlopen = True, wo_setup_sym = True, wo_teardown_sym = True,
     wo_sym = True, wo_args = None, wo_setup_args = None, wo_setup = (\<lambda>_. None),
     wo_thread = (\<lambda>i. if Some i = bad then Some EAGAIN else None)\<rparr>"

lemma demo_wl_run:
  "workload_context_init (demo_wl_outcome None) demo_wl_config =
     (None, \<lparr>wr_cells = [WL_argv, WL_handler, WL_struct], wr_set_up = [0, 1, 2], wr_threads = [0, 1, 2]\<rparr>)"
  "wl_loop (wo_thread (demo_wl_outcome (Some 1))) [0..<3] = Some (1, EAGAIN)"
  by (simp_all add: workload_context_init_def demo_wl_outcome_def demo_wl_config_def zero_class_config_def
      wl_config_num_def upt_rec Let_def)

text \<open>C32. If the \<open>i\<close>-th workload thread cannot be created, the error path tears down
  only the instances below \<open>i\<close>, although all of them were set up before: the
  instances \<open>i, \<dots>, n - 1\<close> are never torn down.\<close>

theorem workload_teardown_incomplete:
  assumes "rx_workload_enabled cfg" "workload_setup_function cfg \<noteq> None" "workload_teardown_function cfg \<noteq> None"
    and "wo_calloc wo" "wo_dlopen wo" "wo_setup_sym wo" "wo_teardown_sym wo" "wo_sym wo"
    and "wo_args wo = None" "wo_setup_args wo = None"
    and "wl_loop (wo_setup wo) [0..<wl_config_num cfg] = None"
    and "wl_loop (wo_thread wo) [0..<wl_config_num cfg] = Some (i, e)"
  shows "\<exists>r. workload_context_init wo cfg = (Some e, r) \<and> wr_set_up r = [i..<wl_config_num cfg]"
proof -
  have "i < wl_config_num cfg" using wl_loop_Some [OF assms(12)] by simp
  then have "[0..<wl_config_num cfg] = [0..<i] @ [i..<wl_config_num cfg]"
    by (metis le_add_diff_inverse less_imp_le_nat upt_add_eq_append zero_le)
  then have "filter (\<lambda>j. \<not> j < i) [0..<wl_config_num cfg] = [i..<wl_config_num cfg]" by simp
  then show ?thesis using assms by (simp add: workload_context_init_def Let_def)
qed

theorem workload_teardown_incomplete_witness:
  "\<exists>r. workload_context_init (demo_wl_outcome (Some 1)) demo_wl_config = (Some EAGAIN, r) \<and> wr_set_up r = [1, 2]"
proof -
  have n: "wl_config_num demo_wl_config = 3" by (simp add: demo_wl_config_def wl_config_num_def)
  have u: "wl_loop (wo_setup (demo_wl_outcome (Some 1))) [0..<wl_config_num demo_wl_config] = None"
    by (simp add: wl_loop_None demo_wl_outcome_def)
  have "\<exists>r. workload_context_init (demo_wl_outcome (Some 1)) demo_wl_config = (Some EAGAIN, r) \<and>
      wr_set_up r = [1..<wl_config_num demo_wl_config]"
    by (rule workload_teardown_incomplete [OF _ _ _ _ _ _ _ _ _ _ u])
       (simp_all add: n demo_wl_run(2), simp_all add: demo_wl_outcome_def demo_wl_config_def upt_rec)
  then show ?thesis by (simp add: n upt_rec numeral_2_eq_2)
qed

text \<open>C24. In every interleaving of signals, runs, time-outs and checks without spurious
  wake-ups, the running flag is set while the workload function runs, so a check never misses an overrun, and
  the function runs at most once per signal.\<close>

theorem workload_flag_invariant:
  assumes "wl_reachable False s"
  shows "(wm_phase s = Running \<longrightarrow> wm_flag s) \<and> wm_runs s \<le> wm_signals s"
  using wl_running_flag [OF assms] wl_runs_bounded [OF assms] by blast

lemma wl_trace:
  "wl_reachable False \<lparr>wm_phase = Waiting, wm_flag = True, wm_signals = 1, wm_runs = 0, wm_overruns = 1\<rparr>"
proof -
  let ?s1 = "wl_initial\<lparr>wm_flag := True, wm_signals := 1\<rparr>"
  let ?s2 = "?s1\<lparr>wm_phase := Waiting\<rparr>"
  have "wl_step False wl_initial ?s1" using wl_signal_missed [of wl_initial False] by (simp add: wl_initial_def)
  moreover have "wl_step False ?s1 ?s2" by (rule wl_wait) (simp add: wl_initial_def)
  moreover have "wl_step False ?s2 (?s2\<lparr>wm_overruns := Suc (wm_overruns ?s2)\<rparr>)" by (rule wl_check_overrun) simp
  ultimately have "wl_reachable False (?s2\<lparr>wm_overruns := Suc (wm_overruns ?s2)\<rparr>)"
    by (meson wl_start wl_next)
  then show ?thesis by (simp add: wl_initial_def)
qed

theorem workload_flag_invariant_witness:
  "wl_reachable False \<lparr>wm_phase = Waiting, wm_flag = True, wm_signals = 1, wm_runs = 0, wm_overruns = 1\<rparr> \<and>
   wm_runs \<lparr>wm_phase = Waiting, wm_flag = True, wm_signals = 1, wm_runs = 0, wm_overruns = 1\<rparr> \<le> 1"
  using workload_flag_invariant [OF wl_trace] wl_trace by simp

lemma wl_spurious_trace:
  "wl_reachable True \<lparr>wm_phase = Running, wm_flag = False, wm_signals = 0, wm_runs = 1, wm_overruns = 0\<rparr>"
proof -
  let ?s1 = "wl_initial\<lparr>wm_phase := Waiting\<rparr>"
  have "wl_step True wl_initial ?s1" by (rule wl_wait) (simp add: wl_initial_def)
  moreover have "wl_step True ?s1 (?s1\<lparr>wm_phase := Running, wm_runs := Suc (wm_runs ?s1)\<rparr>)"
    by (rule wl_spurious) simp_all
  ultimately have "wl_reachable True (?s1\<lparr>wm_phase := Running, wm_runs := Suc (wm_runs ?s1)\<rparr>)"
    by (meson wl_start wl_next)
  then show ?thesis by (simp add: wl_initial_def)
qed


end
