(* ===== verification/TB_Tc.thy ===== *)
theory TB_Tc
  imports TB_Packet TB_Workload
begin

text \<open>
  The traffic class threads, \<^verbatim>\<open>tc.c\<close>: waiting for a cycle, frame templates, generating
  and mirroring frames over the raw socket, and the cycle bodies of the transmit
  and receive threads.  The results of \<^verbatim>\<open>clock_nanosleep\<close> and of the condition
  variable are arguments, and so are all clock reads.
\<close>

section \<open>Waiting\<close>

text \<open>\<^verbatim>\<open>clock_nanosleep\<close> is called again as long as it is interrupted; the list holds its
  results, 0 when it is used up.\<close>

fun nanosleep_loop :: "errno option list \<Rightarrow> errno option" where
  "nanosleep_loop [] = None"
| "nanosleep_loop (r # rs) = (if r = Some EINTR then nanosleep_loop rs else r)"

definition tc_sleep_until :: "errno option list \<Rightarrow> timespec \<Rightarrow> u64 \<Rightarrow> errno option \<times> timespec" where
  "tc_sleep_until rets wakeup cycle_time = (nanosleep_loop rets, increment_period wakeup (sint cycle_time))"

definition tc_wait_for_tx :: "errno option \<Rightarrow> errno option" where
  "tc_wait_for_tx cond_ret = cond_ret"

definition tc_wait_for_tx_burst :: "errno option \<Rightarrow> 'c thread_context \<Rightarrow> errno option \<times> nat \<times> 'c thread_context" where
  "tc_wait_for_tx_burst cond_ret ctx = (cond_ret, num_frames_available ctx, ctx\<lparr>num_frames_available := 0\<rparr>)"

text \<open>The context to be signalled.\<close>

definition tc_signal_next :: "'c thread_context \<Rightarrow> nat list" where
  "tc_signal_next ctx = (case next_ctx ctx of None \<Rightarrow> [] | Some n \<Rightarrow> [n])"

datatype tc_tx_wait_result = TC_TX_WAIT_SEND | TC_TX_WAIT_STOP | TC_TX_WAIT_ERROR

text \<open>Result, wake-up time, number of frames and context.\<close>

definition tc_wait_for_tx_cycle ::
  "application_config \<Rightarrow> errno option list \<Rightarrow> errno option \<Rightarrow> timespec \<Rightarrow> 'c thread_context \<Rightarrow>
   tc_tx_wait_result \<times> timespec \<times> nat \<times> 'c thread_context" where
  "tc_wait_for_tx_cycle app sleep_rets cond_ret wakeup ctx =
     (if tx_model ctx = TC_TX_BURST
      then let (ret, n, ctx) = tc_wait_for_tx_burst cond_ret ctx
           in (if ret = Some ETIMEDOUT then TC_TX_WAIT_STOP else TC_TX_WAIT_SEND, wakeup, n, ctx)
      else let n = num_frames_per_cycle (conf ctx)
           in if tx_model ctx \<noteq> TC_TX_STANDALONE \<and> \<not> is_first ctx
              then (if tc_wait_for_tx cond_ret = Some ETIMEDOUT then TC_TX_WAIT_STOP else TC_TX_WAIT_SEND,
                    wakeup, n, ctx)
              else let (ret, wakeup) = tc_sleep_until sleep_rets wakeup (application_base_cycle_time_ns app)
                   in (if ret \<noteq> None then TC_TX_WAIT_ERROR else TC_TX_WAIT_SEND, wakeup, n, ctx))"

text \<open>One period of the generation thread of a burst class: \<^const>\<open>None\<close> if it ends.\<close>

definition tc_tx_gen_period ::
  "errno option list \<Rightarrow> timespec \<Rightarrow> 'c thread_context \<Rightarrow> (timespec \<times> 'c thread_context) option" where
  "tc_tx_gen_period sleep_rets wakeup ctx =
     (let (ret, wakeup) = tc_sleep_until sleep_rets wakeup (burst_period_ns (conf ctx))
      in if ret \<noteq> None then None
         else Some (wakeup, ctx\<lparr>num_frames_available := num_frames_per_cycle (conf ctx)\<rparr>))"

section \<open>Frame templates\<close>

text \<open>An operation on the bytes from \<open>off\<close> on, \<open>n\<close> of them.\<close>

definition on_region :: "nat \<Rightarrow> nat \<Rightarrow> (bytes \<Rightarrow> bytes option) \<Rightarrow> bytes \<Rightarrow> bytes option" where
  "on_region off n f buf = do {
     r \<leftarrow> mem_read off n buf;
     r \<leftarrow> f r;
     mem_write off r buf
   }"

text \<open>With AF_XDP and launch times or hardware stamps the frame starts behind the meta
  data; the size \<open>md\<close> of \<^verbatim>\<open>struct xsk_tx_metadata\<close> is up to the kernel headers.\<close>

definition tc_frame_shift :: "nat \<Rightarrow> build \<Rightarrow> traffic_class_config \<Rightarrow> nat" where
  "tc_frame_shift md B cfg =
     (if (HAVE_XDP_TX_TIME B \<or> TX_TIMESTAMP B) \<and> xdp_enabled cfg \<and> (tx_time_enabled cfg \<or> tx_hwtstamp_enabled cfg)
      then md else 0)"

definition tc_initialize_frames ::
  "nat \<Rightarrow> build \<Rightarrow> ('c thread_context \<Rightarrow> bytes \<Rightarrow> nat \<Rightarrow> bytes \<Rightarrow> bytes \<Rightarrow> bytes option) \<Rightarrow>
   'c thread_context \<Rightarrow> bytes \<Rightarrow> nat \<Rightarrow> bytes \<Rightarrow> bytes \<Rightarrow> bytes option" where
  "tc_initialize_frames md B initialize_frame ctx frame_data num_frames src_mac dst_mac =
     (let shift = tc_frame_shift md B (conf ctx)
      in for_upto num_frames
           (\<lambda>i. on_region (i * MAX_FRAME_SIZE + shift) (MAX_FRAME_SIZE - shift)
                  (\<lambda>frame. initialize_frame ctx frame (MAX_FRAME_SIZE - shift) src_mac dst_mac))
           frame_data)"

section \<open>Generating and mirroring\<close>

text \<open>The inputs of one transmit cycle.\<close>

record 'k tx_env =
  te_build :: build
  te_app :: application_config
  te_clk_tx :: "timespec option"
  te_clk_mirror :: "timespec option"
  te_clk_msgs :: "nat \<Rightarrow> timespec option"
  te_clk_sent :: "nat \<Rightarrow> timespec option"
  te_sendmmsg :: "'k \<Rightarrow> nat \<Rightarrow> 'k \<times> (errno + nat)"
  te_completions :: "tx_completion list"

text \<open>The state it changes; \<open>tx_wire\<close> collects what the kernel accepted.\<close>

record ('c, 'k) tx_state =
  tx_ctx :: "'c thread_context"
  tx_stat :: stat_state
  tx_kernel :: 'k
  tx_wire :: "tx_msg list"
  tx_prepare_errors :: nat
  tx_sequence_counter :: u64
  tx_workload :: "workload_thread list"

text \<open>The bytes behind \<^verbatim>\<open>ctx->payload_pattern\<close>.\<close>

definition pattern_bytes :: "'c thread_context \<Rightarrow> bytes" where
  "pattern_bytes ctx =
     (case (ctx_payload_pattern ctx, frame_copy ctx) of (Some off, Some copy) \<Rightarrow> drop off copy | _ \<Rightarrow> [])"

definition tc_frame_config :: "timespec option \<Rightarrow> u64 \<Rightarrow> nat \<Rightarrow> 'c thread_context \<Rightarrow> 'c prepare_frame_config" where
  "tc_frame_config clk sequence_counter_begin i ctx =
     \<lparr>pf_mode = security_mode (conf ctx), pf_security_context = tx_security_context ctx,
      pf_iv_prefix = ptr_bytes (security_iv_prefix (conf ctx)),
      pf_payload_pattern = pattern_bytes ctx, pf_payload_pattern_length = ctx_payload_pattern_length ctx,
      pf_frame_length = frame_length (conf ctx), pf_num_frames_per_cycle = num_frames_per_cycle (conf ctx),
      pf_sequence_counter = sequence_counter_begin + of_nat i, pf_tx_timestamp = clock_ns clk,
      pf_meta_data_offset = meta_data_offset ctx, pf_frame_type = frame_type ctx,
      pf_protocol_type = protocol_type (conf ctx)\<rparr>"

text \<open>The loop that prepares the frames of a cycle in \<^verbatim>\<open>tx_frame_data\<close>, with the number
  of errors it logs.\<close>

definition tc_prepare_frames ::
  "('c, 's) evp \<Rightarrow> timespec option \<Rightarrow> u64 \<Rightarrow> 'c thread_context \<Rightarrow> bytes \<Rightarrow> (bytes \<times> nat) option" where
  "tc_prepare_frames E clk sequence_counter_begin ctx frame_data =
     for_upto (num_frames_per_cycle (conf ctx))
       (\<lambda>i (buf, errs). do {
          slot \<leftarrow> mem_read (i * MAX_FRAME_SIZE) MAX_FRAME_SIZE buf;
          (err, slot) \<leftarrow> prepare_frame_for_tx E (tc_frame_config clk sequence_counter_begin i ctx) slot;
          buf \<leftarrow> mem_write (i * MAX_FRAME_SIZE) slot buf;
          Some (buf, if err = None then errs else Suc errs)
        }) (frame_data, 0)"

definition tc_process_tx_completions :: "'k tx_env \<Rightarrow> 'c thread_context \<Rightarrow> stat_state \<Rightarrow> stat_state option" where
  "tc_process_tx_completions env ctx S =
     packet_process_tx_completions (te_build env) (te_app env) (frame_type ctx) (meta_data_offset ctx)
       (num_frames_per_cycle (conf ctx)) (te_completions env) S"

definition tc_send_request ::
  "build \<Rightarrow> application_config \<Rightarrow> 'c thread_context \<Rightarrow> bytes \<Rightarrow> nat \<Rightarrow> u64 \<Rightarrow> packet_send_request" where
  "tc_send_request B app ctx frame_data num_frames duration =
     \<lparr>sr_frame_data = frame_data, sr_num_frames = num_frames, sr_frame_length = frame_length (conf ctx),
      sr_duration = duration, sr_tx_time_offset = tx_time_offset_ns (conf ctx),
      sr_meta_data_offset = meta_data_offset ctx, sr_mirror_enabled = rx_mirror_enabled (conf ctx),
      sr_tx_time_enabled = tx_time_enabled (conf ctx),
      sr_tx_hwtstamp_enabled = config_class_tx_timestamp_enabled B app (frame_type ctx)\<rparr>"

text \<open>The packet context was initialised for \<^verbatim>\<open>num_frames_per_cycle\<close> messages.\<close>

definition tc_send_messages ::
  "'k tx_env \<Rightarrow> 'c thread_context \<Rightarrow> bytes \<Rightarrow> nat \<Rightarrow> u64 \<Rightarrow> 'k \<Rightarrow> ((errno + nat) \<times> 'k \<times> tx_msg list) option" where
  "tc_send_messages env ctx frame_data num_frames duration k =
     packet_send_messages (te_app env) (te_clk_msgs env) (te_sendmmsg env) (num_frames_per_cycle (conf ctx))
       (tc_send_request (te_build env) (te_app env) ctx frame_data num_frames duration) k"

definition tc_send_frames ::
  "'k tx_env \<Rightarrow> bytes \<Rightarrow> nat \<Rightarrow> u64 \<Rightarrow> ('c, 'k) tx_state \<Rightarrow> ((errno + nat) \<times> ('c, 'k) tx_state) option" where
  "tc_send_frames env frame_data num_frames duration w = do {
     let ctx = tx_ctx w;
     let cfg = conf ctx;
     frame_data \<leftarrow> set_mirror_tx_timestamp cfg (te_clk_mirror env) (frame_length cfg) num_frames
                     (meta_data_offset ctx) frame_data;
     (len, k, wire) \<leftarrow> tc_send_messages env ctx frame_data num_frames duration (tx_kernel w);
     S \<leftarrow> for_upto (case len of Inl _ \<Rightarrow> 0 | Inr n \<Rightarrow> n)
          (\<lambda>i S. do {
             seq \<leftarrow> get_sequence_counter frame_data (i * frame_length cfg + meta_data_offset ctx)
                      (num_frames_per_cycle cfg);
             stat_frame_sent (te_build env) (te_app env) (te_clk_sent env i) (frame_type ctx) seq S
           }) (tx_stat w);
     S \<leftarrow> (if config_class_tx_timestamp_enabled (te_build env) (te_app env) (frame_type ctx)
          then tc_process_tx_completions env ctx S else Some S);
     Some (len, w\<lparr>tx_stat := S, tx_kernel := k, tx_wire := tx_wire w @ wire,
                 tx_ctx := ctx\<lparr>rx_frame_data := frame_data\<rparr>\<rparr>)
   }"

definition tc_gen_and_send_frames ::
  "('c, 's) evp \<Rightarrow> 'k tx_env \<Rightarrow> u64 \<Rightarrow> u64 \<Rightarrow> ('c, 'k) tx_state \<Rightarrow> ((errno + nat) \<times> ('c, 'k) tx_state) option" where
  "tc_gen_and_send_frames E env sequence_counter_begin duration w = do {
     let ctx = tx_ctx w;
     let cfg = conf ctx;
     (frame_data, errs) \<leftarrow> tc_prepare_frames E (te_clk_tx env) sequence_counter_begin ctx (tx_frame_data ctx);
     (len, k, wire) \<leftarrow> tc_send_messages env ctx frame_data (num_frames_per_cycle cfg) duration (tx_kernel w);
     S \<leftarrow> (case len of
            Inr n \<Rightarrow> if n > 0 then stat_frames_sent_batch (te_build env) (te_app env) (te_clk_sent env 0)
                                   (frame_type ctx) sequence_counter_begin (of_nat n) (tx_stat w)
                     else Some (tx_stat w)
          | Inl _ \<Rightarrow> Some (tx_stat w));
     S \<leftarrow> (if config_class_tx_timestamp_enabled (te_build env) (te_app env) (frame_type ctx)
          then tc_process_tx_completions env ctx S else Some S);
     Some (len, w\<lparr>tx_stat := S, tx_kernel := k, tx_wire := tx_wire w @ wire,
                 tx_ctx := ctx\<lparr>tx_frame_data := frame_data\<rparr>,
                 tx_prepare_errors := tx_prepare_errors w + errs\<rparr>)
   }"

section \<open>The transmit thread\<close>

text \<open>Before the loop: frame duration, templates and start time; \<^const>\<open>None\<close> inside if the
  thread ends.\<close>

definition tc_tx_thread_start ::
  "nat \<Rightarrow> build \<Rightarrow> application_config \<Rightarrow> ('c, 's) evp \<Rightarrow>
   ('c thread_context \<Rightarrow> bytes \<Rightarrow> nat \<Rightarrow> bytes \<Rightarrow> bytes \<Rightarrow> bytes option) \<Rightarrow>
   u32 option \<Rightarrow> bool \<Rightarrow> timespec option \<Rightarrow> 'c thread_context \<Rightarrow>
   (u64 \<times> timespec \<times> 'c thread_context) option option" where
  "tc_tx_thread_start md B app E initialize_frame link_speed if_index_ok clk ctx =
     (case link_speed of
        None \<Rightarrow> Some None
      | Some speed \<Rightarrow>
          if \<not> if_index_ok then Some None
          else do {
            duration \<leftarrow> tx_time_get_frame_duration speed (frame_length (conf ctx));
            tx \<leftarrow> tc_initialize_frames md B initialize_frame ctx (tx_frame_data ctx)
                   (num_frames_per_cycle (conf ctx)) (source ctx) (l2_destination (conf ctx));
            let ctx = ctx\<lparr>tx_frame_data := tx\<rparr>;
            _ \<leftarrow> prepare_openssl E (tx_security_context ctx);
            copy \<leftarrow> frame_copy ctx;
            copy \<leftarrow> tc_initialize_frames md B initialize_frame ctx copy 1 (source ctx) (l2_destination (conf ctx));
            let ctx = ctx\<lparr>frame_copy := Some copy\<rparr>;
            (case get_thread_start_time app clk (application_tx_base_offset_ns app) of
               Inl _ \<Rightarrow> Some None
             | Inr wakeup \<Rightarrow> Some (Some (duration, wakeup, ctx)))
          })"

text \<open>One iteration for a cycle with \<open>num_frames\<close> frames: the contexts to signal, and
  whether the statistics are published.\<close>

definition tc_tx_cycle ::
  "('c, 's) evp \<Rightarrow> 'k tx_env \<Rightarrow> u64 \<Rightarrow> nat \<Rightarrow> timespec option \<Rightarrow> ('c, 'k) tx_state \<Rightarrow>
   (nat list \<times> ('c, 'k) tx_state) option" where
  "tc_tx_cycle E env duration num_frames clk_update w = do {
     let ctx = tx_ctx w;
     let cfg = conf ctx;
     S \<leftarrow> workload_check_finished (te_app env) ctx (tx_workload w) (tx_stat w);
     let w = w\<lparr>tx_stat := S\<rparr>;
     w \<leftarrow> (if \<not> rx_mirror_enabled cfg
          then (if num_frames \<noteq> 0
                then do {
                  (_, w) \<leftarrow> tc_gen_and_send_frames E env (tx_sequence_counter w) duration w;
                  Some (w\<lparr>tx_sequence_counter := tx_sequence_counter w + of_nat (num_frames_per_cycle cfg)\<rparr>)
                }
                else Some w)
          else do {
            (rb, received, len) \<leftarrow> ring_buffer_fetch (mirror_buffer ctx) (rx_frame_data ctx)
                                     (MAX_FRAME_SIZE * num_frames_per_cycle cfg);
            if frame_length cfg = 0 then None
            else do {
              (_, w) \<leftarrow> tc_send_frames env received (len div frame_length cfg) duration
                          (w\<lparr>tx_ctx := ctx\<lparr>mirror_buffer := rb, rx_frame_data := received\<rparr>\<rparr>);
              Some w
            }
          });
     let signalled = tc_signal_next (tx_ctx w);
     Some (signalled,
           if is_last (tx_ctx w) \<or> tx_model (tx_ctx w) = TC_TX_STANDALONE
           then w\<lparr>tx_stat := stat_update (te_build env) (te_app env) clk_update (tx_stat w)\<rparr> else w)
   }"

section \<open>The receive thread\<close>

text \<open>Before the loop: the time of the first cycle.\<close>

definition tc_rx_thread_start ::
  "application_config \<Rightarrow> ('c, 's) evp \<Rightarrow> timespec option \<Rightarrow> 'c thread_context \<Rightarrow> timespec option option" where
  "tc_rx_thread_start app E clk ctx = do {
     _ \<leftarrow> prepare_openssl E (rx_security_context ctx);
     Some (case get_thread_start_time app clk (application_rx_base_offset_ns app) of Inl _ \<Rightarrow> None | Inr wakeup \<Rightarrow> Some wakeup)
   }"

text \<open>One iteration: the messages of a cycle, and the workloads they start.\<close>

definition tc_rx_cycle ::
  "(rx_env \<Rightarrow> nat \<Rightarrow> 'c rx_state \<Rightarrow> (errno option \<times> 'c rx_state) option) \<Rightarrow> build \<Rightarrow> int \<Rightarrow>
   (errno + rx_msg list) list \<Rightarrow> workload_thread list \<Rightarrow> 'c rx_state \<Rightarrow>
   (workload_thread list \<times> 'c rx_state) option" where
  "tc_rx_cycle receive_frame B tai results threads w = do {
     (received, w) \<leftarrow> packet_receive_messages receive_frame tai
                        (config_class_rx_timestamp_enabled B (frame_type (rx_ctx w))) results w;
     if rx_exited w then Some (threads, w)
     else do {
       threads \<leftarrow> workload_signal (rx_ctx w) received threads;
       Some (threads, w)
     }
   }"

end
