(* ===== verification/TB_Net.thy ===== *)
theory TB_Net
  imports TB_Config
begin

unbundle bit_operations_syntax

text \<open>
  Sockets and packet filters: the classic BPF programs and the socket functions of
  \<^verbatim>\<open>net.c\<close>, and the XDP programs of \<^verbatim>\<open>xdp_kern_tb.c\<close>, \<^verbatim>\<open>xdp_kern_ethercat.c\<close>,
  \<^verbatim>\<open>xdp_kern_profinet_veth_dispatch.c\<close> and \<^verbatim>\<open>xdp_metadata.c\<close>.  The results of system calls
  are arguments; the open descriptors are part of the results.
\<close>

section \<open>Classic BPF\<close>

record sock_filter =
  bpf_code :: u16
  bpf_jt :: nat
  bpf_jf :: nat
  bpf_k :: u32

abbreviation (input) "insn c t f i \<equiv> \<lparr>bpf_code = c, bpf_jt = t, bpf_jf = f, bpf_k = i\<rparr>"

text \<open>
  The instructions the filters use, on a packet and its VLAN tag as the kernel keeps
  it: load half word, load word (the address \<^verbatim>\<open>SKF_AD_OFF + SKF_AD_VLAN_TAG\<close> is the tag),
  jumps on equal, greater and greater or equal, return.  A load outside the packet
  ends the program with 0, which drops the packet.  Jumps only go forward.
\<close>

function bpf_run :: "sock_filter list \<Rightarrow> u32 \<Rightarrow> bytes \<Rightarrow> u16 \<Rightarrow> u32 option" where
  "bpf_run [] A pkt tci = None"
| "bpf_run (i # prog) A pkt tci =
     (let k = bpf_k i; jump = (\<lambda>c. drop (if c then bpf_jt i else bpf_jf i) prog)
      in if bpf_code i = 0x28
         then (if unat k + 2 \<le> length pkt then bpf_run prog (ucast (be16_word (take 2 (drop (unat k) pkt)))) pkt tci
               else Some 0)
         else if bpf_code i = 0x20
         then (if k = 0xfffff02c then bpf_run prog (ucast tci) pkt tci
               else if unat k + 4 \<le> length pkt then bpf_run prog (be32_word (take 4 (drop (unat k) pkt))) pkt tci
               else Some 0)
         else if bpf_code i = 0x15 then bpf_run (jump (A = k)) A pkt tci
         else if bpf_code i = 0x25 then bpf_run (jump (A > k)) A pkt tci
         else if bpf_code i = 0x35 then bpf_run (jump (A \<ge> k)) A pkt tci
         else if bpf_code i = 0x06 then Some k
         else None)"
  by pat_completeness auto
termination
  by (relation "measure (\<lambda>(prog, _). length prog)") auto

text \<open>The packet is passed to the socket.\<close>

definition bpf_accepts :: "sock_filter list \<Rightarrow> bytes \<Rightarrow> u16 \<Rightarrow> bool" where
  "bpf_accepts prog pkt tci \<longleftrightarrow> (\<exists>n. bpf_run prog 0 pkt tci = Some n \<and> n \<noteq> 0)"

definition PROFINET_FRAME_FILTER :: "u32 \<Rightarrow> u32 \<Rightarrow> sock_filter list" where
  "PROFINET_FRAME_FILTER frame_id_low frame_id_high =
     [insn 0x28 0 0 0x0000000c, insn 0x15 0 6 0x00008892,
      insn 0x20 0 0 0xfffff02c, insn 0x15 0 4 0x00001234,
      insn 0x28 0 0 0x0000000e, insn 0x35 0 2 frame_id_low,
      insn 0x25 1 0 frame_id_high, insn 0x06 0 0 0xffffffff,
      insn 0x06 0 0 0]"

definition tsn_high_frame_filter :: "sock_filter list" where "tsn_high_frame_filter = PROFINET_FRAME_FILTER 0x0100 0x01ff"
definition tsn_low_frame_filter :: "sock_filter list" where "tsn_low_frame_filter = PROFINET_FRAME_FILTER 0x0200 0x03ff"
definition rtc_frame_filter :: "sock_filter list" where "rtc_frame_filter = PROFINET_FRAME_FILTER 0x8000 0xbbff"
definition rta_frame_filter :: "sock_filter list" where "rta_frame_filter = PROFINET_FRAME_FILTER 0xfc01 0xfc02"
definition dcp_frame_filter :: "sock_filter list" where "dcp_frame_filter = PROFINET_FRAME_FILTER 0xfefe 0xfeff"

definition lldp_frame_filter :: "sock_filter list" where
  "lldp_frame_filter = [insn 0x28 0 0 0x0000000c, insn 0x15 0 1 0x000088cc, insn 0x06 0 0 0xffffffff, insn 0x06 0 0 0]"

definition generic_l2_frame_filter :: "sock_filter list" where
  "generic_l2_frame_filter =
     [insn 0x28 0 0 0x0000000c, insn 0x15 0 3 0x00001234, insn 0x20 0 0 0xfffff02c,
      insn 0x15 0 1 0x00004321, insn 0x06 0 0 0xffffffff, insn 0x06 0 0 0]"

definition ethercat_frame_filter :: "sock_filter list" where
  "ethercat_frame_filter = [insn 0x28 0 0 0x0000000c, insn 0x15 0 1 0x000088a4, insn 0x06 0 0 0xffffffff, insn 0x06 0 0 0]"

definition set_k :: "nat \<Rightarrow> u32 \<Rightarrow> sock_filter list \<Rightarrow> sock_filter list" where
  "set_k i v prog = prog[i := (prog ! i)\<lparr>bpf_k := v\<rparr>]"

text \<open>\<^verbatim>\<open>vid | pcp << VLAN_PCP_SHIFT\<close> as stored into the 32-bit operand.\<close>

definition filter_tci :: "traffic_class_config \<Rightarrow> u32" where
  "filter_tci c = of_int (vid c OR push_bit 13 (pcp c))"

section \<open>Sockets\<close>

text \<open>What the kernel answers while a raw socket is created.\<close>

record socket_outcome =
  so_socket :: "errno + nat"
  so_if_index :: nat
  so_bind :: "errno option"
  so_bindtodevice :: "errno option"
  so_priority :: "errno option"
  so_promisc :: "errno option"
  so_attach :: "errno option"
  so_getfl :: "errno option"
  so_setfl :: "errno option"
  so_timestamping :: "errno option"
  so_hwts :: "errno option"
  so_txtime :: "errno option"

text \<open>A socket as the program configured it.\<close>

record raw_socket =
  rs_fd :: nat
  rs_interface :: string
  rs_priority :: int
  rs_promisc :: bool
  rs_filter :: "sock_filter list"
  rs_nonblocking :: bool
  rs_ts_flags :: "(bool \<times> bool) option"
  rs_txtime :: bool

definition set_promiscuous_mode :: "socket_outcome \<Rightarrow> errno option" where
  "set_promiscuous_mode so = so_promisc so"

definition mark_socket_non_blocking :: "socket_outcome \<Rightarrow> errno option" where
  "mark_socket_non_blocking so = (case so_getfl so of Some e \<Rightarrow> Some e | None \<Rightarrow> so_setfl so)"

text \<open>Socket and open descriptors.  The error is that of the failing call: closing the socket
  does not fail.\<close>

definition create_raw_socket :: "socket_outcome \<Rightarrow> string \<Rightarrow> int \<Rightarrow> (errno + raw_socket) \<times> nat list" where
  "create_raw_socket so if_name socket_prio =
     (case so_socket so of
        Inl e \<Rightarrow> (Inl e, [])
      | Inr fd \<Rightarrow>
          let fail = (\<lambda>e. (Inl e, remove1 fd [fd]))
          in if so_if_index so = 0 then fail ENODEV
             else case so_bind so of Some e \<Rightarrow> fail e | None \<Rightarrow>
               (case so_bindtodevice so of Some e \<Rightarrow> fail e | None \<Rightarrow>
               (case so_priority so of Some e \<Rightarrow> fail e | None \<Rightarrow>
               (case set_promiscuous_mode so of Some e \<Rightarrow> fail e | None \<Rightarrow>
                 (Inr \<lparr>rs_fd = fd, rs_interface = if_name, rs_priority = socket_prio, rs_promisc = True,
                       rs_filter = [], rs_nonblocking = False, rs_ts_flags = None, rs_txtime = False\<rparr>, [fd])))))"

text \<open>Reading the MAC address: the query socket is always closed.\<close>

definition get_interface_mac_address :: "errno + nat \<Rightarrow> errno + bytes \<Rightarrow> nat \<Rightarrow> (errno + bytes) \<times> nat list" where
  "get_interface_mac_address sock ioctl_ret len =
     (if len < ETH_ALEN then (Inl EINVAL, [])
      else case sock of Inl e \<Rightarrow> (Inl e, [])
         | Inr fd \<Rightarrow> ((case ioctl_ret of Inl e \<Rightarrow> Inl e | Inr a \<Rightarrow> Inr (take ETH_ALEN a)), remove1 fd [fd]))"

definition get_interface_link_speed :: "errno + nat \<Rightarrow> errno + u32 \<Rightarrow> (errno + u32) \<times> nat list" where
  "get_interface_link_speed sock ioctl_ret =
     (case sock of Inl e \<Rightarrow> (Inl e, [])
      | Inr fd \<Rightarrow> ((case ioctl_ret of Inl e \<Rightarrow> Inl e
                     | Inr tmp \<Rightarrow> Inr (if tmp = 0 \<or> tmp = - 1 then 1000 else tmp)), remove1 fd [fd]))"

text \<open>Time stamping of sent frames on the interface: \<open>tx_on\<close> is the current setting, the result
  whether the interface is changed.\<close>

definition enable_hw_tx_timestamping :: "errno + nat \<Rightarrow> errno + bool \<Rightarrow> errno option \<Rightarrow> (errno + bool) \<times> nat list" where
  "enable_hw_tx_timestamping sock tx_on set_ret =
     (case sock of Inl e \<Rightarrow> (Inl e, [])
      | Inr fd \<Rightarrow>
          (case tx_on of
             Inl e \<Rightarrow> (Inl e, remove1 fd [fd])
           | Inr True \<Rightarrow> (Inr False, remove1 fd [fd])
           | Inr False \<Rightarrow> ((case set_ret of Some e \<Rightarrow> Inl e | None \<Rightarrow> Inr True), remove1 fd [fd])))"

definition create_socket ::
  "build \<Rightarrow> application_config \<Rightarrow> socket_outcome \<Rightarrow> stat_frame_type \<Rightarrow> sock_filter list \<Rightarrow>
   (errno + raw_socket) \<times> nat list" where
  "create_socket B app so t prog =
     (let c = classes app t; rx = config_class_rx_timestamp_enabled B t; tx = config_class_tx_timestamp_enabled B app t
      in case create_raw_socket so (interface c) (socket_priority c) of
           (Inl e, fds) \<Rightarrow> (Inl e, fds)
         | (Inr s, fds) \<Rightarrow>
             let fail = (\<lambda>e. (Inl e, remove1 (rs_fd s) fds))
             in case so_attach so of Some e \<Rightarrow> fail e | None \<Rightarrow>
                (case mark_socket_non_blocking so of Some e \<Rightarrow> fail e | None \<Rightarrow>
                 let s = s\<lparr>rs_filter := prog, rs_nonblocking := True,
                           rs_ts_flags := (if (rx \<or> tx) \<and> so_timestamping so = None then Some (rx, tx) else None)\<rparr>
                 in case (if tx then so_hwts so else None) of Some e \<Rightarrow> fail e | None \<Rightarrow>
                   (if \<not> tx_time_enabled c then (Inr s, fds)
                    else case so_txtime so of Some e \<Rightarrow> fail e | None \<Rightarrow> (Inr (s\<lparr>rs_txtime := True\<rparr>), fds))))"

definition create_tsn_high_socket :: "build \<Rightarrow> application_config \<Rightarrow> socket_outcome \<Rightarrow> (errno + raw_socket) \<times> nat list" where
  "create_tsn_high_socket B app so = create_socket B app so TSN_HIGH_FRAME_TYPE
     (set_k 3 (filter_tci (classes app TSN_HIGH_FRAME_TYPE)) tsn_high_frame_filter)"

definition create_tsn_low_socket :: "build \<Rightarrow> application_config \<Rightarrow> socket_outcome \<Rightarrow> (errno + raw_socket) \<times> nat list" where
  "create_tsn_low_socket B app so = create_socket B app so TSN_LOW_FRAME_TYPE
     (set_k 3 (filter_tci (classes app TSN_LOW_FRAME_TYPE)) tsn_low_frame_filter)"

definition create_rtc_socket :: "build \<Rightarrow> application_config \<Rightarrow> socket_outcome \<Rightarrow> (errno + raw_socket) \<times> nat list" where
  "create_rtc_socket B app so = create_socket B app so RTC_FRAME_TYPE
     (set_k 3 (filter_tci (classes app RTC_FRAME_TYPE)) rtc_frame_filter)"

definition create_rta_socket :: "build \<Rightarrow> application_config \<Rightarrow> socket_outcome \<Rightarrow> (errno + raw_socket) \<times> nat list" where
  "create_rta_socket B app so = create_socket B app so RTA_FRAME_TYPE
     (set_k 3 (filter_tci (classes app RTA_FRAME_TYPE)) rta_frame_filter)"

definition create_dcp_socket :: "build \<Rightarrow> application_config \<Rightarrow> socket_outcome \<Rightarrow> (errno + raw_socket) \<times> nat list" where
  "create_dcp_socket B app so = create_socket B app so DCP_FRAME_TYPE
     (set_k 3 (filter_tci (classes app DCP_FRAME_TYPE)) dcp_frame_filter)"

definition create_lldp_socket :: "build \<Rightarrow> application_config \<Rightarrow> socket_outcome \<Rightarrow> (errno + raw_socket) \<times> nat list" where
  "create_lldp_socket B app so = create_socket B app so LLDP_FRAME_TYPE lldp_frame_filter"

definition create_generic_l2_socket :: "build \<Rightarrow> application_config \<Rightarrow> socket_outcome \<Rightarrow> (errno + raw_socket) \<times> nat list" where
  "create_generic_l2_socket B app so = create_socket B app so GENERICL2_FRAME_TYPE
     (set_k 3 (filter_tci (classes app GENERICL2_FRAME_TYPE))
        (set_k 1 (ether_type (classes app GENERICL2_FRAME_TYPE)) generic_l2_frame_filter))"

definition create_ethercat_socket :: "build \<Rightarrow> application_config \<Rightarrow> socket_outcome \<Rightarrow> (errno + raw_socket) \<times> nat list" where
  "create_ethercat_socket B app so = create_socket B app so GENERICL2_FRAME_TYPE ethercat_frame_filter"

section \<open>UDP sockets\<close>

datatype address_family = AF_INET | AF_INET6 | AF_OTHER

text \<open>A record of a name: its family and address, and what opening a socket for it gives.\<close>

type_synonym addr_record = "(address_family \<times> bytes) \<times> (errno + nat)"

text \<open>The first record for which a socket can be opened; \<open>keep\<close> if the socket is wanted.\<close>

fun dns_first :: "addr_record list \<Rightarrow> ((address_family \<times> bytes) \<times> nat) option" where
  "dns_first [] = None"
| "dns_first ((a, s) # rs) = (case s of Inl _ \<Rightarrow> dns_first rs | Inr fd \<Rightarrow> Some (a, fd))"

definition dns_lookup ::
  "bool \<Rightarrow> addr_record list option \<Rightarrow> (errno + (address_family \<times> bytes) \<times> nat) \<times> nat list" where
  "dns_lookup keep getaddrinfo_ret =
     (case getaddrinfo_ret of
        None \<Rightarrow> (Inl EINVAL, [])
      | Some rs \<Rightarrow>
          (case dns_first rs of
             None \<Rightarrow> (Inl EINVAL, [])
           | Some (a, fd) \<Rightarrow> (Inr (a, fd), if keep then [fd] else remove1 fd [fd])))"

record udp_socket_outcome =
  uo_destination :: "addr_record list option"
  uo_source :: "addr_record list option"
  uo_bind :: "errno option"
  uo_priority :: "errno option"
  uo_nonblocking :: "errno option"

definition create_udp_socket ::
  "udp_socket_outcome \<Rightarrow> (errno + nat \<times> (address_family \<times> bytes)) \<times> nat list" where
  "create_udp_socket uo =
     (case dns_lookup False (uo_destination uo) of
        (Inl e, fds) \<Rightarrow> (Inl e, fds)
      | (Inr (dst, _), fds) \<Rightarrow>
          (case dns_lookup True (uo_source uo) of
             (Inl e, fds') \<Rightarrow> (Inl e, fds @ fds')
           | (Inr ((fam, _), fd), fds') \<Rightarrow>
               let fail = (\<lambda>e. (Inl e, remove1 fd (fds @ fds')))
               in case (if fam = AF_INET \<or> fam = AF_INET6 then uo_bind uo else Some EINVAL) of Some e \<Rightarrow> fail e | None \<Rightarrow>
                  (case uo_priority uo of Some e \<Rightarrow> fail e | None \<Rightarrow>
                  (case uo_nonblocking uo of Some e \<Rightarrow> fail e | None \<Rightarrow> (Inr (fd, dst), fds @ fds')))))"

definition create_udp_cl_socket ::
  "addr_record list option \<Rightarrow> (errno + nat \<times> (address_family \<times> bytes)) \<times> nat list" where
  "create_udp_cl_socket dst =
     (case dns_lookup True dst of (Inl e, fds) \<Rightarrow> (Inl e, fds) | (Inr (a, fd), fds) \<Rightarrow> (Inr (fd, a), fds))"

section \<open>XDP programs\<close>

datatype xdp_action = XDP_PASS | XDP_REDIRECT nat

record xdp_meta =
  rx_hw_timestamp :: u64
  rx_sw_timestamp :: u64
  rx_hw_timestamp_err :: int
  hint_valid :: bool

text \<open>\<open>None\<close> if the meta data area cannot be adjusted: nothing is written then.\<close>

definition populate_rx_timestamp ::
  "build \<Rightarrow> bool \<Rightarrow> int + u64 \<Rightarrow> u64 \<Rightarrow> xdp_meta \<Rightarrow> xdp_meta" where
  "populate_rx_timestamp B adjust_ok hw_ret now_tai meta =
     (if \<not> config_have_rx_timestamp B \<or> \<not> adjust_ok then meta
      else case hw_ret of
        Inl e \<Rightarrow> meta\<lparr>rx_sw_timestamp := now_tai, rx_hw_timestamp_err := e, hint_valid := False\<rparr>
      | Inr ts \<Rightarrow> meta\<lparr>rx_hw_timestamp := ts, rx_sw_timestamp := now_tai, hint_valid := True\<rparr>)"

definition check_frame_id :: "u16 \<Rightarrow> bool" where
  "check_frame_id fid \<longleftrightarrow> fid \<in> {0x0100, 0x0101, 0x0200, 0x0201, 0x8000, 0x8001, 0xfc01, 0xfc02}"

text \<open>\<open>bound\<close>: the queues with a socket in the map.\<close>

definition xdp_sock_prog :: "u16 \<Rightarrow> u16 \<Rightarrow> bool \<Rightarrow> nat set \<Rightarrow> nat \<Rightarrow> bytes \<Rightarrow> xdp_action option" where
  "xdp_sock_prog ebpf_vid eth_type check bound queue pkt =
     (if length pkt < sizeof_vlan_ethernet_header then Some XDP_PASS
      else do {
        proto \<leftarrow> mem_read 12 2 pkt;
        encap \<leftarrow> mem_read 16 2 pkt;
        tci \<leftarrow> mem_read 14 2 pkt;
        if be16_word proto \<noteq> ETH_P_8021Q then Some XDP_PASS
        else if be16_word encap \<noteq> eth_type then Some XDP_PASS
        else if be16_word tci AND 0x0fff \<noteq> ebpf_vid then Some XDP_PASS
        else if check \<and> length pkt < sizeof_vlan_ethernet_header + sizeof_profinet_rt_header then Some XDP_PASS
        else do {
          ok \<leftarrow> (if check then do { fid \<leftarrow> mem_read 18 2 pkt; Some (check_frame_id (be16_word fid)) } else Some True);
          Some (if ok \<and> queue \<in> bound then XDP_REDIRECT queue else XDP_PASS)
        }
      })"

definition xdp_sock_prog_ethercat :: "nat set \<Rightarrow> nat \<Rightarrow> bytes \<Rightarrow> xdp_action option" where
  "xdp_sock_prog_ethercat bound queue pkt =
     (if length pkt < sizeof_ethhdr then Some XDP_PASS
      else do {
        proto \<leftarrow> mem_read 12 2 pkt;
        Some (if be16_word proto \<noteq> ETH_P_ETHERCAT then XDP_PASS
              else if queue \<in> bound then XDP_REDIRECT queue else XDP_PASS)
      })"

definition xdp_sock_prog_veth :: "nat set \<Rightarrow> bytes \<Rightarrow> xdp_action option" where
  "xdp_sock_prog_veth bound pkt =
     (if length pkt < sizeof_vlan_ethernet_header then Some XDP_PASS
      else do {
        proto \<leftarrow> mem_read 12 2 pkt;
        encap \<leftarrow> mem_read 16 2 pkt;
        tci \<leftarrow> mem_read 14 2 pkt;
        if be16_word proto \<noteq> ETH_P_8021Q then Some XDP_PASS
        else if be16_word encap \<noteq> ETH_P_PROFINET_RT then Some XDP_PASS
        else let vid = be16_word tci AND 0x0fff;
                 key = (if vid = 200 then Some 1 else if vid = 100 then Some 0 else None)
             in Some (case key of None \<Rightarrow> XDP_PASS
                        | Some k \<Rightarrow> if k \<in> bound then XDP_REDIRECT k else XDP_PASS)
      })"

section \<open>Lemmas\<close>

text \<open>The half word at an offset of a packet.\<close>

definition pkt_half :: "nat \<Rightarrow> bytes \<Rightarrow> u16" where
  "pkt_half off pkt = be16_word (take 2 (drop off pkt))"

lemma unat_ucast_16_32: "unat (ucast (x :: u16) :: u32) = unat x"
  using unsigned_less [of x, where ?'a = nat]
  by (simp add: unsigned_ucast_eq take_bit_nat_eq_self)

lemma ucast_16_32_inj: "(ucast (x :: u16) :: u32) = ucast y \<longleftrightarrow> x = y"
  by (metis unat_ucast_16_32 word_unat_eq_iff)

lemma ucast_16_32_eq:
  "(ucast (x :: u16) :: u32) = 0x8892 \<longleftrightarrow> x = 0x8892" "(ucast x :: u32) = 0x88cc \<longleftrightarrow> x = 0x88cc"
  "(ucast x :: u32) = 0x88a4 \<longleftrightarrow> x = 0x88a4"
  using ucast_16_32_inj [of x "0x8892"] ucast_16_32_inj [of x "0x88cc"] ucast_16_32_inj [of x "0x88a4"] by simp_all

lemma profinet_filter_run:
  "bpf_run (set_k 3 tci (PROFINET_FRAME_FILTER lo hi)) 0 pkt vtci =
     Some (if 16 \<le> length pkt \<and> pkt_half 12 pkt = ETH_P_PROFINET_RT \<and> ucast vtci = tci \<and>
              lo \<le> ucast (pkt_half 14 pkt) \<and> ucast (pkt_half 14 pkt) \<le> hi
           then 0xffffffff else 0)"
  by (simp add: set_k_def PROFINET_FRAME_FILTER_def pkt_half_def ucast_16_32_eq Let_def not_le not_less)

lemma ethertype_filter_run:
  "bpf_run lldp_frame_filter 0 pkt vtci = Some (if 14 \<le> length pkt \<and> pkt_half 12 pkt = ETH_P_LLDP then 0xffffffff else 0)"
  "bpf_run ethercat_frame_filter 0 pkt vtci = Some (if 14 \<le> length pkt \<and> pkt_half 12 pkt = ETH_P_ETHERCAT then 0xffffffff else 0)"
  "bpf_run (set_k 3 tci (set_k 1 et generic_l2_frame_filter)) 0 pkt vtci =
     Some (if 14 \<le> length pkt \<and> ucast (pkt_half 12 pkt) = et \<and> ucast vtci = tci then 0xffffffff else 0)"
  by (simp_all add: lldp_frame_filter_def ethercat_frame_filter_def generic_l2_frame_filter_def set_k_def pkt_half_def
      ucast_16_32_eq Let_def)

lemma create_raw_socket_ok:
  "case create_raw_socket so nm prio of
     (Inl _, fds) \<Rightarrow> fds = []
   | (Inr s, fds) \<Rightarrow> so_socket so = Inr (rs_fd s) \<and> fds = [rs_fd s] \<and> rs_interface s = nm \<and> rs_priority s = prio \<and> rs_promisc s \<and>
       rs_ts_flags s = None \<and> \<not> rs_txtime s"
  by (auto simp: create_raw_socket_def Let_def split: sum.splits option.splits)

lemma create_socket_ok:
  "case create_socket B app so t prog of
     (Inl _, fds) \<Rightarrow> fds = []
   | (Inr s, fds) \<Rightarrow> fds = [rs_fd s] \<and> rs_interface s = interface (classes app t) \<and>
       rs_priority s = socket_priority (classes app t) \<and> rs_promisc s \<and> rs_filter s = prog \<and> rs_nonblocking s \<and>
       rs_txtime s = tx_time_enabled (classes app t)"
  using create_raw_socket_ok [of so "interface (classes app t)" "socket_priority (classes app t)"]
  by (auto simp: create_socket_def Let_def split: sum.splits option.splits prod.splits if_splits)

text \<open>The socket function of a layer 2 class, as its description names it.\<close>

definition class_socket :: "build \<Rightarrow> application_config \<Rightarrow> socket_outcome \<Rightarrow> stat_frame_type \<Rightarrow> (errno + raw_socket) \<times> nat list" where
  "class_socket B app so t =
     (case t of
        TSN_HIGH_FRAME_TYPE \<Rightarrow> create_tsn_high_socket B app so
      | TSN_LOW_FRAME_TYPE \<Rightarrow> create_tsn_low_socket B app so
      | RTC_FRAME_TYPE \<Rightarrow> create_rtc_socket B app so
      | RTA_FRAME_TYPE \<Rightarrow> create_rta_socket B app so
      | DCP_FRAME_TYPE \<Rightarrow> create_dcp_socket B app so
      | LLDP_FRAME_TYPE \<Rightarrow> create_lldp_socket B app so
      | GENERICL2_FRAME_TYPE \<Rightarrow>
          if protocol_type (classes app GENERICL2_FRAME_TYPE) = ETHERCAT_PROTOCOL_TYPE
          then create_ethercat_socket B app so else create_generic_l2_socket B app so
      | _ \<Rightarrow> (Inl EINVAL, []))"

text \<open>The specification of the filters: the class a PROFINET frame id belongs to.\<close>

definition frame_id_class :: "u16 \<Rightarrow> stat_frame_type option" where
  "frame_id_class fid =
     (if 0x0100 \<le> fid \<and> fid \<le> 0x01ff then Some TSN_HIGH_FRAME_TYPE
      else if 0x0200 \<le> fid \<and> fid \<le> 0x03ff then Some TSN_LOW_FRAME_TYPE
      else if 0x8000 \<le> fid \<and> fid \<le> 0xbbff then Some RTC_FRAME_TYPE
      else if 0xfc01 \<le> fid \<and> fid \<le> 0xfc02 then Some RTA_FRAME_TYPE
      else if 0xfefe \<le> fid \<and> fid \<le> 0xfeff then Some DCP_FRAME_TYPE
      else None)"

text \<open>What the socket of a class is to receive: frames whose VLAN tag the kernel has split off.\<close>

definition class_receives :: "application_config \<Rightarrow> stat_frame_type \<Rightarrow> bytes \<Rightarrow> u16 \<Rightarrow> bool" where
  "class_receives app t pkt tci =
     (let c = classes app t
      in if t = LLDP_FRAME_TYPE then 14 \<le> length pkt \<and> pkt_half 12 pkt = ETH_P_LLDP
         else if t = GENERICL2_FRAME_TYPE
         then 14 \<le> length pkt \<and>
              (if protocol_type c = ETHERCAT_PROTOCOL_TYPE then pkt_half 12 pkt = ETH_P_ETHERCAT
               else ucast (pkt_half 12 pkt) = ether_type c \<and> ucast tci = filter_tci c)
         else 16 \<le> length pkt \<and> pkt_half 12 pkt = ETH_P_PROFINET_RT \<and> ucast tci = filter_tci c \<and>
              frame_id_class (pkt_half 14 pkt) = Some t)"

lemma u16_le_u32: "(ucast (x :: u16) :: u32) \<le> ucast y \<longleftrightarrow> x \<le> y"
  by (simp add: word_le_nat_alt unat_ucast_16_32)

lemma u16_range: "(ucast a :: u32) \<le> ucast x \<and> (ucast x :: u32) \<le> ucast b \<longleftrightarrow> a \<le> x \<and> x \<le> (b :: u16)"
  by (simp add: u16_le_u32)

lemma frame_id_class_iff:
  "frame_id_class fid = Some TSN_HIGH_FRAME_TYPE \<longleftrightarrow> 0x0100 \<le> fid \<and> fid \<le> 0x01ff"
  "frame_id_class fid = Some TSN_LOW_FRAME_TYPE \<longleftrightarrow> 0x0200 \<le> fid \<and> fid \<le> 0x03ff"
  "frame_id_class fid = Some RTC_FRAME_TYPE \<longleftrightarrow> 0x8000 \<le> fid \<and> fid \<le> 0xbbff"
  "frame_id_class fid = Some RTA_FRAME_TYPE \<longleftrightarrow> 0xfc01 \<le> fid \<and> fid \<le> 0xfc02"
  "frame_id_class fid = Some DCP_FRAME_TYPE \<longleftrightarrow> 0xfefe \<le> fid \<and> fid \<le> 0xfeff"
  by (auto simp: frame_id_class_def word_le_nat_alt)

lemma profinet_accepts:
  "bpf_accepts (set_k 3 tci (PROFINET_FRAME_FILTER (ucast lo) (ucast hi))) pkt vtci \<longleftrightarrow>
     16 \<le> length pkt \<and> pkt_half 12 pkt = ETH_P_PROFINET_RT \<and> ucast vtci = tci \<and>
     lo \<le> pkt_half 14 pkt \<and> pkt_half 14 pkt \<le> (hi :: u16)"
  by (simp add: bpf_accepts_def profinet_filter_run u16_le_u32 del: bpf_run.simps)

lemmas class_socket_defs =
  class_socket_def create_tsn_high_socket_def create_tsn_low_socket_def create_rtc_socket_def create_rta_socket_def
  create_dcp_socket_def create_lldp_socket_def create_generic_l2_socket_def create_ethercat_socket_def

lemmas profinet_filters =
  tsn_high_frame_filter_def tsn_low_frame_filter_def rtc_frame_filter_def rta_frame_filter_def dcp_frame_filter_def

lemma create_socket_filter: "create_socket B app so t prog = (Inr s, fds) \<Longrightarrow> rs_filter s = prog"
  using create_socket_ok [where B = B and app = app and so = so and t = t and prog = prog] by simp

lemma filter_class:
  "bpf_accepts (set_k 3 (filter_tci (classes app TSN_HIGH_FRAME_TYPE)) tsn_high_frame_filter) pkt tci =
     class_receives app TSN_HIGH_FRAME_TYPE pkt tci"
  "bpf_accepts (set_k 3 (filter_tci (classes app TSN_LOW_FRAME_TYPE)) tsn_low_frame_filter) pkt tci =
     class_receives app TSN_LOW_FRAME_TYPE pkt tci"
  "bpf_accepts (set_k 3 (filter_tci (classes app RTC_FRAME_TYPE)) rtc_frame_filter) pkt tci =
     class_receives app RTC_FRAME_TYPE pkt tci"
  "bpf_accepts (set_k 3 (filter_tci (classes app RTA_FRAME_TYPE)) rta_frame_filter) pkt tci =
     class_receives app RTA_FRAME_TYPE pkt tci"
  "bpf_accepts (set_k 3 (filter_tci (classes app DCP_FRAME_TYPE)) dcp_frame_filter) pkt tci =
     class_receives app DCP_FRAME_TYPE pkt tci"
  "bpf_accepts lldp_frame_filter pkt tci = class_receives app LLDP_FRAME_TYPE pkt tci"
  using profinet_accepts [of _ "0x0100" "0x01ff"] profinet_accepts [of _ "0x0200" "0x03ff"]
    profinet_accepts [of _ "0x8000" "0xbbff"] profinet_accepts [of _ "0xfc01" "0xfc02"]
    profinet_accepts [of _ "0xfefe" "0xfeff"]
  by (simp_all add: profinet_filters class_receives_def frame_id_class_iff Let_def)
     (simp add: bpf_accepts_def ethertype_filter_run del: bpf_run.simps)

lemma l2_filter_class:
  "bpf_accepts (if protocol_type (classes app GENERICL2_FRAME_TYPE) = ETHERCAT_PROTOCOL_TYPE then ethercat_frame_filter
     else set_k 3 (filter_tci (classes app GENERICL2_FRAME_TYPE))
            (set_k 1 (ether_type (classes app GENERICL2_FRAME_TYPE)) generic_l2_frame_filter)) pkt tci =
   class_receives app GENERICL2_FRAME_TYPE pkt tci"
  by (simp add: bpf_accepts_def ethertype_filter_run class_receives_def Let_def del: bpf_run.simps One_nat_def)

section \<open>Properties\<close>

text \<open>C11. The filter programs do what their comments say: once the socket of a layer 2 class
  exists, its filter program passes exactly the frames of this class.  For a PROFINET
  class these are the frames with its ether type, its VLAN tag and a frame id of its range;
  as a frame id belongs to one class only, no PROFINET frame reaches two classes.\<close>

theorem socket_filter_exact:
  assumes "class_socket B app so t = (Inr s, fds)"
  shows "bpf_accepts (rs_filter s) pkt tci \<longleftrightarrow> class_receives app t pkt tci"
proof (cases "t = GENERICL2_FRAME_TYPE")
  case True
  then show ?thesis
    using assms l2_filter_class [of app pkt tci] by (auto simp: class_socket_defs dest!: create_socket_filter split: if_splits)
next
  case False
  then show ?thesis
    using assms by (cases t) (auto simp: class_socket_defs filter_class [where app = app] dest!: create_socket_filter)
qed

text \<open>Creating a socket leaves no descriptor behind when any of its steps fails,
  and exactly the socket when it succeeds.  A raw socket is then bound to the interface of
  its class, with its priority, promiscuous, non-blocking, and with launch times if and only
  if configured.  Of the two name look-ups of a UDP socket only the socket of the source
  address stays open.\<close>

lemma socket_no_leak:
  "(case class_socket B app so t of
      (Inl _, fds) \<Rightarrow> fds = []
    | (Inr s, fds) \<Rightarrow> fds = [rs_fd s] \<and> rs_promisc s \<and> rs_nonblocking s \<and> rs_interface s = interface (classes app t) \<and>
        rs_priority s = socket_priority (classes app t) \<and> rs_txtime s = tx_time_enabled (classes app t)) \<and>
   (case create_udp_socket uo of (Inl _, fds) \<Rightarrow> fds = [] | (Inr (fd, _), fds) \<Rightarrow> fds = [fd])"
proof
  have "case create_socket B app so t prog of
      (Inl _, fds) \<Rightarrow> fds = []
    | (Inr s, fds) \<Rightarrow> fds = [rs_fd s] \<and> rs_promisc s \<and> rs_nonblocking s \<and> rs_interface s = interface (classes app t) \<and>
        rs_priority s = socket_priority (classes app t) \<and> rs_txtime s = tx_time_enabled (classes app t)" for prog
    using create_socket_ok [where B = B and app = app and so = so and t = t and prog = prog]
    by (auto split: prod.splits sum.splits)
  then show "case class_socket B app so t of
      (Inl _, fds) \<Rightarrow> fds = []
    | (Inr s, fds) \<Rightarrow> fds = [rs_fd s] \<and> rs_promisc s \<and> rs_nonblocking s \<and> rs_interface s = interface (classes app t) \<and>
        rs_priority s = socket_priority (classes app t) \<and> rs_txtime s = tx_time_enabled (classes app t)"
    by (cases t) (simp_all add: class_socket_defs)
  show "case create_udp_socket uo of (Inl _, fds) \<Rightarrow> fds = [] | (Inr (fd, _), fds) \<Rightarrow> fds = [fd]"
    by (auto simp: create_udp_socket_def dns_lookup_def Let_def split: prod.splits sum.splits option.splits if_splits)
qed

definition demo_socket :: socket_outcome where
  "demo_socket = \<lparr>so_socket = Inr 7, so_if_index = 2, so_bind = None, so_bindtodevice = None, so_priority = None,
     so_promisc = None, so_attach = None, so_getfl = None, so_setfl = None, so_timestamping = None, so_hwts = None,
     so_txtime = None\<rparr>"

definition demo_net_build :: build where
  "demo_net_build = \<lparr>HAVE_BUSY_POLL = False, WITH_MQTT = False, HAVE_XDP_TX_TIME = True, RX_TIMESTAMP = True, TX_TIMESTAMP = False\<rparr>"

definition demo_net_config :: application_config where
  "demo_net_config = zero_app_config\<lparr>classes := (\<lambda>t. zero_class_config\<lparr>vid := 0x101, pcp := 6, interface := ''eth0''\<rparr>)\<rparr>"

lemma demo_class_socket:
  "\<exists>s. class_socket demo_net_build demo_net_config demo_socket TSN_HIGH_FRAME_TYPE = (Inr s, [7])"
  by (simp add: class_socket_def create_tsn_high_socket_def create_socket_def create_raw_socket_def set_promiscuous_mode_def
      mark_socket_non_blocking_def demo_socket_def demo_net_config_def zero_class_config_def Let_def)

theorem socket_filter_exact_witness:
  "\<exists>s. class_socket demo_net_build demo_net_config demo_socket TSN_HIGH_FRAME_TYPE = (Inr s, [7]) \<and>
     bpf_accepts (rs_filter s) (replicate 12 0 @ [0x88, 0x92, 1, 1]) 0xc101 \<and>
     \<not> bpf_accepts (rs_filter s) (replicate 12 0 @ [0x88, 0x92, 2, 1]) 0xc101"
proof -
  obtain s where s: "class_socket demo_net_build demo_net_config demo_socket TSN_HIGH_FRAME_TYPE = (Inr s, [7])"
    using demo_class_socket by blast
  have "bpf_accepts (rs_filter s) (replicate 12 0 @ [0x88, 0x92, 1, 1]) 0xc101"
    "\<not> bpf_accepts (rs_filter s) (replicate 12 0 @ [0x88, 0x92, 2, 1]) 0xc101"
    using socket_filter_exact [OF s]
    by (simp_all add: class_receives_def pkt_half_def be16_word_def be_to_nat_def frame_id_class_def filter_tci_def
        demo_net_config_def)
  then show ?thesis using s by blast
qed

end
