(* ===== verification/TB_Xdp.thy ===== *)
theory TB_Xdp
  imports TB_Tc TB_Net
begin

text \<open>
  AF_XDP: the socket functions of \<^verbatim>\<open>xdp.c\<close> and the AF_XDP threads of \<^verbatim>\<open>tc.c\<close>.  The rings
  shared with the kernel belong to libxdp.  What a call on a ring returns is an
  argument; what is put into a ring, submitted, released or cancelled is part of the
  result, as a list of ring calls.
\<close>

section \<open>Types\<close>

abbreviation (input) "XDP_NUM_DESCS \<equiv> 4096 :: nat"
abbreviation (input) "XDP_BATCH_SIZE \<equiv> 512 :: nat"
abbreviation (input) "XDP_FRAME_SIZE \<equiv> 4096 :: nat"

text \<open>The meta data in front of a frame: requests to and answers of the kernel.\<close>

record tx_metadata =
  md_launch_flag :: bool
  md_timestamp_flag :: bool
  md_launch_time :: u64
  md_tx_timestamp :: u64

definition zero_metadata :: tx_metadata where
  "zero_metadata = \<lparr>md_launch_flag = False, md_timestamp_flag = False, md_launch_time = 0, md_tx_timestamp = 0\<rparr>"

record xdp_tx_hwts =
  hwts_rtt :: stat_frame_type
  hwts_frames_per_cycle :: nat
  hwts_meta_data_offset :: nat

text \<open>The frames of the umem area lie in \<open>umem\<close>; \<open>umem_meta\<close> is the meta data in front of a frame
  address.\<close>

record xdp_socket =
  outstanding_tx :: u64
  umem :: bytes
  umem_meta :: "nat \<Rightarrow> tx_metadata"
  tx_hwts :: xdp_tx_hwts
  busy_poll_mode :: bool
  tx_time_mode :: bool
  tx_hwtstamp_mode :: bool

record xdp_desc =
  xd_addr :: nat
  xd_len :: nat
  xd_metadata :: bool

datatype xsk_call =
    Fq_submit "nat list"
  | Cq_release nat
  | Cq_cancel nat
  | Rx_release nat
  | Rx_cancel nat
  | Tx_write "xdp_desc list"
  | Tx_submit nat

record xdp_tx_time =
  xt_sequence_counter_begin :: u64
  xt_duration :: u64
  xt_tx_time_offset :: u64
  xt_num_frames_per_cycle :: nat

section \<open>The XDP program\<close>

record xdp_init =
  xi_prog :: "nat option"
  xi_initialized :: nat
  xi_xsks_map :: int

text \<open>What the calls of one attempt return: the opened program or none, from the working
  and from the data directory; attaching; the descriptor of the map.\<close>

record xdp_prog_outcome =
  po_if_index :: nat
  po_open :: "nat option"
  po_open_installed :: "nat option"
  po_attach :: "errno option"
  po_map_fd :: int

datatype xdp_resource =
    XR_socket_memory | XR_prog_open nat | XR_prog_attached nat | XR_umem_buffer | XR_umem | XR_xsk

text \<open>Result, state and what is now open or attached.\<close>

definition xdp_prog_init ::
  "xdp_prog_outcome \<Rightarrow> string option \<Rightarrow> xdp_init \<Rightarrow> errno option \<times> xdp_init \<times> xdp_resource list" where
  "xdp_prog_init po xdp_program g =
     (if xdp_program = None then (Some EINVAL, g, [])
      else if xi_initialized g \<noteq> 0 then (None, g\<lparr>xi_initialized := xi_initialized g + 1\<rparr>, [])
      else if po_if_index po = 0 then (Some EINVAL, g, [])
      else case (case po_open po of Some p \<Rightarrow> Some p | None \<Rightarrow> po_open_installed po) of
             None \<Rightarrow> (Some EINVAL, g, [])
           | Some prog \<Rightarrow>
               if po_attach po \<noteq> None then (Some EINVAL, g, [XR_prog_open prog])
               else let g = g\<lparr>xi_xsks_map := po_map_fd po\<rparr>
                    in if po_map_fd po < 0 then (Some EINVAL, g, [XR_prog_open prog, XR_prog_attached prog])
                       else (None, g\<lparr>xi_initialized := 1, xi_prog := Some prog\<rparr>,
                             [XR_prog_open prog, XR_prog_attached prog]))"

text \<open>The second component is what is detached and closed.  The counter is positive: the
  caller holds a socket.\<close>

definition xdp_prog_exit :: "nat \<Rightarrow> xdp_init \<Rightarrow> xdp_init \<times> xdp_resource list" where
  "xdp_prog_exit if_index g =
     (let g = g\<lparr>xi_initialized := xi_initialized g - 1\<rparr>
      in if xi_initialized g \<noteq> 0 then (g, [])
         else if if_index = 0 then (g, [])
         else (g\<lparr>xi_xsks_map := 0, xi_prog := None\<rparr>,
               (case xi_prog g of None \<Rightarrow> [] | Some p \<Rightarrow> [XR_prog_attached p, XR_prog_open p])))"

section \<open>Opening and closing\<close>

text \<open>Results of the three socket options; the code ends with an error if busy polling is not
  supported.\<close>

definition xdp_configure_socket_options ::
  "build \<Rightarrow> errno option \<times> errno option \<times> errno option \<Rightarrow> bool \<Rightarrow> xdp_socket \<Rightarrow> errno option \<times> xdp_socket" where
  "xdp_configure_socket_options B rets busy_poll xsk =
     (if \<not> busy_poll then (None, xsk)
      else if \<not> HAVE_BUSY_POLL B then (Some EINVAL, xsk)
      else case rets of (r1, r2, r3) \<Rightarrow>
        (case r1 of Some e \<Rightarrow> (Some e, xsk) | None \<Rightarrow>
        (case r2 of Some e \<Rightarrow> (Some e, xsk) | None \<Rightarrow>
        (case r3 of Some e \<Rightarrow> (Some e, xsk) | None \<Rightarrow> (None, xsk\<lparr>busy_poll_mode := True\<rparr>)))))"

definition xdp_umem_create ::
  "bool \<Rightarrow> errno option \<Rightarrow> bool \<Rightarrow> bool \<Rightarrow> xdp_socket \<Rightarrow> errno option \<times> xdp_socket \<times> xdp_resource list" where
  "xdp_umem_create memalign_ok create_ret tx_time tx_hwtstamp xsk =
     (if \<not> memalign_ok then (Some ENOMEM, xsk, [])
      else let held = [XR_umem_buffer]
           in case create_ret of
                Some e \<Rightarrow> (Some e, xsk, remove1 XR_umem_buffer held)
              | None \<Rightarrow> (None, xsk\<lparr>umem := replicate (2 * XDP_NUM_DESCS * XDP_FRAME_SIZE) 0, tx_time_mode := tx_time,
                                 tx_hwtstamp_mode := tx_hwtstamp\<rparr>, XR_umem # held))"

record xdp_open_outcome =
  xo_calloc :: bool
  xo_prog :: xdp_prog_outcome
  xo_hwts :: "errno option"
  xo_memalign :: bool
  xo_umem :: "errno option"
  xo_reserve :: nat
  xo_create :: "errno option"
  xo_map_update :: "errno option"
  xo_options :: "errno option \<times> errno option \<times> errno option"
  xo_exit_if_index :: nat

definition zero_xdp_socket :: xdp_socket where
  "zero_xdp_socket = \<lparr>outstanding_tx = 0, umem = [], umem_meta = (\<lambda>_. zero_metadata),
     tx_hwts = \<lparr>hwts_rtt = TSN_HIGH_FRAME_TYPE, hwts_frames_per_cycle = 0, hwts_meta_data_offset = 0\<rparr>,
     busy_poll_mode = False, tx_time_mode = False, tx_hwtstamp_mode = False\<rparr>"

text \<open>The addresses the fill ring starts with; \<open>md\<close> is the size of the meta data.\<close>

definition xdp_fill_addrs :: "nat \<Rightarrow> build \<Rightarrow> bool \<Rightarrow> bool \<Rightarrow> nat list" where
  "xdp_fill_addrs md B tx_time tx_hwtstamp =
     map (\<lambda>i. i * XDP_FRAME_SIZE +
              (if (HAVE_XDP_TX_TIME B \<or> TX_TIMESTAMP B) \<and> (tx_time \<or> tx_hwtstamp) then md else 0)) [0..<XDP_NUM_DESCS]"

text \<open>Releasing in the order of the code.\<close>

definition release :: "'r list \<Rightarrow> 'r list \<Rightarrow> 'r list" where
  "release rs held = foldl (\<lambda>h r. remove1 r h) held rs"

definition xdp_open_socket ::
  "nat \<Rightarrow> build \<Rightarrow> xdp_open_outcome \<Rightarrow> string option \<Rightarrow> traffic_class_config \<Rightarrow> xdp_init \<Rightarrow>
   (xdp_socket \<times> xsk_call list) option \<times> xdp_init \<times> xdp_resource list" where
  "xdp_open_socket md B xo xdp_program cfg g =
     (if \<not> xo_calloc xo then (None, g, [])
      else let (ret, g, held) = xdp_prog_init (xo_prog xo) xdp_program g;
               held = XR_socket_memory # held;
               err_prog = (\<lambda>g held. (None, g, release [XR_socket_memory] held));
               err_umem = (\<lambda>held. let (g, closed) = xdp_prog_exit (xo_exit_if_index xo) g
                                  in err_prog g (release closed held))
           in if ret \<noteq> None then err_prog g held
              else if TX_TIMESTAMP B \<and> tx_hwtstamp_enabled cfg \<and> xo_hwts xo \<noteq> None then err_umem held
              else let (ret, xsk, mem) = xdp_umem_create (xo_memalign xo) (xo_umem xo) (tx_time_enabled cfg)
                                           (tx_hwtstamp_enabled cfg) zero_xdp_socket;
                       held = mem @ held;
                       err_socket = (\<lambda>held. err_umem (release [XR_umem, XR_umem_buffer] held))
                   in if ret \<noteq> None then err_umem held
                      else if xo_reserve xo \<noteq> XDP_NUM_DESCS then err_socket held
                      else if xo_create xo \<noteq> None then err_socket held
                      else let held = XR_xsk # held;
                               err_conf = (\<lambda>held. err_socket (release [XR_xsk] held))
                           in if xo_map_update xo \<noteq> None then err_conf held
                              else let (ret, xsk) = xdp_configure_socket_options B (xo_options xo)
                                                      (xdp_busy_poll_mode cfg) xsk
                                   in if ret \<noteq> None then err_conf held
                                      else (Some (xsk, [Fq_submit (xdp_fill_addrs md B (tx_time_enabled cfg)
                                                                     (tx_hwtstamp_enabled cfg))]), g, held))"

definition xdp_close_socket :: "nat \<Rightarrow> xdp_init \<Rightarrow> xdp_resource list \<Rightarrow> xdp_init \<times> xdp_resource list" where
  "xdp_close_socket if_index g held =
     (let held = release [XR_xsk, XR_umem] held;
          (g, closed) = xdp_prog_exit if_index g
      in (g, release [XR_umem_buffer, XR_socket_memory] (release closed held)))"

section \<open>Completions\<close>

definition xdp_process_tx_timestamp ::
  "build \<Rightarrow> application_config \<Rightarrow> xdp_socket \<Rightarrow> nat \<Rightarrow> stat_state \<Rightarrow> stat_state option" where
  "xdp_process_tx_timestamp B app xsk addr S =
     (let meta = umem_meta xsk addr; t = hwts_rtt (tx_hwts xsk); fpc = hwts_frames_per_cycle (tx_hwts xsk);
          rtt = round_trip_contexts S t; hw = md_tx_timestamp meta
      in if fpc = 0 \<or> backlog_len rtt = 0 then None
         else do {
           seq \<leftarrow> get_sequence_counter (drop addr (umem xsk)) (hwts_meta_data_offset (tx_hwts xsk)) fpc;
           let cycle_seq = (of_nat (unat seq div fpc * fpc) :: u64);
           let frame_in_cycle = unat (seq - cycle_seq);
           let first = (frame_in_cycle = 0);
           let last = (frame_in_cycle = fpc - 1);
           let idx = unat cycle_seq mod backlog_len rtt;
           if \<not> md_timestamp_flag meta then Some S
           else do {
             entry \<leftarrow> backlog_get rtt idx;
             if hw > 0 \<and> sw_ts entry > 0
             then do {
               S \<leftarrow> (if first
                    then do {
                      S \<leftarrow> backlog_upd t idx (\<lambda>e. e\<lparr>hw_ts := hw\<rparr>) S;
                      stat_frame_sent_latency B app t cycle_seq S
                    }
                    else Some S);
               entry \<leftarrow> backlog_get (round_trip_contexts S t) idx;
               if log_stat_user_selected S = LOG_TX_TIMESTAMPS \<and> config_have_rx_timestamp B \<and> hw > sw_ts entry
               then (if first then stat_proc_first_latency B app t cycle_seq hw S
                     else if last then stat_proc_batch_latency B app t cycle_seq hw S
                     else Some S)
               else Some S
             }
             else Some S
           }
         })"

text \<open>\<open>completed\<close>: the addresses at the front of the completion ring, at most as many as are
  outstanding.  Waking up the kernel may fail and is only logged.\<close>

definition xdp_complete_tx_only ::
  "build \<Rightarrow> application_config \<Rightarrow> nat list \<Rightarrow> xdp_socket \<Rightarrow> stat_state \<Rightarrow>
   (xdp_socket \<times> stat_state \<times> xsk_call list) option" where
  "xdp_complete_tx_only B app completed xsk S =
     (if outstanding_tx xsk = 0 then Some (xsk, S, [])
      else if completed = [] then Some (xsk, S, [])
      else do {
        S \<leftarrow> (if TX_TIMESTAMP B \<and> tx_hwtstamp_mode xsk then xdp_process_tx_timestamp B app xsk (hd completed) S
             else Some S);
        Some (xsk\<lparr>outstanding_tx := outstanding_tx xsk - of_nat (length completed)\<rparr>, S, [Cq_release (length completed)])
      })"

fun xdp_process_all ::
  "build \<Rightarrow> application_config \<Rightarrow> xdp_socket \<Rightarrow> nat list \<Rightarrow> stat_state \<Rightarrow> stat_state option" where
  "xdp_process_all B app xsk [] S = Some S"
| "xdp_process_all B app xsk (addr # addrs) S = do {
     S \<leftarrow> (if md_timestamp_flag (umem_meta xsk addr) then xdp_process_tx_timestamp B app xsk addr S else Some S);
     xdp_process_all B app xsk addrs S
   }"

text \<open>\<open>slots\<close> and \<open>slots_again\<close>: what reserving room in the fill ring returns, at first and after
  waking up the kernel.\<close>

definition xdp_complete_tx ::
  "build \<Rightarrow> application_config \<Rightarrow> nat list \<Rightarrow> nat \<Rightarrow> nat \<Rightarrow> xdp_socket \<Rightarrow> stat_state \<Rightarrow>
   (xdp_socket \<times> stat_state \<times> xsk_call list) option" where
  "xdp_complete_tx B app completed slots slots_again xsk S =
     (if outstanding_tx xsk = 0 then Some (xsk, S, [])
      else if completed = [] then Some (xsk, S, [])
      else do {
        S \<leftarrow> (if TX_TIMESTAMP B \<and> tx_hwtstamp_mode xsk then xdp_process_all B app xsk completed S else Some S);
        let received = length completed;
        let slots = (if slots \<noteq> received then slots_again else slots);
        Some (if slots \<noteq> received then (xsk, S, [Cq_cancel received])
              else (xsk\<lparr>outstanding_tx := outstanding_tx xsk - of_nat received\<rparr>, S,
                    [Fq_submit completed, Cq_release received]))
      })"

section \<open>Sending\<close>

text \<open>The meta data lies in front of the frame; \<open>tx\<close> if room for it is still to be made.\<close>

definition xdp_prepare_tx_desc ::
  "nat \<Rightarrow> build \<Rightarrow> application_config \<Rightarrow> timespec option \<Rightarrow> xdp_tx_time option \<Rightarrow> nat \<Rightarrow> bool \<Rightarrow> bool \<Rightarrow>
   xdp_socket \<Rightarrow> xdp_desc \<Rightarrow> (xdp_socket \<times> xdp_desc) option" where
  "xdp_prepare_tx_desc md B app clk tx_time i want_hw_timestamp tx xsk desc =
     (if (HAVE_XDP_TX_TIME B \<or> TX_TIMESTAMP B) \<and> (tx_time_mode xsk \<or> tx_hwtstamp_mode xsk)
      then do {
        let addr = (if tx then xd_addr desc + md else xd_addr desc);
        if addr < md then None
        else do {
          let meta = zero_metadata;
          meta \<leftarrow> (if HAVE_XDP_TX_TIME B \<and> tx_time_mode xsk
                  then do {
                    tt \<leftarrow> tx_time;
                    (t, _) \<leftarrow> tx_time_get_frame_tx_time app clk (xt_sequence_counter_begin tt + of_nat i)
                               (xt_duration tt) (xt_num_frames_per_cycle tt) (xt_tx_time_offset tt);
                    Some (meta\<lparr>md_launch_flag := True, md_launch_time := t\<rparr>)
                  }
                  else Some meta);
          let meta = (if TX_TIMESTAMP B \<and> tx_hwtstamp_mode xsk \<and> want_hw_timestamp
                      then meta\<lparr>md_timestamp_flag := True, md_tx_timestamp := 0\<rparr> else meta);
          Some (xsk\<lparr>umem_meta := (umem_meta xsk)(addr := meta)\<rparr>, desc\<lparr>xd_addr := addr, xd_metadata := True\<rparr>)
        }
      }
      else Some (xsk, desc))"

record 'c xdp_gen_config =
  xg_mode :: security_mode
  xg_security_context :: "'c security_context option"
  xg_iv_prefix :: bytes
  xg_payload_pattern :: bytes
  xg_payload_pattern_length :: nat
  xg_frame_length :: nat
  xg_num_frames_per_cycle :: nat
  xg_sequence_counter_begin :: u64
  xg_meta_data_offset :: nat
  xg_frame_type :: stat_frame_type
  xg_tx_time :: "xdp_tx_time option"
  xg_protocol_type :: protocol_type

definition xdp_frame_config :: "'c xdp_gen_config \<Rightarrow> timespec option \<Rightarrow> nat \<Rightarrow> 'c prepare_frame_config" where
  "xdp_frame_config xg clk i =
     \<lparr>pf_mode = xg_mode xg, pf_security_context = xg_security_context xg, pf_iv_prefix = xg_iv_prefix xg,
      pf_payload_pattern = xg_payload_pattern xg, pf_payload_pattern_length = xg_payload_pattern_length xg,
      pf_frame_length = xg_frame_length xg, pf_num_frames_per_cycle = xg_num_frames_per_cycle xg,
      pf_sequence_counter = xg_sequence_counter_begin xg + of_nat i, pf_tx_timestamp = clock_ns clk,
      pf_meta_data_offset = xg_meta_data_offset xg, pf_frame_type = xg_frame_type xg,
      pf_protocol_type = xg_protocol_type xg\<rparr>"

definition xdp_next_frame_number :: "u32 \<Rightarrow> u32" where
  "xdp_next_frame_number n = (n + 1) mod of_nat XDP_NUM_DESCS + of_nat XDP_NUM_DESCS"

text \<open>
  The state of the loop: socket, frame number, descriptors written, errors logged.  A
  frame may use the rest of its slot; an access behind it fails.
\<close>

definition xdp_gen_frame ::
  "nat \<Rightarrow> build \<Rightarrow> application_config \<Rightarrow> ('c, 's) evp \<Rightarrow> timespec option \<Rightarrow> (nat \<Rightarrow> timespec option) \<Rightarrow>
   'c xdp_gen_config \<Rightarrow> nat \<Rightarrow> xdp_socket \<times> u32 \<times> xdp_desc list \<times> nat \<Rightarrow>
   (xdp_socket \<times> u32 \<times> xdp_desc list \<times> nat) option" where
  "xdp_gen_frame md B app E clk clks xg i = (\<lambda>(xsk, frame_number, descs, errs). do {
     let desc = \<lparr>xd_addr = unat (frame_number * of_nat XDP_FRAME_SIZE), xd_len = xg_frame_length xg, xd_metadata = False\<rparr>;
     (xsk, desc) \<leftarrow> xdp_prepare_tx_desc md B app (clks i) (xg_tx_time xg) i
                      (i = 0 \<or> i = xg_num_frames_per_cycle xg - 1) True xsk desc;
     let addr = xd_addr desc;
     frame \<leftarrow> mem_read addr (XDP_FRAME_SIZE - addr mod XDP_FRAME_SIZE) (umem xsk);
     (err, frame) \<leftarrow> prepare_frame_for_tx E (xdp_frame_config xg clk i) frame;
     frame \<leftarrow> (if debug_monitor_mode app \<and> i = 0
              then mem_write 0 (take ETH_ALEN (debug_monitor_destination app)) frame else Some frame);
     buf \<leftarrow> mem_write addr frame (umem xsk);
     Some (xsk\<lparr>umem := buf\<rparr>, xdp_next_frame_number frame_number, descs @ [desc],
           if err = None then errs else Suc errs)
   })"

text \<open>\<open>slots\<close>: what reserving room in the transmit ring returns.  The result is socket, frame
  number, statistics, calls on the rings and logged errors.\<close>

definition xdp_gen_and_send_frames ::
  "nat \<Rightarrow> build \<Rightarrow> application_config \<Rightarrow> ('c, 's) evp \<Rightarrow> timespec option \<Rightarrow> (nat \<Rightarrow> timespec option) \<Rightarrow>
   (nat \<Rightarrow> timespec option) \<Rightarrow> nat \<Rightarrow> nat list \<Rightarrow> 'c xdp_gen_config \<Rightarrow> u32 \<Rightarrow> xdp_socket \<Rightarrow> stat_state \<Rightarrow>
   (xdp_socket \<times> u32 \<times> stat_state \<times> xsk_call list \<times> nat) option" where
  "xdp_gen_and_send_frames md B app E clk clks clks_sent slots completed xg frame_number xsk S =
     (let n = xg_num_frames_per_cycle xg
      in if n = 0 then Some (xsk, frame_number, S, [], 0)
         else if slots < n
         then do {
           (xsk, S, calls) \<leftarrow> xdp_complete_tx_only B app completed xsk S;
           Some (xsk, frame_number, S, calls, 0)
         }
         else do {
           (xsk, frame_number, descs, errs) \<leftarrow> for_upto n (xdp_gen_frame md B app E clk clks xg) (xsk, frame_number, [], 0);
           let xsk = xsk\<lparr>outstanding_tx := outstanding_tx xsk + of_nat n\<rparr>;
           (xsk, S, calls) \<leftarrow> xdp_complete_tx_only B app completed xsk S;
           S \<leftarrow> (if TX_TIMESTAMP B \<and> tx_hwtstamp_mode xsk
                then stat_frames_sent_batch B app (clks_sent 0) (xg_frame_type xg) (xg_sequence_counter_begin xg)
                       (of_nat n) S
                else for_upto n (\<lambda>i. stat_frame_sent B app (clks_sent i) (xg_frame_type xg)
                                      (xg_sequence_counter_begin xg + of_nat i)) S);
           Some (xsk, frame_number, S, [Tx_write descs, Tx_submit n] @ calls, errs)
         })"

section \<open>Receiving\<close>

definition xdp_get_timestamp_metadata :: "xdp_meta \<Rightarrow> u64 \<times> u64" where
  "xdp_get_timestamp_metadata meta =
     (if hint_valid meta then (rx_hw_timestamp meta, rx_sw_timestamp meta) else (0, 0))"

text \<open>
  A descriptor of the receive ring, with what the handler of the frame reads besides
  it.  The area is in aligned mode: an address is its own base.
\<close>

record rx_desc =
  rd_addr :: nat
  rd_len :: nat
  rd_meta :: xdp_meta
  rd_env :: rx_env
  rd_clk :: "timespec option"

text \<open>Socket, handler state and the descriptors written to the transmit ring.\<close>

fun xdp_receive_loop ::
  "nat \<Rightarrow> build \<Rightarrow> application_config \<Rightarrow> (rx_env \<Rightarrow> nat \<Rightarrow> 'c rx_state \<Rightarrow> (errno option \<times> 'c rx_state) option) \<Rightarrow>
   nat \<Rightarrow> bool \<Rightarrow> xdp_tx_time \<Rightarrow> nat \<Rightarrow> rx_desc list \<Rightarrow> xdp_socket \<Rightarrow> 'c rx_state \<Rightarrow>
   (xdp_socket \<times> 'c rx_state \<times> xdp_desc list) option" where
  "xdp_receive_loop md B app handle len mirror tx_time i [] xsk w = Some (xsk, w, [])"
| "xdp_receive_loop md B app handle len mirror tx_time i (d # ds) xsk w = do {
     let addr = rd_addr d;
     packet \<leftarrow> mem_read addr (XDP_FRAME_SIZE - addr mod XDP_FRAME_SIZE) (umem xsk);
     (_, w) \<leftarrow> handle ((rd_env d)\<lparr>re_rx_meta := xdp_get_timestamp_metadata (rd_meta d)\<rparr>) (rd_len d) (w\<lparr>rx_frame := packet\<rparr>);
     buf \<leftarrow> mem_write addr (rx_frame w) (umem xsk);
     let xsk = xsk\<lparr>umem := buf\<rparr>;
     if rx_exited w then Some (xsk, w, [])
     else if \<not> mirror then xdp_receive_loop md B app handle len mirror tx_time (Suc i) ds xsk w
     else do {
       let desc = \<lparr>xd_addr = addr, xd_len = len, xd_metadata = False\<rparr>;
       (xsk, desc) \<leftarrow>
         (if tx_time_mode xsk \<or> tx_hwtstamp_mode xsk
          then do {
            want \<leftarrow> (if TX_TIMESTAMP B \<and> tx_hwtstamp_mode xsk
                    then do {
                      let fpc = hwts_frames_per_cycle (tx_hwts xsk);
                      seq \<leftarrow> get_sequence_counter (rx_frame w) (hwts_meta_data_offset (tx_hwts xsk)) fpc;
                      if fpc = 0 then None
                      else Some (unat seq mod fpc = 0 \<or> unat seq mod fpc = fpc - 1)
                    }
                    else Some False);
            xdp_prepare_tx_desc md B app (rd_clk d) (Some tx_time) i want False xsk desc
          }
          else Some (xsk, desc));
       (xsk, w, descs) \<leftarrow> xdp_receive_loop md B app handle len mirror tx_time (Suc i) ds xsk w;
       Some (xsk, w, desc # descs)
     }
   }"

text \<open>
  \<open>ds\<close>: the descriptors at the front of the receive ring, at most a batch; \<open>slots\<close> and
  \<open>slots_again\<close>: what reserving room in the transmit ring (for a mirror) or the fill ring
  returns.
\<close>

definition xdp_receive_frames ::
  "nat \<Rightarrow> build \<Rightarrow> application_config \<Rightarrow> (rx_env \<Rightarrow> nat \<Rightarrow> 'c rx_state \<Rightarrow> (errno option \<times> 'c rx_state) option) \<Rightarrow>
   nat \<Rightarrow> bool \<Rightarrow> xdp_tx_time \<Rightarrow> rx_desc list \<Rightarrow> nat \<Rightarrow> nat \<Rightarrow> xdp_socket \<Rightarrow> 'c rx_state \<Rightarrow>
   (nat \<times> xdp_socket \<times> 'c rx_state \<times> xsk_call list) option" where
  "xdp_receive_frames md B app handle len mirror tx_time ds slots slots_again xsk w =
     (let received = length ds; slots = (if slots \<noteq> received then slots_again else slots)
      in if ds = [] then Some (0, xsk, w, [])
         else if slots \<noteq> received then Some (0, xsk, w, [Rx_cancel received])
         else do {
           (xsk, w, descs) \<leftarrow> xdp_receive_loop md B app handle len mirror tx_time 0 ds xsk w;
           if rx_exited w then Some (0, xsk, w, [])
           else Some (received, xsk, w,
                      if mirror then [Tx_write descs, Rx_release received]
                      else [Fq_submit (map rd_addr ds), Rx_release received])
         })"

section \<open>The threads\<close>

definition tc_gen_and_send_xdp_frames ::
  "nat \<Rightarrow> build \<Rightarrow> application_config \<Rightarrow> ('c, 's) evp \<Rightarrow> timespec option \<Rightarrow> (nat \<Rightarrow> timespec option) \<Rightarrow>
   (nat \<Rightarrow> timespec option) \<Rightarrow> nat \<Rightarrow> nat list \<Rightarrow> 'c thread_context \<Rightarrow> u64 \<Rightarrow> u64 \<Rightarrow> u32 \<Rightarrow> xdp_socket \<Rightarrow> stat_state \<Rightarrow>
   (xdp_socket \<times> u32 \<times> stat_state \<times> xsk_call list \<times> nat) option" where
  "tc_gen_and_send_xdp_frames md B app E clk clks clks_sent slots completed ctx sequence_counter duration frame_number xsk S =
     (let cfg = conf ctx;
          tx_time = \<lparr>xt_sequence_counter_begin = sequence_counter, xt_duration = duration,
                     xt_tx_time_offset = tx_time_offset_ns cfg, xt_num_frames_per_cycle = num_frames_per_cycle cfg\<rparr>
      in xdp_gen_and_send_frames md B app E clk clks clks_sent slots completed
           \<lparr>xg_mode = security_mode cfg, xg_security_context = tx_security_context ctx,
            xg_iv_prefix = ptr_bytes (security_iv_prefix cfg), xg_payload_pattern = pattern_bytes ctx,
            xg_payload_pattern_length = ctx_payload_pattern_length ctx, xg_frame_length = frame_length cfg,
            xg_num_frames_per_cycle = num_frames_per_cycle cfg, xg_sequence_counter_begin = sequence_counter,
            xg_meta_data_offset = meta_data_offset ctx, xg_frame_type = frame_type ctx,
            xg_tx_time = (if tx_time_enabled cfg then Some tx_time else None), xg_protocol_type = protocol_type cfg\<rparr>
           frame_number xsk S)"

text \<open>Before the loop: frame duration, templates in the second half of the area, start time.\<close>

definition tc_xdp_tx_thread_start ::
  "nat \<Rightarrow> build \<Rightarrow> application_config \<Rightarrow> ('c, 's) evp \<Rightarrow>
   ('c thread_context \<Rightarrow> bytes \<Rightarrow> nat \<Rightarrow> bytes \<Rightarrow> bytes \<Rightarrow> bytes option) \<Rightarrow>
   u32 option \<Rightarrow> timespec option \<Rightarrow> 'c thread_context \<Rightarrow> xdp_socket \<Rightarrow>
   (u64 \<times> timespec \<times> 'c thread_context \<times> xdp_socket) option option" where
  "tc_xdp_tx_thread_start md B app E initialize_frame link_speed clk ctx xsk =
     (let xsk = xsk\<lparr>tx_hwts := \<lparr>hwts_rtt = frame_type ctx, hwts_frames_per_cycle = num_frames_per_cycle (conf ctx),
                               hwts_meta_data_offset = meta_data_offset ctx\<rparr>\<rparr>
      in case link_speed of
           None \<Rightarrow> Some None
         | Some speed \<Rightarrow> do {
             duration \<leftarrow> tx_time_get_frame_duration speed (frame_length (conf ctx));
             buf \<leftarrow> on_region (XDP_FRAME_SIZE * XDP_NUM_DESCS) (XDP_FRAME_SIZE * XDP_NUM_DESCS)
                      (\<lambda>area. tc_initialize_frames md B initialize_frame ctx area XDP_NUM_DESCS (source ctx)
                                (l2_destination (conf ctx))) (umem xsk);
             let xsk = xsk\<lparr>umem := buf\<rparr>;
             _ \<leftarrow> prepare_openssl E (tx_security_context ctx);
             copy \<leftarrow> frame_copy ctx;
             copy \<leftarrow> tc_initialize_frames md B initialize_frame ctx copy 1 (source ctx) (l2_destination (conf ctx));
             let ctx = ctx\<lparr>frame_copy := Some copy\<rparr>;
             (case get_thread_start_time app clk (application_tx_base_offset_ns app) of
                Inl _ \<Rightarrow> Some None
              | Inr wakeup \<Rightarrow> Some (Some (duration, wakeup, ctx, xsk)))
           })"

text \<open>What one transmit cycle finds.\<close>

record xdp_tx_env =
  xe_build :: build
  xe_app :: application_config
  xe_md :: nat
  xe_clk :: "timespec option"
  xe_clks :: "nat \<Rightarrow> timespec option"
  xe_clks_sent :: "nat \<Rightarrow> timespec option"
  xe_update_clk :: "timespec option"
  xe_tx_slots :: nat
  xe_completed :: "nat list"
  xe_fq_slots :: nat
  xe_fq_slots_again :: nat

record 'c xdp_tx_state =
  xs_ctx :: "'c thread_context"
  xs_xsk :: xdp_socket
  xs_stat :: stat_state
  xs_frame_number :: u32
  xs_sequence_counter :: u64
  xs_workload :: "workload_thread list"

text \<open>Sending the frames the receiver has put into the transmit ring.\<close>

definition tc_xdp_mirror ::
  "xdp_tx_env \<Rightarrow> 'c xdp_tx_state \<Rightarrow> ('c xdp_tx_state \<times> xsk_call list) option" where
  "tc_xdp_mirror env w = do {
     let ctx = xs_ctx w;
     let received = received_frames ctx;
     let sequence_counter = rx_sequence_counter ctx - of_nat received;
     S \<leftarrow> (if received > 0
          then stat_frames_sent_batch (xe_build env) (xe_app env) (xe_clks_sent env 0) (frame_type ctx) sequence_counter
                 (of_nat received) (xs_stat w)
          else Some (xs_stat w));
     let xsk = (xs_xsk w)\<lparr>outstanding_tx := outstanding_tx (xs_xsk w) + of_nat received\<rparr>;
     (xsk, S, calls) \<leftarrow> xdp_complete_tx (xe_build env) (xe_app env) (xe_completed env) (xe_fq_slots env)
                          (xe_fq_slots_again env) xsk S;
     Some (w\<lparr>xs_ctx := ctx\<lparr>received_frames := 0\<rparr>, xs_xsk := xsk, xs_stat := S, xs_sequence_counter := sequence_counter\<rparr>,
           Tx_submit received # calls)
   }"

definition tc_xdp_tx_cycle ::
  "('c, 's) evp \<Rightarrow> xdp_tx_env \<Rightarrow> u64 \<Rightarrow> nat \<Rightarrow> 'c xdp_tx_state \<Rightarrow>
   (nat list \<times> 'c xdp_tx_state \<times> xsk_call list) option" where
  "tc_xdp_tx_cycle E env duration num_frames w = do {
     let ctx = xs_ctx w;
     S \<leftarrow> workload_check_finished (xe_app env) ctx (xs_workload w) (xs_stat w);
     let w = w\<lparr>xs_stat := S\<rparr>;
     (w, calls) \<leftarrow>
       (if \<not> rx_mirror_enabled (conf ctx)
        then (if num_frames \<noteq> 0
              then do {
                (xsk, fn, S, calls, _) \<leftarrow>
                  tc_gen_and_send_xdp_frames (xe_md env) (xe_build env) (xe_app env) E (xe_clk env) (xe_clks env)
                    (xe_clks_sent env) (xe_tx_slots env) (xe_completed env) ctx (xs_sequence_counter w) duration
                    (xs_frame_number w) (xs_xsk w) (xs_stat w);
                Some (w\<lparr>xs_xsk := xsk, xs_frame_number := fn, xs_stat := S,
                        xs_sequence_counter := xs_sequence_counter w + of_nat num_frames\<rparr>, calls)
              }
              else Some (w, []))
        else tc_xdp_mirror env w);
     let signalled = tc_signal_next (xs_ctx w);
     Some (signalled,
           if is_last (xs_ctx w) \<or> tx_model (xs_ctx w) = TC_TX_STANDALONE
           then w\<lparr>xs_stat := stat_update (xe_build env) (xe_app env) (xe_update_clk env) (xs_stat w)\<rparr> else w,
           calls)
   }"

text \<open>Before the loop of the receive thread: frame duration and the time of the first cycle.\<close>

definition tc_xdp_rx_thread_start ::
  "application_config \<Rightarrow> ('c, 's) evp \<Rightarrow> timespec option \<Rightarrow> u32 option \<Rightarrow> 'c thread_context \<Rightarrow>
   (timespec \<times> u64) option option" where
  "tc_xdp_rx_thread_start app E clk link_speed ctx = do {
     start \<leftarrow> tc_rx_thread_start app E clk ctx;
     (case (start, link_speed) of
        (Some wakeup, Some speed) \<Rightarrow> do {
          duration \<leftarrow> tx_time_get_frame_duration speed (frame_length (conf ctx));
          Some (Some (wakeup, duration))
        }
      | _ \<Rightarrow> Some None)
   }"

text \<open>One receive cycle; the number of received frames is left for the transmit thread.\<close>

definition tc_xdp_rx_cycle ::
  "nat \<Rightarrow> build \<Rightarrow> application_config \<Rightarrow> (rx_env \<Rightarrow> nat \<Rightarrow> 'c rx_state \<Rightarrow> (errno option \<times> 'c rx_state) option) \<Rightarrow>
   u64 \<Rightarrow> rx_desc list \<Rightarrow> nat \<Rightarrow> nat \<Rightarrow> workload_thread list \<Rightarrow> xdp_socket \<Rightarrow> 'c rx_state \<Rightarrow>
   (workload_thread list \<times> xdp_socket \<times> 'c rx_state \<times> xsk_call list) option" where
  "tc_xdp_rx_cycle md B app handle duration ds slots slots_again threads xsk w = do {
     let cfg = conf (rx_ctx w);
     let tx_time = \<lparr>xt_sequence_counter_begin = 0, xt_duration = duration, xt_tx_time_offset = tx_time_offset_ns cfg,
                    xt_num_frames_per_cycle = num_frames_per_cycle cfg\<rparr>;
     (received, xsk, w, calls) \<leftarrow> xdp_receive_frames md B app handle (frame_length cfg) (rx_mirror_enabled cfg) tx_time
                                    ds slots slots_again xsk w;
     if rx_exited w then Some (threads, xsk, w, calls)
     else do {
       let w = w\<lparr>rx_ctx := (rx_ctx w)\<lparr>received_frames := received\<rparr>\<rparr>;
       threads \<leftarrow> workload_signal (rx_ctx w) received threads;
       Some (threads, xsk, w, calls)
     }
   }"

end
