(* ===== verification/TB_Tc_Props.thy ===== *)
theory TB_Tc_Props
  imports TB_Tc
begin

text \<open>
  Properties of the traffic class threads.  A transmit buffer is a row of slots; the
  loops that fill it work slot by slot.  The main result follows a PROFINET frame
  from the template over the transmit cycle to the receive handler of another
  device.
\<close>

section \<open>Slots\<close>

text \<open>The frame data holds one frame per slot of \<open>K\<close> bytes.\<close>

definition slot :: "nat \<Rightarrow> nat \<Rightarrow> 'a list \<Rightarrow> 'a list" where
  "slot K i buf = take K (drop (i * K) buf)"

lemma slot_fits: "i < n \<Longrightarrow> i * K + K \<le> n * (K :: nat)"
  by (metis Suc_leI add.commute mult_Suc mult_le_mono1)

lemma slot_disjoint: "j \<noteq> i \<Longrightarrow> j * K + K \<le> i * K \<or> i * K + K \<le> j * (K :: nat)"
  by (metis linorder_neqE_nat slot_fits)

lemma mem_read_slot: "i < n \<Longrightarrow> length buf = n * K \<Longrightarrow> mem_read (i * K) K buf = Some (slot K i buf)"
  using slot_fits [of i n K] by (simp add: slot_def)

lemma length_slot: "i < n \<Longrightarrow> length buf = n * K \<Longrightarrow> length (slot K i buf) = K"
  using mem_read_slot mem_read_length by blast

lemma slot_write:
  assumes "i < n" "length buf = n * K" "length r = K"
  obtains buf' where "mem_write (i * K) r buf = Some buf'" "length buf' = n * K" "slot K i buf' = r"
    "\<And>j. j < n \<Longrightarrow> j \<noteq> i \<Longrightarrow> slot K j buf' = slot K j buf"
proof -
  obtain buf' where w: "mem_write (i * K) r buf = Some buf'"
    using mem_write_total [of "i * K" r buf] slot_fits [OF assms(1), of K] assms by auto
  then have l: "length buf' = n * K" using mem_write_length assms(2) by metis
  moreover have "slot K i buf' = r"
    using mem_read_write_same [OF w] mem_read_slot [OF assms(1) l] assms(3) by simp
  moreover have "slot K j buf' = slot K j buf" if "j < n" "j \<noteq> i" for j
    using mem_read_write_disjoint [OF w, of "j * K" K] slot_disjoint [OF that(2), of K]
      mem_read_slot [OF that(1) l] mem_read_slot [OF that(1) assms(2)] assms(3) by auto
  ultimately show thesis using that w by blast
qed

text \<open>A loop that works on one slot after the other.\<close>

lemma slots_loop:
  assumes "length buf = n * K" "\<And>i. i < n \<Longrightarrow> P i (slot K i buf)"
    and step: "\<And>i r. i < n \<Longrightarrow> length r = K \<Longrightarrow> P i r \<Longrightarrow> \<exists>r'. f i r = Some r' \<and> length r' = K \<and> Q i r'"
    and body: "\<And>i b r r'. i < n \<Longrightarrow> mem_read (i * K) K b = Some r \<Longrightarrow> f i r = Some r' \<Longrightarrow>
      body i (g b) = map_option g (mem_write (i * K) r' b)"
  shows "\<exists>buf'. for_upto n body (g buf) = Some (g buf') \<and> length buf' = n * K \<and> (\<forall>i < n. Q i (slot K i buf'))"
proof -
  let ?I = "\<lambda>i s. \<exists>b. s = g b \<and> length b = n * K \<and> (\<forall>j < i. Q j (slot K j b)) \<and>
    (\<forall>j < n. i \<le> j \<longrightarrow> slot K j b = slot K j buf)"
  have "\<exists>s'. for_upto n body (g buf) = Some s' \<and> ?I n s'"
  proof (rule for_upto_invariant [where P = ?I])
    show "?I 0 (g buf)" by (rule exI [of _ buf]) (simp add: assms(1))
  next
    fix i s assume i: "i < n" and "?I i s"
    then obtain b where b: "s = g b" "length b = n * K" "\<forall>j < i. Q j (slot K j b)"
      "\<forall>j < n. i \<le> j \<longrightarrow> slot K j b = slot K j buf" by blast
    then have r: "mem_read (i * K) K b = Some (slot K i buf)" using mem_read_slot [OF i b(2)] i by simp
    have "length (slot K i buf) = K" using length_slot [OF i assms(1)] .
    then obtain r' where r': "f i (slot K i buf) = Some r'" "length r' = K" "Q i r'"
      using step i assms(2) by blast
    obtain b' where b': "mem_write (i * K) r' b = Some b'" "length b' = n * K" "slot K i b' = r'"
      "\<And>j. j < n \<Longrightarrow> j \<noteq> i \<Longrightarrow> slot K j b' = slot K j b"
      using slot_write [OF i b(2) r'(2)] by blast
    have "body i s = Some (g b')" using body [OF i r r'(1)] b(1) b'(1) by simp
    moreover have "?I (Suc i) (g b')"
      using b b' r'(3) i by (intro exI [of _ b']) (auto simp: less_Suc_eq)
    ultimately show "\<exists>s'. body i s = Some s' \<and> ?I (Suc i) s'" by blast
  qed
  then show ?thesis by blast
qed

section \<open>PROFINET slots\<close>

text \<open>
  The layout every transmit slot of a PROFINET class has, from its template on and
  in every cycle: header, fixed fields, meta data, payload and, for a secure class,
  the authentication tag.  Only an encrypted payload changes.
\<close>

definition pn_secure :: "'c thread_context \<Rightarrow> bool" where
  "pn_secure ctx \<longleftrightarrow> security_mode (conf ctx) \<noteq> SECURITY_MODE_NONE"

definition pn_header :: "'c thread_context \<Rightarrow> bytes" where
  "pn_header ctx = rx_hdr False (l2_destination (conf ctx)) (source ctx) (vlan_tci_of (conf ctx)) ETH_P_PROFINET_RT"

definition pn_sec_fields :: "'c thread_context \<Rightarrow> bytes" where
  "pn_sec_fields ctx = (if pn_secure ctx
     then [if security_mode (conf ctx) = SECURITY_MODE_AO then 0 else 1] @ replicate 5 0
            @ be16_bytes (of_nat MAX_FRAME_SIZE - 18 - 16) else [])"

definition pn_fields :: "'c thread_context \<Rightarrow> bytes" where
  "pn_fields ctx = be16_bytes (frame_id ctx) @ pn_sec_fields ctx"

definition pn_body :: "traffic_class_config \<Rightarrow> bytes" where
  "pn_body cfg = ptr_bytes (payload_pattern cfg) @
     replicate (frame_length cfg - (if security_mode cfg = SECURITY_MODE_NONE then 36 else 60)
                - payload_pattern_length cfg) 0"

definition pn_slot :: "'c thread_context \<Rightarrow> bytes \<Rightarrow> bool" where
  "pn_slot ctx sl \<longleftrightarrow> (\<exists>m body t rest. sl = pn_header ctx @ pn_fields ctx @ m @ body @ t @ rest \<and>
     length sl = MAX_FRAME_SIZE \<and> length m = 16 \<and> length body = length (pn_body (conf ctx)) \<and>
     length t = (if pn_secure ctx then 16 else 0) \<and>
     (security_mode (conf ctx) \<noteq> SECURITY_MODE_AE \<longrightarrow> body = pn_body (conf ctx)))"

text \<open>What configuration check and thread creation establish for the transmit side.\<close>

definition pn_tx_ok :: "('c, 's) evp \<Rightarrow> 'c thread_context \<Rightarrow> bool" where
  "pn_tx_ok E ctx \<longleftrightarrow>
     (let cfg = conf ctx
      in frame_length cfg \<le> MAX_FRAME_SIZE \<and>
         (if pn_secure ctx then 60 else 36) + payload_pattern_length cfg \<le> frame_length cfg \<and>
         payload_pattern_length cfg = length (ptr_bytes (payload_pattern cfg)) \<and>
         length (source ctx) = 6 \<and> length (l2_destination cfg) = 6 \<and>
         0 < num_frames_per_cycle cfg \<and> num_frames_per_cycle cfg \<le> 2 ^ 32 \<and>
         length (tx_frame_data ctx) = num_frames_per_cycle cfg * MAX_FRAME_SIZE \<and>
         frame_type ctx \<noteq> GENERICL2_FRAME_TYPE \<and>
         meta_data_offset ctx = (if pn_secure ctx then 28 else 20) \<and>
         (if pn_secure ctx
          then 6 \<le> length (ptr_bytes (security_iv_prefix cfg)) \<and>
               (\<exists>sc. tx_security_context ctx = Some sc \<and> evp_aead E (sc_ctx sc)) \<and>
               ctx_payload_pattern ctx = Some 44 \<and> ctx_payload_pattern_length ctx + 60 = frame_length cfg
          else tx_security_context ctx = None) \<and>
         (\<exists>copy. frame_copy ctx = Some copy \<and> length copy = MAX_FRAME_SIZE))"

lemma pn_lengths:
  assumes "pn_tx_ok E ctx"
  shows "length (pn_header ctx) = 18" "length (pn_sec_fields ctx) = (if pn_secure ctx then 8 else 0)"
    "length (pn_fields ctx) = (if pn_secure ctx then 10 else 2)"
    "length (pn_body (conf ctx)) + (if pn_secure ctx then 60 else 36) = frame_length (conf ctx)"
  using assms by (auto simp: pn_tx_ok_def pn_header_def pn_fields_def pn_sec_fields_def pn_body_def pn_secure_def Let_def)

lemma pn_slotI:
  assumes "pn_tx_ok E ctx" "length m = 16" "length t = (if pn_secure ctx then 16 else 0)"
    and "length body = length (pn_body (conf ctx))" "length rest = MAX_FRAME_SIZE - frame_length (conf ctx)"
    and "security_mode (conf ctx) \<noteq> SECURITY_MODE_AE \<longrightarrow> body = pn_body (conf ctx)"
  shows "pn_slot ctx (pn_header ctx @ pn_fields ctx @ m @ body @ t @ rest) \<and>
         length (pn_header ctx @ pn_fields ctx @ m @ body @ t @ rest) = MAX_FRAME_SIZE"
proof -
  have "frame_length (conf ctx) \<le> MAX_FRAME_SIZE" using assms(1) by (simp add: pn_tx_ok_def Let_def)
  then have "length (pn_header ctx @ pn_fields ctx @ m @ body @ t @ rest) = MAX_FRAME_SIZE"
    using pn_lengths [OF assms(1)] assms(2-5) by (auto split: if_splits)
  then show ?thesis unfolding pn_slot_def using assms(2-6) by blast
qed

lemma tsn_template:
  assumes "pn_tx_ok E ctx" "length r = MAX_FRAME_SIZE"
  shows "\<exists>m t rest. tsn_initialize_frame ctx r MAX_FRAME_SIZE (source ctx) (l2_destination (conf ctx)) =
             Some (pn_header ctx @ pn_fields ctx @ m @ pn_body (conf ctx) @ t @ rest) \<and> length m = 16 \<and>
           length t = (if pn_secure ctx then 16 else 0) \<and> length rest = MAX_FRAME_SIZE - frame_length (conf ctx)"
proof -
  let ?rest = "replicate (MAX_FRAME_SIZE - frame_length (conf ctx)) (0 :: u8)"
  let ?m = "be32_bytes 0 @ be32_bytes 0 @ replicate 8 0"
  let ?t = "replicate (if pn_secure ctx then 16 else 0) (0 :: u8)"
  let ?pl = "payload_pattern_length (conf ctx)"
  let ?sz = "if pn_secure ctx then 60 else 36"
  have z: "replicate (MAX_FRAME_SIZE - (if pn_secure ctx then 44 else 36) - ?pl) (0 :: u8) =
      replicate (frame_length (conf ctx) - ?sz - ?pl) 0 @ ?t @ ?rest"
    using assms(1) by (auto simp: pn_tx_ok_def Let_def replicate_add [symmetric])
  have "tsn_initialize_frame ctx r MAX_FRAME_SIZE (source ctx) (l2_destination (conf ctx)) =
      Some (pn_header ctx @ pn_fields ctx @ ?m @ pn_body (conf ctx) @ ?t @ ?rest)"
  proof (cases "pn_secure ctx")
    case False
    have "36 + ?pl \<le> MAX_FRAME_SIZE" using assms(1) False by (simp add: pn_tx_ok_def Let_def)
    then show ?thesis using assms False z initialize_rt_eq [of "source ctx" "l2_destination (conf ctx)" r MAX_FRAME_SIZE
        "ptr_bytes (payload_pattern (conf ctx))" "payload_pattern_length (conf ctx)"]
      by (simp add: pn_tx_ok_def pn_secure_def tsn_initialize_frame_def initialize_profinet_frame_def Let_def
        pn_header_def pn_fields_def pn_sec_fields_def pn_body_def rx_hdr_def)
  next
    case True
    then have "security_mode (conf ctx) = SECURITY_MODE_AO \<or> security_mode (conf ctx) = SECURITY_MODE_AE"
      by (cases "security_mode (conf ctx)") (simp_all add: pn_secure_def)
    moreover have "44 + ?pl \<le> MAX_FRAME_SIZE" using assms(1) True by (simp add: pn_tx_ok_def Let_def)
    ultimately show ?thesis using assms True z initialize_secure_eq [of "source ctx" "l2_destination (conf ctx)" r
        MAX_FRAME_SIZE "ptr_bytes (payload_pattern (conf ctx))" "payload_pattern_length (conf ctx)"]
      by (auto simp: pn_tx_ok_def pn_secure_def tsn_initialize_frame_def initialize_profinet_frame_def Let_def
        pn_header_def pn_fields_def pn_sec_fields_def pn_body_def rx_hdr_def)
  qed
  then show ?thesis by (intro exI [of _ ?m] exI [of _ ?t] exI [of _ ?rest]) simp
qed

text \<open>A receiver configured like the sender, with the same key.\<close>

definition pn_peer :: "'c thread_context \<Rightarrow> 'c thread_context \<Rightarrow> bool" where
  "pn_peer ctx rctx \<longleftrightarrow>
     (let cfg = conf ctx; rcfg = conf rctx
      in security_mode rcfg = security_mode cfg \<and> frame_length rcfg = frame_length cfg \<and>
         num_frames_per_cycle rcfg = num_frames_per_cycle cfg \<and> payload_pattern rcfg = payload_pattern cfg \<and>
         payload_pattern_length rcfg = payload_pattern_length cfg \<and>
         security_iv_prefix rcfg = security_iv_prefix cfg \<and> frame_id rctx = frame_id ctx \<and>
         map_option sc_ctx (rx_security_context rctx) = map_option sc_ctx (tx_security_context ctx) \<and>
         (security_mode cfg = SECURITY_MODE_AE \<longrightarrow>
            (\<exists>pt. context_pattern rctx = Some (Some pt) \<and> length pt + 60 = frame_length cfg)))"

text \<open>The bytes of a slot on the wire, and as they arrive if the card removes the tag.\<close>

definition wire_of :: "bool \<Rightarrow> nat \<Rightarrow> bytes \<Rightarrow> bytes" where
  "wire_of stripped n sl = (if stripped then take 12 sl @ take (n - 16) (drop 16 sl) else take n sl)"

text \<open>The frame is accepted and read as number \<open>seq\<close>, sent at \<open>ts\<close>, with no complaint.\<close>

definition pn_delivers ::
  "('c, 's) evp \<Rightarrow> rx_env \<Rightarrow> 'c thread_context \<Rightarrow> bool \<Rightarrow> u64 \<Rightarrow> u64 \<Rightarrow> bytes \<Rightarrow> bytes \<Rightarrow> bool" where
  "pn_delivers E env rctx stripped seq ts wire rest \<longleftrightarrow>
     (\<exists>pr. receive_profinet_parse E env rctx (wire @ rest) (length wire) = Some (Inr pr) \<and>
        pr_seq pr = seq \<and> pr_tx_timestamp pr = ts \<and> \<not> pr_payload_mismatch pr \<and>
        \<not> pr_frame_id_mismatch pr \<and> pr_vlan_tag_missing pr = stripped \<and> pr_logs pr = [])"

lemma wire_of_slot:
  assumes "pn_tx_ok E ctx" "length m = 16" "length body = length (pn_body (conf ctx))"
    and "length t = (if pn_secure ctx then 16 else 0)"
  shows "wire_of st (frame_length (conf ctx)) (pn_header ctx @ pn_fields ctx @ m @ body @ t @ rest) =
         rx_hdr st (l2_destination (conf ctx)) (source ctx) (vlan_tci_of (conf ctx)) ETH_P_PROFINET_RT
           @ pn_fields ctx @ m @ body @ t"
proof -
  have l: "length (l2_destination (conf ctx)) = 6" "length (source ctx) = 6"
    using assms(1) by (simp_all add: pn_tx_ok_def Let_def)
  show ?thesis using pn_lengths(3,4) [OF assms(1)] assms(2-4) l
    by (auto simp: wire_of_def pn_header_def rx_hdr_def split: if_splits)
qed

lemma pn_parse_wire:
  fixes st :: bool
  assumes "pn_tx_ok E ctx" "pn_peer ctx rctx" "length M = 16" "length body = length (pn_body (conf ctx))"
    and "length t = (if pn_secure ctx then 16 else 0)"
  defines "h \<equiv> rx_hdr st (l2_destination (conf ctx)) (source ctx) (vlan_tci_of (conf ctx)) ETH_P_PROFINET_RT"
  shows "rx_check_header (frame_length (conf rctx)) ETH_P_PROFINET_RT (h @ pn_fields ctx @ M @ body @ t @ rest)
      (length (h @ pn_fields ctx @ M @ body @ t)) = Some (Inr (if st then 14 else 18, st))"
proof -
  have l: "length (l2_destination (conf ctx)) = 6" "length (source ctx) = 6"
    using assms(1) by (simp_all add: pn_tx_ok_def Let_def)
  let ?b = "pn_fields ctx @ M @ body @ t"
  have "frame_length (conf rctx) = frame_length (conf ctx)" using assms(2) by (simp add: pn_peer_def Let_def)
  then have n: "frame_length (conf rctx) = 18 + length ?b" "4 \<le> length ?b"
    using pn_lengths(3,4) [OF assms(1)] assms(3-5) by (simp_all split: if_splits)
  have len: "length (h @ ?b) = (if st then 14 else 18) + length ?b" using l by (simp add: h_def)
  show ?thesis
    using rx_check_header_wire [OF l(2,1) _ n(2) len n(1), of ETH_P_PROFINET_RT "vlan_tci_of (conf ctx)" rest]
    by (simp add: h_def)
qed

lemma frame_config_simps [simp]:
  "pf_mode (tc_frame_config clk b i ctx) = security_mode (conf ctx)"
  "pf_security_context (tc_frame_config clk b i ctx) = tx_security_context ctx"
  "pf_iv_prefix (tc_frame_config clk b i ctx) = ptr_bytes (security_iv_prefix (conf ctx))"
  "pf_payload_pattern (tc_frame_config clk b i ctx) = pattern_bytes ctx"
  "pf_payload_pattern_length (tc_frame_config clk b i ctx) = ctx_payload_pattern_length ctx"
  "pf_frame_length (tc_frame_config clk b i ctx) = frame_length (conf ctx)"
  "pf_num_frames_per_cycle (tc_frame_config clk b i ctx) = num_frames_per_cycle (conf ctx)"
  "pf_sequence_counter (tc_frame_config clk b i ctx) = b + of_nat i"
  "pf_tx_timestamp (tc_frame_config clk b i ctx) = clock_ns clk"
  "pf_meta_data_offset (tc_frame_config clk b i ctx) = meta_data_offset ctx"
  "pf_frame_type (tc_frame_config clk b i ctx) = frame_type ctx"
  by (simp_all add: tc_frame_config_def)

text \<open>Preparing a slot and receiving it, in the three modes.\<close>

lemma pn_none_roundtrip:
  assumes ok: "pn_tx_ok E ctx" and sl: "pn_slot ctx sl" and md: "security_mode (conf ctx) = SECURITY_MODE_NONE"
    and sq: "unat (b + of_nat i :: u64) < num_frames_per_cycle (conf ctx) * 2 ^ 32"
  obtains sl' where "prepare_frame_for_tx E (tc_frame_config clk b i ctx) sl = Some (None, sl')" "pn_slot ctx sl'"
    "\<And>env rctx st rest. pn_peer ctx rctx \<Longrightarrow>
       pn_delivers E env rctx st (b + of_nat i) (clock_ns clk) (wire_of st (frame_length (conf ctx)) sl') rest"
proof -
  let ?cfg = "conf ctx" and ?n = "num_frames_per_cycle (conf ctx)"
  let ?M = "meta_bytes (b + of_nat i) ?n (clock_ns clk)" and ?B = "pn_body (conf ctx)"
  have ns: "\<not> pn_secure ctx" using md by (simp add: pn_secure_def)
  obtain m rest where s: "sl = pn_header ctx @ pn_fields ctx @ m @ ?B @ [] @ rest" "length m = 16"
    "length sl = MAX_FRAME_SIZE"
    using sl md ns by (auto simp: pn_slot_def)
  let ?sl = "pn_header ctx @ pn_fields ctx @ ?M @ ?B @ [] @ rest"
  have p: "prepare_frame_for_tx E (tc_frame_config clk b i ctx) sl = Some (None, ?sl)"
    using prepare_none [of "tc_frame_config clk b i ctx" "pn_header ctx @ pn_fields ctx" m E "?B @ rest"]
      md ok ns s(1,2) pn_lengths [OF ok] by (simp add: pn_tx_ok_def Let_def)
  have q: "pn_slot ctx ?sl" unfolding pn_slot_def
    by (intro exI [of _ ?M] exI [of _ ?B] exI [of _ "[]"] exI [of _ rest]) (use s ns in auto)
  have "pn_delivers E env rctx st (b + of_nat i) (clock_ns clk) (wire_of st (frame_length ?cfg) ?sl) rest'"
    if peer: "pn_peer ctx rctx" for env rctx st rest'
  proof -
    let ?h = "rx_hdr st (l2_destination ?cfg) (source ctx) (vlan_tci_of ?cfg) ETH_P_PROFINET_RT"
    have w: "wire_of st (frame_length ?cfg) ?sl = ?h @ pn_fields ctx @ ?M @ ?B @ []"
      by (rule wire_of_slot [OF ok]) (use ns in auto)
    have c: "rx_check_header (frame_length (conf rctx)) ETH_P_PROFINET_RT (?h @ pn_fields ctx @ ?M @ ?B @ [] @ rest')
      (length (?h @ pn_fields ctx @ ?M @ ?B @ [])) = Some (Inr (if st then 14 else 18, st))"
      by (rule pn_parse_wire [OF ok peer]) (use ns in auto)
    have f: "pn_fields ctx = be16_bytes (frame_id rctx)"
      using ns peer by (simp add: pn_fields_def pn_sec_fields_def pn_peer_def Let_def)
    have "length ?h = (if st then 14 else 18)" "num_frames_per_cycle (conf rctx) = ?n" "0 < ?n" "?n \<le> 2 ^ 32"
      "payload_pattern_length (conf rctx) = length (ptr_bytes (payload_pattern (conf rctx)))"
      "?B = ptr_bytes (payload_pattern (conf rctx)) @
         replicate (frame_length ?cfg - 36 - payload_pattern_length ?cfg) 0"
      using ok peer md by (simp_all add: pn_tx_ok_def pn_peer_def Let_def pn_body_def)
    from receive_plain [OF this(1-4) sq this(5,6), of env st "frame_id rctx" "clock_ns clk" rest']
    show ?thesis using c md peer unfolding pn_delivers_def w
      by (auto simp: receive_profinet_parse_def f pn_peer_def Let_def)
  qed
  with p q show thesis by (rule that)
qed

lemma pn_peer_key:
  assumes "pn_peer ctx rctx" "tx_security_context ctx = Some sc"
  obtains sc' where "rx_security_context rctx = Some sc'" "sc_ctx sc' = sc_ctx sc"
  using assms by (auto simp: pn_peer_def Let_def)

lemma pn_ao_roundtrip:
  assumes ok: "pn_tx_ok E ctx" and sl: "pn_slot ctx sl" and md: "security_mode (conf ctx) = SECURITY_MODE_AO"
    and sq: "unat (b + of_nat i :: u64) < num_frames_per_cycle (conf ctx) * 2 ^ 32"
  obtains sl' where "prepare_frame_for_tx E (tc_frame_config clk b i ctx) sl = Some (None, sl')" "pn_slot ctx sl'"
    "\<And>env rctx st rest. pn_peer ctx rctx \<Longrightarrow>
       pn_delivers E env rctx st (b + of_nat i) (clock_ns clk) (wire_of st (frame_length (conf ctx)) sl') rest"
proof -
  let ?cfg = "conf ctx" and ?n = "num_frames_per_cycle (conf ctx)" and ?seq = "b + of_nat i :: u64"
  let ?M = "meta_bytes (b + of_nat i) ?n (clock_ns clk)" and ?B = "pn_body (conf ctx)" and ?f = "pn_fields ctx"
  have se: "pn_secure ctx" using md by (simp add: pn_secure_def)
  obtain sc where sc: "tx_security_context ctx = Some sc" "evp_aead E (sc_ctx sc)"
    using ok se by (auto simp: pn_tx_ok_def Let_def)
  obtain m t rest where s: "sl = pn_header ctx @ ?f @ m @ ?B @ t @ rest" "length m = 16"
    "length t = 16" "length sl = MAX_FRAME_SIZE"
    using sl md se by (auto simp: pn_slot_def)
  obtain iv tag where p: "prepare_iv (ptr_bytes (security_iv_prefix ?cfg)) ?seq = Some iv" "length (take 12 iv) = 12"
    "evp_seal E (sc_ctx sc) (take 12 iv) (?f @ ?M @ ?B) None = Some ([], [], tag)" "length tag = 16"
    "prepare_frame_for_tx E (tc_frame_config clk b i ctx) sl = Some (None, pn_header ctx @ ?f @ ?M @ ?B @ tag @ rest)"
    using prepare_ao [of "tc_frame_config clk b i ctx" sc E "pn_header ctx" ?f m t ?B rest]
      md ok se s sc pn_lengths [OF ok] by (auto simp: pn_tx_ok_def Let_def)
  let ?sl = "pn_header ctx @ ?f @ ?M @ ?B @ tag @ rest"
  have q: "pn_slot ctx ?sl" unfolding pn_slot_def
    by (intro exI [of _ ?M] exI [of _ ?B] exI [of _ tag] exI [of _ rest]) (use s p(4) se in auto)
  have "pn_delivers E env rctx st ?seq (clock_ns clk) (wire_of st (frame_length ?cfg) ?sl) rest'"
    if peer: "pn_peer ctx rctx" for env rctx st rest'
  proof -
    let ?h = "rx_hdr st (l2_destination ?cfg) (source ctx) (vlan_tci_of ?cfg) ETH_P_PROFINET_RT"
    obtain sc' where sc': "rx_security_context rctx = Some sc'" "sc_ctx sc' = sc_ctx sc"
      using pn_peer_key [OF peer sc(1)] by blast
    have w: "wire_of st (frame_length ?cfg) ?sl = ?h @ ?f @ ?M @ ?B @ tag"
      by (rule wire_of_slot [OF ok]) (use se p(4) in auto)
    have c: "rx_check_header (frame_length (conf rctx)) ETH_P_PROFINET_RT (?h @ ?f @ ?M @ ?B @ tag @ rest')
      (length (?h @ ?f @ ?M @ ?B @ tag)) = Some (Inr (if st then 14 else 18, st))"
      by (rule pn_parse_wire [OF ok peer]) (use se p(4) in auto)
    have len: "length (?h @ ?f @ ?M @ ?B @ tag) = (if st then 14 else 18) + 42 + length ?B"
      using ok se p(4) pn_lengths(3) [OF ok] by (simp add: pn_tx_ok_def Let_def)
    have "length ?h = (if st then 14 else 18)" "num_frames_per_cycle (conf rctx) = ?n" "0 < ?n" "?n \<le> 2 ^ 32"
      "payload_pattern_length (conf rctx) = length (ptr_bytes (payload_pattern (conf rctx)))"
      "?B = ptr_bytes (payload_pattern (conf rctx)) @
         replicate (frame_length ?cfg - 60 - payload_pattern_length ?cfg) 0"
      "?f = be16_bytes (frame_id rctx) @ pn_sec_fields ctx" "length (pn_sec_fields ctx) = 8"
      "prepare_iv (ptr_bytes (security_iv_prefix (conf rctx))) ?seq = Some iv"
      "evp_aead E (sc_ctx sc')" "evp_seal E (sc_ctx sc') (take 12 iv) (?f @ ?M @ ?B) None = Some ([], [], tag)"
      using ok peer md se p sc sc' pn_lengths [OF ok]
      by (simp_all add: pn_tx_ok_def pn_peer_def Let_def pn_body_def pn_fields_def)
    from receive_ao [OF this(1-4) sq this(5-8) sc'(1) this(10,9) p(2) this(11) p(4) len, of env st rest']
    show ?thesis using c md peer unfolding pn_delivers_def w
      by (auto simp: receive_profinet_parse_def pn_peer_def Let_def)
  qed
  with p(5) q show thesis by (rule that)
qed

text \<open>With encryption the plaintext is read behind \<^verbatim>\<open>ctx->payload_pattern\<close>.\<close>

lemma pn_ae_roundtrip:
  assumes ok: "pn_tx_ok E ctx" and sl: "pn_slot ctx sl" and md: "security_mode (conf ctx) = SECURITY_MODE_AE"
    and sq: "unat (b + of_nat i :: u64) < num_frames_per_cycle (conf ctx) * 2 ^ 32"
    and pt: "mem_read 0 (ctx_payload_pattern_length ctx) (pattern_bytes ctx) = Some (pn_body (conf ctx))"
  obtains sl' where "prepare_frame_for_tx E (tc_frame_config clk b i ctx) sl = Some (None, sl')" "pn_slot ctx sl'"
    "\<And>env rctx st rest. pn_peer ctx rctx \<Longrightarrow> length (re_stack_plaintext env) = MAX_FRAME_SIZE \<Longrightarrow>
       pn_delivers E env rctx st (b + of_nat i) (clock_ns clk) (wire_of st (frame_length (conf ctx)) sl') rest"
proof -
  let ?cfg = "conf ctx" and ?n = "num_frames_per_cycle (conf ctx)" and ?seq = "b + of_nat i :: u64"
  let ?M = "meta_bytes (b + of_nat i) ?n (clock_ns clk)" and ?B = "pn_body (conf ctx)" and ?f = "pn_fields ctx"
  have se: "pn_secure ctx" using md by (simp add: pn_secure_def)
  obtain sc where sc: "tx_security_context ctx = Some sc" "evp_aead E (sc_ctx sc)"
    using ok se by (auto simp: pn_tx_ok_def Let_def)
  obtain m body t rest where s: "sl = pn_header ctx @ ?f @ m @ body @ t @ rest" "length m = 16"
    "length t = 16" "length sl = MAX_FRAME_SIZE" "length body = length ?B"
    using sl md se by (auto simp: pn_slot_def)
  obtain iv ct tag where p: "prepare_iv (ptr_bytes (security_iv_prefix ?cfg)) ?seq = Some iv" "length (take 12 iv) = 12"
    "evp_seal E (sc_ctx sc) (take 12 iv) (?f @ ?M) (Some ?B) = Some (ct, [], tag)" "length tag = 16"
    "length ct = length ?B"
    "prepare_frame_for_tx E (tc_frame_config clk b i ctx) sl = Some (None, pn_header ctx @ ?f @ ?M @ ct @ tag @ rest)"
    using prepare_ae [of "tc_frame_config clk b i ctx" sc E "pn_header ctx" ?f m t body ?B rest]
      md ok se s sc pt pn_lengths [OF ok] by (auto simp: pn_tx_ok_def Let_def)
  let ?sl = "pn_header ctx @ ?f @ ?M @ ct @ tag @ rest"
  have q: "pn_slot ctx ?sl" unfolding pn_slot_def
    by (intro exI [of _ ?M] exI [of _ ct] exI [of _ tag] exI [of _ rest]) (use s p(4,5) se md in auto)
  have "pn_delivers E env rctx st ?seq (clock_ns clk) (wire_of st (frame_length ?cfg) ?sl) rest'"
    if peer: "pn_peer ctx rctx" and stk: "length (re_stack_plaintext env) = MAX_FRAME_SIZE" for env rctx st rest'
  proof -
    let ?h = "rx_hdr st (l2_destination ?cfg) (source ctx) (vlan_tci_of ?cfg) ETH_P_PROFINET_RT"
    obtain sc' where sc': "rx_security_context rctx = Some sc'" "sc_ctx sc' = sc_ctx sc"
      using pn_peer_key [OF peer sc(1)] by blast
    obtain pt' where pt': "context_pattern rctx = Some (Some pt')" "length pt' = length ct"
      using peer md se p(5) pn_lengths(4) [OF ok] by (auto simp: pn_peer_def Let_def)
    have w: "wire_of st (frame_length ?cfg) ?sl = ?h @ ?f @ ?M @ ct @ tag"
      by (rule wire_of_slot [OF ok]) (use se p(4,5) in auto)
    have c: "rx_check_header (frame_length (conf rctx)) ETH_P_PROFINET_RT (?h @ ?f @ ?M @ ct @ tag @ rest')
      (length (?h @ ?f @ ?M @ ct @ tag)) = Some (Inr (if st then 14 else 18, st))"
      by (rule pn_parse_wire [OF ok peer]) (use se p(4,5) in auto)
    have len: "length (?h @ ?f @ ?M @ ct @ tag) = (if st then 14 else 18) + 42 + length ct"
      using ok se p(4) pn_lengths(3) [OF ok] by (simp add: pn_tx_ok_def Let_def)
    have "length ct \<le> length (re_stack_plaintext env)"
      using stk p(5) pn_lengths(4) [OF ok] ok by (simp add: pn_tx_ok_def Let_def)
    moreover have "length ?h = (if st then 14 else 18)" "num_frames_per_cycle (conf rctx) = ?n" "0 < ?n" "?n \<le> 2 ^ 32"
      "payload_pattern_length (conf rctx) = length (ptr_bytes (payload_pattern (conf rctx)))"
      "?B = ptr_bytes (payload_pattern (conf rctx)) @
         replicate (frame_length ?cfg - 60 - payload_pattern_length ?cfg) 0"
      "?f = be16_bytes (frame_id rctx) @ pn_sec_fields ctx" "length (pn_sec_fields ctx) = 8"
      "prepare_iv (ptr_bytes (security_iv_prefix (conf rctx))) ?seq = Some iv"
      "evp_aead E (sc_ctx sc')" "evp_seal E (sc_ctx sc') (take 12 iv) (?f @ ?M) (Some ?B) = Some (ct, [], tag)"
      using ok peer md se p sc sc' pn_lengths [OF ok]
      by (simp_all add: pn_tx_ok_def pn_peer_def Let_def pn_body_def pn_fields_def)
    note receive_ae [OF this(1-4) sq this(5-8) sc'(1) this(10,9) p(2) this(11) p(4,5) len pt' calculation,
      of st rest']
    then show ?thesis using c md peer unfolding pn_delivers_def w
      by (auto simp: receive_profinet_parse_def pn_peer_def Let_def)
  qed
  with p(6) q show thesis by (rule that)
qed

text \<open>The plaintext source of the encrypting mode, once the copy of the template is there.\<close>

definition pn_plaintext_ok :: "'c thread_context \<Rightarrow> bool" where
  "pn_plaintext_ok ctx \<longleftrightarrow> security_mode (conf ctx) = SECURITY_MODE_AE \<longrightarrow>
     mem_read 0 (ctx_payload_pattern_length ctx) (pattern_bytes ctx) = Some (pn_body (conf ctx))"

lemma pn_slot_roundtrip:
  assumes "pn_tx_ok E ctx" "pn_plaintext_ok ctx" "pn_slot ctx sl"
    and "unat (b + of_nat i :: u64) < num_frames_per_cycle (conf ctx) * 2 ^ 32"
  shows "\<exists>sl'. prepare_frame_for_tx E (tc_frame_config clk b i ctx) sl = Some (None, sl') \<and> pn_slot ctx sl' \<and>
    (\<forall>env rctx st rest. pn_peer ctx rctx \<longrightarrow> length (re_stack_plaintext env) = MAX_FRAME_SIZE \<longrightarrow>
       pn_delivers E env rctx st (b + of_nat i) (clock_ns clk) (wire_of st (frame_length (conf ctx)) sl') rest)"
proof (cases "security_mode (conf ctx)")
  case SECURITY_MODE_NONE
  show ?thesis using pn_none_roundtrip [OF assms(1,3) SECURITY_MODE_NONE assms(4)] by metis
next
  case SECURITY_MODE_AO
  show ?thesis using pn_ao_roundtrip [OF assms(1,3) SECURITY_MODE_AO assms(4)] by metis
next
  case SECURITY_MODE_AE
  then show ?thesis
    using pn_ae_roundtrip [OF assms(1,3) SECURITY_MODE_AE assms(4)] assms(2) unfolding pn_plaintext_ok_def by metis
qed

lemma unat_add_of_nat:
  assumes "unat b + i < 2 ^ 64"
  shows "unat (b + of_nat i :: u64) = unat b + i"
proof -
  have "unat (of_nat i :: u64) = i" using assms by (simp add: unat_of_nat_small)
  then show ?thesis using assms by (subst unat_plus_simple [THEN iffD1]) (simp_all add: no_olen_add_nat)
qed

lemma pn_prepare_cycle:
  assumes "pn_tx_ok E ctx" "pn_plaintext_ok ctx"
    and "length buf = num_frames_per_cycle (conf ctx) * MAX_FRAME_SIZE"
    and "\<forall>i < num_frames_per_cycle (conf ctx). pn_slot ctx (slot MAX_FRAME_SIZE i buf)"
    and "unat b + num_frames_per_cycle (conf ctx) \<le> num_frames_per_cycle (conf ctx) * 2 ^ 32"
  shows "\<exists>buf'. tc_prepare_frames E clk b ctx buf = Some (buf', 0) \<and> length buf' = length buf \<and>
    (\<forall>i < num_frames_per_cycle (conf ctx). pn_slot ctx (slot MAX_FRAME_SIZE i buf') \<and>
       (\<forall>env rctx st rest. pn_peer ctx rctx \<longrightarrow> length (re_stack_plaintext env) = MAX_FRAME_SIZE \<longrightarrow>
          pn_delivers E env rctx st (b + of_nat i) (clock_ns clk)
            (wire_of st (frame_length (conf ctx)) (slot MAX_FRAME_SIZE i buf')) rest))"
proof -
  let ?n = "num_frames_per_cycle (conf ctx)"
  let ?f = "\<lambda>i r. case prepare_frame_for_tx E (tc_frame_config clk b i ctx) r of
      Some (None, r') \<Rightarrow> Some r' | _ \<Rightarrow> None"
  let ?Q = "\<lambda>i r. pn_slot ctx r \<and>
       (\<forall>env rctx st rest. pn_peer ctx rctx \<longrightarrow> length (re_stack_plaintext env) = MAX_FRAME_SIZE \<longrightarrow>
          pn_delivers E env rctx st (b + of_nat i) (clock_ns clk) (wire_of st (frame_length (conf ctx)) r) rest)"
  have sq: "unat (b + of_nat i) < ?n * 2 ^ 32" if "i < ?n" for i
  proof -
    have "?n \<le> 2 ^ 32" using assms(1) by (simp add: pn_tx_ok_def Let_def)
    then have "?n * 2 ^ 32 \<le> 2 ^ 64" using mult_right_mono [of ?n "2 ^ 32" "2 ^ 32"] by simp
    then show ?thesis using that assms(5) by (subst unat_add_of_nat) simp_all
  qed
  have step: "\<exists>r'. prepare_frame_for_tx E (tc_frame_config clk b i ctx) r = Some (None, r') \<and> ?Q i r'"
    if "i < ?n" "pn_slot ctx r" for i r
    using pn_slot_roundtrip [OF assms(1,2) that(2) sq [OF that(1)]] by blast
  have "\<exists>buf'. for_upto ?n (\<lambda>i (buf, errs). do {
          slot \<leftarrow> mem_read (i * MAX_FRAME_SIZE) MAX_FRAME_SIZE buf;
          (err, slot) \<leftarrow> prepare_frame_for_tx E (tc_frame_config clk b i ctx) slot;
          buf \<leftarrow> mem_write (i * MAX_FRAME_SIZE) slot buf;
          Some (buf, if err = None then errs else Suc errs)
        }) (buf, 0 :: nat) = Some (buf', 0) \<and>
      length buf' = ?n * MAX_FRAME_SIZE \<and> (\<forall>i < ?n. ?Q i (slot MAX_FRAME_SIZE i buf'))"
  proof (rule slots_loop [where P = "\<lambda>_. pn_slot ctx" and f = ?f and g = "\<lambda>b. (b, 0 :: nat)"])
    fix i r assume i: "i < ?n" and "pn_slot ctx r"
    from step [OF this] obtain r' where "prepare_frame_for_tx E (tc_frame_config clk b i ctx) r = Some (None, r')" "?Q i r'"
      by blast
    moreover from this have "length r' = MAX_FRAME_SIZE" by (auto simp: pn_slot_def)
    ultimately show "\<exists>r'. ?f i r = Some r' \<and> length r' = MAX_FRAME_SIZE \<and> ?Q i r'"
      by (intro exI [of _ r'] conjI) auto
  next
    fix i bb r r' assume "mem_read (i * MAX_FRAME_SIZE) MAX_FRAME_SIZE bb = Some r" "?f i r = Some r'"
    then show "(case (bb, 0) of (buf, errs) \<Rightarrow> do {
          slot \<leftarrow> mem_read (i * MAX_FRAME_SIZE) MAX_FRAME_SIZE buf;
          (err, slot) \<leftarrow> prepare_frame_for_tx E (tc_frame_config clk b i ctx) slot;
          buf \<leftarrow> mem_write (i * MAX_FRAME_SIZE) slot buf;
          Some (buf, if err = None then errs else Suc errs)
        }) = map_option (\<lambda>b. (b, 0 :: nat)) (mem_write (i * MAX_FRAME_SIZE) r' bb)"
      by (cases "mem_write (i * MAX_FRAME_SIZE) r' bb") (auto split: option.splits)
  qed (use assms in auto)
  then show ?thesis using assms(3) by (auto simp: tc_prepare_frames_def)
qed

text \<open>The transmit buffer after some cycles of the generating thread, which numbers its
  frames consecutively from 0.\<close>

inductive tx_buffer :: "('c, 's) evp \<Rightarrow> 'c thread_context \<Rightarrow> nat \<Rightarrow> bytes \<Rightarrow> bool" for E ctx where
  start: "tx_buffer E ctx 0 (tx_frame_data ctx)"
| cycle: "tx_buffer E ctx k buf \<Longrightarrow>
    tc_prepare_frames E clk (of_nat (k * num_frames_per_cycle (conf ctx))) ctx buf = Some (buf', errs) \<Longrightarrow>
    tx_buffer E ctx (Suc k) buf'"

inductive_cases tx_buffer_SucE: "tx_buffer E ctx (Suc k) buf"

lemma first_number:
  fixes n k :: nat
  assumes "k < 2 ^ 32" "n \<le> 2 ^ 32"
  shows "unat (of_nat (k * n) :: u64) = k * n" "unat (of_nat (k * n) :: u64) + n \<le> n * 2 ^ 32"
proof -
  have a: "k * n + n \<le> 2 ^ 32 * n" using mult_right_mono [of "Suc k" "2 ^ 32" n] assms(1) by simp
  have "k * n < 2 ^ 64"
  proof (cases n)
    case (Suc m)
    then have "k * n < 2 ^ 32 * n" using assms(1) by (intro mult_strict_right_mono) simp_all
    moreover have "2 ^ 32 * n \<le> 2 ^ 64" using mult_left_mono [OF assms(2), of "2 ^ 32"] by simp
    ultimately show ?thesis by (rule less_le_trans)
  qed simp
  then show b: "unat (of_nat (k * n) :: u64) = k * n" by (rule unat_of_nat_small)
  show "unat (of_nat (k * n) :: u64) + n \<le> n * 2 ^ 32" using a unfolding b by (simp add: mult.commute)
qed

lemma tx_buffer_slots:
  assumes "tx_buffer E ctx k buf" "k \<le> 2 ^ 32" "pn_tx_ok E ctx" "pn_plaintext_ok ctx"
    and "\<forall>i < num_frames_per_cycle (conf ctx). pn_slot ctx (slot MAX_FRAME_SIZE i (tx_frame_data ctx))"
  shows "length buf = num_frames_per_cycle (conf ctx) * MAX_FRAME_SIZE \<and>
    (\<forall>i < num_frames_per_cycle (conf ctx). pn_slot ctx (slot MAX_FRAME_SIZE i buf))"
  using assms(1,2)
proof (induction rule: tx_buffer.induct)
  case start
  then show ?case using assms(3,5) by (simp add: pn_tx_ok_def Let_def)
next
  case (cycle k buf clk buf' errs)
  have n: "num_frames_per_cycle (conf ctx) \<le> 2 ^ 32" using assms(3) by (simp add: pn_tx_ok_def Let_def)
  have k: "k < 2 ^ 32" using cycle.prems by simp
  then show ?case
    using pn_prepare_cycle [OF assms(3,4) _ _ first_number(2) [OF k n], of buf clk] cycle.IH cycle.hyps(2) by force
qed

lemma tsn_initialize_frame_ctx [simp]:
  "tsn_initialize_frame (ctx\<lparr>tx_frame_data := x\<rparr>) = tsn_initialize_frame ctx"
  by (simp add: tsn_initialize_frame_def fun_eq_iff)

lemma pn_templates:
  assumes "pn_tx_ok E ctx" "tc_frame_shift md B (conf ctx) = 0" "length buf = n * MAX_FRAME_SIZE"
  shows "\<exists>buf'. tc_initialize_frames md B tsn_initialize_frame ctx buf n (source ctx) (l2_destination (conf ctx)) = Some buf' \<and>
    length buf' = n * MAX_FRAME_SIZE \<and> (\<forall>i < n. pn_slot ctx (slot MAX_FRAME_SIZE i buf') \<and>
      (pn_secure ctx \<longrightarrow> take (frame_length (conf ctx) - 60) (drop 44 (slot MAX_FRAME_SIZE i buf')) = pn_body (conf ctx)))"
proof -
  let ?f = "\<lambda>r. tsn_initialize_frame ctx r MAX_FRAME_SIZE (source ctx) (l2_destination (conf ctx))"
  let ?Q = "\<lambda>r. pn_slot ctx r \<and>
      (pn_secure ctx \<longrightarrow> take (frame_length (conf ctx) - 60) (drop 44 r) = pn_body (conf ctx))"
  have "\<exists>buf'. for_upto n (\<lambda>i. on_region (i * MAX_FRAME_SIZE) MAX_FRAME_SIZE ?f) buf = Some buf' \<and>
      length buf' = n * MAX_FRAME_SIZE \<and> (\<forall>i < n. ?Q (slot MAX_FRAME_SIZE i buf'))"
  proof (rule slots_loop [where P = "\<lambda>_ _. True" and f = "\<lambda>_. ?f" and g = "\<lambda>b. b" and Q = "\<lambda>_. ?Q"])
    fix i r assume "length (r :: bytes) = MAX_FRAME_SIZE"
    from tsn_template [OF assms(1) this] obtain m t rest
      where t: "?f r = Some (pn_header ctx @ pn_fields ctx @ m @ pn_body (conf ctx) @ t @ rest)" "length m = 16"
        "length t = (if pn_secure ctx then 16 else 0)" "length rest = MAX_FRAME_SIZE - frame_length (conf ctx)" by blast
    let ?r = "pn_header ctx @ pn_fields ctx @ m @ pn_body (conf ctx) @ t @ rest"
    have "pn_slot ctx ?r \<and> length ?r = MAX_FRAME_SIZE"
      by (rule pn_slotI [OF assms(1) t(2,3) _ t(4)]) simp_all
    moreover have "pn_secure ctx \<longrightarrow> take (frame_length (conf ctx) - 60) (drop 44 ?r) = pn_body (conf ctx)"
      using pn_lengths [OF assms(1)] t(2) by auto
    ultimately show "\<exists>r'. ?f r = Some r' \<and> length r' = MAX_FRAME_SIZE \<and> ?Q r'" using t(1) by blast
  qed (use assms(3) in \<open>auto simp: on_region_def option.map_ident\<close>)
  then show ?thesis by (simp add: tc_initialize_frames_def assms(2) Let_def)
qed

lemma prepare_openssl_total:
  assumes "evp_bounded E"
  shows "\<exists>d. prepare_openssl E c = Some d"
proof (cases c)
  case (Some sc)
  let ?iv = "str_bytes ''012345678901'' @ [0]"
  obtain r d where e: "security_encrypt E sc None (take (2048 - 16) ((5 :: u8) # replicate 2047 0)) ?iv 0 (2048 - 16)
      (5 # replicate 2047 0) = Some (r, d)"
    using security_encrypt_total [OF assms, of "2048 - 16" "5 # replicate 2047 0" None] by fastforce
  obtain r' d' where "security_decrypt E sc None (take (2048 - 16) d) (drop (2048 - 16) d) ?iv [] = Some (r', d')"
    using security_decrypt_total [OF assms, of None "[]"] by fastforce
  then show ?thesis using e Some by (simp add: prepare_openssl_def Let_def del: take_Cons_numeral)
qed (simp add: prepare_openssl_def Let_def)

section \<open>Properties\<close>

lemma pn_start:
  assumes "pn_tx_ok E ctx" "evp_bounded E" "tc_frame_shift md B (conf ctx) = 0" "speed \<noteq> 0"
  obtains duration wakeup ctx' where
    "tc_tx_thread_start md B app E tsn_initialize_frame (Some speed) True (Some now) ctx =
       Some (Some (duration, wakeup, ctx'))"
    "pn_tx_ok E ctx'" "pn_plaintext_ok ctx'" "conf ctx' = conf ctx" "\<And>rctx. pn_peer ctx' rctx = pn_peer ctx rctx"
    "\<forall>i < num_frames_per_cycle (conf ctx). pn_slot ctx' (slot MAX_FRAME_SIZE i (tx_frame_data ctx'))"
proof -
  let ?n = "num_frames_per_cycle (conf ctx)"
  obtain d where d: "tx_time_get_frame_duration speed (frame_length (conf ctx)) = Some d"
    using assms(4) by (simp add: tx_time_get_frame_duration_def)
  obtain wk where wk: "get_thread_start_time app (Some now) (application_tx_base_offset_ns app) = Inr wk"
    by (cases "application_base_start_time_ns app = 0") (simp_all add: get_thread_start_time_def)
  obtain copy where copy: "frame_copy ctx = Some copy" "length copy = 1 * MAX_FRAME_SIZE"
    using assms(1) by (auto simp: pn_tx_ok_def Let_def)
  obtain tx where tx: "tc_initialize_frames md B tsn_initialize_frame ctx (tx_frame_data ctx) ?n (source ctx)
      (l2_destination (conf ctx)) = Some tx" "length tx = ?n * MAX_FRAME_SIZE"
    "\<forall>i < ?n. pn_slot ctx (slot MAX_FRAME_SIZE i tx)"
    using pn_templates [OF assms(1,3), of "tx_frame_data ctx" ?n] assms(1) by (auto simp: pn_tx_ok_def Let_def)
  obtain cp where cp: "tc_initialize_frames md B tsn_initialize_frame ctx copy 1 (source ctx)
      (l2_destination (conf ctx)) = Some cp" "length cp = MAX_FRAME_SIZE"
    "pn_secure ctx \<Longrightarrow> take (frame_length (conf ctx) - 60) (drop 44 cp) = pn_body (conf ctx)"
    using pn_templates [OF assms(1,3) copy(2)] by (auto simp: slot_def)
  have ssl: "\<exists>x. prepare_openssl E (tx_security_context ctx) = Some x" by (rule prepare_openssl_total [OF assms(2)])
  let ?ctx = "ctx\<lparr>tx_frame_data := tx, frame_copy := Some cp\<rparr>"
  have i: "tc_initialize_frames md B tsn_initialize_frame (ctx\<lparr>tx_frame_data := tx\<rparr>) =
      tc_initialize_frames md B tsn_initialize_frame ctx"
    by (simp add: tc_initialize_frames_def fun_eq_iff)
  have "tc_tx_thread_start md B app E tsn_initialize_frame (Some speed) True (Some now) ctx = Some (Some (d, wk, ?ctx))"
    using d wk copy(1) tx(1) cp(1) ssl by (auto simp: tc_tx_thread_start_def Let_def i)
  moreover have "pn_tx_ok E ?ctx" using assms(1) tx(2) cp(2) by (simp add: pn_tx_ok_def Let_def pn_secure_def)
  moreover have "pn_plaintext_ok ?ctx"
  proof (cases "security_mode (conf ctx) = SECURITY_MODE_AE")
    case True
    then have "ctx_payload_pattern ctx = Some 44" "ctx_payload_pattern_length ctx + 60 = frame_length (conf ctx)"
      "frame_length (conf ctx) \<le> MAX_FRAME_SIZE" "pn_secure ctx"
      using assms(1) by (simp_all add: pn_tx_ok_def Let_def pn_secure_def)
    moreover from this have "ctx_payload_pattern_length ctx = frame_length (conf ctx) - 60" by simp
    ultimately show ?thesis using cp(2,3) by (simp add: pn_plaintext_ok_def pattern_bytes_def)
  qed (simp add: pn_plaintext_ok_def)
  moreover have "pn_peer ?ctx rctx = pn_peer ctx rctx" for rctx by (simp add: pn_peer_def)
  moreover have "pn_slot ?ctx = pn_slot ctx"
    by (simp add: pn_slot_def fun_eq_iff pn_header_def pn_fields_def pn_sec_fields_def pn_secure_def)
  ultimately show thesis using that tx(3) by simp
qed

text \<open>C1. From template to receiver: the transmit thread of a PROFINET class comes up,
  and in each of the first \<open>2\<^sup>3\<^sup>2\<close> cycles every slot is prepared without an error and
  arrives at a receiver with the same configuration and key, whole or with the VLAN tag
  stripped by the card and whatever follows it in the receive buffer, as the
  frame with the consecutive number and the time stamp of the cycle: no payload,
  frame id or authentication complaint, in all three security modes.\<close>

theorem profinet_end_to_end:
  assumes "pn_tx_ok E ctx" "evp_bounded E" "tc_frame_shift md B (conf ctx) = 0" "speed \<noteq> 0"
  shows "\<exists>duration wakeup ctx'.
    tc_tx_thread_start md B app E tsn_initialize_frame (Some speed) True (Some now) ctx =
      Some (Some (duration, wakeup, ctx')) \<and>
    (\<forall>k buf clk. tx_buffer E ctx' k buf \<longrightarrow> k < 2 ^ 32 \<longrightarrow>
       (\<exists>buf'. tc_prepare_frames E clk (of_nat (k * num_frames_per_cycle (conf ctx))) ctx' buf = Some (buf', 0) \<and>
          (\<forall>i env rctx st rest. i < num_frames_per_cycle (conf ctx) \<longrightarrow> pn_peer ctx rctx \<longrightarrow>
             length (re_stack_plaintext env) = MAX_FRAME_SIZE \<longrightarrow>
             pn_delivers E env rctx st (of_nat (k * num_frames_per_cycle (conf ctx)) + of_nat i) (clock_ns clk)
               (wire_of st (frame_length (conf ctx)) (slot MAX_FRAME_SIZE i buf')) rest)))"
proof -
  obtain duration wakeup ctx' where s:
    "tc_tx_thread_start md B app E tsn_initialize_frame (Some speed) True (Some now) ctx =
       Some (Some (duration, wakeup, ctx'))"
    "pn_tx_ok E ctx'" "pn_plaintext_ok ctx'" "conf ctx' = conf ctx" "\<And>rctx. pn_peer ctx' rctx = pn_peer ctx rctx"
    "\<forall>i < num_frames_per_cycle (conf ctx). pn_slot ctx' (slot MAX_FRAME_SIZE i (tx_frame_data ctx'))"
    using pn_start [OF assms] by blast
  have n: "num_frames_per_cycle (conf ctx') \<le> 2 ^ 32" using s(2) by (simp add: pn_tx_ok_def Let_def)
  have "\<exists>buf'. tc_prepare_frames E clk (of_nat (k * num_frames_per_cycle (conf ctx))) ctx' buf = Some (buf', 0) \<and>
          (\<forall>i env rctx st rest. i < num_frames_per_cycle (conf ctx) \<longrightarrow> pn_peer ctx rctx \<longrightarrow>
             length (re_stack_plaintext env) = MAX_FRAME_SIZE \<longrightarrow>
             pn_delivers E env rctx st (of_nat (k * num_frames_per_cycle (conf ctx)) + of_nat i) (clock_ns clk)
               (wire_of st (frame_length (conf ctx)) (slot MAX_FRAME_SIZE i buf')) rest)"
    if "tx_buffer E ctx' k buf" "k < 2 ^ 32" for k buf clk
    using tx_buffer_slots [OF that(1) less_imp_le [OF that(2)] s(2,3)] s(6)
      pn_prepare_cycle [OF s(2,3) _ _ first_number(2) [OF that(2) n], of buf clk] unfolding s(4,5) by blast
  then show ?thesis using s(1) by blast
qed

definition demo_tx_context :: "bytes thread_context" where
  "demo_tx_context = demo_pn_context\<lparr>tx_frame_data := replicate 8192 0, meta_data_offset := 28\<rparr>"

definition demo_build :: build where
  "demo_build = \<lparr>HAVE_BUSY_POLL = False, WITH_MQTT = False, HAVE_XDP_TX_TIME = True, RX_TIMESTAMP = True, TX_TIMESTAMP = True\<rparr>"

lemma demo_tx_ok: "pn_tx_ok demo_evp demo_tx_context"
  using demo_evp_aead
  by (simp add: pn_tx_ok_def pn_secure_def demo_tx_context_def demo_pn_context_def demo_pn_config_def fresh_context_def
      zero_class_config_def ptr_bytes_def str_bytes_def Let_def)

lemma demo_peer: "pn_peer demo_tx_context demo_pn_context"
  by (simp add: pn_peer_def demo_tx_context_def demo_pn_context_def demo_pn_config_def context_pattern_def
      fresh_context_def Let_def)

lemma demo_tx_sizes:
  "num_frames_per_cycle (conf demo_tx_context) = 2" "frame_length (conf demo_tx_context) = 200"
  "tc_frame_shift 32 demo_build (conf demo_tx_context) = 0" "length (re_stack_plaintext demo_env) = MAX_FRAME_SIZE"
  by (simp_all add: demo_tx_context_def demo_pn_context_def demo_pn_config_def fresh_context_def zero_class_config_def
      tc_frame_shift_def demo_env_def)

theorem profinet_end_to_end_witness:
  "\<exists>duration wakeup ctx' buf'.
     tc_tx_thread_start 32 demo_build zero_app_config demo_evp tsn_initialize_frame (Some 1000) True
       (Some \<lparr>tv_sec = 7, tv_nsec = 0\<rparr>) demo_tx_context = Some (Some (duration, wakeup, ctx')) \<and>
     tc_prepare_frames demo_evp (Some \<lparr>tv_sec = 8, tv_nsec = 0\<rparr>) 0 ctx' (tx_frame_data ctx') = Some (buf', 0) \<and>
     pn_delivers demo_evp demo_env demo_pn_context True 1 (clock_ns (Some \<lparr>tv_sec = 8, tv_nsec = 0\<rparr>))
       (wire_of True 200 (slot MAX_FRAME_SIZE 1 buf')) []"
proof -
  obtain duration wakeup ctx' where s:
    "tc_tx_thread_start 32 demo_build zero_app_config demo_evp tsn_initialize_frame (Some 1000) True
       (Some \<lparr>tv_sec = 7, tv_nsec = 0\<rparr>) demo_tx_context = Some (Some (duration, wakeup, ctx'))"
    "\<forall>k buf clk. tx_buffer demo_evp ctx' k buf \<longrightarrow> k < 2 ^ 32 \<longrightarrow>
       (\<exists>buf'. tc_prepare_frames demo_evp clk (of_nat (k * 2)) ctx' buf = Some (buf', 0) \<and>
          (\<forall>i env rctx st rest. i < 2 \<longrightarrow> pn_peer demo_tx_context rctx \<longrightarrow>
             length (re_stack_plaintext env) = MAX_FRAME_SIZE \<longrightarrow>
             pn_delivers demo_evp env rctx st (of_nat (k * 2) + of_nat i) (clock_ns clk)
               (wire_of st 200 (slot MAX_FRAME_SIZE i buf')) rest))"
    using profinet_end_to_end [OF demo_tx_ok demo_evp_bounded demo_tx_sizes(3), of 1000 zero_app_config
        "\<lparr>tv_sec = 7, tv_nsec = 0\<rparr>"] unfolding demo_tx_sizes(1,2) by auto
  let ?clk = "Some \<lparr>tv_sec = 8, tv_nsec = 0\<rparr>"
  have "\<exists>buf'. tc_prepare_frames demo_evp ?clk (of_nat (0 * 2)) ctx' (tx_frame_data ctx') = Some (buf', 0) \<and>
      (\<forall>i env rctx st rest. i < 2 \<longrightarrow> pn_peer demo_tx_context rctx \<longrightarrow>
         length (re_stack_plaintext env) = MAX_FRAME_SIZE \<longrightarrow>
         pn_delivers demo_evp env rctx st (of_nat (0 * 2) + of_nat i) (clock_ns ?clk)
           (wire_of st 200 (slot MAX_FRAME_SIZE i buf')) rest)"
    by (rule s(2) [rule_format, OF tx_buffer.start]) simp
  then obtain buf' where b: "tc_prepare_frames demo_evp ?clk (of_nat (0 * 2)) ctx' (tx_frame_data ctx') = Some (buf', 0)"
    and d: "\<And>i env rctx st rest. i < 2 \<Longrightarrow> pn_peer demo_tx_context rctx \<Longrightarrow>
         length (re_stack_plaintext env) = MAX_FRAME_SIZE \<Longrightarrow>
         pn_delivers demo_evp env rctx st (of_nat (0 * 2) + of_nat i) (clock_ns ?clk)
           (wire_of st 200 (slot MAX_FRAME_SIZE i buf')) rest" by blast
  have "pn_delivers demo_evp demo_env demo_pn_context True (of_nat (0 * 2) + of_nat 1) (clock_ns ?clk)
       (wire_of True 200 (slot MAX_FRAME_SIZE 1 buf')) []"
    by (rule d [OF _ demo_peer demo_tx_sizes(4)]) simp
  then show ?thesis using s(1) b by (intro exI [of _ duration] exI [of _ wakeup] exI [of _ ctx'] exI [of _ buf']) simp
qed

end
