(* ===== verification/TB_Xdp_Props.thy ===== *)
theory TB_Xdp_Props
  imports TB_Xdp TB_Tc_Props
begin

text \<open>
  Properties of the AF_XDP code: opening and closing a socket, agreement of the two
  ways completions are counted, the frames put into the transmit ring, and the way
  of the frame addresses around the rings.
\<close>

section \<open>Opening and closing\<close>

lemma release_simps [simp]:
  "release [] held = held" "release (r # rs) held = release rs (remove1 r held)"
  by (simp_all add: release_def)

lemma umem_create_cases:
  "xdp_umem_create m c tt th xsk =
     (if m \<and> c = None
      then (None, xsk\<lparr>umem := replicate (2 * XDP_NUM_DESCS * XDP_FRAME_SIZE) 0, tx_time_mode := tt, tx_hwtstamp_mode := th\<rparr>,
            [XR_umem, XR_umem_buffer])
      else (if m then c else Some ENOMEM, xsk, []))"
  by (auto simp: xdp_umem_create_def split: option.split)

lemma prog_init_cases:
  "xdp_prog_init po nm g = (ret, g', held) \<Longrightarrow>
     (ret = None \<and> xi_initialized g' = xi_initialized g + 1 \<and>
        (held = [] \<and> xi_initialized g > 0 \<and> xi_prog g' = xi_prog g \<or>
         (\<exists>p. held = [XR_prog_open p, XR_prog_attached p] \<and> xi_initialized g = 0 \<and> xi_prog g' = Some p))) \<or>
     (ret = Some EINVAL \<and> xi_initialized g' = xi_initialized g \<and>
        (held = [] \<or> xi_initialized g = 0 \<and> ((\<exists>e. po_attach po = Some e) \<or> po_map_fd po < 0)))"
  by (auto simp: xdp_prog_init_def Let_def split: if_splits option.splits)

lemma prog_exit_counter: "xi_initialized (fst (xdp_prog_exit i g)) = xi_initialized g - 1"
  by (simp add: xdp_prog_exit_def Let_def)

lemma prog_exit_closed:
  "i \<noteq> 0 \<Longrightarrow> snd (xdp_prog_exit i g) =
     (if xi_initialized g - 1 = 0 then (case xi_prog g of None \<Rightarrow> [] | Some p \<Rightarrow> [XR_prog_attached p, XR_prog_open p]) else [])"
  by (simp add: xdp_prog_exit_def Let_def)

text \<open>What is held after the program was set up, and given back by its counterpart.\<close>

lemma prog_init_exit:
  assumes "xdp_prog_init po nm g = (None, g', held)" "i \<noteq> 0"
  shows "release (snd (xdp_prog_exit i g')) (XR_socket_memory # held) = [XR_socket_memory]"
    and "release (snd (xdp_prog_exit i g')) (XR_umem_buffer # XR_socket_memory # held) = [XR_umem_buffer, XR_socket_memory]"
  using prog_init_cases [OF assms(1)] assms(2) by (auto simp: prog_exit_closed)

lemma open_socket_cases:
  assumes "xdp_open_socket md B xo nm cfg g = (res, g', held)"
  shows "case res of
      None \<Rightarrow> xi_initialized g' = xi_initialized g \<and>
        (held = [] \<or> xo_exit_if_index xo = 0 \<or> (\<exists>e. po_attach (xo_prog xo) = Some e) \<or> po_map_fd (xo_prog xo) < 0)
    | Some _ \<Rightarrow> \<exists>h. xdp_prog_init (xo_prog xo) nm g = (None, g', h) \<and>
        held = XR_xsk # XR_umem # XR_umem_buffer # XR_socket_memory # h"
proof -
  obtain ret g1 h where p: "xdp_prog_init (xo_prog xo) nm g = (ret, g1, h)" by (metis prod_cases3)
  obtain g2 closed where x: "xdp_prog_exit (xo_exit_if_index xo) g1 = (g2, closed)" by fastforce
  have g2: "xi_initialized g2 = xi_initialized g1 - 1" using prog_exit_counter [of "xo_exit_if_index xo" g1] x by simp
  show ?thesis
  proof (cases "ret = None")
    case True
    then have "xi_initialized g1 = xi_initialized g + 1"
      "xo_exit_if_index xo = 0 \<or> release closed (XR_socket_memory # h) = [XR_socket_memory]"
      using prog_init_cases [OF p] prog_init_exit(1) [of "xo_prog xo" nm g g1 h "xo_exit_if_index xo"] p x by auto
    then show ?thesis
      using assms True p x g2
      by (auto simp: xdp_open_socket_def Let_def umem_create_cases split: if_splits prod.splits)
  next
    case False
    then show ?thesis
      using assms p prog_init_cases [OF p] by (auto simp: xdp_open_socket_def Let_def split: if_splits)
  qed
qed

text \<open>C35. Opening an AF_XDP socket either fails, with the number of users of the XDP program as
  before, or succeeds, and then closing it gives back memory, area, socket and, for
  the last user, the program.  On failure nothing stays behind if the interface still
  exists, but for one case: a program that was opened but could not be attached stays open,
  and one without a socket map stays attached.\<close>

theorem xdp_open_balanced:
  "(case xdp_open_socket md B xo nm cfg g of
      (None, g', held) \<Rightarrow> xi_initialized g' = xi_initialized g \<and>
        (held = [] \<or> xo_exit_if_index xo = 0 \<or> (\<exists>e. po_attach (xo_prog xo) = Some e) \<or> po_map_fd (xo_prog xo) < 0)
    | (Some _, g', held) \<Rightarrow> xi_initialized g' = xi_initialized g + 1 \<and>
        xi_initialized (fst (xdp_close_socket (Suc i) g' held)) = xi_initialized g \<and>
        snd (xdp_close_socket (Suc i) g' held) = []) \<and>
   xdp_open_socket md B (xo\<lparr>xo_calloc := True, xo_prog := \<lparr>po_if_index = Suc i, po_open = Some p, po_open_installed = None,
       po_attach = None, po_map_fd = - 1\<rparr>\<rparr>) (Some nm2) cfg (g\<lparr>xi_initialized := 0\<rparr>) =
     (None, g\<lparr>xi_initialized := 0, xi_xsks_map := - 1\<rparr>, [XR_prog_open p, XR_prog_attached p])"
proof
  obtain res g' held where o: "xdp_open_socket md B xo nm cfg g = (res, g', held)" by (metis prod_cases3)
  have "xi_initialized g' = xi_initialized g + 1 \<and> xi_initialized (fst (xdp_close_socket (Suc i) g' held)) = xi_initialized g \<and>
      snd (xdp_close_socket (Suc i) g' held) = []"
    if h: "xdp_prog_init (xo_prog xo) nm g = (None, g', h)" "held = XR_xsk # XR_umem # XR_umem_buffer # XR_socket_memory # h" for h
    using prog_init_cases [OF h(1)] prog_init_exit(2) [OF h(1), of "Suc i"] prog_exit_counter [of "Suc i" g'] h(2)
    by (auto simp: xdp_close_socket_def Let_def case_prod_unfold)
  then show "case xdp_open_socket md B xo nm cfg g of
      (None, g', held) \<Rightarrow> xi_initialized g' = xi_initialized g \<and>
        (held = [] \<or> xo_exit_if_index xo = 0 \<or> (\<exists>e. po_attach (xo_prog xo) = Some e) \<or> po_map_fd (xo_prog xo) < 0)
    | (Some _, g', held) \<Rightarrow> xi_initialized g' = xi_initialized g + 1 \<and>
        xi_initialized (fst (xdp_close_socket (Suc i) g' held)) = xi_initialized g \<and>
        snd (xdp_close_socket (Suc i) g' held) = []"
    using open_socket_cases [OF o] o by (auto split: option.splits)
qed (simp add: xdp_open_socket_def xdp_prog_init_def Let_def)

section \<open>Completions\<close>

lemma seq_minus_cycle: "unat (seq - of_nat (unat seq div n * n) :: u64) = unat seq mod n"
proof -
  let ?c = "unat seq div n * n"
  have "?c < 2 ^ 64" using unsigned_less [of seq, where ?'a = nat] div_times_less_eq_dividend [of "unat seq" n]
    by (simp del: div_times_less_eq_dividend)
  then have "unat (of_nat ?c :: u64) = ?c" by (rule unat_of_nat_small(3))
  then show ?thesis by (simp add: unat_sub word_le_nat_alt minus_div_mult_eq_mod del: of_nat_mult)
qed

lemma timestamp_agrees:
  assumes "get_sequence_counter (drop addr (umem xsk)) (hwts_meta_data_offset (tx_hwts xsk))
             (hwts_frames_per_cycle (tx_hwts xsk)) = Some seq"
    and "md_timestamp_flag (umem_meta xsk addr)" "md_tx_timestamp (umem_meta xsk addr) \<noteq> 0"
  shows "xdp_process_tx_timestamp B app xsk addr S =
     packet_completion_stat B app (hwts_rtt (tx_hwts xsk)) (hwts_frames_per_cycle (tx_hwts xsk)) seq
       (md_tx_timestamp (umem_meta xsk addr)) S"
proof -
  let ?t = "hwts_rtt (tx_hwts xsk)" and ?n = "hwts_frames_per_cycle (tx_hwts xsk)" and ?hw = "md_tx_timestamp (umem_meta xsk addr)"
  define c where "c = (of_nat (unat seq div ?n * ?n) :: u64)"
  have m: "unat (seq - c) = unat seq mod ?n" unfolding c_def by (rule seq_minus_cycle)
  have "?hw > 0 \<and> x > 0 \<longleftrightarrow> x \<noteq> 0" for x :: u64 using assms(3) by (simp add: word_gt_0)
  then show ?thesis
    unfolding xdp_process_tx_timestamp_def packet_completion_stat_def Let_def assms(1) Option.bind_lunit c_def [symmetric] m
    by (cases "?n = 0 \<or> backlog_len (round_trip_contexts S ?t) = 0";
        cases "backlog_get (round_trip_contexts S ?t) (unat c mod backlog_len (round_trip_contexts S ?t))")
       (simp_all add: assms(2))
qed

text \<open>A completion of a raw socket that reports what the completion of address \<open>addr\<close> reports.\<close>

definition same_completion :: "xdp_socket \<Rightarrow> nat \<Rightarrow> tx_completion \<Rightarrow> bool" where
  "same_completion xsk addr c \<longleftrightarrow>
     cp_frame c = drop addr (umem xsk) \<and> cp_len c \<le> length (cp_frame c) \<and>
     hwts_meta_data_offset (tx_hwts xsk) + 16 \<le> cp_len c \<and>
     completion_hw_ts (cp_cmsgs c) =
       (if md_timestamp_flag (umem_meta xsk addr) then md_tx_timestamp (umem_meta xsk addr) else 0)"

lemma same_completion_step:
  assumes "same_completion xsk addr c" "rtc_ok (round_trip_contexts S (hwts_rtt (tx_hwts xsk)))"
    and "0 < hwts_frames_per_cycle (tx_hwts xsk)"
  shows "(if md_timestamp_flag (umem_meta xsk addr) then xdp_process_tx_timestamp B app xsk addr S else Some S) =
    (let hw = completion_hw_ts (cp_cmsgs c)
     in if hw = 0 \<or> cp_len c < hwts_meta_data_offset (tx_hwts xsk) + 16 then Some S
        else get_sequence_counter (cp_frame c) (hwts_meta_data_offset (tx_hwts xsk)) (hwts_frames_per_cycle (tx_hwts xsk)) \<bind>
          (\<lambda>seq. packet_completion_stat B app (hwts_rtt (tx_hwts xsk)) (hwts_frames_per_cycle (tx_hwts xsk)) seq hw S))"
proof -
  obtain seq where s: "get_sequence_counter (drop addr (umem xsk)) (hwts_meta_data_offset (tx_hwts xsk))
             (hwts_frames_per_cycle (tx_hwts xsk)) = Some seq"
    using assms(1) by (auto simp: same_completion_def get_sequence_counter_def meta_data_to_sequence_counter_def Let_def)
  let ?t = "hwts_rtt (tx_hwts xsk)"
  have "backlog_len (round_trip_contexts S ?t) \<noteq> 0" using assms(2) by (simp add: rtc_ok_def)
  moreover from this obtain e where "backlog_get (round_trip_contexts S ?t)
      (unat (of_nat (unat seq div hwts_frames_per_cycle (tx_hwts xsk) * hwts_frames_per_cycle (tx_hwts xsk)) :: u64)
        mod backlog_len (round_trip_contexts S ?t)) = Some e"
    using backlog_get_rtc [OF assms(2)] by (meson mod_less_divisor neq0_conv)
  ultimately show ?thesis
    using assms(1,3) timestamp_agrees [OF s, of B app S] s
    by (auto simp: same_completion_def Let_def xdp_process_tx_timestamp_def simp del: of_nat_mult)
qed


definition demo_xsk :: xdp_socket where
  "demo_xsk = zero_xdp_socket\<lparr>umem := replicate 64 0,
     umem_meta := (\<lambda>_. zero_metadata\<lparr>md_timestamp_flag := True, md_tx_timestamp := 77\<rparr>),
     tx_hwts := \<lparr>hwts_rtt = RTC_FRAME_TYPE, hwts_frames_per_cycle = 2, hwts_meta_data_offset = 20\<rparr>, tx_hwtstamp_mode := True\<rparr>"

definition demo_hwts_build :: build where
  "demo_hwts_build = \<lparr>HAVE_BUSY_POLL = False, WITH_MQTT = False, HAVE_XDP_TX_TIME = False, RX_TIMESTAMP = True, TX_TIMESTAMP = True\<rparr>"

definition demo_completion :: tx_completion where
  "demo_completion = \<lparr>cp_frame = replicate 64 0, cp_len = 64,
     cp_cmsgs = [Scm_timestamping (ns_to_ts 0) (ns_to_ts 0) (ns_to_ts 77)]\<rparr>"

lemma demo_same_completion: "same_completion demo_xsk 0 demo_completion"
  by (simp add: same_completion_def demo_xsk_def demo_completion_def ns_to_ts_def ts_set_def ts_to_ns_def)


section \<open>The way of a frame address\<close>

text \<open>
  The rings as they look to program and kernel together: addresses to be filled,
  received, written to the transmit ring but not yet submitted, submitted, completed.
\<close>

record xdp_rings =
  fq_ring :: "nat list"
  rx_ring :: "nat list"
  tx_written :: "nat list"
  tx_ring :: "nat list"
  cq_ring :: "nat list"

primrec ring_call :: "xsk_call \<Rightarrow> xdp_rings \<Rightarrow> xdp_rings" where
  "ring_call (Fq_submit as) r = r\<lparr>fq_ring := fq_ring r @ as\<rparr>"
| "ring_call (Cq_release n) r = r\<lparr>cq_ring := drop n (cq_ring r)\<rparr>"
| "ring_call (Cq_cancel n) r = r"
| "ring_call (Rx_release n) r = r\<lparr>rx_ring := drop n (rx_ring r)\<rparr>"
| "ring_call (Rx_cancel n) r = r"
| "ring_call (Tx_write ds) r = r\<lparr>tx_written := tx_written r @ map xd_addr ds\<rparr>"
| "ring_call (Tx_submit n) r =
     r\<lparr>tx_ring := tx_ring r @ take n (tx_written r), tx_written := drop n (tx_written r)\<rparr>"

definition ring_addrs :: "xdp_rings \<Rightarrow> nat list" where
  "ring_addrs r = fq_ring r @ rx_ring r @ tx_written r @ tx_ring r @ cq_ring r"

abbreviation "slot_of a \<equiv> a div XDP_FRAME_SIZE"

text \<open>The kernel completes the first \<open>m\<close> submitted frames.\<close>

definition kernel_complete :: "nat \<Rightarrow> xdp_rings \<Rightarrow> xdp_rings" where
  "kernel_complete m r = r\<lparr>tx_ring := drop m (tx_ring r), cq_ring := cq_ring r @ take m (tx_ring r)\<rparr>"

record 'c xdp_machine =
  xm_rings :: xdp_rings
  xm_xsk :: xdp_socket
  xm_ctx :: "'c thread_context"
  xm_stat :: stat_state

text \<open>
  The steps of a mirror: the kernel fills a frame somewhere in a slot or completes
  some; the receive thread and the transmit thread run a cycle under their common
  mutex.  The kernel may complete frames as soon as they are submitted.
\<close>

inductive xdp_step ::
  "nat \<Rightarrow> build \<Rightarrow> application_config \<Rightarrow> (rx_env \<Rightarrow> nat \<Rightarrow> 'c rx_state \<Rightarrow> (errno option \<times> 'c rx_state) option) \<Rightarrow>
   'c xdp_machine \<Rightarrow> 'c xdp_machine \<Rightarrow> bool"
  for md B app handle where
    kernel_rx: "fq_ring (xm_rings s) = a # as \<Longrightarrow> slot_of a' = slot_of a \<Longrightarrow> length buf = length (umem (xm_xsk s)) \<Longrightarrow>
      xdp_step md B app handle s
        (s\<lparr>xm_rings := (xm_rings s)\<lparr>fq_ring := as, rx_ring := rx_ring (xm_rings s) @ [a']\<rparr>, xm_xsk := (xm_xsk s)\<lparr>umem := buf\<rparr>\<rparr>)"
  | kernel_tx:
      "xdp_step md B app handle s
        (s\<lparr>xm_rings := kernel_complete m (xm_rings s), xm_xsk := (xm_xsk s)\<lparr>umem_meta := metas\<rparr>\<rparr>)"
  | rx_cycle: "rx_mirror_enabled (conf (xm_ctx s)) \<Longrightarrow> map rd_addr ds = take n (rx_ring (xm_rings s)) \<Longrightarrow>
      tc_xdp_rx_cycle md B app handle dur ds slots slots2 threads (xm_xsk s)
        \<lparr>rx_ctx = xm_ctx s, rx_stat = xm_stat s, rx_frame = [], rx_logs = [], rx_exited = False\<rparr> =
        Some (threads', xsk', w', calls) \<Longrightarrow> \<not> rx_exited w' \<Longrightarrow>
      xdp_step md B app handle s
        (s\<lparr>xm_rings := fold ring_call calls (xm_rings s), xm_xsk := xsk', xm_ctx := rx_ctx w', xm_stat := rx_stat w'\<rparr>)"
  | tx_cycle: "rx_mirror_enabled (conf (xm_ctx s)) \<Longrightarrow>
      r = kernel_complete m (ring_call (Tx_submit (received_frames (xm_ctx s))) (xm_rings s)) \<Longrightarrow>
      xe_completed env = take n (cq_ring r) \<Longrightarrow>
      tc_xdp_mirror env \<lparr>xs_ctx = xm_ctx s, xs_xsk = xm_xsk s, xs_stat = xm_stat s, xs_frame_number = fn,
          xs_sequence_counter = seq, xs_workload = wl\<rparr> = Some (w', Tx_submit (received_frames (xm_ctx s)) # calls) \<Longrightarrow>
      xdp_step md B app handle s
        (s\<lparr>xm_rings := fold ring_call calls r, xm_xsk := xs_xsk w', xm_ctx := xs_ctx w', xm_stat := xs_stat w'\<rparr>)"

inductive_cases xdp_step_cases: "xdp_step md B app handle s s'"

definition xdp_inv :: "nat multiset \<Rightarrow> 'c xdp_machine \<Rightarrow> bool" where
  "xdp_inv slots s \<longleftrightarrow>
     mset (map slot_of (ring_addrs (xm_rings s))) = slots \<and>
     unat (outstanding_tx (xm_xsk s)) = length (tx_ring (xm_rings s)) + length (cq_ring (xm_rings s)) \<and>
     received_frames (xm_ctx s) \<le> length (tx_written (xm_rings s))"

text \<open>Frames written to the transmit ring that the next transmit cycle will not submit.\<close>

definition xdp_lag :: "'c xdp_machine \<Rightarrow> nat" where
  "xdp_lag s = length (tx_written (xm_rings s)) - received_frames (xm_ctx s)"

lemma prepare_tx_desc_frame:
  assumes "xdp_prepare_tx_desc md B app clk tt i want False xsk d = Some (xsk', d')"
  shows "outstanding_tx xsk' = outstanding_tx xsk \<and> xd_addr d' = xd_addr d \<and> umem xsk' = umem xsk"
  using assms by (auto simp: xdp_prepare_tx_desc_def Let_def split: if_splits Option.bind_splits)

lemma receive_loop_addrs:
  assumes "xdp_receive_loop md B app handle len True tt i ds xsk w = Some (xsk', w', descs)" "\<not> rx_exited w'"
  shows "map xd_addr descs = map rd_addr ds \<and> outstanding_tx xsk' = outstanding_tx xsk"
  using assms
proof (induction ds arbitrary: i xsk w xsk' w' descs)
  case (Cons d ds)
  then show ?case
    by (auto simp: Let_def split: if_splits Option.bind_splits dest!: prepare_tx_desc_frame)
qed auto

lemma receive_frames_calls:
  assumes "xdp_receive_frames md B app handle len True tt ds slots slots2 xsk w = Some (n, xsk', w', calls)" "\<not> rx_exited w'"
  shows "outstanding_tx xsk' = outstanding_tx xsk \<and>
    (n = 0 \<and> (\<forall>r. fold ring_call calls r = r) \<or>
     n = length ds \<and> (\<exists>descs. calls = [Tx_write descs, Rx_release n] \<and> map xd_addr descs = map rd_addr ds))"
proof -
  define k where "k = (if slots \<noteq> length ds then slots2 else slots)"
  have eq: "(if ds = [] then Some (0, xsk, w, []) else if k \<noteq> length ds then Some (0, xsk, w, [Rx_cancel (length ds)])
       else xdp_receive_loop md B app handle len True tt 0 ds xsk w \<bind> (\<lambda>(xsk, w, descs).
         if rx_exited w then Some (0, xsk, w, []) else Some (length ds, xsk, w, [Tx_write descs, Rx_release (length ds)]))) =
     Some (n, xsk', w', calls)"
    using assms(1) by (simp only: xdp_receive_frames_def Let_def k_def if_True)
  consider "ds = []" | "ds \<noteq> []" "k \<noteq> length ds" | "ds \<noteq> []" "k = length ds" by blast
  then show ?thesis
  proof cases
    case 3
    then obtain xsk1 w1 descs
      where l: "xdp_receive_loop md B app handle len True tt 0 ds xsk w = Some (xsk1, w1, descs)"
      using eq by (cases "xdp_receive_loop md B app handle len True tt 0 ds xsk w") auto
    then have "(if rx_exited w1 then Some (0, xsk1, w1, [])
       else Some (length ds, xsk1, w1, [Tx_write descs, Rx_release (length ds)])) = Some (n, xsk', w', calls)"
      using eq 3 by simp
    then show ?thesis using receive_loop_addrs [OF l] assms(2) by (auto split: if_splits)
  qed (use eq in auto)
qed

lemma rx_cycle_calls:
  assumes "tc_xdp_rx_cycle md B app handle dur ds slots slots2 threads xsk w = Some (threads', xsk', w', calls)"
    and "rx_mirror_enabled (conf (rx_ctx w))" "\<not> rx_exited w'"
  shows "outstanding_tx xsk' = outstanding_tx xsk \<and>
    (received_frames (rx_ctx w') = 0 \<and> (\<forall>r. fold ring_call calls r = r) \<or>
     received_frames (rx_ctx w') = length ds \<and>
       (\<exists>descs. calls = [Tx_write descs, Rx_release (length ds)] \<and> map xd_addr descs = map rd_addr ds))"
proof -
  let ?tt = "\<lparr>xt_sequence_counter_begin = 0, xt_duration = dur, xt_tx_time_offset = tx_time_offset_ns (conf (rx_ctx w)),
     xt_num_frames_per_cycle = num_frames_per_cycle (conf (rx_ctx w))\<rparr>"
  obtain n xsk1 w1 calls1
    where r: "xdp_receive_frames md B app handle (frame_length (conf (rx_ctx w))) True ?tt ds slots slots2 xsk w
      = Some (n, xsk1, w1, calls1)"
    using assms(1,2) by (auto simp: tc_xdp_rx_cycle_def Let_def split: Option.bind_splits)
  have "(if rx_exited w1 then Some (threads, xsk1, w1, calls1)
     else workload_signal ((rx_ctx w1)\<lparr>received_frames := n\<rparr>) n threads \<bind>
       (\<lambda>threads. Some (threads, xsk1, w1\<lparr>rx_ctx := (rx_ctx w1)\<lparr>received_frames := n\<rparr>\<rparr>, calls1))) = Some (threads', xsk', w', calls)"
    using assms(1,2) r by (simp add: tc_xdp_rx_cycle_def Let_def cong: if_cong split del: if_split)
  then have "\<not> rx_exited w1" "xsk' = xsk1" "received_frames (rx_ctx w') = n" "calls = calls1"
    using assms(3) by (auto split: if_splits Option.bind_splits)
  then show ?thesis using receive_frames_calls [OF r] by auto
qed

lemma complete_tx_calls:
  assumes "xdp_complete_tx B app completed slots slots2 xsk S = Some (xsk', S', calls)"
  shows "(\<forall>r. fold ring_call calls r = r) \<and> outstanding_tx xsk' = outstanding_tx xsk \<or>
    calls = [Fq_submit completed, Cq_release (length completed)] \<and>
    outstanding_tx xsk' = outstanding_tx xsk - of_nat (length completed)"
  using assms by (auto simp: xdp_complete_tx_def Let_def split: if_splits Option.bind_splits)

lemma mirror_calls:
  assumes "tc_xdp_mirror env w = Some (w', Tx_submit n # calls)"
  shows "n = received_frames (xs_ctx w) \<and> received_frames (xs_ctx w') = 0 \<and>
    ((\<forall>r. fold ring_call calls r = r) \<and> outstanding_tx (xs_xsk w') = outstanding_tx (xs_xsk w) + of_nat n \<or>
     calls = [Fq_submit (xe_completed env), Cq_release (length (xe_completed env))] \<and>
     outstanding_tx (xs_xsk w') = outstanding_tx (xs_xsk w) + of_nat n - of_nat (length (xe_completed env)))"
  using assms
  by (auto simp: tc_xdp_mirror_def Let_def split: if_splits Option.bind_splits dest!: complete_tx_calls)

lemma mset_take_drop: "mset (take n xs) + mset (drop n xs) = mset xs"
  by (metis append_take_drop_id mset_append)

lemma unat_count:
  assumes "unat (x :: u64) = a" "a + n < 2 ^ 64" "k \<le> a + n"
  shows "unat (x + of_nat n - of_nat k) = a + n - k"
proof -
  have "x = of_nat a" using assms(1) by auto
  then have "x + of_nat n - of_nat k = (of_nat (a + n - k) :: u64)" using assms(3) by (simp add: of_nat_diff)
  then show ?thesis using assms(2) by (simp only: unat_of_nat_small(3))
qed

lemma xdp_inv_kernel:
  assumes "xdp_inv slots s"
  shows "fq_ring (xm_rings s) = a # as \<Longrightarrow> slot_of a' = slot_of a \<Longrightarrow>
      xdp_inv slots (s\<lparr>xm_rings := (xm_rings s)\<lparr>fq_ring := as, rx_ring := rx_ring (xm_rings s) @ [a']\<rparr>,
        xm_xsk := (xm_xsk s)\<lparr>umem := buf\<rparr>\<rparr>)"
    and "xdp_inv slots (s\<lparr>xm_rings := kernel_complete m (xm_rings s), xm_xsk := (xm_xsk s)\<lparr>umem_meta := metas\<rparr>\<rparr>)"
proof -
  show "xdp_inv slots (s\<lparr>xm_rings := kernel_complete m (xm_rings s), xm_xsk := (xm_xsk s)\<lparr>umem_meta := metas\<rparr>\<rparr>)"
    using assms mset_take_drop [of m "map slot_of (tx_ring (xm_rings s))"]
    by (auto simp: xdp_inv_def ring_addrs_def kernel_complete_def take_map drop_map ac_simps)
qed (use assms in \<open>auto simp: xdp_inv_def ring_addrs_def\<close>)

lemma xdp_inv_rx:
  assumes inv: "xdp_inv slots s" and ds: "map rd_addr ds = take n (rx_ring (xm_rings s))"
    and "outstanding_tx xsk' = outstanding_tx (xm_xsk s)"
    and "received_frames ctx' = 0 \<and> (\<forall>r. fold ring_call calls r = r) \<or>
     received_frames ctx' = length ds \<and>
       (\<exists>descs. calls = [Tx_write descs, Rx_release (length ds)] \<and> map xd_addr descs = map rd_addr ds)"
  shows "xdp_inv slots (s\<lparr>xm_rings := fold ring_call calls (xm_rings s), xm_xsk := xsk', xm_ctx := ctx', xm_stat := S'\<rparr>)"
  using assms(4)
proof (elim disjE conjE exE)
  fix descs
  assume c: "received_frames ctx' = length ds" "calls = [Tx_write descs, Rx_release (length ds)]" "map xd_addr descs = map rd_addr ds"
  have l: "length ds = min (length (rx_ring (xm_rings s))) n" using arg_cong [OF ds, of length] by simp
  then have "drop (length ds) (rx_ring (xm_rings s)) = drop n (rx_ring (xm_rings s))" by (simp add: min_def)
  moreover have "map xd_addr descs = take n (rx_ring (xm_rings s))" using c(3) ds by simp
  moreover note mset_take_drop [of n "map slot_of (rx_ring (xm_rings s))"]
  ultimately show ?thesis
    using inv assms(3) c l by (auto simp: xdp_inv_def ring_addrs_def take_map drop_map ac_simps)
qed (use assms in \<open>auto simp: xdp_inv_def\<close>)

lemma xdp_inv_tx:
  assumes inv: "xdp_inv slots s" and "size slots < 2 ^ 64"
    and r: "r = kernel_complete m (ring_call (Tx_submit (received_frames (xm_ctx s))) (xm_rings s))"
    and c: "completed = take n (cq_ring r)" and "received_frames ctx' = 0"
    and x: "(\<forall>r. fold ring_call calls r = r) \<and>
        outstanding_tx xsk' = outstanding_tx (xm_xsk s) + of_nat (received_frames (xm_ctx s)) \<or>
      calls = [Fq_submit completed, Cq_release (length completed)] \<and>
        outstanding_tx xsk' = outstanding_tx (xm_xsk s) + of_nat (received_frames (xm_ctx s)) - of_nat (length completed)"
  shows "xdp_inv slots (s\<lparr>xm_rings := fold ring_call calls r, xm_xsk := xsk', xm_ctx := ctx', xm_stat := S'\<rparr>)"
proof -
  let ?R = "xm_rings s" and ?n = "received_frames (xm_ctx s)"
  have n: "?n \<le> length (tx_written ?R)" and o: "unat (outstanding_tx (xm_xsk s)) = length (tx_ring ?R) + length (cq_ring ?R)"
    and tot: "mset (map slot_of (ring_addrs ?R)) = slots"
    using inv by (auto simp: xdp_inv_def)
  have lim: "length (tx_ring ?R) + length (cq_ring ?R) + ?n < 2 ^ 64"
    using assms(2) n tot [symmetric] by (simp add: ring_addrs_def)
  have r_tot: "mset (map slot_of (ring_addrs r)) = slots"
    using tot mset_take_drop [of ?n "map slot_of (tx_written ?R)"]
      mset_take_drop [of m "map slot_of (tx_ring ?R @ take ?n (tx_written ?R))"]
    by (auto simp: r ring_addrs_def kernel_complete_def take_map [symmetric] drop_map [symmetric] ac_simps)
  have r_len: "length (tx_ring r) + length (cq_ring r) = length (tx_ring ?R) + length (cq_ring ?R) + ?n"
    using n by (simp add: r kernel_complete_def)
  have d: "drop (length completed) (cq_ring r) = drop n (cq_ring r)" "length completed \<le> length (cq_ring r)"
    using c by (simp_all add: min_def)
  show ?thesis
    using x
  proof (elim disjE conjE)
    assume a: "\<forall>r. fold ring_call calls r = r" "outstanding_tx xsk' = outstanding_tx (xm_xsk s) + of_nat ?n"
    then have "unat (outstanding_tx xsk') = length (tx_ring r) + length (cq_ring r)"
      using unat_count [OF o lim, of 0] r_len by simp
    then show ?thesis using a(1) r_tot assms(5) by (simp add: xdp_inv_def)
  next
    assume a: "calls = [Fq_submit completed, Cq_release (length completed)]"
      "outstanding_tx xsk' = outstanding_tx (xm_xsk s) + of_nat ?n - of_nat (length completed)"
    then have "unat (outstanding_tx xsk') = length (tx_ring r) + length (cq_ring r) - length completed"
      using unat_count [OF o lim, of "length completed"] r_len d(2) by simp
    moreover note mset_take_drop [of n "map slot_of (cq_ring r)"]
    ultimately show ?thesis
      using a(1) r_tot assms(5) d c by (auto simp: xdp_inv_def ring_addrs_def take_map drop_map ac_simps)
  qed
qed

lemma xdp_step_inv:
  assumes "xdp_step md B app handle s s'" "xdp_inv slots s" "size slots < 2 ^ 64"
  shows "xdp_inv slots s'"
  using assms(1)
proof cases
  case (rx_cycle ds n dur sl sl2 threads threads' xsk' w' calls)
  from rx_cycle_calls [OF rx_cycle(4)] rx_cycle(2,5)
  show ?thesis unfolding rx_cycle(1) by (intro xdp_inv_rx [OF assms(2) rx_cycle(3)]) auto
next
  case (tx_cycle r m env n fn seq wl w' calls)
  from mirror_calls [OF tx_cycle(5)]
  show ?thesis unfolding tx_cycle(1) by (intro xdp_inv_tx [OF assms(2,3) tx_cycle(3,4)]) auto
qed (use assms(2) in \<open>auto simp: xdp_inv_kernel\<close>)

lemma xdp_step_lag:
  assumes "xdp_step md B app handle s s'" "received_frames (xm_ctx s) \<le> length (tx_written (xm_rings s))"
  shows "xdp_lag s \<le> xdp_lag s' \<and> received_frames (xm_ctx s') \<le> length (tx_written (xm_rings s'))"
  using assms(1)
proof cases
  case (rx_cycle ds n dur sl sl2 threads threads' xsk' w' calls)
  from rx_cycle_calls [OF rx_cycle(4)] rx_cycle(2,5)
  show ?thesis unfolding rx_cycle(1) by (auto simp: xdp_lag_def dest!: map_eq_imp_length_eq)
next
  case (tx_cycle r m env n fn seq wl w' calls)
  from mirror_calls [OF tx_cycle(5)] assms(2)
  show ?thesis unfolding tx_cycle(1,3) by (auto simp: xdp_lag_def kernel_complete_def)
qed (use assms(2) in \<open>auto simp: xdp_lag_def kernel_complete_def\<close>)

text \<open>The machine as an opened socket starts it.\<close>

definition xdp_machine_init :: "xdp_socket \<Rightarrow> xsk_call list \<Rightarrow> 'c thread_context \<Rightarrow> stat_state \<Rightarrow> 'c xdp_machine" where
  "xdp_machine_init xsk calls ctx S =
     \<lparr>xm_rings = fold ring_call calls \<lparr>fq_ring = [], rx_ring = [], tx_written = [], tx_ring = [], cq_ring = []\<rparr>,
      xm_xsk = xsk, xm_ctx = ctx, xm_stat = S\<rparr>"

lemma fill_addrs_slots: "md < XDP_FRAME_SIZE \<Longrightarrow> map slot_of (xdp_fill_addrs md B tt th) = [0..<XDP_NUM_DESCS]"
  unfolding xdp_fill_addrs_def map_map by (rule map_idI) simp

lemma open_socket_init:
  assumes "xdp_open_socket md B xo nm cfg g = (Some (xsk, calls), g', held)"
  shows "calls = [Fq_submit (xdp_fill_addrs md B (tx_time_enabled cfg) (tx_hwtstamp_enabled cfg))] \<and> outstanding_tx xsk = 0 \<and>
    length (umem xsk) = 2 * XDP_NUM_DESCS * XDP_FRAME_SIZE"
  using assms
  by (auto simp: xdp_open_socket_def Let_def umem_create_cases xdp_configure_socket_options_def zero_xdp_socket_def
      split: if_splits prod.splits option.splits)

lemma machine_init_inv:
  assumes "xdp_open_socket md B xo nm cfg g = (Some (xsk, calls), g', held)" "md < XDP_FRAME_SIZE" "received_frames ctx = 0"
  shows "xdp_inv (mset [0..<XDP_NUM_DESCS]) (xdp_machine_init xsk calls ctx S)"
  using open_socket_init [OF assms(1)] fill_addrs_slots [OF assms(2)] assms(3)
  by (simp add: xdp_inv_def xdp_machine_init_def ring_addrs_def del: mset_upt upt_rec_numeral)

text \<open>C5. No frame buffer of a mirror is lost, and none is in two places: in every state the
  kernel and the two threads can reach, in any order of their steps, the addresses in the
  fill, receive, transmit and completion rings lie in pairwise different slots, which
  together are the receive half of the area; and the counter of outstanding frames is
  the number of frames submitted and not yet taken back.\<close>

theorem xdp_umem_conserved:
  assumes "xdp_open_socket md B xo nm cfg g = (Some (xsk, calls), g', held)" "md < XDP_FRAME_SIZE" "received_frames ctx = 0"
    and "(xdp_step md B app handle)\<^sup>*\<^sup>* (xdp_machine_init xsk calls ctx S) s"
  shows "distinct (map slot_of (ring_addrs (xm_rings s))) \<and> slot_of ` set (ring_addrs (xm_rings s)) = {0..<XDP_NUM_DESCS} \<and>
    unat (outstanding_tx (xm_xsk s)) = length (tx_ring (xm_rings s)) + length (cq_ring (xm_rings s))"
proof -
  have "xdp_inv (mset [0..<XDP_NUM_DESCS]) s"
    using assms(4)
  proof (induction rule: rtranclp_induct)
    case base
    show ?case by (rule machine_init_inv [OF assms(1-3)])
  next
    case (step s s')
    show ?case by (rule xdp_step_inv [OF step(2,3)]) (simp del: mset_upt upt_rec_numeral)
  qed
  then have m: "mset (map slot_of (ring_addrs (xm_rings s))) = mset [0..<XDP_NUM_DESCS]"
    and o: "unat (outstanding_tx (xm_xsk s)) = length (tx_ring (xm_rings s)) + length (cq_ring (xm_rings s))"
    by (simp_all only: xdp_inv_def)
  from m have "set (map slot_of (ring_addrs (xm_rings s))) = {0..<XDP_NUM_DESCS}" "distinct (map slot_of (ring_addrs (xm_rings s)))"
    using mset_eq_setD [OF m] mset_eq_imp_distinct_iff [OF m] by (simp_all del: upt_rec_numeral)
  then show ?thesis using o by simp
qed

text \<open>C36. A mirror never catches up: frames that the receiver has put into the transmit ring but
  that are not counted for the next transmit cycle stay behind for good, whatever the
  kernel and the two threads do afterwards.  They arise when the receive thread runs twice
  before the transmit thread, because the second count replaces the first.\<close>

theorem xdp_mirror_lag:
  assumes "(xdp_step md B app handle)\<^sup>*\<^sup>* s s'" "received_frames (xm_ctx s) \<le> length (tx_written (xm_rings s))"
  shows "xdp_lag s \<le> xdp_lag s'"
proof -
  from assms have "xdp_lag s \<le> xdp_lag s' \<and> received_frames (xm_ctx s') \<le> length (tx_written (xm_rings s'))"
  proof (induction rule: rtranclp_induct)
    case (step s1 s2)
    then show ?case using xdp_step_lag [of md B app handle s1 s2] by simp
  qed simp
  then show ?thesis ..
qed

lemma mem_write_back: "off + n \<le> length buf \<Longrightarrow> mem_write off (take n (drop off buf)) buf = Some buf"
  by (simp add: mem_write_def min_def) (metis add.commute append_take_drop_id drop_drop)

text \<open>A frame that is too short is rejected, and mirrored all the same.\<close>

lemma short_frame_step:
  assumes "rx_mirror_enabled (conf (xm_ctx s))" "\<not> rx_workload_enabled (conf (xm_ctx s))"
    and "rx_ring (xm_rings s) = a # as" "a + (XDP_FRAME_SIZE - a mod XDP_FRAME_SIZE) \<le> length (umem (xm_xsk s))"
    and "\<not> tx_time_mode (xm_xsk s)" "\<not> tx_hwtstamp_mode (xm_xsk s)"
  shows "xdp_step md B app (receive_profinet_frame E) s
    (s\<lparr>xm_rings := (xm_rings s)\<lparr>tx_written := tx_written (xm_rings s) @ [a], rx_ring := as\<rparr>,
       xm_ctx := (xm_ctx s)\<lparr>received_frames := 1\<rparr>\<rparr>)"
proof -
  let ?d = "\<lparr>rd_addr = a, rd_len = 0, rd_meta = \<lparr>rx_hw_timestamp = 0, rx_sw_timestamp = 0, rx_hw_timestamp_err = 0, hint_valid = False\<rparr>,
     rd_env = demo_env, rd_clk = None\<rparr>"
  let ?w = "\<lparr>rx_ctx = xm_ctx s, rx_stat = xm_stat s, rx_frame = [], rx_logs = [], rx_exited = False\<rparr>"
  let ?w' = "\<lparr>rx_ctx = (xm_ctx s)\<lparr>received_frames := 1\<rparr>, rx_stat = xm_stat s,
     rx_frame = take (XDP_FRAME_SIZE - a mod XDP_FRAME_SIZE) (drop a (umem (xm_xsk s))), rx_logs = [Rx_too_small], rx_exited = False\<rparr>"
  have "tc_xdp_rx_cycle md B app (receive_profinet_frame E) 0 [?d] 1 1 [] (xm_xsk s) ?w =
      Some ([], xm_xsk s, ?w', [Tx_write [\<lparr>xd_addr = a, xd_len = frame_length (conf (xm_ctx s)), xd_metadata = False\<rparr>], Rx_release 1])"
    using assms
    by (simp add: tc_xdp_rx_cycle_def xdp_receive_frames_def receive_profinet_frame_def rx_handle_def receive_profinet_parse_def
        rx_check_header_def workload_signal_def mem_write_back mem_read_def Let_def)
  from xdp_step.rx_cycle [OF assms(1) _ this, of 1] assms(3)
  show ?thesis by simp
qed

definition demo_mirror_ctx :: "bytes thread_context" where
  "demo_mirror_ctx = demo_pn_context\<lparr>conf := (conf demo_pn_context)\<lparr>rx_mirror_enabled := True\<rparr>, received_frames := 0\<rparr>"

definition demo_machine :: "bytes xdp_machine" where
  "demo_machine = \<lparr>xm_rings = \<lparr>fq_ring = [], rx_ring = [0, 4096], tx_written = [], tx_ring = [], cq_ring = []\<rparr>,
     xm_xsk = zero_xdp_socket\<lparr>umem := replicate 8192 0\<rparr>, xm_ctx = demo_mirror_ctx, xm_stat = zero_stat_state\<rparr>"

lemma demo_mirror_facts [simp]:
  "rx_mirror_enabled (conf demo_mirror_ctx)" "\<not> rx_workload_enabled (conf demo_mirror_ctx)" "received_frames demo_mirror_ctx = 0"
  by (simp_all add: demo_mirror_ctx_def demo_pn_context_def demo_pn_config_def zero_class_config_def fresh_context_def)

definition demo_lagging :: "bytes xdp_machine" where
  "demo_lagging = demo_machine\<lparr>xm_rings := \<lparr>fq_ring = [], rx_ring = [], tx_written = [0, 4096], tx_ring = [], cq_ring = []\<rparr>,
     xm_ctx := demo_mirror_ctx\<lparr>received_frames := 1\<rparr>\<rparr>"

abbreviation "demo_step \<equiv> xdp_step 32 demo_hwts_build demo_stat_app (receive_profinet_frame demo_evp)"

lemma demo_run: "demo_step\<^sup>*\<^sup>* demo_machine demo_lagging"
proof -
  let ?s = "demo_machine\<lparr>xm_rings := \<lparr>fq_ring = [], rx_ring = [4096], tx_written = [0], tx_ring = [], cq_ring = []\<rparr>,
     xm_ctx := demo_mirror_ctx\<lparr>received_frames := 1\<rparr>\<rparr>"
  have "demo_step demo_machine ?s"
    using short_frame_step [of demo_machine 0 "[4096]" 32 demo_hwts_build demo_stat_app demo_evp]
    by (simp add: demo_machine_def zero_xdp_socket_def)
  moreover have "demo_step ?s demo_lagging"
    using short_frame_step [of ?s 4096 "[]" 32 demo_hwts_build demo_stat_app demo_evp]
    by (simp add: demo_machine_def demo_lagging_def zero_xdp_socket_def)
  ultimately show ?thesis by (meson converse_rtranclp_into_rtranclp r_into_rtranclp)
qed

lemma demo_tx: "\<exists>s. demo_step demo_lagging s \<and> tx_written (xm_rings s) = [4096] \<and> tx_ring (xm_rings s) = [0] \<and>
  received_frames (xm_ctx s) = 0"
proof -
  let ?env = "\<lparr>xe_build = demo_hwts_build, xe_app = demo_stat_app, xe_md = 32, xe_clk = None, xe_clks = (\<lambda>_. None),
     xe_clks_sent = (\<lambda>_. None), xe_update_clk = None, xe_tx_slots = 0, xe_completed = [], xe_fq_slots = 0, xe_fq_slots_again = 0\<rparr>"
  let ?w = "\<lparr>xs_ctx = xm_ctx demo_lagging, xs_xsk = xm_xsk demo_lagging, xs_stat = xm_stat demo_lagging,
     xs_frame_number = 0, xs_sequence_counter = 0, xs_workload = []\<rparr>"
  obtain w' where "tc_xdp_mirror ?env ?w = Some (w', Tx_submit 1 # [])" "received_frames (xs_ctx w') = 0"
    by (simp add: tc_xdp_mirror_def demo_lagging_def demo_machine_def stat_frames_sent_batch_def zero_stat_state_def
        xdp_complete_tx_def zero_xdp_socket_def Let_def)
  with xdp_step.tx_cycle [where s = demo_lagging and env = ?env and m = 0 and n = 0 and w' = w' and calls = "[]"
      and md = 32 and B = demo_hwts_build and app = demo_stat_app and handle = "receive_profinet_frame demo_evp"
      and fn = 0 and seq = 0 and wl = "[]", OF _ refl]
  show ?thesis by (intro exI conjI) (auto simp: demo_lagging_def demo_machine_def kernel_complete_def)
qed

text \<open>Two receive cycles in a row, then transmit cycles: one of the two frames stays behind.\<close>

theorem xdp_mirror_lag_witness:
  "demo_step\<^sup>*\<^sup>* demo_machine demo_lagging \<and>
   (\<exists>s. demo_step demo_lagging s \<and> tx_ring (xm_rings s) = [0] \<and> xdp_lag demo_lagging = 1 \<and> xdp_lag demo_lagging \<le> xdp_lag s)"
proof -
  obtain s where s: "demo_step demo_lagging s" "tx_ring (xm_rings s) = [0]" using demo_tx by blast
  have "xdp_lag demo_lagging \<le> xdp_lag s"
    using xdp_mirror_lag [of 32 demo_hwts_build demo_stat_app "receive_profinet_frame demo_evp" demo_lagging s]
      r_into_rtranclp [of demo_step, OF s(1)] by (simp add: demo_lagging_def)
  moreover have "xdp_lag demo_lagging = 1" by (simp add: xdp_lag_def demo_lagging_def)
  ultimately show ?thesis using demo_run s by blast
qed

definition demo_open :: xdp_open_outcome where
  "demo_open = \<lparr>xo_calloc = True, xo_prog = \<lparr>po_if_index = 2, po_open = Some 5, po_open_installed = None, po_attach = None, po_map_fd = 9\<rparr>,
     xo_hwts = None, xo_memalign = True, xo_umem = None, xo_reserve = XDP_NUM_DESCS, xo_create = None, xo_map_update = None,
     xo_options = (None, None, None), xo_exit_if_index = 2\<rparr>"

lemma demo_opened:
  "\<exists>xsk calls g held. xdp_open_socket 32 demo_hwts_build demo_open (Some ''prog.o'') (conf demo_mirror_ctx)
       \<lparr>xi_prog = None, xi_initialized = 0, xi_xsks_map = 0\<rparr> = (Some (xsk, calls), g, held) \<and>
     \<not> tx_time_mode xsk \<and> \<not> tx_hwtstamp_mode xsk"
  by (simp add: xdp_open_socket_def demo_open_def xdp_prog_init_def umem_create_cases xdp_configure_socket_options_def
      zero_xdp_socket_def demo_hwts_build_def demo_mirror_ctx_def demo_pn_context_def demo_pn_config_def zero_class_config_def
      fresh_context_def Let_def)

text \<open>The kernel receives a frame behind some headroom, and the receive thread mirrors it.\<close>

theorem xdp_umem_conserved_witness:
  "\<exists>xsk calls g held s.
     xdp_open_socket 32 demo_hwts_build demo_open (Some ''prog.o'') (conf demo_mirror_ctx)
       \<lparr>xi_prog = None, xi_initialized = 0, xi_xsks_map = 0\<rparr> = (Some (xsk, calls), g, held) \<and>
     demo_step\<^sup>*\<^sup>* (xdp_machine_init xsk calls demo_mirror_ctx zero_stat_state) s \<and>
     tx_written (xm_rings s) = [256] \<and> slot_of ` set (ring_addrs (xm_rings s)) = {0..<XDP_NUM_DESCS}"
proof -
  obtain xsk calls g held where o: "xdp_open_socket 32 demo_hwts_build demo_open (Some ''prog.o'') (conf demo_mirror_ctx)
       \<lparr>xi_prog = None, xi_initialized = 0, xi_xsks_map = 0\<rparr> = (Some (xsk, calls), g, held)"
    and m: "\<not> tx_time_mode xsk" "\<not> tx_hwtstamp_mode xsk"
    using demo_opened by blast
  let ?s0 = "xdp_machine_init xsk calls demo_mirror_ctx zero_stat_state"
  let ?as = "map (\<lambda>i. i * XDP_FRAME_SIZE) [1..<XDP_NUM_DESCS]"
  have "xdp_fill_addrs 32 demo_hwts_build (tx_time_enabled (conf demo_mirror_ctx)) (tx_hwtstamp_enabled (conf demo_mirror_ctx)) = 0 # ?as"
    unfolding xdp_fill_addrs_def by (subst upt_conv_Cons)
      (simp_all add: demo_mirror_ctx_def demo_pn_context_def demo_pn_config_def zero_class_config_def fresh_context_def
        del: upt_rec_numeral)
  then have s0: "?s0 = \<lparr>xm_rings = \<lparr>fq_ring = 0 # ?as, rx_ring = [], tx_written = [], tx_ring = [], cq_ring = []\<rparr>, xm_xsk = xsk,
      xm_ctx = demo_mirror_ctx, xm_stat = zero_stat_state\<rparr>"
    using open_socket_init [OF o] by (simp add: xdp_machine_init_def del: upt_rec_numeral)
  define s1 where "s1 = ?s0\<lparr>xm_rings := \<lparr>fq_ring = ?as, rx_ring = [256], tx_written = [], tx_ring = [], cq_ring = []\<rparr>\<rparr>"
  define s2 where "s2 = s1\<lparr>xm_rings := \<lparr>fq_ring = ?as, rx_ring = [], tx_written = [256], tx_ring = [], cq_ring = []\<rparr>,
     xm_ctx := demo_mirror_ctx\<lparr>received_frames := 1\<rparr>\<rparr>"
  have "demo_step ?s0 s1"
    using xdp_step.kernel_rx [of ?s0 0 ?as 256 "umem xsk" 32 demo_hwts_build demo_stat_app "receive_profinet_frame demo_evp"]
    by (simp add: s0 s1_def del: upt_rec_numeral)
  moreover have len: "length (umem xsk) = 2 * XDP_NUM_DESCS * XDP_FRAME_SIZE" using open_socket_init [OF o] by simp
  have "demo_step s1 s2"
    using short_frame_step [of s1 256 "[]" 32 demo_hwts_build demo_stat_app demo_evp] m len
    by (simp add: s0 s1_def s2_def del: upt_rec_numeral)
  ultimately have "demo_step\<^sup>*\<^sup>* ?s0 s2" by (meson converse_rtranclp_into_rtranclp r_into_rtranclp)
  moreover from xdp_umem_conserved [OF o _ _ this]
  have "slot_of ` set (ring_addrs (xm_rings s2)) = {0..<XDP_NUM_DESCS}" by simp
  moreover have "tx_written (xm_rings s2) = [256]" by (simp add: s2_def)
  ultimately show ?thesis using o by blast
qed

section \<open>Frames in the transmit ring\<close>

text \<open>Room taken by the meta data in front of a frame.\<close>

definition xdp_shift :: "nat \<Rightarrow> build \<Rightarrow> xdp_socket \<Rightarrow> nat" where
  "xdp_shift md B xsk = (if (HAVE_XDP_TX_TIME B \<or> TX_TIMESTAMP B) \<and> (tx_time_mode xsk \<or> tx_hwtstamp_mode xsk) then md else 0)"

text \<open>What a slot becomes when frame \<open>i\<close> of a cycle is prepared in it.\<close>

definition xdp_slot_out ::
  "('c, 's) evp \<Rightarrow> application_config \<Rightarrow> 'c xdp_gen_config \<Rightarrow> timespec option \<Rightarrow> nat \<Rightarrow> nat \<Rightarrow> bytes \<Rightarrow>
   (errno option \<times> bytes) option" where
  "xdp_slot_out E app xg clk sh i sl = do {
     (err, frame) \<leftarrow> prepare_frame_for_tx E (xdp_frame_config xg clk i) (drop sh sl);
     frame \<leftarrow> (if debug_monitor_mode app \<and> i = 0
              then mem_write 0 (take ETH_ALEN (debug_monitor_destination app)) frame else Some frame);
     Some (err, take sh sl @ frame)
   }"

definition xdp_launch_ok :: "build \<Rightarrow> application_config \<Rightarrow> 'c xdp_gen_config \<Rightarrow> xdp_socket \<Rightarrow> bool" where
  "xdp_launch_ok B app xg xsk \<longleftrightarrow>
     \<not> (HAVE_XDP_TX_TIME B \<and> tx_time_mode xsk) \<or>
     application_base_cycle_time_ns app \<noteq> 0 \<and> (\<exists>tt. xg_tx_time xg = Some tt \<and> xt_num_frames_per_cycle tt \<noteq> 0)"

lemma prepare_tx_desc_ok:
  assumes "xdp_launch_ok B app xg xsk"
  shows "\<exists>metas b. xdp_prepare_tx_desc md B app clk (xg_tx_time xg) i want True xsk d =
    Some (xsk\<lparr>umem_meta := metas\<rparr>, d\<lparr>xd_addr := xd_addr d + xdp_shift md B xsk, xd_metadata := b\<rparr>)"
proof (cases "(HAVE_XDP_TX_TIME B \<or> TX_TIMESTAMP B) \<and> (tx_time_mode xsk \<or> tx_hwtstamp_mode xsk)")
  case True
  then show ?thesis
    using assms by (auto simp: xdp_prepare_tx_desc_def xdp_shift_def xdp_launch_ok_def tx_time_get_frame_tx_time_def Let_def)
next
  case False
  then show ?thesis
    by (intro exI [of _ "umem_meta xsk"] exI [of _ "xd_metadata d"]) (auto simp: xdp_prepare_tx_desc_def xdp_shift_def)
qed

lemma region_slot:
  assumes "j < n" "length buf = n * K" "sh \<le> K"
  shows "mem_read (j * K + sh) (K - sh) buf = Some (drop sh (slot K j buf))"
    and "length r = K - sh \<Longrightarrow> mem_write (j * K + sh) r buf = mem_write (j * K) (take sh (slot K j buf) @ r) buf"
  using slot_fits [OF assms(1), of K] assms(2,3)
  by (auto simp: slot_def mem_read_def mem_write_def drop_take add.commute min_def take_add)
     (metis add.commute take_add)

lemma of_nat_mod_u32: "a < 2 ^ 32 \<Longrightarrow> b < 2 ^ 32 \<Longrightarrow> (of_nat a :: u32) mod of_nat b = of_nat (a mod b)"
proof -
  assume "a < 2 ^ 32" "b < 2 ^ 32"
  then have "unat ((of_nat a :: u32) mod of_nat b) = a mod b" by (simp add: unat_mod_distrib unat_of_nat_small)
  from arg_cong [OF this, of "of_nat :: nat \<Rightarrow> u32"] show ?thesis by simp
qed

lemma next_frame_number:
  assumes "k < XDP_NUM_DESCS"
  shows "xdp_next_frame_number (of_nat (XDP_NUM_DESCS + k)) = of_nat (XDP_NUM_DESCS + Suc k mod XDP_NUM_DESCS)"
proof -
  have "(of_nat (XDP_NUM_DESCS + k) + 1 :: u32) mod of_nat XDP_NUM_DESCS = of_nat ((XDP_NUM_DESCS + Suc k) mod XDP_NUM_DESCS)"
    using of_nat_mod_u32 [of "XDP_NUM_DESCS + Suc k" XDP_NUM_DESCS] assms by (simp add: algebra_simps)
  moreover have "(XDP_NUM_DESCS + Suc k) mod XDP_NUM_DESCS = Suc k mod XDP_NUM_DESCS" by (rule mod_add_self1)
  ultimately show ?thesis unfolding xdp_next_frame_number_def by (simp only: of_nat_add add.commute)
qed

text \<open>One frame: only its slot and its meta data change.\<close>

lemma gen_frame_step:
  fixes j :: nat
  assumes "length (umem xsk) = 2 * XDP_NUM_DESCS * XDP_FRAME_SIZE" "j < 2 * XDP_NUM_DESCS" "xdp_launch_ok B app xg xsk" "md < XDP_FRAME_SIZE"
    and out: "xdp_slot_out E app xg clk (xdp_shift md B xsk) i (slot XDP_FRAME_SIZE j (umem xsk)) = Some (e, sl)"
      "length sl = XDP_FRAME_SIZE"
  obtains metas b buf where
    "xdp_gen_frame md B app E clk clks xg i (xsk, of_nat j, descs, errs) =
       Some (xsk\<lparr>umem_meta := metas, umem := buf\<rparr>, xdp_next_frame_number (of_nat j),
         descs @ [\<lparr>xd_addr = j * XDP_FRAME_SIZE + xdp_shift md B xsk, xd_len = xg_frame_length xg, xd_metadata = b\<rparr>],
         if e = None then errs else Suc errs)"
    "mem_write (j * XDP_FRAME_SIZE) sl (umem xsk) = Some buf"
proof -
  let ?sh = "xdp_shift md B xsk" and ?K = XDP_FRAME_SIZE
  have sh: "?sh < ?K" using assms(4) by (simp add: xdp_shift_def)
  obtain metas b where d: "xdp_prepare_tx_desc md B app (clks i) (xg_tx_time xg) i (i = 0 \<or> i = xg_num_frames_per_cycle xg - 1) True xsk
      \<lparr>xd_addr = j * ?K, xd_len = xg_frame_length xg, xd_metadata = False\<rparr> =
    Some (xsk\<lparr>umem_meta := metas\<rparr>, \<lparr>xd_addr = j * ?K + ?sh, xd_len = xg_frame_length xg, xd_metadata = b\<rparr>)"
    using prepare_tx_desc_ok [OF assms(3), of md "clks i" i "i = 0 \<or> i = xg_num_frames_per_cycle xg - 1"
        "\<lparr>xd_addr = j * ?K, xd_len = xg_frame_length xg, xd_metadata = False\<rparr>"] by auto
  have addr: "unat (of_nat j * of_nat ?K :: u32) = j * ?K"
    using unat_of_nat_small(2) [of "j * ?K"] assms(2) by simp
  have m: "(j * ?K + ?sh) mod ?K = ?sh" using sh by simp
  note rs = region_slot [OF assms(2,1), of ?sh]
  let ?debug = "\<lambda>f. if debug_monitor_mode app \<and> i = 0 then mem_write 0 (take ETH_ALEN (debug_monitor_destination app)) f else Some f"
  obtain e0 f0 where f0: "prepare_frame_for_tx E (xdp_frame_config xg clk i) (drop ?sh (slot ?K j (umem xsk))) = Some (e0, f0)"
    using out(1) by (cases "prepare_frame_for_tx E (xdp_frame_config xg clk i) (drop ?sh (slot ?K j (umem xsk)))")
      (auto simp: xdp_slot_out_def)
  obtain f1 where f1: "?debug f0 = Some f1"
    using out(1) f0 by (cases "?debug f0") (auto simp: xdp_slot_out_def)
  have f: "e0 = e" "sl = take ?sh (slot ?K j (umem xsk)) @ f1"
    using out(1) f0 f1 by (simp_all add: xdp_slot_out_def del: split_paired_All)
  have "length f1 = ?K - ?sh"
    using f(2) out(2) length_slot [OF assms(2,1)] sh by simp
  moreover obtain buf where "mem_write (j * ?K) sl (umem xsk) = Some buf"
    using slot_write [OF assms(2,1) out(2)] by metis
  ultimately show thesis
    using that [where metas = metas and b = b and buf = buf] d f f0 f1 rs addr m sh
    by (simp add: xdp_gen_frame_def Let_def split del: if_split)
qed

text \<open>The slot of frame \<open>i\<close> if the first goes to slot \<open>k\<close> of the transmit half.\<close>

definition tx_slot :: "nat \<Rightarrow> nat \<Rightarrow> nat" where
  "tx_slot k i = XDP_NUM_DESCS + (k + i) mod XDP_NUM_DESCS"

lemma tx_slot_facts:
  "tx_slot k i < 2 * XDP_NUM_DESCS" "xdp_next_frame_number (of_nat (tx_slot k i)) = of_nat (tx_slot k (Suc i))"
  using next_frame_number [of "(k + i) mod XDP_NUM_DESCS"] by (simp_all add: tx_slot_def mod_Suc_eq)

lemma add_mod_inj:
  fixes k :: nat
  assumes "(k + i) mod m = (k + j) mod m" "i < m" "j < m"
  shows "i = j"
proof -
  have "a = b" if "(k + a) mod m = (k + b) mod m" "a \<le> b" "b < m" for a b
  proof (rule ccontr)
    assume "a \<noteq> b"
    moreover have "m dvd b - a" using that mod_eq_dvd_iff_nat [of "k + a" "k + b" m] by simp
    ultimately show False using that dvd_imp_le [of m "b - a"] by simp
  qed
  from this [of i j] this [of j i] assms show ?thesis by (cases "i \<le> j") auto
qed

lemma tx_slot_inj: "tx_slot k i = tx_slot k j \<Longrightarrow> i < XDP_NUM_DESCS \<Longrightarrow> j < XDP_NUM_DESCS \<Longrightarrow> i = j"
  using add_mod_inj [of k i XDP_NUM_DESCS j] by (simp add: tx_slot_def)

text \<open>The frames of a cycle.\<close>

lemma gen_frames_loop:
  assumes len: "length (umem xsk) = 2 * XDP_NUM_DESCS * XDP_FRAME_SIZE" and n: "n \<le> XDP_NUM_DESCS"
    and launch: "xdp_launch_ok B app xg xsk" and md: "md < XDP_FRAME_SIZE"
    and out: "\<And>i sl. i < n \<Longrightarrow> length sl = XDP_FRAME_SIZE \<Longrightarrow>
      \<exists>e sl'. xdp_slot_out E app xg clk (xdp_shift md B xsk) i sl = Some (e, sl') \<and> length sl' = XDP_FRAME_SIZE"
  shows "\<exists>metas buf descs errs.
    for_upto n (xdp_gen_frame md B app E clk clks xg) (xsk, of_nat (tx_slot k 0), [], 0) =
      Some (xsk\<lparr>umem_meta := metas, umem := buf\<rparr>, of_nat (tx_slot k n), descs, errs) \<and>
    length buf = 2 * XDP_NUM_DESCS * XDP_FRAME_SIZE \<and>
    map (\<lambda>d. (xd_addr d, xd_len d)) descs =
      map (\<lambda>i. (tx_slot k i * XDP_FRAME_SIZE + xdp_shift md B xsk, xg_frame_length xg)) [0..<n] \<and>
    (\<forall>i<n. \<exists>e. xdp_slot_out E app xg clk (xdp_shift md B xsk) i (slot XDP_FRAME_SIZE (tx_slot k i) (umem xsk)) =
       Some (e, slot XDP_FRAME_SIZE (tx_slot k i) buf)) \<and>
    (\<forall>j < 2 * XDP_NUM_DESCS. j \<notin> tx_slot k ` {..<n} \<longrightarrow> slot XDP_FRAME_SIZE j buf = slot XDP_FRAME_SIZE j (umem xsk))"
proof -
  let ?K = XDP_FRAME_SIZE and ?sh = "xdp_shift md B xsk"
  let ?I = "\<lambda>m (s :: xdp_socket \<times> u32 \<times> xdp_desc list \<times> nat). \<exists>metas buf descs errs.
    s = (xsk\<lparr>umem_meta := metas, umem := buf\<rparr>, of_nat (tx_slot k m), descs, errs) \<and>
    length buf = 2 * XDP_NUM_DESCS * ?K \<and>
    map (\<lambda>d. (xd_addr d, xd_len d)) descs = map (\<lambda>i. (tx_slot k i * ?K + ?sh, xg_frame_length xg)) [0..<m] \<and>
    (\<forall>i<m. \<exists>e. xdp_slot_out E app xg clk ?sh i (slot ?K (tx_slot k i) (umem xsk)) = Some (e, slot ?K (tx_slot k i) buf)) \<and>
    (\<forall>j < 2 * XDP_NUM_DESCS. j \<notin> tx_slot k ` {..<m} \<longrightarrow> slot ?K j buf = slot ?K j (umem xsk))"
  have "\<exists>s'. for_upto n (xdp_gen_frame md B app E clk clks xg) (xsk, of_nat (tx_slot k 0), [], 0) = Some s' \<and> ?I n s'"
  proof (rule for_upto_invariant [where P = ?I])
    show "?I 0 (xsk, of_nat (tx_slot k 0), [], 0)"
      by (rule exI [of _ "umem_meta xsk"], rule exI [of _ "umem xsk"]) (simp add: len)
  next
    fix m s assume m: "m < n" and "?I m s"
    then obtain metas buf descs errs where
      s: "s = (xsk\<lparr>umem_meta := metas, umem := buf\<rparr>, of_nat (tx_slot k m), descs, errs)" and
      b: "length buf = 2 * XDP_NUM_DESCS * ?K" and
      d: "map (\<lambda>d. (xd_addr d, xd_len d)) descs = map (\<lambda>i. (tx_slot k i * ?K + ?sh, xg_frame_length xg)) [0..<m]" and
      dn: "\<forall>i<m. \<exists>e. xdp_slot_out E app xg clk ?sh i (slot ?K (tx_slot k i) (umem xsk)) = Some (e, slot ?K (tx_slot k i) buf)" and
      rest: "\<forall>j < 2 * XDP_NUM_DESCS. j \<notin> tx_slot k ` {..<m} \<longrightarrow> slot ?K j buf = slot ?K j (umem xsk)"
      by blast
    let ?x = "xsk\<lparr>umem_meta := metas, umem := buf\<rparr>"
    have new: "tx_slot k m \<notin> tx_slot k ` {..<m}" using tx_slot_inj [of k m] m n by fastforce
    have x: "length (umem ?x) = 2 * XDP_NUM_DESCS * ?K" "xdp_launch_ok B app xg ?x" "xdp_shift md B ?x = ?sh"
      using b launch by (simp_all add: xdp_launch_ok_def xdp_shift_def)
    have sl: "slot ?K (tx_slot k m) (umem ?x) = slot ?K (tx_slot k m) (umem xsk)"
      using rest new tx_slot_facts(1) by simp
    obtain e sl' where o: "xdp_slot_out E app xg clk ?sh m (slot ?K (tx_slot k m) (umem xsk)) = Some (e, sl')" "length sl' = ?K"
      using out [OF m length_slot [OF tx_slot_facts(1) len]] by blast
    have "xdp_slot_out E app xg clk (xdp_shift md B ?x) m (slot ?K (tx_slot k m) (umem ?x)) = Some (e, sl')"
      using o sl x(3) by simp
    then obtain metas' b' buf' where g: "xdp_gen_frame md B app E clk clks xg m (?x, of_nat (tx_slot k m), descs, errs) =
        Some (?x\<lparr>umem_meta := metas', umem := buf'\<rparr>, xdp_next_frame_number (of_nat (tx_slot k m)),
          descs @ [\<lparr>xd_addr = tx_slot k m * ?K + xdp_shift md B ?x, xd_len = xg_frame_length xg, xd_metadata = b'\<rparr>],
          if e = None then errs else Suc errs)" "mem_write (tx_slot k m * ?K) sl' (umem ?x) = Some buf'"
      by (rule gen_frame_step [OF x(1) tx_slot_facts(1) x(2) md _ o(2)]) blast
    from slot_write [OF tx_slot_facts(1) [of k m] b o(2)] g(2)
    have w: "length buf' = 2 * XDP_NUM_DESCS * ?K" "slot ?K (tx_slot k m) buf' = sl'"
      "\<And>j. j < 2 * XDP_NUM_DESCS \<Longrightarrow> j \<noteq> tx_slot k m \<Longrightarrow> slot ?K j buf' = slot ?K j buf"
      by auto
    have "\<exists>e. xdp_slot_out E app xg clk ?sh i (slot ?K (tx_slot k i) (umem xsk)) = Some (e, slot ?K (tx_slot k i) buf')" if "i < Suc m" for i
    proof (cases "i = m")
      case False
      then have "tx_slot k i \<noteq> tx_slot k m" using that tx_slot_inj [of k i m] m n by auto
      then show ?thesis using dn w(3) [OF tx_slot_facts(1)] that False by auto
    qed (use o(1) w(2) in blast)
    moreover have "slot ?K j buf' = slot ?K j (umem xsk)" if "j < 2 * XDP_NUM_DESCS" "j \<notin> tx_slot k ` {..<Suc m}" for j
      using that w(3) [of j] rest by (auto simp: lessThan_Suc)
    moreover let ?d = "descs @ [\<lparr>xd_addr = tx_slot k m * ?K + ?sh, xd_len = xg_frame_length xg, xd_metadata = b'\<rparr>]"
      and ?e = "if e = None then errs else Suc errs"
    let ?s = "(xsk\<lparr>umem_meta := metas', umem := buf'\<rparr>, of_nat (tx_slot k (Suc m)), ?d, ?e)"
    have "map (\<lambda>d. (xd_addr d, xd_len d)) ?d = map (\<lambda>i. (tx_slot k i * ?K + ?sh, xg_frame_length xg)) [0..<Suc m]"
      using d by simp
    ultimately have "?I (Suc m) ?s"
      using w(1) by (intro exI [of _ metas'] exI [of _ buf'] exI [of _ ?d] exI [of _ ?e] conjI refl allI impI) blast+
    moreover have "xdp_gen_frame md B app E clk clks xg m s = Some ?s"
      using g(1) unfolding s x(3) tx_slot_facts(2) by simp
    ultimately show "\<exists>s'. xdp_gen_frame md B app E clk clks xg m s = Some s' \<and> ?I (Suc m) s'" by blast
  qed
  then show ?thesis by blast
qed

text \<open>A class without hardware time stamps, whose backlog, if any, is in order.\<close>

definition sent_ok :: "application_config \<Rightarrow> stat_frame_type \<Rightarrow> stat_state \<Rightarrow> bool" where
  "sent_ok app t S \<longleftrightarrow> \<not> tx_hwtstamp_enabled (classes app t) \<and>
     (backlog (round_trip_contexts S t) = None \<or> rtc_ok (round_trip_contexts S t))"

lemma frame_sent_counts:
  assumes "sent_ok app t S"
  shows "\<exists>S'. stat_frame_sent B app clk t seq S = Some S' \<and> sent_ok app t S' \<and>
    frames_sent (global_statistics S' t) = frames_sent (global_statistics S t) + 1"
proof -
  let ?cs = "[unat seq..<unat (seq + 1)]"
  have "\<exists>S1. (if (log_stat_user_selected S = LOG_REFERENCE \<or> log_stat_user_selected S = LOG_TX_TIMESTAMPS) \<and>
      backlog (round_trip_contexts S t) \<noteq> None then stamp_slots t (clock_ns clk) ?cs S else Some S) = Some S1 \<and>
      sent_ok app t S1 \<and> global_statistics S1 = global_statistics S"
  proof (cases "backlog (round_trip_contexts S t) = None")
    case False
    then obtain b where b: "backlog (round_trip_contexts S t) = Some b" "length b = backlog_len (round_trip_contexts S t)" "0 < length b"
      using assms by (auto simp: sent_ok_def rtc_ok_def)
    show ?thesis
      using stamp_slots_ok [OF b, of "clock_ns clk" ?cs] assms b by (auto simp: sent_ok_def rtc_ok_def with_backlog_def)
  qed (use assms in auto)
  then obtain S1 where S1: "(if (log_stat_user_selected S = LOG_REFERENCE \<or> log_stat_user_selected S = LOG_TX_TIMESTAMPS) \<and>
      backlog (round_trip_contexts S t) \<noteq> None then stamp_slots t (clock_ns clk) ?cs S else Some S) = Some S1"
      "sent_ok app t S1" "global_statistics S1 = global_statistics S" by blast
  have "stat_sent_slots app t seq 1 = Some ?cs" using assms by (simp add: stat_sent_slots_def sent_ok_def Let_def)
  then have "stat_frame_sent B app clk t seq S = (let R = stat_frame_sent_per_period B t S1; st = global_statistics R t
     in Some (R\<lparr>global_statistics := (global_statistics R)(t := st\<lparr>frames_sent := frames_sent st + 1\<rparr>)\<rparr>))"
    using S1(1) by (simp add: stat_frame_sent_def stat_frames_sent_batch_def Let_def cong: if_cong split del: if_split)
  then show ?thesis using S1(2,3) by (simp add: sent_ok_def stat_frame_sent_per_period_def Let_def)
qed

lemma frames_sent_count:
  assumes "sent_ok app t S"
  shows "\<exists>S'. for_upto n (\<lambda>i. stat_frame_sent B app (clks i) t (seq + of_nat i)) S = Some S' \<and>
    frames_sent (global_statistics S' t) = frames_sent (global_statistics S t) + of_nat n"
proof -
  let ?I = "\<lambda>i S'. sent_ok app t S' \<and> frames_sent (global_statistics S' t) = frames_sent (global_statistics S t) + of_nat i"
  have "\<exists>S'. for_upto n (\<lambda>i. stat_frame_sent B app (clks i) t (seq + of_nat i)) S = Some S' \<and> ?I n S'"
  proof (rule for_upto_invariant [where P = ?I])
    fix i S' assume "?I i S'"
    then show "\<exists>S''. stat_frame_sent B app (clks i) t (seq + of_nat i) S' = Some S'' \<and> ?I (Suc i) S''"
      using frame_sent_counts [of app t S' B "clks i" "seq + of_nat i"] by auto
  qed (use assms in simp)
  then show ?thesis by blast
qed

text \<open>C12. A cycle over AF_XDP: if the transmit ring has room, its frames are prepared one per slot
  in consecutive slots of the transmit half, modulo its size, behind the meta data if
  launch times are used; each slot then holds the prepared frame and no other slot
  changes, so the receive half is never touched.  Descriptors and lengths are written
  in this order and submitted at once, all frames are counted as outstanding and as
  sent, and completions are taken off the count.\<close>

theorem xdp_gen_exact:
  fixes n k :: nat
  assumes "n = xg_num_frames_per_cycle xg" "0 < n" "n \<le> XDP_NUM_DESCS" "n \<le> slots"
    and "length (umem xsk) = 2 * XDP_NUM_DESCS * XDP_FRAME_SIZE" "xdp_launch_ok B app xg xsk" "md < XDP_FRAME_SIZE"
    and "\<And>i sl. i < n \<Longrightarrow> length sl = XDP_FRAME_SIZE \<Longrightarrow>
      \<exists>e sl'. xdp_slot_out E app xg clk (xdp_shift md B xsk) i sl = Some (e, sl') \<and> length sl' = XDP_FRAME_SIZE"
    and "\<not> tx_hwtstamp_mode xsk" "sent_ok app (xg_frame_type xg) S"
    and "length completed \<le> unat (outstanding_tx xsk + of_nat n)"
  shows "\<exists>xsk' S' descs calls errs.
    xdp_gen_and_send_frames md B app E clk clks clks_sent slots completed xg (of_nat (tx_slot k 0)) xsk S =
      Some (xsk', of_nat (tx_slot k n), S', [Tx_write descs, Tx_submit n] @ calls, errs) \<and>
    map (\<lambda>d. (xd_addr d, xd_len d)) descs =
      map (\<lambda>i. (tx_slot k i * XDP_FRAME_SIZE + xdp_shift md B xsk, xg_frame_length xg)) [0..<n] \<and>
    (\<forall>i<n. \<exists>e. xdp_slot_out E app xg clk (xdp_shift md B xsk) i (slot XDP_FRAME_SIZE (tx_slot k i) (umem xsk)) =
       Some (e, slot XDP_FRAME_SIZE (tx_slot k i) (umem xsk'))) \<and>
    (\<forall>j < 2 * XDP_NUM_DESCS. j \<notin> tx_slot k ` {..<n} \<longrightarrow>
       slot XDP_FRAME_SIZE j (umem xsk') = slot XDP_FRAME_SIZE j (umem xsk)) \<and>
    outstanding_tx xsk' = outstanding_tx xsk + of_nat n - of_nat (length completed) \<and>
    frames_sent (global_statistics S' (xg_frame_type xg)) = frames_sent (global_statistics S (xg_frame_type xg)) + of_nat n"
proof -
  obtain metas buf descs errs where g: "for_upto n (xdp_gen_frame md B app E clk clks xg) (xsk, of_nat (tx_slot k 0), [], 0) =
      Some (xsk\<lparr>umem_meta := metas, umem := buf\<rparr>, of_nat (tx_slot k n), descs, errs)" and
    d: "map (\<lambda>d. (xd_addr d, xd_len d)) descs =
      map (\<lambda>i. (tx_slot k i * XDP_FRAME_SIZE + xdp_shift md B xsk, xg_frame_length xg)) [0..<n]" and
    sl: "\<forall>i<n. \<exists>e. xdp_slot_out E app xg clk (xdp_shift md B xsk) i (slot XDP_FRAME_SIZE (tx_slot k i) (umem xsk)) =
       Some (e, slot XDP_FRAME_SIZE (tx_slot k i) buf)" and
    rest: "\<forall>j < 2 * XDP_NUM_DESCS. j \<notin> tx_slot k ` {..<n} \<longrightarrow> slot XDP_FRAME_SIZE j buf = slot XDP_FRAME_SIZE j (umem xsk)"
    using gen_frames_loop [OF assms(5,3,6-8), where clks = clks and k = k] by blast
  let ?x = "xsk\<lparr>umem_meta := metas, umem := buf, outstanding_tx := outstanding_tx xsk + of_nat n\<rparr>"
  have c: "\<exists>calls. xdp_complete_tx_only B app completed ?x S =
      Some (?x\<lparr>outstanding_tx := outstanding_tx xsk + of_nat n - of_nat (length completed)\<rparr>, S, calls)"
    using assms(9,11) by (auto simp: xdp_complete_tx_only_def)
  then obtain calls where c: "xdp_complete_tx_only B app completed ?x S =
      Some (?x\<lparr>outstanding_tx := outstanding_tx xsk + of_nat n - of_nat (length completed)\<rparr>, S, calls)" by blast
  obtain S' where S': "for_upto n (\<lambda>i. stat_frame_sent B app (clks_sent i) (xg_frame_type xg) (xg_sequence_counter_begin xg + of_nat i)) S = Some S'"
    "frames_sent (global_statistics S' (xg_frame_type xg)) = frames_sent (global_statistics S (xg_frame_type xg)) + of_nat n"
    using frames_sent_count [OF assms(10)] by blast
  have "xdp_gen_and_send_frames md B app E clk clks clks_sent slots completed xg (of_nat (tx_slot k 0)) xsk S =
      Some (?x\<lparr>outstanding_tx := outstanding_tx xsk + of_nat n - of_nat (length completed)\<rparr>, of_nat (tx_slot k n), S',
        [Tx_write descs, Tx_submit n] @ calls, errs)"
    using assms(1,2,4,9) g c S'(1) by (simp add: xdp_gen_and_send_frames_def Let_def del: for_upto.simps)
  then show ?thesis using d sl rest S'(2) by (intro exI conjI) (assumption, simp_all)
qed

definition demo_gen :: "bytes xdp_gen_config" where
  "demo_gen = \<lparr>xg_mode = SECURITY_MODE_NONE, xg_security_context = None, xg_iv_prefix = [], xg_payload_pattern = [],
     xg_payload_pattern_length = 0, xg_frame_length = 200, xg_num_frames_per_cycle = 2, xg_sequence_counter_begin = 6,
     xg_meta_data_offset = 20, xg_frame_type = TSN_HIGH_FRAME_TYPE, xg_tx_time = None, xg_protocol_type = GENERICL2_PROTOCOL_TYPE\<rparr>"

definition demo_gen_xsk :: xdp_socket where
  "demo_gen_xsk = zero_xdp_socket\<lparr>umem := replicate (2 * XDP_NUM_DESCS * XDP_FRAME_SIZE) 0\<rparr>"

lemma demo_gen_facts:
  "length (umem demo_gen_xsk) = 2 * XDP_NUM_DESCS * XDP_FRAME_SIZE" "xdp_shift md B demo_gen_xsk = 0"
  "xdp_launch_ok B app xg demo_gen_xsk" "\<not> tx_hwtstamp_mode demo_gen_xsk" "outstanding_tx demo_gen_xsk = 0"
  "sent_ok demo_stat_app TSN_HIGH_FRAME_TYPE zero_stat_state" "xg_num_frames_per_cycle demo_gen = 2" "xg_frame_type demo_gen = TSN_HIGH_FRAME_TYPE"
  "\<not> debug_monitor_mode demo_stat_app"
  by (simp_all add: demo_gen_xsk_def zero_xdp_socket_def xdp_shift_def xdp_launch_ok_def sent_ok_def demo_stat_app_def zero_app_config_def
      zero_class_config_def zero_stat_state_def demo_gen_def)

lemma demo_gen_out:
  assumes "length sl = XDP_FRAME_SIZE"
  shows "\<exists>e sl'. xdp_slot_out demo_evp demo_stat_app demo_gen clk 0 i sl = Some (e, sl') \<and> length sl' = XDP_FRAME_SIZE"
proof -
  obtain f1 where f1: "sequence_counter_to_meta_data 20 (6 + of_nat i) 2 sl = Some f1" "length f1 = length sl"
    using assms by (auto simp: sequence_counter_to_meta_data_def mem_write_def be32_bytes_def)
  moreover obtain f2 where "tx_timestamp_to_meta_data 20 (clock_ns clk) f1 = Some f2" "length f2 = length f1"
    using f1 assms by (auto simp: tx_timestamp_to_meta_data_def mem_write_def be64_bytes_def)
  ultimately show ?thesis
    using assms by (simp add: xdp_slot_out_def prepare_frame_for_tx_def xdp_frame_config_def demo_gen_def demo_gen_facts)
qed

theorem xdp_gen_exact_witness:
  "\<exists>xsk' S' descs calls errs.
    xdp_gen_and_send_frames 32 demo_hwts_build demo_stat_app demo_evp demo_clock (\<lambda>_. None) (\<lambda>_. None) 2 [] demo_gen
      (of_nat (tx_slot 4095 0)) demo_gen_xsk zero_stat_state =
      Some (xsk', of_nat (tx_slot 4095 2), S', [Tx_write descs, Tx_submit 2] @ calls, errs) \<and>
    map xd_addr descs = [8191 * 4096, 4096 * 4096] \<and> outstanding_tx xsk' = 2"
proof -
  have a: "0 < (2 :: nat)" "2 \<le> XDP_NUM_DESCS" "(2 :: nat) \<le> 2" "32 < XDP_FRAME_SIZE" by simp_all
  have pre: "\<exists>e sl'. xdp_slot_out demo_evp demo_stat_app demo_gen demo_clock (xdp_shift 32 demo_hwts_build demo_gen_xsk) i sl = Some (e, sl') \<and>
      length sl' = XDP_FRAME_SIZE" if "i < 2" "length sl = XDP_FRAME_SIZE" for i sl
    using demo_gen_out [OF that(2)] by (simp only: demo_gen_facts(2))
  have st: "sent_ok demo_stat_app (xg_frame_type demo_gen) zero_stat_state" by (simp only: demo_gen_facts)
  have len: "length ([] :: nat list) \<le> unat (outstanding_tx demo_gen_xsk + of_nat 2)" by simp
  obtain xsk' S' descs calls errs where
    r: "xdp_gen_and_send_frames 32 demo_hwts_build demo_stat_app demo_evp demo_clock (\<lambda>_. None) (\<lambda>_. None) 2 [] demo_gen
      (of_nat (tx_slot 4095 0)) demo_gen_xsk zero_stat_state =
      Some (xsk', of_nat (tx_slot 4095 2), S', [Tx_write descs, Tx_submit 2] @ calls, errs)" and
    d: "map (\<lambda>d. (xd_addr d, xd_len d)) descs =
      map (\<lambda>i. (tx_slot 4095 i * XDP_FRAME_SIZE + xdp_shift 32 demo_hwts_build demo_gen_xsk, xg_frame_length demo_gen)) [0..<2]" and
    o: "outstanding_tx xsk' = outstanding_tx demo_gen_xsk + of_nat 2 - of_nat (length ([] :: nat list))"
    using xdp_gen_exact [OF demo_gen_facts(7) [symmetric] a(1-3) demo_gen_facts(1,3) a(4) pre demo_gen_facts(4) st len,
        of "\<lambda>_. None" "\<lambda>_. None" 4095] by blast
  have "map xd_addr descs = [8191 * 4096, 4096 * 4096]"
    using arg_cong [OF d, of "map fst"] by (simp add: comp_def tx_slot_def demo_gen_facts(2) upt_rec)
  then show ?thesis using r o demo_gen_facts(5) by (intro exI conjI) (assumption, simp_all)
qed

end
