(* ===== verification/TB_Threads.thy ===== *)
theory TB_Threads
  imports TB_Config_Props TB_Xdp_Props
begin

text \<open>
  Threads and their life cycle: \<^verbatim>\<open>thread.c\<close> (real-time threads and the order of the PROFINET
  classes), creation, joining and release of a traffic class in \<^verbatim>\<open>tc.c\<close> with every error
  label, the create functions of the classes (\<^verbatim>\<open>tsn_thread.c\<close>, \<^verbatim>\<open>rtc_thread.c\<close>,
  \<^verbatim>\<open>rta_thread.c\<close>, \<^verbatim>\<open>dcp_thread.c\<close>, \<^verbatim>\<open>lldp_thread.c\<close>, \<^verbatim>\<open>layer2_thread.c\<close>,
  \<^verbatim>\<open>udp_thread.c\<close>), and the start of the program in \<^verbatim>\<open>tb.c\<close>.
\<close>

section \<open>Real-time threads\<close>

text \<open>The results of the eight calls; \<^const>\<open>None\<close> is 0.\<close>

record rt_outcome =
  rto_attr_init :: "errno option"
  rto_stacksize :: "errno option"
  rto_policy :: "errno option"
  rto_param :: "errno option"
  rto_inherit :: "errno option"
  rto_affinity :: "errno option"
  rto_create :: "errno option"
  rto_setname :: "errno option"

text \<open>A running thread; without a name of its own it keeps that of its creator.\<close>

record rt_thread =
  rt_priority :: int
  rt_cpu :: int
  rt_stack :: nat
  rt_name :: "string option"

text \<open>Error and thread: a thread may run although an error is returned.\<close>

definition create_rt_thread :: "rt_outcome \<Rightarrow> int \<Rightarrow> int \<Rightarrow> string \<Rightarrow> errno option \<times> rt_thread option" where
  "create_rt_thread ro prio cpu nm =
     (let thread_name = take 15 nm;
          t = \<lparr>rt_priority = prio, rt_cpu = cpu, rt_stack = 2 * 1024 * 1024, rt_name = None\<rparr>
      in case rto_attr_init ro of Some e \<Rightarrow> (Some e, None) | None \<Rightarrow>
        (case rto_stacksize ro of Some e \<Rightarrow> (Some e, None) | None \<Rightarrow>
        (case rto_policy ro of Some e \<Rightarrow> (Some e, None) | None \<Rightarrow>
        (case rto_param ro of Some e \<Rightarrow> (Some e, None) | None \<Rightarrow>
        (case rto_inherit ro of Some e \<Rightarrow> (Some e, None) | None \<Rightarrow>
        (case rto_affinity ro of Some e \<Rightarrow> (Some e, None) | None \<Rightarrow>
        (case rto_create ro of Some e \<Rightarrow> (Some e, None) | None \<Rightarrow>
        (case rto_setname ro of Some e \<Rightarrow> (Some e, Some t)
         | None \<Rightarrow> (None, Some (t\<lparr>rt_name := Some thread_name\<rparr>))))))))))"

section \<open>The order of the PROFINET classes\<close>

datatype pn_thread_type =
    TSN_HIGH_THREAD | TSN_LOW_THREAD | RTC_THREAD | RTA_THREAD | DCP_THREAD | LLDP_THREAD
  | UDP_HIGH_THREAD | UDP_LOW_THREAD

definition pn_thread_types :: "pn_thread_type list" where
  "pn_thread_types = [TSN_HIGH_THREAD, TSN_LOW_THREAD, RTC_THREAD, RTA_THREAD, DCP_THREAD, LLDP_THREAD,
     UDP_HIGH_THREAD, UDP_LOW_THREAD]"

primrec pn_index :: "pn_thread_type \<Rightarrow> nat" where
  "pn_index TSN_HIGH_THREAD = 0"
| "pn_index TSN_LOW_THREAD = 1"
| "pn_index RTC_THREAD = 2"
| "pn_index RTA_THREAD = 3"
| "pn_index DCP_THREAD = 4"
| "pn_index LLDP_THREAD = 5"
| "pn_index UDP_HIGH_THREAD = 6"
| "pn_index UDP_LOW_THREAD = 7"

abbreviation "NUM_PN_THREAD_TYPES \<equiv> 8 :: nat"

text \<open>The \<^verbatim>\<open>switch\<close> falls through: each case continues with the tests of the next one.\<close>

definition find_next_pn_thread :: "application_config \<Rightarrow> pn_thread_type \<Rightarrow> pn_thread_type option" where
  "find_next_pn_thread app start =
     (let udp_low = None;
          udp_high = (if config_is_tc_active app UDP_LOW_FRAME_TYPE then Some UDP_LOW_THREAD else udp_low);
          lldp = (if config_is_tc_active app UDP_HIGH_FRAME_TYPE then Some UDP_HIGH_THREAD else udp_high);
          dcp = (if config_is_tc_active app LLDP_FRAME_TYPE then Some LLDP_THREAD else lldp);
          rta = (if config_is_tc_active app DCP_FRAME_TYPE then Some DCP_THREAD else dcp);
          rtc = (if config_is_tc_active app RTA_FRAME_TYPE then Some RTA_THREAD else rta);
          tsn_low = (if config_is_tc_active app RTC_FRAME_TYPE then Some RTC_THREAD else rtc);
          tsn_high = (if config_is_tc_active app TSN_LOW_FRAME_TYPE then Some TSN_LOW_THREAD else tsn_low)
      in case start of
           TSN_HIGH_THREAD \<Rightarrow> tsn_high
         | TSN_LOW_THREAD \<Rightarrow> tsn_low
         | RTC_THREAD \<Rightarrow> rtc
         | RTA_THREAD \<Rightarrow> rta
         | DCP_THREAD \<Rightarrow> dcp
         | LLDP_THREAD \<Rightarrow> lldp
         | UDP_HIGH_THREAD \<Rightarrow> udp_high
         | UDP_LOW_THREAD \<Rightarrow> udp_low)"

text \<open>The loop that finds the last thread: \<open>t\<close> and \<open>p\<close> of the code; it returns unless the
  \<^verbatim>\<open>next\<close> pointers form a cycle or leave the array.\<close>

partial_function (option) find_last_pn_thread :: "'c thread_context list \<Rightarrow> nat option \<Rightarrow> nat \<Rightarrow> nat option" where
  "find_last_pn_thread ts t p =
     (case t of
        None \<Rightarrow> Some p
      | Some i \<Rightarrow> if i < length ts then find_last_pn_thread ts (next_ctx (ts ! i)) i else None)"

definition link_pn_threads ::
  "application_config \<Rightarrow> 'c thread_context list \<Rightarrow> (errno option \<times> 'c thread_context list) option" where
  "link_pn_threads app ts =
     (let ts = map (\<lambda>(p, c). c\<lparr>next_ctx := map_option pn_index (find_next_pn_thread app p)\<rparr>) (zip pn_thread_types ts);
          mark_last = (\<lambda>first. let i = pn_index first; ts = ts[i := (ts ! i)\<lparr>is_first := True\<rparr>]
             in do {
                  p \<leftarrow> find_last_pn_thread ts (Some i) i;
                  Some (None, ts[p := (ts ! p)\<lparr>is_last := True\<rparr>])
                })
      in if config_is_tc_active app TSN_HIGH_FRAME_TYPE then mark_last TSN_HIGH_THREAD
         else if config_is_tc_active app RTC_FRAME_TYPE then mark_last RTC_THREAD
         else if config_is_tc_active app GENERICL2_FRAME_TYPE then Some (None, ts)
         else Some (Some EINVAL, ts))"

section \<open>Traffic classes\<close>

definition rtc_initialize_frame ::
  "'c thread_context \<Rightarrow> bytes \<Rightarrow> nat \<Rightarrow> bytes \<Rightarrow> bytes \<Rightarrow> bytes option" where
  "rtc_initialize_frame ctx frame flen src_mac dst_mac =
     initialize_profinet_frame (security_mode (conf ctx)) frame flen src_mac dst_mac
       (ptr_bytes (payload_pattern (conf ctx))) (payload_pattern_length (conf ctx))
       (vlan_tci_of (conf ctx)) (frame_id ctx)"

definition rta_initialize_frame ::
  "'c thread_context \<Rightarrow> bytes \<Rightarrow> nat \<Rightarrow> bytes \<Rightarrow> bytes \<Rightarrow> bytes option" where
  "rta_initialize_frame ctx frame flen src_mac dst_mac =
     initialize_profinet_frame (security_mode (conf ctx)) frame flen src_mac dst_mac
       (ptr_bytes (payload_pattern (conf ctx))) (payload_pattern_length (conf ctx))
       (vlan_tci_of (conf ctx)) (frame_id ctx)"

text \<open>The thread routines a class runs.\<close>

datatype tc_routine = tc_tx_thread | tc_rx_thread | tc_xdp_tx_thread | tc_xdp_rx_thread

record 'c traffic_class_ops =
  ops_initialize_frame :: "'c thread_context \<Rightarrow> bytes \<Rightarrow> nat \<Rightarrow> bytes \<Rightarrow> bytes \<Rightarrow> bytes option"
  ops_receive_frame :: "rx_env \<Rightarrow> nat \<Rightarrow> 'c rx_state \<Rightarrow> (errno option \<times> 'c rx_state) option"
  ops_create_socket :: "socket_outcome \<Rightarrow> (errno + raw_socket) \<times> nat list"
  ops_tx_thread :: tc_routine
  ops_rx_thread :: tc_routine

record 'c traffic_class_desc =
  desc_ops :: "'c traffic_class_ops"
  desc_tx_model :: tc_tx_model

datatype tc_thread = Tx_thread | Tx_gen_thread | Rx_thread

text \<open>What a class owns, other than its AF_XDP socket.\<close>

datatype tc_resource =
    TR_packet packet_cell | TR_tx_frame_data | TR_rx_frame_data | TR_frame_copy | TR_socket int
  | TR_mirror rb_cell | TR_tx_security sec_resource | TR_rx_security sec_resource | TR_thread tc_thread
  | TR_workload wl_cell | TR_workload_set_up nat | TR_workload_thread nat | TR_desc

text \<open>What the outside decides: each allocation, query, socket and thread.\<close>

record tc_outcome =
  to_packet :: "packet_cell \<Rightarrow> bool"
  to_tx_frame_data :: bool
  to_rx_frame_data :: bool
  to_mac_socket :: "errno + nat"
  to_mac_ioctl :: "errno + bytes"
  to_frame_copy :: bool
  to_xdp :: xdp_open_outcome
  to_close_if_index :: nat
  to_socket :: socket_outcome
  to_udp_socket :: udp_socket_outcome
  to_udp_errno :: "errno option"
  to_ring_buffer :: bool
  to_ring_buffer_data :: bool
  to_tx_security :: bool
  to_rx_security :: bool
  to_thread :: "tc_thread \<Rightarrow> rt_outcome"
  to_workload :: wl_outcome
  to_desc :: bool

text \<open>The context with its pointers and task ids (\<^const>\<open>None\<close> for \<^verbatim>\<open>NULL\<close> and 0), the resources
  held, and what the classes share: the state of the XDP program and the resources of the
  AF_XDP sockets.\<close>

record 'c tc_state =
  ts_ctx :: "'c thread_context"
  ts_desc :: "'c traffic_class_desc option"
  ts_packet_context :: bool
  ts_socket_fd :: int
  ts_destination :: "(address_family \<times> bytes) option"
  ts_xsk :: "(xdp_socket \<times> xsk_call list) option"
  ts_tasks :: "tc_thread \<Rightarrow> rt_thread option"
  ts_held :: "tc_resource list"
  ts_xdp_held :: "xdp_resource list"
  ts_xdp_init :: xdp_init

definition tc_acquire :: "tc_resource list \<Rightarrow> 'c tc_state \<Rightarrow> 'c tc_state" where
  "tc_acquire rs s = s\<lparr>ts_held := rs @ ts_held s\<rparr>"

text \<open>Releasing what is not held is \<^verbatim>\<open>free(NULL)\<close>.\<close>

definition tc_release :: "tc_resource list \<Rightarrow> 'c tc_state \<Rightarrow> 'c tc_state" where
  "tc_release rs s = s\<lparr>ts_held := release rs (ts_held s)\<rparr>"

definition tc_start_thread ::
  "rt_outcome \<Rightarrow> int \<Rightarrow> int \<Rightarrow> string \<Rightarrow> tc_thread \<Rightarrow> 'c tc_state \<Rightarrow> errno option \<times> 'c tc_state" where
  "tc_start_thread ro prio cpu nm t s =
     (case create_rt_thread ro prio cpu nm of
        (ret, None) \<Rightarrow> (ret, s)
      | (ret, Some th) \<Rightarrow> (ret, tc_acquire [TR_thread t] (s\<lparr>ts_tasks := (ts_tasks s)(t := Some th)\<rparr>)))"

definition tc_join :: "tc_thread \<Rightarrow> 'c tc_state \<Rightarrow> 'c tc_state" where
  "tc_join t s = tc_release [TR_thread t] s"

definition tc_join_started :: "tc_thread \<Rightarrow> 'c tc_state \<Rightarrow> 'c tc_state" where
  "tc_join_started t s = (if ts_tasks s t \<noteq> None then tc_join t s else s)"

definition tc_close_xsk :: "tc_outcome \<Rightarrow> 'c tc_state \<Rightarrow> 'c tc_state" where
  "tc_close_xsk oc s =
     (case ts_xsk s of
        None \<Rightarrow> s
      | Some _ \<Rightarrow> let (g, held) = xdp_close_socket (to_close_if_index oc) (ts_xdp_init s) (ts_xdp_held s)
                  in s\<lparr>ts_xdp_init := g, ts_xdp_held := held\<rparr>)"

subsection \<open>The error labels\<close>

definition tc_stop :: "'c tc_state \<Rightarrow> 'c tc_state" where
  "tc_stop s = s\<lparr>ts_ctx := (ts_ctx s)\<lparr>ctx_stop := True\<rparr>\<rparr>"

definition err_tx :: "'c tc_state \<Rightarrow> 'c tc_state" where
  "err_tx s = tc_release (map TR_packet (packet_free (ts_packet_context s))) s"

definition err_rx :: "'c tc_state \<Rightarrow> 'c tc_state" where
  "err_rx s = err_tx (tc_release [TR_tx_frame_data] s)"

definition err_mac :: "'c tc_state \<Rightarrow> 'c tc_state" where
  "err_mac s = err_rx (tc_release [TR_rx_frame_data] s)"

definition err_socket :: "'c tc_state \<Rightarrow> 'c tc_state" where
  "err_socket s = err_mac (tc_release [TR_frame_copy] s)"

definition err_thread :: "tc_outcome \<Rightarrow> 'c tc_state \<Rightarrow> 'c tc_state" where
  "err_thread oc s =
     err_socket (tc_close_xsk oc (if ts_socket_fd s \<noteq> 0 then tc_release [TR_socket (ts_socket_fd s)] s else s))"

definition err_tx_sec :: "tc_outcome \<Rightarrow> 'c tc_state \<Rightarrow> 'c tc_state" where
  "err_tx_sec oc s = err_thread oc (tc_release (map TR_mirror (ring_buffer_free (mirror_buffer (ts_ctx s)))) s)"

definition err_rx_sec :: "tc_outcome \<Rightarrow> 'c tc_state \<Rightarrow> 'c tc_state" where
  "err_rx_sec oc s = err_tx_sec oc (tc_release (map TR_tx_security (security_exit (tx_security_context (ts_ctx s)))) s)"

definition err_thread_tx :: "tc_outcome \<Rightarrow> 'c tc_state \<Rightarrow> 'c tc_state" where
  "err_thread_tx oc s = err_rx_sec oc (tc_release (map TR_rx_security (security_exit (rx_security_context (ts_ctx s)))) s)"

definition err_thread_txgen :: "tc_outcome \<Rightarrow> 'c tc_state \<Rightarrow> 'c tc_state" where
  "err_thread_txgen oc s = err_thread_tx oc (tc_join Tx_thread (tc_stop s))"

definition err_thread_rx :: "tc_outcome \<Rightarrow> 'c tc_state \<Rightarrow> 'c tc_state" where
  "err_thread_rx oc s = err_thread_txgen oc (tc_join_started Tx_gen_thread (tc_stop s))"

definition err_thread_wl :: "tc_outcome \<Rightarrow> 'c tc_state \<Rightarrow> 'c tc_state" where
  "err_thread_wl oc s = err_thread_rx oc (tc_join Rx_thread (tc_stop s))"

subsection \<open>Creating the threads of a class\<close>

text \<open>A step runs unless an error was returned.\<close>

definition and_then :: "errno option \<times> 's \<Rightarrow> ('s \<Rightarrow> errno option \<times> 's) \<Rightarrow> errno option \<times> 's" where
  "and_then r f = (case r of (Some e, s) \<Rightarrow> (Some e, s) | (None, s) \<Rightarrow> f s)"

definition tc_create_buffers :: "tc_outcome \<Rightarrow> 'c tc_state \<Rightarrow> errno option \<times> 'c tc_state" where
  "tc_create_buffers oc s =
     (let cfg = conf (ts_ctx s); data = replicate (num_frames_per_cycle cfg * MAX_FRAME_SIZE) 0
      in if xdp_enabled cfg then (None, s)
         else let (packet_context, cells) = packet_init (to_packet oc);
                  s = tc_acquire (map TR_packet cells) (s\<lparr>ts_packet_context := packet_context\<rparr>)
              in if \<not> packet_context then (Some ENOMEM, s)
                 else if \<not> to_tx_frame_data oc then (Some ENOMEM, err_tx s)
                 else let s = tc_acquire [TR_tx_frame_data] (s\<lparr>ts_ctx := (ts_ctx s)\<lparr>tx_frame_data := data\<rparr>\<rparr>)
                      in if \<not> to_rx_frame_data oc then (Some ENOMEM, err_rx s)
                         else (None, tc_acquire [TR_rx_frame_data] (s\<lparr>ts_ctx := (ts_ctx s)\<lparr>rx_frame_data := data\<rparr>\<rparr>)))"

text \<open>The source address and the template for authenticated encryption; the length is a
  \<^verbatim>\<open>size_t\<close>.\<close>

definition tc_create_template :: "tc_outcome \<Rightarrow> 'c tc_state \<Rightarrow> errno option \<times> 'c tc_state" where
  "tc_create_template oc s =
     (let cfg = conf (ts_ctx s)
      in case fst (get_interface_mac_address (to_mac_socket oc) (to_mac_ioctl oc) ETH_ALEN) of
           Inl e \<Rightarrow> (Some e, err_mac s)
         | Inr mac \<Rightarrow>
             let s = s\<lparr>ts_ctx := (ts_ctx s)\<lparr>source := mac\<rparr>\<rparr>
             in if \<not> to_frame_copy oc then (Some ENOMEM, err_mac s)
                else (None, tc_acquire [TR_frame_copy] (s\<lparr>ts_ctx := (ts_ctx s)\<lparr>
                        frame_copy := Some (replicate MAX_FRAME_SIZE 0),
                        ctx_payload_pattern := Some (sizeof_vlan_ethernet_header + sizeof_profinet_secure_header),
                        ctx_payload_pattern_length :=
                          nat ((int (frame_length cfg) - int (sizeof_vlan_ethernet_header + sizeof_profinet_secure_header +
                            sizeof_security_checksum)) mod 2 ^ 64)\<rparr>\<rparr>)))"

definition tc_create_socket ::
  "nat \<Rightarrow> build \<Rightarrow> application_config \<Rightarrow> tc_outcome \<Rightarrow> 'c traffic_class_desc \<Rightarrow> 'c tc_state \<Rightarrow>
   errno option \<times> 'c tc_state" where
  "tc_create_socket md B app oc d s =
     (let cfg = conf (ts_ctx s)
      in if xdp_enabled cfg
         then let (xsk, g, held) = xdp_open_socket md B (to_xdp oc) (application_xdp_program app) cfg (ts_xdp_init s);
                  s = s\<lparr>ts_socket_fd := 0, ts_xsk := xsk, ts_xdp_init := g, ts_xdp_held := held @ ts_xdp_held s\<rparr>
              in if xsk = None then (Some ENOMEM, err_socket s) else (None, s)
         else let s = s\<lparr>ts_xsk := None\<rparr>
              in case ops_create_socket (desc_ops d) (to_socket oc) of
                   (Inl e, fds) \<Rightarrow> (Some e, err_socket (tc_acquire (map (TR_socket \<circ> int) fds) s))
                 | (Inr sock, fds) \<Rightarrow> (None, tc_acquire (map (TR_socket \<circ> int) fds) (s\<lparr>ts_socket_fd := int (rs_fd sock)\<rparr>)))"

definition tc_create_mirror :: "tc_outcome \<Rightarrow> 'c tc_state \<Rightarrow> errno option \<times> 'c tc_state" where
  "tc_create_mirror oc s =
     (let cfg = conf (ts_ctx s)
      in if rx_mirror_enabled cfg \<and> \<not> xdp_enabled cfg
         then (case ring_buffer_allocate (to_ring_buffer oc) (to_ring_buffer_data oc)
                      (MAX_FRAME_SIZE * num_frames_per_cycle cfg) of
                 None \<Rightarrow> (Some ENOMEM, err_thread oc s)
               | Some rb \<Rightarrow> (None, tc_acquire [TR_mirror RB_data, TR_mirror RB_struct]
                                    (s\<lparr>ts_ctx := (ts_ctx s)\<lparr>mirror_buffer := Some rb\<rparr>\<rparr>)))
         else (None, s))"

definition tc_create_security ::
  "('c, 's) evp \<Rightarrow> tc_outcome \<Rightarrow> 'c tc_state \<Rightarrow> errno option \<times> 'c tc_state" where
  "tc_create_security E oc s =
     (let cfg = conf (ts_ctx s); key = ptr_bytes (security_key cfg)
      in if security_mode cfg \<noteq> SECURITY_MODE_NONE
         then let (tx, cells) = security_init E (to_tx_security oc) (security_algorithm cfg) key;
                  s = tc_acquire (map TR_tx_security cells) (s\<lparr>ts_ctx := (ts_ctx s)\<lparr>tx_security_context := tx\<rparr>\<rparr>)
              in if tx = None then (Some ENOMEM, err_tx_sec oc s)
                 else let (rx, cells) = security_init E (to_rx_security oc) (security_algorithm cfg) key;
                          s = tc_acquire (map TR_rx_security cells) (s\<lparr>ts_ctx := (ts_ctx s)\<lparr>rx_security_context := rx\<rparr>\<rparr>)
                      in if rx = None then (Some ENOMEM, err_rx_sec oc s) else (None, s)
         else (None, s\<lparr>ts_ctx := (ts_ctx s)\<lparr>tx_security_context := None, rx_security_context := None\<rparr>\<rparr>))"

definition tc_create_tx_threads ::
  "tc_outcome \<Rightarrow> 'c traffic_class_desc \<Rightarrow> 'c tc_state \<Rightarrow> errno option \<times> 'c tc_state" where
  "tc_create_tx_threads oc d s =
     (let cfg = conf (ts_ctx s); nm = traffic_class (ts_ctx s);
          s = s\<lparr>ts_ctx := (ts_ctx s)\<lparr>meta_data_offset := get_meta_data_offset (frame_type (ts_ctx s)) (security_mode cfg)\<rparr>\<rparr>;
          (ret, s) = tc_start_thread (to_thread oc Tx_thread) (tx_thread_priority cfg) (tx_thread_cpu cfg)
                       (nm @ ''TxThread'') Tx_thread s
      in if ret \<noteq> None then (ret, err_thread_tx oc s)
         else if desc_tx_model d = TC_TX_BURST \<and> \<not> rx_mirror_enabled cfg
         then let (ret, s) = tc_start_thread (to_thread oc Tx_gen_thread) (tx_thread_priority cfg) (tx_thread_cpu cfg)
                               (nm @ ''TxGenThread'') Tx_gen_thread s
              in if ret \<noteq> None then (ret, err_thread_txgen oc s) else (None, s)
         else (None, s))"

definition tc_create_rx_threads :: "tc_outcome \<Rightarrow> 'c tc_state \<Rightarrow> errno option \<times> 'c tc_state" where
  "tc_create_rx_threads oc s =
     (let cfg = conf (ts_ctx s);
          (ret, s) = tc_start_thread (to_thread oc Rx_thread) (rx_thread_priority cfg) (rx_thread_cpu cfg)
                       (traffic_class (ts_ctx s) @ ''RxThread'') Rx_thread s
      in if ret \<noteq> None then (ret, err_thread_rx oc s)
         else let (ret, r) = workload_context_init (to_workload oc) cfg;
                  s = tc_acquire (map TR_workload (wr_cells r) @ map TR_workload_set_up (wr_set_up r) @
                                  map TR_workload_thread (wr_threads r)) s
              in if ret \<noteq> None then (ret, err_thread_wl oc s) else (None, s))"

text \<open>The error \<^verbatim>\<open>errno\<close> after a failed socket call is that of the call.\<close>

definition tc_threads_create ::
  "nat \<Rightarrow> build \<Rightarrow> application_config \<Rightarrow> ('c, 's) evp \<Rightarrow> tc_outcome \<Rightarrow> 'c traffic_class_desc \<Rightarrow> 'c tc_state \<Rightarrow>
   errno option \<times> 'c tc_state" where
  "tc_threads_create md B app E oc d s =
     and_then (and_then (and_then (and_then (and_then (and_then
       (tc_create_buffers oc s)
       (tc_create_template oc))
       (tc_create_socket md B app oc d))
       (tc_create_mirror oc))
       (tc_create_security E oc))
       (tc_create_tx_threads oc d))
       (tc_create_rx_threads oc)"

definition tc_threads_wait_for_finish :: "'c tc_state \<Rightarrow> 'c tc_state" where
  "tc_threads_wait_for_finish s =
     (let s = tc_release (map TR_workload_thread (workload_thread_wait_for_finish (conf (ts_ctx s)))) s
      in tc_join_started Tx_gen_thread (tc_join_started Tx_thread (tc_join_started Rx_thread s)))"

definition tc_threads_free :: "tc_outcome \<Rightarrow> 'c tc_state \<Rightarrow> 'c tc_state" where
  "tc_threads_free oc s =
     (let s = tc_release [TR_frame_copy] s;
          s = tc_release (map TR_tx_security (security_exit (tx_security_context (ts_ctx s)))) s;
          s = tc_release (map TR_rx_security (security_exit (rx_security_context (ts_ctx s)))) s;
          s = tc_release (map TR_mirror (ring_buffer_free (mirror_buffer (ts_ctx s)))) s;
          s = tc_release (map TR_packet (packet_free (ts_packet_context s))) s;
          s = tc_release [TR_tx_frame_data] s;
          s = tc_release [TR_rx_frame_data] s;
          s = tc_close_xsk oc (if ts_socket_fd s > 0 then tc_release [TR_socket (ts_socket_fd s)] s else s);
          (torn_down, cells) = workload_thread_free (conf (ts_ctx s));
          s = tc_release (map TR_workload_set_up torn_down) s;
          s = tc_release (map TR_workload cells) s
      in tc_release [TR_desc] s)"

subsection \<open>The classes\<close>

text \<open>The names of the classes; that of the generic class is configured and never \<^verbatim>\<open>NULL\<close>.\<close>

definition stat_frame_type_to_string :: "application_config \<Rightarrow> stat_frame_type \<Rightarrow> string" where
  "stat_frame_type_to_string app t =
     (case t of
        TSN_HIGH_FRAME_TYPE \<Rightarrow> ''TsnHigh''
      | TSN_LOW_FRAME_TYPE \<Rightarrow> ''TsnLow''
      | RTC_FRAME_TYPE \<Rightarrow> ''Rtc''
      | RTA_FRAME_TYPE \<Rightarrow> ''Rta''
      | DCP_FRAME_TYPE \<Rightarrow> ''Dcp''
      | LLDP_FRAME_TYPE \<Rightarrow> ''Lldp''
      | UDP_HIGH_FRAME_TYPE \<Rightarrow> ''UdpHigh''
      | UDP_LOW_FRAME_TYPE \<Rightarrow> ''UdpLow''
      | _ \<Rightarrow> (case name (classes app GENERICL2_FRAME_TYPE) of None \<Rightarrow> '''' | Some n \<Rightarrow> n))"

text \<open>The part the create functions share, with the frame id, model and operations of the class.\<close>

definition tc_class_create ::
  "nat \<Rightarrow> build \<Rightarrow> application_config \<Rightarrow> ('c, 's) evp \<Rightarrow> tc_outcome \<Rightarrow> stat_frame_type \<Rightarrow> u16 \<Rightarrow> 'c traffic_class_desc \<Rightarrow>
   'c tc_state \<Rightarrow> errno option \<times> 'c tc_state" where
  "tc_class_create md B app E oc t fid d s =
     (if \<not> config_is_tc_active app t then (None, s)
      else let s = s\<lparr>ts_ctx := (ts_ctx s)\<lparr>conf := classes app t, frame_type := t,
                       traffic_class := stat_frame_type_to_string app t, frame_id := fid\<rparr>\<rparr>
           in if \<not> to_desc oc then (Some ENOMEM, s)
              else let s = tc_acquire [TR_desc] (s\<lparr>ts_desc := Some d, ts_ctx := (ts_ctx s)\<lparr>tx_model := desc_tx_model d\<rparr>\<rparr>);
                       (ret, s) = tc_threads_create md B app E oc d s
                   in (ret, if ret \<noteq> None then tc_release [TR_desc] s else s))"

definition class_ops ::
  "application_config \<Rightarrow> stat_frame_type \<Rightarrow>
   ('c thread_context \<Rightarrow> bytes \<Rightarrow> nat \<Rightarrow> bytes \<Rightarrow> bytes \<Rightarrow> bytes option) \<Rightarrow>
   (rx_env \<Rightarrow> nat \<Rightarrow> 'c rx_state \<Rightarrow> (errno option \<times> 'c rx_state) option) \<Rightarrow>
   (socket_outcome \<Rightarrow> (errno + raw_socket) \<times> nat list) \<Rightarrow> 'c traffic_class_ops" where
  "class_ops app t initialize_frame receive_frame create_sock =
     \<lparr>ops_initialize_frame = initialize_frame, ops_receive_frame = receive_frame, ops_create_socket = create_sock,
      ops_tx_thread = (if xdp_enabled (classes app t) then tc_xdp_tx_thread else tc_tx_thread),
      ops_rx_thread = (if xdp_enabled (classes app t) then tc_xdp_rx_thread else tc_rx_thread)\<rparr>"

definition tsn_high_threads_create ::
  "nat \<Rightarrow> build \<Rightarrow> application_config \<Rightarrow> ('c, 's) evp \<Rightarrow> tc_outcome \<Rightarrow> 'c tc_state \<Rightarrow> errno option \<times> 'c tc_state" where
  "tsn_high_threads_create md B app E oc s =
     tc_class_create md B app E oc TSN_HIGH_FRAME_TYPE
       (if security_mode (classes app TSN_HIGH_FRAME_TYPE) = SECURITY_MODE_NONE then TSN_HIGH_FRAMEID else TSN_HIGH_SEC_FRAMEID)
       \<lparr>desc_ops = class_ops app TSN_HIGH_FRAME_TYPE tsn_initialize_frame (receive_profinet_frame E)
                     (create_tsn_high_socket B app),
        desc_tx_model = TC_TX_CYCLIC\<rparr> s"

definition tsn_low_threads_create ::
  "nat \<Rightarrow> build \<Rightarrow> application_config \<Rightarrow> ('c, 's) evp \<Rightarrow> tc_outcome \<Rightarrow> 'c tc_state \<Rightarrow> errno option \<times> 'c tc_state" where
  "tsn_low_threads_create md B app E oc s =
     tc_class_create md B app E oc TSN_LOW_FRAME_TYPE
       (if security_mode (classes app TSN_LOW_FRAME_TYPE) = SECURITY_MODE_NONE then TSN_LOW_FRAMEID else TSN_LOW_SEC_FRAMEID)
       \<lparr>desc_ops = class_ops app TSN_LOW_FRAME_TYPE tsn_initialize_frame (receive_profinet_frame E)
                     (create_tsn_low_socket B app),
        desc_tx_model = TC_TX_CYCLIC\<rparr> s"

definition rtc_threads_create ::
  "nat \<Rightarrow> build \<Rightarrow> application_config \<Rightarrow> ('c, 's) evp \<Rightarrow> tc_outcome \<Rightarrow> 'c tc_state \<Rightarrow> errno option \<times> 'c tc_state" where
  "rtc_threads_create md B app E oc s =
     tc_class_create md B app E oc RTC_FRAME_TYPE
       (if security_mode (classes app RTC_FRAME_TYPE) = SECURITY_MODE_NONE then RTC_FRAMEID else RTC_SEC_FRAMEID)
       \<lparr>desc_ops = class_ops app RTC_FRAME_TYPE rtc_initialize_frame (receive_profinet_frame E) (create_rtc_socket B app),
        desc_tx_model = TC_TX_CYCLIC\<rparr> s"

definition rta_threads_create ::
  "nat \<Rightarrow> build \<Rightarrow> application_config \<Rightarrow> ('c, 's) evp \<Rightarrow> tc_outcome \<Rightarrow> 'c tc_state \<Rightarrow> errno option \<times> 'c tc_state" where
  "rta_threads_create md B app E oc s =
     tc_class_create md B app E oc RTA_FRAME_TYPE
       (if security_mode (classes app RTA_FRAME_TYPE) = SECURITY_MODE_NONE then RTA_FRAMEID else RTA_SEC_FRAMEID)
       \<lparr>desc_ops = class_ops app RTA_FRAME_TYPE rta_initialize_frame (receive_profinet_frame E) (create_rta_socket B app),
        desc_tx_model = TC_TX_BURST\<rparr> s"

definition dcp_threads_create ::
  "nat \<Rightarrow> build \<Rightarrow> application_config \<Rightarrow> ('c, 's) evp \<Rightarrow> tc_outcome \<Rightarrow> 'c tc_state \<Rightarrow> errno option \<times> 'c tc_state" where
  "dcp_threads_create md B app E oc s =
     tc_class_create md B app E oc DCP_FRAME_TYPE DCP_FRAMEID
       \<lparr>desc_ops = \<lparr>ops_initialize_frame = dcp_initialize_frame, ops_receive_frame = dcp_rx_frame,
                    ops_create_socket = create_dcp_socket B app, ops_tx_thread = tc_tx_thread, ops_rx_thread = tc_rx_thread\<rparr>,
        desc_tx_model = TC_TX_BURST\<rparr> s"

definition lldp_threads_create ::
  "nat \<Rightarrow> build \<Rightarrow> application_config \<Rightarrow> ('c, 's) evp \<Rightarrow> tc_outcome \<Rightarrow> 'c tc_state \<Rightarrow> errno option \<times> 'c tc_state" where
  "lldp_threads_create md B app E oc s =
     tc_class_create md B app E oc LLDP_FRAME_TYPE 0
       \<lparr>desc_ops = \<lparr>ops_initialize_frame = lldp_initialize_frame, ops_receive_frame = lldp_rx_frame,
                    ops_create_socket = create_lldp_socket B app, ops_tx_thread = tc_tx_thread, ops_rx_thread = tc_rx_thread\<rparr>,
        desc_tx_model = TC_TX_BURST\<rparr> s"

definition generic_l2_threads_create ::
  "nat \<Rightarrow> build \<Rightarrow> application_config \<Rightarrow> ('c, 's) evp \<Rightarrow> tc_outcome \<Rightarrow> 'c tc_state \<Rightarrow> errno option \<times> 'c tc_state" where
  "generic_l2_threads_create md B app E oc s =
     tc_class_create md B app E oc GENERICL2_FRAME_TYPE 0
       \<lparr>desc_ops = (if protocol_type (classes app GENERICL2_FRAME_TYPE) = ETHERCAT_PROTOCOL_TYPE
          then class_ops app GENERICL2_FRAME_TYPE initialize_ethercat_frame receive_ethercat_frame (create_ethercat_socket B app)
          else class_ops app GENERICL2_FRAME_TYPE generic_l2_initialize_frame generic_l2_rx_frame (create_generic_l2_socket B app)),
        desc_tx_model = TC_TX_STANDALONE\<rparr> s"

subsection \<open>UDP classes\<close>

definition udp_err_tx :: "'c tc_state \<Rightarrow> 'c tc_state" where
  "udp_err_tx s = tc_release [TR_socket (ts_socket_fd s)] s"

definition udp_err_rx :: "'c tc_state \<Rightarrow> 'c tc_state" where
  "udp_err_rx s = udp_err_tx (tc_release [TR_tx_frame_data] s)"

definition udp_err_buffer :: "'c tc_state \<Rightarrow> 'c tc_state" where
  "udp_err_buffer s = udp_err_rx (tc_release [TR_rx_frame_data] s)"

definition udp_err_thread :: "'c tc_state \<Rightarrow> 'c tc_state" where
  "udp_err_thread s = udp_err_buffer (tc_release (map TR_mirror (ring_buffer_free (mirror_buffer (ts_ctx s)))) s)"

definition udp_err_thread_txgen :: "'c tc_state \<Rightarrow> 'c tc_state" where
  "udp_err_thread_txgen s = udp_err_thread (tc_join Tx_thread (tc_stop s))"

definition udp_err_thread_rx :: "'c tc_state \<Rightarrow> 'c tc_state" where
  "udp_err_thread_rx s = udp_err_thread_txgen (tc_join_started Tx_gen_thread (tc_stop s))"

definition udp_create_buffers :: "tc_outcome \<Rightarrow> 'c tc_state \<Rightarrow> errno option \<times> 'c tc_state" where
  "udp_create_buffers oc s =
     (let cfg = conf (ts_ctx s); n = num_frames_per_cycle cfg
      in if \<not> to_tx_frame_data oc then (Some ENOMEM, udp_err_tx s)
         else let s = tc_acquire [TR_tx_frame_data] (s\<lparr>ts_ctx := (ts_ctx s)\<lparr>tx_frame_data := replicate MAX_FRAME_SIZE 0\<rparr>\<rparr>)
         in if \<not> to_rx_frame_data oc then (Some ENOMEM, udp_err_rx s)
         else let s = tc_acquire [TR_rx_frame_data] (s\<lparr>ts_ctx := (ts_ctx s)\<lparr>rx_frame_data := replicate (n * MAX_FRAME_SIZE) 0\<rparr>\<rparr>)
         in if rx_mirror_enabled cfg
            then (case ring_buffer_allocate (to_ring_buffer oc) (to_ring_buffer_data oc) (MAX_FRAME_SIZE * n) of
                    None \<Rightarrow> (Some ENOMEM, udp_err_buffer s)
                  | Some rb \<Rightarrow> (None, tc_acquire [TR_mirror RB_data, TR_mirror RB_struct]
                                       (s\<lparr>ts_ctx := (ts_ctx s)\<lparr>mirror_buffer := Some rb\<rparr>\<rparr>)))
            else (None, s))"

definition udp_start_threads :: "tc_outcome \<Rightarrow> 'c tc_state \<Rightarrow> errno option \<times> 'c tc_state" where
  "udp_start_threads oc s =
     (let cfg = conf (ts_ctx s); nm = traffic_class (ts_ctx s);
          (ret, s) = tc_start_thread (to_thread oc Tx_thread) (tx_thread_priority cfg) (tx_thread_cpu cfg)
                       (nm @ ''TxThread'') Tx_thread s
      in if ret \<noteq> None then (ret, udp_err_thread s)
         else let (ret, s) = (if \<not> rx_mirror_enabled cfg
                then tc_start_thread (to_thread oc Tx_gen_thread) (tx_thread_priority cfg) (tx_thread_cpu cfg)
                       (nm @ ''TxGenThread'') Tx_gen_thread s
                else (None, s))
         in if ret \<noteq> None then (ret, udp_err_thread_txgen s)
         else let (ret, s) = tc_start_thread (to_thread oc Rx_thread) (rx_thread_priority cfg) (rx_thread_cpu cfg)
                               (nm @ ''RxThread'') Rx_thread s
         in if ret \<noteq> None then (ret, udp_err_thread_rx s) else (None, s))"

text \<open>The return code is that of \<^verbatim>\<open>errno\<close>, which the name resolution need not set: 0 then.\<close>

definition udp_threads_create ::
  "application_config \<Rightarrow> tc_outcome \<Rightarrow> 'c tc_state \<Rightarrow> errno option \<times> 'c tc_state" where
  "udp_threads_create app oc s =
     (if \<not> config_is_tc_active app (frame_type (ts_ctx s)) then (None, s)
      else case create_udp_socket (to_udp_socket oc) of
        (Inl _, fds) \<Rightarrow> (to_udp_errno oc, tc_acquire (map (TR_socket \<circ> int) fds) (s\<lparr>ts_socket_fd := - 1\<rparr>))
      | (Inr (fd, destination), fds) \<Rightarrow>
          and_then (udp_create_buffers oc (tc_acquire (map (TR_socket \<circ> int) fds)
                      (s\<lparr>ts_socket_fd := int fd, ts_destination := Some destination\<rparr>)))
            (udp_start_threads oc))"

definition udp_low_threads_create :: "application_config \<Rightarrow> tc_outcome \<Rightarrow> 'c tc_state \<Rightarrow> errno option \<times> 'c tc_state" where
  "udp_low_threads_create app oc s =
     udp_threads_create app oc (s\<lparr>ts_ctx := (ts_ctx s)\<lparr>conf := classes app UDP_LOW_FRAME_TYPE,
       frame_type := UDP_LOW_FRAME_TYPE, traffic_class := stat_frame_type_to_string app UDP_LOW_FRAME_TYPE\<rparr>\<rparr>)"

definition udp_high_threads_create :: "application_config \<Rightarrow> tc_outcome \<Rightarrow> 'c tc_state \<Rightarrow> errno option \<times> 'c tc_state" where
  "udp_high_threads_create app oc s =
     udp_threads_create app oc (s\<lparr>ts_ctx := (ts_ctx s)\<lparr>conf := classes app UDP_HIGH_FRAME_TYPE,
       frame_type := UDP_HIGH_FRAME_TYPE, traffic_class := stat_frame_type_to_string app UDP_HIGH_FRAME_TYPE\<rparr>\<rparr>)"

section \<open>The program\<close>

record tb_startup_mode =
  binary_name :: string
  stat_mode :: log_stat_options
  use_histogram :: bool
  is_mirror :: bool

definition reference_main :: tb_startup_mode where
  "reference_main = \<lparr>binary_name = ''reference'', stat_mode = LOG_REFERENCE, use_histogram = True, is_mirror = False\<rparr>"

definition mirror_main :: tb_startup_mode where
  "mirror_main = \<lparr>binary_name = ''mirror'', stat_mode = LOG_MIRROR, use_histogram = False, is_mirror = True\<rparr>"

text \<open>A mirror that has a class with hardware time stamps for sent frames records them.\<close>

definition tb_stat_mode :: "application_config \<Rightarrow> tb_startup_mode \<Rightarrow> log_stat_options" where
  "tb_stat_mode app mode =
     (if is_mirror mode \<and> list_ex (\<lambda>t. tx_hwtstamp_enabled (classes app t)) frame_types then LOG_TX_TIMESTAMPS
      else stat_mode mode)"

text \<open>Contexts as \<^verbatim>\<open>calloc\<close> leaves them: all fields zero.\<close>

definition zero_tc_state :: "xdp_init \<Rightarrow> 'c tc_state" where
  "zero_tc_state g =
     \<lparr>ts_ctx = fresh_context zero_class_config TSN_HIGH_FRAME_TYPE, ts_desc = None, ts_packet_context = False,
      ts_socket_fd = 0, ts_destination = None, ts_xsk = None, ts_tasks = (\<lambda>_. None), ts_held = [], ts_xdp_held = [],
      ts_xdp_init = g\<rparr>"

definition pn_threads_create ::
  "nat \<Rightarrow> build \<Rightarrow> application_config \<Rightarrow> ('c, 's) evp \<Rightarrow> tc_outcome \<Rightarrow> pn_thread_type \<Rightarrow> 'c tc_state \<Rightarrow>
   errno option \<times> 'c tc_state" where
  "pn_threads_create md B app E oc p s =
     (case p of
        TSN_HIGH_THREAD \<Rightarrow> tsn_high_threads_create md B app E oc s
      | TSN_LOW_THREAD \<Rightarrow> tsn_low_threads_create md B app E oc s
      | RTC_THREAD \<Rightarrow> rtc_threads_create md B app E oc s
      | RTA_THREAD \<Rightarrow> rta_threads_create md B app E oc s
      | DCP_THREAD \<Rightarrow> dcp_threads_create md B app E oc s
      | LLDP_THREAD \<Rightarrow> lldp_threads_create md B app E oc s
      | UDP_HIGH_THREAD \<Rightarrow> udp_high_threads_create app oc s
      | UDP_LOW_THREAD \<Rightarrow> udp_low_threads_create app oc s)"

text \<open>What the classes share is handed from one to the next.\<close>

definition share :: "'c tc_state \<Rightarrow> 'c tc_state \<Rightarrow> 'c tc_state" where
  "share s s' = s'\<lparr>ts_xdp_init := ts_xdp_init s, ts_xdp_held := ts_xdp_held s\<rparr>"

text \<open>The order of the calls, \<^const>\<open>None\<close> if the program exits after an error.\<close>

definition tb_create_order :: "pn_thread_type list" where
  "tb_create_order = [UDP_LOW_THREAD, UDP_HIGH_THREAD, LLDP_THREAD, DCP_THREAD, RTA_THREAD, RTC_THREAD, TSN_LOW_THREAD,
     TSN_HIGH_THREAD]"

fun tb_create_pn ::
  "nat \<Rightarrow> build \<Rightarrow> application_config \<Rightarrow> ('c, 's) evp \<Rightarrow> (pn_thread_type \<Rightarrow> tc_outcome) \<Rightarrow> pn_thread_type list \<Rightarrow>
   'c tc_state \<Rightarrow> 'c tc_state list \<Rightarrow> 'c tc_state list option" where
  "tb_create_pn md B app E ocs [] prev ts = Some ts"
| "tb_create_pn md B app E ocs (p # ps) prev ts =
     (let (ret, s) = pn_threads_create md B app E (ocs p) p (share prev (ts ! pn_index p))
      in if ret \<noteq> None then None else tb_create_pn md B app E ocs ps s (ts[pn_index p := s]))"

record 'c tb_threads =
  g2_threads :: "'c tc_state"
  pn_threads :: "'c tc_state list"

text \<open>The part of \<^verbatim>\<open>tb_startup\<close> that creates the traffic classes: \<^const>\<open>None\<close> inside if it exits.\<close>

definition tb_create_threads ::
  "nat \<Rightarrow> build \<Rightarrow> application_config \<Rightarrow> ('c, 's) evp \<Rightarrow> bool \<Rightarrow> bool \<Rightarrow> tc_outcome \<Rightarrow> (pn_thread_type \<Rightarrow> tc_outcome) \<Rightarrow>
   xdp_init \<Rightarrow> 'c tb_threads option option" where
  "tb_create_threads md B app E g2_ok threads_ok oc ocs g =
     (if \<not> g2_ok then Some None
      else let (ret, g2) = generic_l2_threads_create md B app E oc (zero_tc_state g)
           in if ret \<noteq> None \<or> \<not> threads_ok then Some None
              else do {
                (ret, ctxs) \<leftarrow> link_pn_threads app (map ts_ctx (replicate NUM_PN_THREAD_TYPES (zero_tc_state g)));
                Some (if ret \<noteq> None then None
                      else map_option (\<lambda>ts. \<lparr>g2_threads = g2, pn_threads = ts\<rparr>)
                             (tb_create_pn md B app E ocs tb_create_order g2
                                (map (\<lambda>c. (zero_tc_state g)\<lparr>ts_ctx := c\<rparr>) ctxs)))
              })"

definition term_handler :: "'c tb_threads \<Rightarrow> 'c tb_threads" where
  "term_handler tb = tb\<lparr>g2_threads := tc_stop (g2_threads tb), pn_threads := map tc_stop (pn_threads tb)\<rparr>"

text \<open>At the end: every class is joined, in the order of the array, then released in that
  order; the release of an AF_XDP socket updates the shared state.\<close>

definition tb_wait_for_finish :: "'c tb_threads \<Rightarrow> 'c tb_threads" where
  "tb_wait_for_finish tb = tb\<lparr>g2_threads := tc_threads_wait_for_finish (g2_threads tb),
     pn_threads := map tc_threads_wait_for_finish (pn_threads tb)\<rparr>"

fun tb_free_pn :: "tc_outcome \<Rightarrow> 'c tc_state \<Rightarrow> 'c tc_state list \<Rightarrow> 'c tc_state \<times> 'c tc_state list" where
  "tb_free_pn oc prev [] = (prev, [])"
| "tb_free_pn oc prev (s # ss) =
     (let s = tc_threads_free oc (share prev s); (prev, ss) = tb_free_pn oc s ss
      in (prev, s # ss))"

text \<open>The class created last, TSN high, holds the current state of what is shared.\<close>

definition tb_free :: "tc_outcome \<Rightarrow> 'c tb_threads \<Rightarrow> 'c tb_threads" where
  "tb_free oc tb =
     (let (prev, ts) = tb_free_pn oc (pn_threads tb ! pn_index TSN_HIGH_THREAD) (pn_threads tb)
      in \<lparr>g2_threads = tc_threads_free oc (share prev (g2_threads tb)), pn_threads = ts\<rparr>)"

end
