(* ===== verification/TB_Threads_Props.thy ===== *)
theory TB_Threads_Props
  imports TB_Threads
begin

text \<open>
  Correctness of the life cycle of the threads: the chain in which the PROFINET classes send
  within a cycle, and the resources held while the classes are created, run and released.
\<close>

section \<open>The order of the PROFINET classes\<close>

primrec pn_frame_type :: "pn_thread_type \<Rightarrow> stat_frame_type" where
  "pn_frame_type TSN_HIGH_THREAD = TSN_HIGH_FRAME_TYPE"
| "pn_frame_type TSN_LOW_THREAD = TSN_LOW_FRAME_TYPE"
| "pn_frame_type RTC_THREAD = RTC_FRAME_TYPE"
| "pn_frame_type RTA_THREAD = RTA_FRAME_TYPE"
| "pn_frame_type DCP_THREAD = DCP_FRAME_TYPE"
| "pn_frame_type LLDP_THREAD = LLDP_FRAME_TYPE"
| "pn_frame_type UDP_HIGH_THREAD = UDP_HIGH_FRAME_TYPE"
| "pn_frame_type UDP_LOW_THREAD = UDP_LOW_FRAME_TYPE"

abbreviation "pn_active app p \<equiv> config_is_tc_active app (pn_frame_type p)"

definition pn_after :: "pn_thread_type \<Rightarrow> pn_thread_type list" where
  "pn_after p = tl (dropWhile (\<lambda>q. q \<noteq> p) pn_thread_types)"

definition pn_first :: "application_config \<Rightarrow> pn_thread_type" where
  "pn_first app = (if pn_active app TSN_HIGH_THREAD then TSN_HIGH_THREAD else RTC_THREAD)"

text \<open>The classes that get to send, in order, once class \<open>i\<close> has: each signals the next.\<close>

primrec pn_cycle :: "'c thread_context list \<Rightarrow> nat \<Rightarrow> nat \<Rightarrow> nat list" where
  "pn_cycle ts 0 i = [i]"
| "pn_cycle ts (Suc n) i = i # concat (map (pn_cycle ts n) (tc_signal_next (ts ! i)))"

lemma pn_after_Cons:
  "pn_after p = q # qs \<Longrightarrow>
     pn_after q = qs \<and> find_next_pn_thread app p = (if pn_active app q then Some q else find_next_pn_thread app q)"
  by (cases p) (auto simp: pn_after_def pn_thread_types_def find_next_pn_thread_def Let_def)

lemma pn_after_Nil: "pn_after p = [] \<Longrightarrow> find_next_pn_thread app p = None"
  by (cases p) (auto simp: pn_after_def pn_thread_types_def find_next_pn_thread_def)

lemma pn_types_index [simp]: "pn_thread_types ! pn_index p = p" "pn_index p < 8" "length pn_thread_types = 8"
  by (cases p; simp add: pn_thread_types_def)+

text \<open>Contexts whose \<^verbatim>\<open>next\<close> pointers are those of the first loop.\<close>

definition pn_linked :: "application_config \<Rightarrow> 'c thread_context list \<Rightarrow> bool" where
  "pn_linked app ts \<longleftrightarrow> length ts = 8 \<and>
     (\<forall>p. next_ctx (ts ! pn_index p) = map_option pn_index (find_next_pn_thread app p))"

lemma pn_cycle_after:
  assumes "pn_linked app ts"
  shows "pn_after p = ps \<Longrightarrow> length ps \<le> n \<Longrightarrow>
    concat (map (pn_cycle ts n) (tc_signal_next (ts ! pn_index p))) = map pn_index (filter (pn_active app) ps)"
proof (induction ps arbitrary: p n)
  case Nil
  then show ?case using assms pn_after_Nil [of p app] by (simp add: pn_linked_def tc_signal_next_def)
next
  case (Cons q qs)
  then obtain m where n: "n = Suc m" by (cases n) auto
  note step = pn_after_Cons [OF Cons.prems(1), of app]
  show ?case
  proof (cases "pn_active app q")
    case True
    then have "tc_signal_next (ts ! pn_index p) = [pn_index q]"
      using assms step by (simp add: pn_linked_def tc_signal_next_def)
    then show ?thesis using Cons.IH [of q m] Cons.prems step n True by simp
  next
    case False
    then have "tc_signal_next (ts ! pn_index p) = tc_signal_next (ts ! pn_index q)"
      using assms step by (simp add: pn_linked_def tc_signal_next_def)
    then show ?thesis using Cons.IH [of q n] Cons.prems step False by simp
  qed
qed

lemma find_last_after:
  assumes "pn_linked app ts"
  shows "pn_after p = ps \<Longrightarrow>
    find_last_pn_thread ts (next_ctx (ts ! pn_index p)) i = Some (last (i # map pn_index (filter (pn_active app) ps)))"
proof (induction ps arbitrary: p i)
  case Nil
  then show ?case using assms pn_after_Nil [of p app] by (simp add: pn_linked_def find_last_pn_thread.simps)
next
  case (Cons q qs)
  note step = pn_after_Cons [OF Cons.prems(1), of app]
  have len: "length ts = 8" using assms by (simp add: pn_linked_def)
  show ?case
  proof (cases "pn_active app q")
    case True
    then have "next_ctx (ts ! pn_index p) = Some (pn_index q)"
      using assms step by (simp add: pn_linked_def)
    then show ?thesis using Cons.IH [of q "pn_index q"] step True len by (simp add: find_last_pn_thread.simps [of ts "Some _"])
  next
    case False
    then have "next_ctx (ts ! pn_index p) = next_ctx (ts ! pn_index q)"
      using assms step by (simp add: pn_linked_def)
    then show ?thesis using Cons.IH [of q i] step False by simp
  qed
qed

lemma pn_index_inj [simp]: "pn_index p = pn_index q \<longleftrightarrow> p = q"
  by (metis pn_types_index(1))

lemma pn_links:
  assumes "length ts = 8"
  shows "pn_linked app (map (\<lambda>(p, c). c\<lparr>next_ctx := map_option pn_index (find_next_pn_thread app p)\<rparr>) (zip pn_thread_types ts))"
  using assms by (simp add: pn_linked_def)

lemma pn_linked_first: "pn_linked app ts \<Longrightarrow> pn_linked app (ts[pn_index q := (ts ! pn_index q)\<lparr>is_first := b\<rparr>])"
  by (auto simp: pn_linked_def nth_list_update)

lemma pn_linked_last: "pn_linked app ts \<Longrightarrow> pn_linked app (ts[pn_index q := (ts ! pn_index q)\<lparr>is_last := b\<rparr>])"
  by (auto simp: pn_linked_def nth_list_update)

text \<open>C13. Linking the PROFINET classes returns.  If TSN high or RTC is active, the first of
  them starts the cycle and the signals passed on from class to class reach exactly the
  active classes behind it in the PROFINET order, each once and in that order; only the
  first is marked as first, and only the last one reached is marked as last, so that the
  statistics are published once per cycle.\<close>

theorem pn_chain:
  assumes "pn_active app TSN_HIGH_THREAD \<or> pn_active app RTC_THREAD" "length ts = 8"
    and "\<forall>c \<in> set ts. \<not> is_first c \<and> \<not> is_last c"
  shows "\<exists>ts'. link_pn_threads app ts = Some (None, ts') \<and>
    (let f = pn_first app; chain = f # filter (pn_active app) (pn_after f)
     in pn_cycle ts' 8 (pn_index f) = map pn_index chain \<and>
        (\<forall>p. (is_first (ts' ! pn_index p) \<longleftrightarrow> p = f) \<and> (is_last (ts' ! pn_index p) \<longleftrightarrow> p = last chain)))"
proof -
  let ?f = "pn_first app"
  let ?chain = "?f # filter (pn_active app) (pn_after ?f)"
  let ?ts = "map (\<lambda>(p, c). c\<lparr>next_ctx := map_option pn_index (find_next_pn_thread app p)\<rparr>) (zip pn_thread_types ts)"
  let ?t1 = "?ts[pn_index ?f := (?ts ! pn_index ?f)\<lparr>is_first := True\<rparr>]"
  let ?l = "pn_index (last ?chain)"
  let ?t2 = "?t1[?l := (?t1 ! ?l)\<lparr>is_last := True\<rparr>]"
  have l1: "pn_linked app ?t1" by (rule pn_linked_first [OF pn_links [OF assms(2)]])
  then have l2: "pn_linked app ?t2" by (rule pn_linked_last)
  have "find_last_pn_thread ?t1 (Some (pn_index ?f)) (pn_index ?f) = Some ?l"
    using find_last_after [OF l1 refl, of ?f "pn_index ?f"] l1
    by (simp add: find_last_pn_thread.simps [of _ "Some _"] pn_linked_def last_map)
  then have "link_pn_threads app ts = Some (None, ?t2)"
    using assms(1) by (auto simp: link_pn_threads_def pn_first_def Let_def)
  moreover have "length (pn_after ?f) \<le> 7" by (simp add: pn_after_def pn_first_def pn_thread_types_def)
  then have "pn_cycle ?t2 8 (pn_index ?f) = map pn_index ?chain"
    using pn_cycle_after [OF l2 refl, of ?f 7] by (simp add: eval_nat_numeral)
  moreover have "(is_first (?t2 ! pn_index p) \<longleftrightarrow> p = ?f) \<and> (is_last (?t2 ! pn_index p) \<longleftrightarrow> p = last ?chain)" for p
    using assms(2,3) by (auto simp: nth_list_update)
  ultimately show ?thesis by (auto simp: Let_def)
qed

definition demo_pn_app :: application_config where
  "demo_pn_app = zero_app_config\<lparr>classes := (\<lambda>t. if t = TSN_LOW_FRAME_TYPE \<or> t = RTC_FRAME_TYPE \<or> t = DCP_FRAME_TYPE
     then zero_class_config\<lparr>enabled := True, num_frames_per_cycle := 1\<rparr> else zero_class_config)\<rparr>"

lemma demo_pn_active:
  "pn_active demo_pn_app p \<longleftrightarrow> p = TSN_LOW_THREAD \<or> p = RTC_THREAD \<or> p = DCP_THREAD"
  by (cases p) (simp_all add: demo_pn_app_def config_is_tc_active_def zero_class_config_def)

theorem pn_chain_witness:
  "\<exists>ts'. link_pn_threads demo_pn_app (replicate 8 (fresh_context zero_class_config TSN_HIGH_FRAME_TYPE :: bytes thread_context)) =
     Some (None, ts') \<and> pn_cycle ts' 8 2 = [2, 4] \<and> is_last (ts' ! 4) \<and> \<not> is_first (ts' ! 1)"
proof -
  let ?ts = "replicate 8 (fresh_context zero_class_config TSN_HIGH_FRAME_TYPE :: bytes thread_context)"
  have f: "pn_first demo_pn_app = RTC_THREAD"
    "filter (pn_active demo_pn_app) (pn_after RTC_THREAD) = [DCP_THREAD]"
    by (simp_all only: pn_first_def pn_after_def pn_thread_types_def demo_pn_active) simp_all
  have "\<exists>ts'. link_pn_threads demo_pn_app ?ts = Some (None, ts') \<and>
    (let f = pn_first demo_pn_app; chain = f # filter (pn_active demo_pn_app) (pn_after f)
     in pn_cycle ts' 8 (pn_index f) = map pn_index chain \<and>
        (\<forall>p. (is_first (ts' ! pn_index p) \<longleftrightarrow> p = f) \<and> (is_last (ts' ! pn_index p) \<longleftrightarrow> p = last chain)))"
    by (rule pn_chain) (use demo_pn_active [of RTC_THREAD] in \<open>simp_all add: fresh_context_def\<close>)
  then obtain ts' where "link_pn_threads demo_pn_app ?ts = Some (None, ts')" "pn_cycle ts' 8 2 = [2, 4]"
    and p: "\<forall>p. (is_first (ts' ! pn_index p) \<longleftrightarrow> p = RTC_THREAD) \<and> (is_last (ts' ! pn_index p) \<longleftrightarrow> p = DCP_THREAD)"
    unfolding Let_def f by auto
  then show ?thesis using p [rule_format, of DCP_THREAD] p [rule_format, of TSN_LOW_THREAD] by auto
qed

section \<open>Resources of a class\<close>

text \<open>What the error labels do not release: a thread that runs but could not be named,
  and instances of a workload that were set up.\<close>

fun stray :: "tc_resource \<Rightarrow> bool" where
  "stray (TR_thread _) = True"
| "stray (TR_workload_set_up _) = True"
| "stray _ = False"

definition buffer_cells :: "bool \<Rightarrow> tc_resource list" where
  "buffer_cells xdp = (if xdp then [] else TR_rx_frame_data # TR_tx_frame_data #
     map TR_packet [PC_tx_completion_frame, PC_rx_control_msgs, PC_tx_control_msgs, PC_tx_msgs, PC_tx_iovecs, PC_rx_msgs,
       PC_rx_iovecs, PC_rx_frames, PC_context])"

lemma packet_init_cells:
  "packet_init ok = (if fst (packet_init ok) then (True, [PC_tx_completion_frame, PC_rx_control_msgs, PC_tx_control_msgs,
     PC_tx_msgs, PC_tx_iovecs, PC_rx_msgs, PC_rx_iovecs, PC_rx_frames, PC_context]) else (False, []))"
  by (simp add: packet_init_def Let_def)

lemma remove1_stray: "list_all stray L \<Longrightarrow> \<not> stray r \<Longrightarrow> remove1 r (L @ h) = L @ remove1 r h"
  by (auto simp: list_all_iff remove1_append)

text \<open>What the classes share, and the fields a step does not touch.\<close>

abbreviation shared :: "'c tc_state \<Rightarrow> xdp_init \<times> xdp_resource list" where
  "shared s \<equiv> (ts_xdp_init s, ts_xdp_held s)"

lemma tc_release_simps [simp]:
  "shared (tc_release rs s) = shared s" "ts_ctx (tc_release rs s) = ts_ctx s" "ts_packet_context (tc_release rs s) = ts_packet_context s"
  "ts_socket_fd (tc_release rs s) = ts_socket_fd s" "ts_xsk (tc_release rs s) = ts_xsk s" "ts_tasks (tc_release rs s) = ts_tasks s"
  "ts_xdp_init (tc_release rs s) = ts_xdp_init s" "ts_xdp_held (tc_release rs s) = ts_xdp_held s"
  "ts_held (tc_release rs s) = release rs (ts_held s)" "ts_desc (tc_release rs s) = ts_desc s" "tc_release [] s = s"
  by (simp_all add: tc_release_def)

lemma tc_acquire_simps [simp]:
  "ts_ctx (tc_acquire rs s) = ts_ctx s" "ts_packet_context (tc_acquire rs s) = ts_packet_context s"
  "ts_socket_fd (tc_acquire rs s) = ts_socket_fd s" "ts_xsk (tc_acquire rs s) = ts_xsk s" "ts_tasks (tc_acquire rs s) = ts_tasks s"
  "ts_xdp_init (tc_acquire rs s) = ts_xdp_init s" "ts_xdp_held (tc_acquire rs s) = ts_xdp_held s"
  "ts_held (tc_acquire rs s) = rs @ ts_held s" "ts_desc (tc_acquire rs s) = ts_desc s"
  by (simp_all add: tc_acquire_def)

definition socket_cells :: "'c tc_state \<Rightarrow> tc_resource list" where
  "socket_cells s = (if xdp_enabled (conf (ts_ctx s)) then [] else [TR_socket (ts_socket_fd s)])"

definition mirror_cells :: "'c tc_state \<Rightarrow> tc_resource list" where
  "mirror_cells s = (if mirror_buffer (ts_ctx s) = None then [] else [TR_mirror RB_data, TR_mirror RB_struct])"

definition security_cells :: "'c tc_state \<Rightarrow> tc_resource list" where
  "security_cells s =
     (if rx_security_context (ts_ctx s) = None then [] else map TR_rx_security [SR_context, SR_cipher, SR_ctx]) @
     (if tx_security_context (ts_ctx s) = None then [] else map TR_tx_security [SR_context, SR_cipher, SR_ctx])"

text \<open>The class has its sockets, and holds what its pointers say, and \<open>L\<close> besides.\<close>

definition tc_owned :: "tc_resource list \<Rightarrow> 'c tc_state \<Rightarrow> bool" where
  "tc_owned L s \<longleftrightarrow> (let xdp = xdp_enabled (conf (ts_ctx s)) in
     ts_held s = L @ security_cells s @ mirror_cells s @ socket_cells s @ TR_frame_copy # buffer_cells xdp @ [TR_desc] \<and>
     ts_packet_context s = (\<not> xdp) \<and> (ts_xsk s \<noteq> None) = xdp \<and>
     (if xdp then ts_socket_fd s = 0 else ts_socket_fd s > 0))"

lemma err_mac_held:
  assumes "ts_held s = L @ buffer_cells (\<not> ts_packet_context s) @ [TR_desc]" "list_all stray L"
  shows "ts_held (err_mac s) = L @ [TR_desc] \<and> shared (err_mac s) = shared s"
  using assms by (cases "ts_packet_context s")
    (simp_all add: err_mac_def err_rx_def err_tx_def packet_free_def buffer_cells_def remove1_stray)

lemma err_socket_held:
  assumes "ts_held s = L @ TR_frame_copy # buffer_cells (\<not> ts_packet_context s) @ [TR_desc]" "list_all stray L"
  shows "ts_held (err_socket s) = L @ [TR_desc] \<and> shared (err_socket s) = shared s"
  using err_mac_held [of "tc_release [TR_frame_copy] s" L] assms
  by (simp add: err_socket_def remove1_stray)

definition xdp_closed :: "tc_outcome \<Rightarrow> 'c tc_state \<Rightarrow> xdp_init \<times> xdp_resource list" where
  "xdp_closed oc s = (if ts_xsk s = None then shared s
     else xdp_close_socket (to_close_if_index oc) (ts_xdp_init s) (ts_xdp_held s))"

lemma tc_close_xsk_simps [simp]:
  "ts_held (tc_close_xsk oc s) = ts_held s" "ts_packet_context (tc_close_xsk oc s) = ts_packet_context s"
  "ts_ctx (tc_close_xsk oc s) = ts_ctx s" "shared (tc_close_xsk oc s) = xdp_closed oc s"
  by (auto simp: tc_close_xsk_def xdp_closed_def split: option.split prod.split)

lemma err_thread_tx_held:
  assumes "tc_owned L s" "list_all stray L"
  shows "ts_held (err_thread_tx oc s) = L @ [TR_desc] \<and> shared (err_thread_tx oc s) = xdp_closed oc s"
proof -
  let ?x = "xdp_enabled (conf (ts_ctx s))"
  let ?cells = "TR_frame_copy # buffer_cells ?x @ [TR_desc]"
  let ?s1 = "tc_release (map TR_rx_security (security_exit (rx_security_context (ts_ctx s)))) s"
  let ?s2 = "tc_release (map TR_tx_security (security_exit (tx_security_context (ts_ctx s)))) ?s1"
  let ?s3 = "tc_release (map TR_mirror (ring_buffer_free (mirror_buffer (ts_ctx s)))) ?s2"
  let ?s4 = "if ts_socket_fd ?s3 \<noteq> 0 then tc_release [TR_socket (ts_socket_fd ?s3)] ?s3 else ?s3"
  have s: "ts_held s = L @ security_cells s @ mirror_cells s @ socket_cells s @ ?cells" "ts_packet_context s = (\<not> ?x)"
    "if ?x then ts_socket_fd s = 0 else ts_socket_fd s > 0"
    using assms(1) by (simp_all add: tc_owned_def Let_def)
  have "ts_held ?s2 = L @ mirror_cells s @ socket_cells s @ ?cells"
    using s(1) assms(2) by (auto simp: security_cells_def security_exit_def remove1_stray split: option.split)
  then have "ts_held ?s3 = L @ socket_cells s @ ?cells"
    using assms(2) by (auto simp: mirror_cells_def ring_buffer_free_def remove1_stray split: option.split)
  then have "ts_held ?s4 = L @ ?cells"
    using s(3) assms(2) by (auto simp: socket_cells_def remove1_stray)
  then have "ts_held (err_socket (tc_close_xsk oc ?s4)) = L @ [TR_desc] \<and>
      shared (err_socket (tc_close_xsk oc ?s4)) = shared (tc_close_xsk oc ?s4)"
    by (intro err_socket_held) (use s(2) assms(2) in auto)
  moreover have "shared (tc_close_xsk oc ?s4) = xdp_closed oc s" by (auto simp: xdp_closed_def)
  ultimately show ?thesis by (simp add: err_thread_tx_def err_rx_sec_def err_tx_sec_def err_thread_def)
qed

text \<open>Without security contexts and mirror buffer the earlier labels do the same.\<close>

lemma err_labels_eq:
  "rx_security_context (ts_ctx s) = None \<Longrightarrow> err_rx_sec oc s = err_thread_tx oc s"
  "rx_security_context (ts_ctx s) = None \<Longrightarrow> tx_security_context (ts_ctx s) = None \<Longrightarrow> err_tx_sec oc s = err_thread_tx oc s"
  "rx_security_context (ts_ctx s) = None \<Longrightarrow> tx_security_context (ts_ctx s) = None \<Longrightarrow> mirror_buffer (ts_ctx s) = None \<Longrightarrow>
     err_thread oc s = err_thread_tx oc s"
  by (simp_all add: err_thread_tx_def err_rx_sec_def err_tx_sec_def security_exit_def ring_buffer_free_def)

text \<open>A context that owns nothing but its description.\<close>

definition tc_blank :: "'c tc_state \<Rightarrow> bool" where
  "tc_blank s \<longleftrightarrow> ts_held s = [TR_desc] \<and> \<not> ts_packet_context s \<and> ts_xsk s = None \<and> ts_socket_fd s = 0 \<and>
     ts_tasks s = (\<lambda>_. None) \<and> mirror_buffer (ts_ctx s) = None \<and>
     tx_security_context (ts_ctx s) = None \<and> rx_security_context (ts_ctx s) = None"

text \<open>The same with buffers, and then with the template.\<close>

definition tc_started :: "tc_resource list \<Rightarrow> 'c tc_state \<Rightarrow> bool" where
  "tc_started L s \<longleftrightarrow> ts_held s = L @ buffer_cells (xdp_enabled (conf (ts_ctx s))) @ [TR_desc] \<and>
     ts_packet_context s = (\<not> xdp_enabled (conf (ts_ctx s))) \<and> ts_xsk s = None \<and> ts_socket_fd s = 0 \<and>
     ts_tasks s = (\<lambda>_. None) \<and> mirror_buffer (ts_ctx s) = None \<and>
     tx_security_context (ts_ctx s) = None \<and> rx_security_context (ts_ctx s) = None"

text \<open>The outcome of a step: on an error only the description is left.\<close>

definition tc_step_ok :: "'c tc_state \<Rightarrow> ('c tc_state \<Rightarrow> bool) \<Rightarrow> errno option \<times> 'c tc_state \<Rightarrow> bool" where
  "tc_step_ok s P r \<longleftrightarrow> (case r of
     (Some e, s') \<Rightarrow> ts_held s' = [TR_desc] \<and> shared s' = shared s
   | (None, s') \<Rightarrow> P s' \<and> conf (ts_ctx s') = conf (ts_ctx s) \<and> shared s' = shared s)"

lemma create_buffers_held: "tc_blank s \<Longrightarrow> tc_step_ok s (tc_started []) (tc_create_buffers oc s)"
  using packet_init_cells [of "to_packet oc"]
  by (auto simp: tc_create_buffers_def tc_blank_def tc_started_def tc_step_ok_def buffer_cells_def err_rx_def err_tx_def
      packet_free_def Let_def split: prod.split if_splits)

lemma create_template_held:
  assumes "tc_started [] s"
  shows "tc_step_ok s (tc_started [TR_frame_copy]) (tc_create_template oc s)"
proof -
  have e: "ts_held (err_mac (s\<lparr>ts_ctx := c\<rparr>)) = [TR_desc] \<and> shared (err_mac (s\<lparr>ts_ctx := c\<rparr>)) = shared s" for c
    using assms err_mac_held [of "s\<lparr>ts_ctx := c\<rparr>" "[]"] by (simp add: tc_started_def)
  show ?thesis
    using assms e e [of "ts_ctx s"]
    by (auto simp: tc_create_template_def tc_step_ok_def Let_def tc_started_def split: sum.split)
qed

text \<open>The sockets opened and the program they use, counted by its users.\<close>

definition xdp_balanced :: "xdp_init \<times> xdp_resource list \<Rightarrow> bool" where
  "xdp_balanced sh \<longleftrightarrow> (case sh of (g, X) \<Rightarrow>
     mset X = repeat_mset (xi_initialized g) {#XR_xsk, XR_umem, XR_umem_buffer, XR_socket_memory#} +
       (if xi_initialized g = 0 then {#} else mset (case xi_prog g of None \<Rightarrow> [] | Some p \<Rightarrow> [XR_prog_open p, XR_prog_attached p])) \<and>
     (xi_initialized g \<noteq> 0 \<longrightarrow> xi_prog g \<noteq> None))"

lemma open_balanced:
  assumes "xdp_open_socket md B xo nm cfg g = (Some x, g', held)" "xdp_balanced (g, X)"
  shows "xdp_balanced (g', held @ X) \<and> xi_initialized g' = xi_initialized g + 1"
proof -
  obtain h where h: "xdp_prog_init (xo_prog xo) nm g = (None, g', h)" "held = XR_xsk # XR_umem # XR_umem_buffer # XR_socket_memory # h"
    using open_socket_cases [OF assms(1)] by auto
  show ?thesis using prog_init_cases [OF h(1)] h(2) assms(2) by (auto simp: xdp_balanced_def)
qed

lemma open_failed: "xdp_open_socket md B xo nm cfg g = (None, g', held) \<Longrightarrow> xi_initialized g' = xi_initialized g"
  using open_socket_cases by fastforce

lemma mset_release: "mset (release rs h) = mset h - mset rs"
  by (induction rs arbitrary: h) simp_all

lemma close_balanced:
  assumes "xdp_balanced (g, X)" "xi_initialized g = Suc n" "i \<noteq> 0"
  shows "xdp_balanced (xdp_close_socket i g X)" "xi_initialized (fst (xdp_close_socket i g X)) = n"
proof -
  obtain p where p: "xi_prog g = Some p" using assms by (auto simp: xdp_balanced_def)
  have X: "mset X = repeat_mset n {#XR_xsk, XR_umem, XR_umem_buffer, XR_socket_memory#} + {#XR_xsk, XR_umem, XR_umem_buffer, XR_socket_memory#} +
      {#XR_prog_open p, XR_prog_attached p#}"
    using assms p by (simp add: xdp_balanced_def)
  show "xdp_balanced (xdp_close_socket i g X)"
  proof (cases n)
    case 0
    then show ?thesis using X p assms(2,3)
      by (simp add: xdp_balanced_def xdp_close_socket_def xdp_prog_exit_def Let_def mset_release del: mset_zero_iff)
  next
    case (Suc m)
    then show ?thesis using X p assms(2,3)
      by (simp add: xdp_balanced_def xdp_close_socket_def xdp_prog_exit_def Let_def mset_release add_mset_commute)
  qed
  show "xi_initialized (fst (xdp_close_socket i g X)) = n"
    using assms(2) by (simp add: xdp_close_socket_def xdp_prog_exit_def Let_def)
qed

text \<open>What may be left after an error, and a class that has come up so far; \<open>u\<close> is the number
  of users of the XDP program before.\<close>

definition stray_of :: "tc_outcome \<Rightarrow> tc_resource \<Rightarrow> bool" where
  "stray_of oc r \<longleftrightarrow> (case r of TR_thread t \<Rightarrow> rto_setname (to_thread oc t) \<noteq> None | TR_workload_set_up _ \<Rightarrow> True | _ \<Rightarrow> False)"

definition tc_failed :: "tc_outcome \<Rightarrow> nat \<Rightarrow> 'c tc_state \<Rightarrow> bool" where
  "tc_failed oc u s \<longleftrightarrow> (\<exists>L. ts_held s = L @ [TR_desc] \<and> list_all (stray_of oc) L) \<and> xi_initialized (ts_xdp_init s) = u"

definition tc_live :: "nat \<Rightarrow> tc_resource list \<Rightarrow> 'c tc_state \<Rightarrow> bool" where
  "tc_live u L s \<longleftrightarrow> tc_owned L s \<and> xdp_balanced (shared s) \<and>
     xi_initialized (ts_xdp_init s) = (if ts_xsk s = None then u else Suc u)"

definition tc_late_ok ::
  "tc_outcome \<Rightarrow> nat \<Rightarrow> 'c tc_state \<Rightarrow> ('c tc_state \<Rightarrow> bool) \<Rightarrow> errno option \<times> 'c tc_state \<Rightarrow> bool" where
  "tc_late_ok oc u s P r \<longleftrightarrow> (case r of
     (Some e, s') \<Rightarrow> tc_failed oc u s' | (None, s') \<Rightarrow> P s' \<and> conf (ts_ctx s') = conf (ts_ctx s))"

lemma stray_of_stray: "list_all (stray_of oc) L \<Longrightarrow> list_all stray L"
proof -
  have "stray_of oc r \<Longrightarrow> stray r" for r by (cases r) (simp_all add: stray_of_def)
  then show "list_all (stray_of oc) L \<Longrightarrow> list_all stray L" by (simp add: list_all_iff)
qed

lemma err_failed:
  assumes "tc_live u L s" "list_all (stray_of oc) L" "to_close_if_index oc \<noteq> 0"
  shows "tc_failed oc u (err_thread_tx oc s)"
proof -
  have "xi_initialized (fst (xdp_closed oc s)) = u"
  proof (cases "ts_xsk s")
    case (Some x)
    then show ?thesis
      using assms(1,3) close_balanced(2) [of "ts_xdp_init s" "ts_xdp_held s" u "to_close_if_index oc"]
      by (simp add: xdp_closed_def tc_live_def)
  qed (use assms(1) in \<open>simp add: xdp_closed_def tc_live_def\<close>)
  moreover have "ts_held (err_thread_tx oc s) = L @ [TR_desc] \<and> shared (err_thread_tx oc s) = xdp_closed oc s"
    using err_thread_tx_held [of L s oc] assms(1,2) stray_of_stray by (auto simp: tc_live_def)
  ultimately show ?thesis using assms(2) unfolding tc_failed_def by (metis fst_conv)
qed

definition sockets_ok :: "'c traffic_class_desc \<Rightarrow> bool" where
  "sockets_ok d \<longleftrightarrow> (\<forall>so. case ops_create_socket (desc_ops d) so of
     (Inl _, fds) \<Rightarrow> fds = [] | (Inr s, fds) \<Rightarrow> fds = [rs_fd s] \<and> so_socket so = Inr (rs_fd s))"

definition no_threads :: "'c tc_state \<Rightarrow> bool" where "no_threads s \<longleftrightarrow> ts_tasks s = (\<lambda>_. None)"

definition no_security :: "'c tc_state \<Rightarrow> bool" where
  "no_security s \<longleftrightarrow> no_threads s \<and> tx_security_context (ts_ctx s) = None \<and> rx_security_context (ts_ctx s) = None"

definition no_mirror :: "'c tc_state \<Rightarrow> bool" where
  "no_mirror s \<longleftrightarrow> no_security s \<and> mirror_buffer (ts_ctx s) = None"

lemma create_socket_held:
  assumes "tc_started [TR_frame_copy] s" "xdp_balanced (shared s)" "sockets_ok d" "so_socket (to_socket oc) \<noteq> Inr 0"
  shows "tc_late_ok oc (xi_initialized (ts_xdp_init s)) s
    (\<lambda>s'. tc_live (xi_initialized (ts_xdp_init s)) [] s' \<and> no_mirror s') (tc_create_socket md B app oc d s)"
proof (cases "xdp_enabled (conf (ts_ctx s))")
  case True
  obtain xsk g held where x: "xdp_open_socket md B (to_xdp oc) (application_xdp_program app) (conf (ts_ctx s)) (ts_xdp_init s) = (xsk, g, held)"
    by (metis prod_cases3)
  let ?s = "s\<lparr>ts_socket_fd := 0, ts_xsk := xsk, ts_xdp_init := g, ts_xdp_held := held @ ts_xdp_held s\<rparr>"
  show ?thesis
  proof (cases xsk)
    case None
    have "ts_held (err_socket ?s) = [TR_desc] \<and> shared (err_socket ?s) = shared ?s"
      using err_socket_held [of ?s "[]"] assms(1) True by (simp add: tc_started_def)
    then show ?thesis using x None open_failed True
      by (auto simp: tc_create_socket_def tc_late_ok_def tc_failed_def)
  next
    case (Some y)
    then show ?thesis
      using x True assms(1) open_balanced [of md B "to_xdp oc" _ "conf (ts_ctx s)" "ts_xdp_init s" y g held "ts_xdp_held s"] assms(2)
      by (auto simp: tc_create_socket_def tc_late_ok_def tc_live_def tc_owned_def tc_started_def no_mirror_def no_security_def
          no_threads_def security_cells_def mirror_cells_def socket_cells_def)
  qed
next
  case False
  obtain r fds where c: "ops_create_socket (desc_ops d) (to_socket oc) = (r, fds)" by fastforce
  have ok: "case r of Inl _ \<Rightarrow> fds = [] | Inr x \<Rightarrow> fds = [rs_fd x] \<and> rs_fd x \<noteq> 0"
    using assms(3) [unfolded sockets_ok_def, rule_format, of "to_socket oc"] assms(4) by (auto simp: c split: sum.splits)
  have e: "ts_held (err_socket (s\<lparr>ts_xsk := None\<rparr>)) = [TR_desc] \<and> shared (err_socket (s\<lparr>ts_xsk := None\<rparr>)) = shared s"
    using err_socket_held [of "s\<lparr>ts_xsk := None\<rparr>" "[]"] assms(1) False by (simp add: tc_started_def)
  show ?thesis
  proof (cases r)
    case (Inl e)
    then show ?thesis using ok c False e by (simp add: tc_create_socket_def tc_late_ok_def tc_failed_def tc_acquire_def Let_def)
  next
    case (Inr x)
    then show ?thesis using ok c False assms(1,2)
      by (simp add: tc_create_socket_def tc_late_ok_def tc_live_def tc_owned_def tc_started_def no_mirror_def no_security_def
          no_threads_def security_cells_def mirror_cells_def socket_cells_def Let_def)
  qed
qed

lemma create_mirror_held:
  assumes "tc_live u [] s" "no_mirror s" "to_close_if_index oc \<noteq> 0"
  shows "tc_late_ok oc u s (\<lambda>s'. tc_live u [] s' \<and> no_security s') (tc_create_mirror oc s)"
proof -
  have "tc_failed oc u (err_thread oc s)"
    using err_failed [OF assms(1) _ assms(3)] err_labels_eq(3) [of s oc] assms(2) by (simp add: no_mirror_def no_security_def)
  then show ?thesis using assms(1,2)
    by (auto simp: tc_create_mirror_def tc_late_ok_def tc_live_def tc_owned_def no_mirror_def no_security_def no_threads_def
        security_cells_def mirror_cells_def socket_cells_def Let_def split: option.split)
qed

lemma security_init_cells:
  "security_init E ok alg key = (c, rs) \<Longrightarrow> rs = (if c = None then [] else [SR_context, SR_cipher, SR_ctx])"
  by (auto simp: security_init_def split: if_splits option.splits)

lemma create_security_held:
  assumes "tc_live u [] s" "no_security s" "to_close_if_index oc \<noteq> 0"
  shows "tc_late_ok oc u s (\<lambda>s'. tc_live u [] s' \<and> no_threads s') (tc_create_security E oc s)"
proof (cases "security_mode (conf (ts_ctx s)) = SECURITY_MODE_NONE")
  case True
  then show ?thesis using assms
    by (simp add: tc_create_security_def tc_late_ok_def tc_live_def tc_owned_def no_security_def no_threads_def
        security_cells_def mirror_cells_def socket_cells_def Let_def)
next
  case False
  let ?cfg = "conf (ts_ctx s)"
  obtain tx r1 where t: "security_init E (to_tx_security oc) (security_algorithm ?cfg) (ptr_bytes (security_key ?cfg)) = (tx, r1)"
    by fastforce
  obtain rx r2 where r: "security_init E (to_rx_security oc) (security_algorithm ?cfg) (ptr_bytes (security_key ?cfg)) = (rx, r2)"
    by fastforce
  let ?s1 = "tc_acquire (map TR_tx_security r1) (s\<lparr>ts_ctx := (ts_ctx s)\<lparr>tx_security_context := tx\<rparr>\<rparr>)"
  let ?s2 = "tc_acquire (map TR_rx_security r2) (?s1\<lparr>ts_ctx := (ts_ctx ?s1)\<lparr>rx_security_context := rx\<rparr>\<rparr>)"
  have l1: "tc_live u [] ?s1" and l2: "tc_live u [] ?s2" and n: "no_threads ?s1" "no_threads ?s2"
    using assms(1,2) security_init_cells [OF t] security_init_cells [OF r]
    by (simp_all add: tc_live_def tc_owned_def no_security_def no_threads_def security_cells_def mirror_cells_def socket_cells_def Let_def)
  have "tc_failed oc u (err_tx_sec oc ?s1)" if "tx = None"
    using err_failed [OF l1 _ assms(3)] err_labels_eq(2) [of ?s1 oc] assms(2) that by (simp add: no_security_def)
  moreover have "tc_failed oc u (err_rx_sec oc ?s2)" if "rx = None"
    using err_failed [OF l2 _ assms(3)] err_labels_eq(1) [of ?s2 oc] that by simp
  ultimately show ?thesis
    using l2 n False t r by (auto simp: tc_create_security_def tc_late_ok_def Let_def)
qed

definition task_cells :: "'c tc_state \<Rightarrow> tc_resource list" where
  "task_cells s = map TR_thread (filter (\<lambda>t. ts_tasks s t \<noteq> None) [Rx_thread, Tx_gen_thread, Tx_thread])"

lemma start_thread_cases:
  assumes "tc_start_thread ro prio cpu nm t s = (ret, s')"
  shows "ret \<noteq> None \<and> s' = s \<or>
    (\<exists>th. s' = tc_acquire [TR_thread t] (s\<lparr>ts_tasks := (ts_tasks s)(t := Some th)\<rparr>)) \<and> (ret \<noteq> None \<longrightarrow> rto_setname ro \<noteq> None)"
  using assms by (auto simp: tc_start_thread_def create_rt_thread_def Let_def split: option.splits prod.splits)

lemma cells_simps [simp]:
  "security_cells (tc_acquire rs s) = security_cells s" "security_cells (s\<lparr>ts_tasks := x\<rparr>) = security_cells s"
  "mirror_cells (tc_acquire rs s) = mirror_cells s" "mirror_cells (s\<lparr>ts_tasks := x\<rparr>) = mirror_cells s"
  "socket_cells (tc_acquire rs s) = socket_cells s" "socket_cells (s\<lparr>ts_tasks := x\<rparr>) = socket_cells s"
  "security_cells (tc_release rs s) = security_cells s" "security_cells (tc_stop s) = security_cells s"
  "mirror_cells (tc_release rs s) = mirror_cells s" "mirror_cells (tc_stop s) = mirror_cells s"
  "socket_cells (tc_release rs s) = socket_cells s" "socket_cells (tc_stop s) = socket_cells s"
  by (simp_all add: security_cells_def mirror_cells_def socket_cells_def tc_stop_def)

lemma tc_stop_simps [simp]:
  "ts_held (tc_stop s) = ts_held s" "ts_tasks (tc_stop s) = ts_tasks s" "conf (ts_ctx (tc_stop s)) = conf (ts_ctx s)"
  "ts_packet_context (tc_stop s) = ts_packet_context s" "ts_socket_fd (tc_stop s) = ts_socket_fd s" "ts_xsk (tc_stop s) = ts_xsk s"
  "ts_xdp_init (tc_stop s) = ts_xdp_init s" "ts_xdp_held (tc_stop s) = ts_xdp_held s"
  by (simp_all add: tc_stop_def)

lemma live_acquire:
  "tc_live u L s \<Longrightarrow> tc_live u (rs @ L) (tc_acquire rs (s\<lparr>ts_tasks := x\<rparr>))"
  by (simp add: tc_live_def tc_owned_def Let_def cong: if_cong split del: if_split)

lemma live_join:
  assumes "tc_live u (L @ TR_thread t # L') s" "TR_thread t \<notin> set L"
  shows "tc_live u (L @ L') (tc_join t (tc_stop s))"
  using assms by (simp add: tc_live_def tc_owned_def tc_join_def remove1_append Let_def cong: if_cong split del: if_split)

lemma live_stop: "tc_live u L (tc_stop s) \<longleftrightarrow> tc_live u L s"
  by (simp add: tc_live_def tc_owned_def Let_def cong: if_cong split del: if_split)

lemma err_txgen_failed:
  assumes "tc_live u (L @ [TR_thread Tx_thread]) s" "list_all (stray_of oc) L" "TR_thread Tx_thread \<notin> set L"
    "to_close_if_index oc \<noteq> 0"
  shows "tc_failed oc u (err_thread_txgen oc s)"
  unfolding err_thread_txgen_def using live_join [OF assms(1,3)] assms(2,4) by (intro err_failed [of _ L]) simp_all

lemma err_rx_failed:
  assumes "tc_live u (L @ (if ts_tasks s Tx_gen_thread = None then [] else [TR_thread Tx_gen_thread]) @ [TR_thread Tx_thread]) s"
    and "list_all (stray_of oc) L" "TR_thread Tx_thread \<notin> set L" "TR_thread Tx_gen_thread \<notin> set L" "to_close_if_index oc \<noteq> 0"
  shows "tc_failed oc u (err_thread_rx oc s)"
proof (cases "ts_tasks s Tx_gen_thread")
  case None
  then show ?thesis
    using err_txgen_failed [of u L "tc_stop s" oc] assms by (simp add: err_thread_rx_def tc_join_started_def live_stop)
next
  case (Some th)
  then have "tc_live u (L @ [TR_thread Tx_thread]) (tc_join Tx_gen_thread (tc_stop s))"
    using live_join [of u L Tx_gen_thread "[TR_thread Tx_thread]" s] assms(1,4) by simp
  then show ?thesis
    using err_txgen_failed [of u L _ oc] assms(2,3,5) Some by (simp add: err_thread_rx_def tc_join_started_def)
qed

lemma err_wl_failed:
  assumes "tc_live u (L @ TR_thread Rx_thread # (if ts_tasks s Tx_gen_thread = None then [] else [TR_thread Tx_gen_thread]) @
      [TR_thread Tx_thread]) s"
    and "list_all (stray_of oc) L" "\<forall>t. TR_thread t \<notin> set L" "to_close_if_index oc \<noteq> 0"
  shows "tc_failed oc u (err_thread_wl oc s)"
proof -
  have "ts_tasks (tc_join Rx_thread (tc_stop s)) = ts_tasks s" by (simp add: tc_join_def)
  then show ?thesis
    unfolding err_thread_wl_def using live_join [OF assms(1)] assms(2-4)
    by (intro err_rx_failed [of u L "tc_join Rx_thread (tc_stop s)"]) simp_all
qed

lemma live_offset: "tc_live u L (s\<lparr>ts_ctx := (ts_ctx s)\<lparr>meta_data_offset := m\<rparr>\<rparr>) \<longleftrightarrow> tc_live u L s"
  by (simp add: tc_live_def tc_owned_def security_cells_def mirror_cells_def socket_cells_def cong: if_cong split del: if_split)

definition tx_running :: "'c tc_state \<Rightarrow> bool" where
  "tx_running s \<longleftrightarrow> ts_tasks s Rx_thread = None \<and> ts_tasks s Tx_thread \<noteq> None"

lemma create_tx_threads_held:
  assumes "tc_live u [] s" "no_threads s" "to_close_if_index oc \<noteq> 0"
  shows "tc_late_ok oc u s (\<lambda>s'. tc_live u (task_cells s') s' \<and> tx_running s') (tc_create_tx_threads oc d s)"
proof -
  let ?cfg = "conf (ts_ctx s)"
  let ?s0 = "s\<lparr>ts_ctx := (ts_ctx s)\<lparr>meta_data_offset := get_meta_data_offset (frame_type (ts_ctx s)) (security_mode ?cfg)\<rparr>\<rparr>"
  obtain r1 s1 where t: "tc_start_thread (to_thread oc Tx_thread) (tx_thread_priority ?cfg) (tx_thread_cpu ?cfg)
      (traffic_class (ts_ctx s) @ ''TxThread'') Tx_thread ?s0 = (r1, s1)" by fastforce
  obtain r2 s2 where g: "tc_start_thread (to_thread oc Tx_gen_thread) (tx_thread_priority ?cfg) (tx_thread_cpu ?cfg)
      (traffic_class (ts_ctx s) @ ''TxGenThread'') Tx_gen_thread s1 = (r2, s2)" by fastforce
  have l0: "tc_live u [] ?s0" using assms(1) by (simp add: live_offset)
  have c1: "r1 \<noteq> None \<and> s1 = ?s0 \<or> tc_live u [TR_thread Tx_thread] s1 \<and> (\<exists>th. ts_tasks s1 = (\<lambda>_. None)(Tx_thread := Some th)) \<and>
      conf (ts_ctx s1) = ?cfg \<and> (r1 \<noteq> None \<longrightarrow> rto_setname (to_thread oc Tx_thread) \<noteq> None)"
    using start_thread_cases [OF t] live_acquire [OF l0, of "[TR_thread Tx_thread]"] assms(2) by (auto simp: no_threads_def)
  then have e1: "r1 \<noteq> None \<Longrightarrow> tc_failed oc u (err_thread_tx oc s1)"
    using err_failed [OF l0, of oc] err_failed [of u "[TR_thread Tx_thread]" s1 oc] assms(3) by (auto simp: stray_of_def)
  show ?thesis
  proof (cases "r1 = None")
    case True
    then have l1: "tc_live u [TR_thread Tx_thread] s1" "\<exists>th. ts_tasks s1 = (\<lambda>_. None)(Tx_thread := Some th)" "conf (ts_ctx s1) = ?cfg"
      using c1 by auto
    have c2: "r2 \<noteq> None \<and> s2 = s1 \<or> tc_live u [TR_thread Tx_gen_thread, TR_thread Tx_thread] s2 \<and>
        (ts_tasks s2 Tx_thread \<noteq> None \<and> ts_tasks s2 Tx_gen_thread \<noteq> None \<and> ts_tasks s2 Rx_thread = None) \<and>
        conf (ts_ctx s2) = ?cfg \<and> (r2 \<noteq> None \<longrightarrow> rto_setname (to_thread oc Tx_gen_thread) \<noteq> None)"
      using start_thread_cases [OF g] live_acquire [OF l1(1), of "[TR_thread Tx_gen_thread]"] l1(2,3) by auto
    then have e2: "r2 \<noteq> None \<Longrightarrow> tc_failed oc u (err_thread_txgen oc s2)"
      using err_txgen_failed [of u "[]" s1 oc] l1(1) err_txgen_failed [of u "[TR_thread Tx_gen_thread]" s2 oc] assms(3)
      by (auto simp: stray_of_def)
    have p1: "tc_live u (task_cells s1) s1 \<and> tx_running s1" using l1 by (auto simp: task_cells_def tx_running_def)
    have p2: "r2 = None \<Longrightarrow> tc_live u (task_cells s2) s2 \<and> tx_running s2 \<and> conf (ts_ctx s2) = ?cfg"
      using c2 by (auto simp: task_cells_def tx_running_def)
    show ?thesis using t g True e2 p1 p2 l1(3) by (auto simp: tc_create_tx_threads_def tc_late_ok_def Let_def)
  next
    case False
    then show ?thesis using t e1 by (auto simp: tc_create_tx_threads_def tc_late_ok_def Let_def)
  qed
qed

definition workload_cells :: "wl_result \<Rightarrow> tc_resource list" where
  "workload_cells r = map TR_workload (wr_cells r) @ map TR_workload_set_up (wr_set_up r) @ map TR_workload_thread (wr_threads r)"

definition tc_up :: "tc_outcome \<Rightarrow> nat \<Rightarrow> 'c tc_state \<Rightarrow> bool" where
  "tc_up oc u s \<longleftrightarrow> (\<exists>r. workload_context_init (to_workload oc) (conf (ts_ctx s)) = (None, r) \<and>
     tc_live u (workload_cells r @ task_cells s) s)"

lemma workload_failed: "workload_context_init wo cfg = (Some e, r) \<Longrightarrow> wr_cells r = [] \<and> wr_threads r = []"
  by (auto simp: workload_context_init_def Let_def split: if_splits option.splits)

lemma create_rx_threads_held:
  assumes "tc_live u (task_cells s) s" "tx_running s" "to_close_if_index oc \<noteq> 0"
  shows "tc_late_ok oc u s (tc_up oc u) (tc_create_rx_threads oc s)"
proof -
  let ?cfg = "conf (ts_ctx s)"
  let ?gen = "if ts_tasks s Tx_gen_thread = None then [] else [TR_thread Tx_gen_thread]"
  obtain r1 s1 where t: "tc_start_thread (to_thread oc Rx_thread) (rx_thread_priority ?cfg) (rx_thread_cpu ?cfg)
      (traffic_class (ts_ctx s) @ ''RxThread'') Rx_thread s = (r1, s1)" by fastforce
  obtain r2 r where w: "workload_context_init (to_workload oc) ?cfg = (r2, r)" by fastforce
  let ?s2 = "tc_acquire (workload_cells r) s1"
  have l0: "tc_live u (?gen @ [TR_thread Tx_thread]) s"
    using assms(1,2) by (auto simp: task_cells_def tx_running_def)
  have c1: "r1 \<noteq> None \<and> s1 = s \<or> tc_live u (TR_thread Rx_thread # ?gen @ [TR_thread Tx_thread]) s1 \<and>
      (ts_tasks s1 Tx_thread \<noteq> None \<and> ts_tasks s1 Rx_thread \<noteq> None \<and> ts_tasks s1 Tx_gen_thread = ts_tasks s Tx_gen_thread) \<and>
      conf (ts_ctx s1) = ?cfg \<and> (r1 \<noteq> None \<longrightarrow> rto_setname (to_thread oc Rx_thread) \<noteq> None)"
    using start_thread_cases [OF t] live_acquire [OF l0, of "[TR_thread Rx_thread]"] assms(2) by (auto simp: tx_running_def)
  have e1: "tc_failed oc u (err_thread_rx oc s1)" if "r1 \<noteq> None"
    using c1 err_rx_failed [of u "[]" s oc] l0 err_rx_failed [of u "[TR_thread Rx_thread]" s1 oc] assms(3) that
    by (auto simp: stray_of_def)
  show ?thesis
  proof (cases "r1 = None")
    case True
    then have l1: "tc_live u (TR_thread Rx_thread # ?gen @ [TR_thread Tx_thread]) s1" "ts_tasks s1 Tx_thread \<noteq> None"
      "ts_tasks s1 Rx_thread \<noteq> None" "ts_tasks s1 Tx_gen_thread = ts_tasks s Tx_gen_thread" "conf (ts_ctx s1) = ?cfg"
      using c1 by auto
    then have l2: "tc_live u (workload_cells r @ TR_thread Rx_thread # ?gen @ [TR_thread Tx_thread]) ?s2"
      using live_acquire [OF l1(1), of "workload_cells r" "ts_tasks s1"] by simp
    have "tc_failed oc u (err_thread_wl oc ?s2)" if "r2 = Some e" for e
      by (rule err_wl_failed [of u "workload_cells r"])
        (use l1(4) l2 assms(3) workload_failed w that in \<open>auto simp: workload_cells_def stray_of_def list_all_iff\<close>)
    moreover have "tc_up oc u ?s2" if "r2 = None"
      using w that l1 l2 by (auto simp: tc_up_def task_cells_def)
    ultimately show ?thesis using t w True l1(5)
      by (auto simp: tc_create_rx_threads_def tc_late_ok_def workload_cells_def Let_def)
  next
    case False
    then show ?thesis using t e1 by (auto simp: tc_create_rx_threads_def tc_late_ok_def Let_def)
  qed
qed

lemma late_and_then:
  assumes "tc_late_ok oc u s P r" "\<And>s'. P s' \<Longrightarrow> conf (ts_ctx s') = conf (ts_ctx s) \<Longrightarrow> tc_late_ok oc u s' Q (f s')"
  shows "tc_late_ok oc u s Q (and_then r f)"
  using assms by (fastforce simp: tc_late_ok_def and_then_def split: prod.splits option.splits)

lemma step_late:
  assumes "tc_step_ok s P r" "u = xi_initialized (ts_xdp_init s)"
  shows "tc_late_ok oc u s (\<lambda>s'. P s' \<and> shared s' = shared s) r"
  using assms by (auto simp: tc_step_ok_def tc_late_ok_def tc_failed_def split: prod.splits option.splits)

lemma tc_threads_create_held:
  assumes "tc_blank s" "xdp_balanced (shared s)" "sockets_ok d" "so_socket (to_socket oc) \<noteq> Inr 0" "to_close_if_index oc \<noteq> 0"
  shows "tc_late_ok oc (xi_initialized (ts_xdp_init s)) s (tc_up oc (xi_initialized (ts_xdp_init s))) (tc_threads_create md B app E oc d s)"
proof -
  let ?u = "xi_initialized (ts_xdp_init s)"
  have "tc_late_ok oc ?u s (\<lambda>s'. tc_started [] s' \<and> shared s' = shared s) (tc_create_buffers oc s)"
    by (rule step_late [OF create_buffers_held [OF assms(1)] refl])
  then have "tc_late_ok oc ?u s (\<lambda>s'. tc_started [TR_frame_copy] s' \<and> shared s' = shared s)
      (and_then (tc_create_buffers oc s) (tc_create_template oc))"
  proof (rule late_and_then)
    fix s' assume "tc_started [] s' \<and> shared s' = shared s"
    then show "tc_late_ok oc ?u s' (\<lambda>s'. tc_started [TR_frame_copy] s' \<and> shared s' = shared s) (tc_create_template oc s')"
      using step_late [OF create_template_held [of s' oc], of ?u oc] by simp
  qed
  then have "tc_late_ok oc ?u s (\<lambda>s'. tc_live ?u [] s' \<and> no_mirror s')
      (and_then (and_then (tc_create_buffers oc s) (tc_create_template oc)) (tc_create_socket md B app oc d))"
    by (rule late_and_then) (use create_socket_held [OF _ _ assms(3,4)] assms(2) in force)
  from late_and_then [OF this, where f = "tc_create_mirror oc"]
  have "tc_late_ok oc ?u s (\<lambda>s'. tc_live ?u [] s' \<and> no_security s') (and_then (and_then (and_then (tc_create_buffers oc s)
      (tc_create_template oc)) (tc_create_socket md B app oc d)) (tc_create_mirror oc))"
    using create_mirror_held assms(5) by blast
  from late_and_then [OF this, where f = "tc_create_security E oc" and Q = "\<lambda>s'. tc_live ?u [] s' \<and> no_threads s'"]
  have "tc_late_ok oc ?u s (\<lambda>s'. tc_live ?u [] s' \<and> no_threads s') (and_then (and_then (and_then (and_then (tc_create_buffers oc s)
      (tc_create_template oc)) (tc_create_socket md B app oc d)) (tc_create_mirror oc)) (tc_create_security E oc))"
    using create_security_held assms(5) by blast
  from late_and_then [OF late_and_then [OF this, where f = "tc_create_tx_threads oc d" and
        Q = "\<lambda>s'. tc_live ?u (task_cells s') s' \<and> tx_running s'"], where f = "tc_create_rx_threads oc" and Q = "tc_up oc ?u"]
  show ?thesis unfolding tc_threads_create_def using create_tx_threads_held create_rx_threads_held assms(5) by blast
qed

section \<open>Releasing a class\<close>

text \<open>All that joining and releasing gives back.\<close>

definition tc_released :: "'c tc_state \<Rightarrow> tc_resource list" where
  "tc_released s =
     (let cfg = conf (ts_ctx s) in
      map TR_workload_thread (workload_thread_wait_for_finish cfg) @ task_cells s @
      [TR_frame_copy] @ map TR_tx_security (security_exit (tx_security_context (ts_ctx s))) @
      map TR_rx_security (security_exit (rx_security_context (ts_ctx s))) @
      map TR_mirror (ring_buffer_free (mirror_buffer (ts_ctx s))) @ map TR_packet (packet_free (ts_packet_context s)) @
      [TR_tx_frame_data, TR_rx_frame_data] @ (if ts_socket_fd s > 0 then [TR_socket (ts_socket_fd s)] else []) @
      map TR_workload_set_up (fst (workload_thread_free cfg)) @ map TR_workload (snd (workload_thread_free cfg)) @ [TR_desc])"

lemma release_app: "release (as @ bs) h = release bs (release as h)"
  by (simp add: release_def)

lemma share_simps [simp]:
  "ts_ctx (share p s) = ts_ctx s" "ts_held (share p s) = ts_held s" "ts_tasks (share p s) = ts_tasks s" "ts_xsk (share p s) = ts_xsk s"
  "ts_packet_context (share p s) = ts_packet_context s" "ts_socket_fd (share p s) = ts_socket_fd s" "shared (share p s) = shared p"
  "ts_xdp_init (share p s) = ts_xdp_init p" "ts_xdp_held (share p s) = ts_xdp_held p"
  by (simp_all add: share_def)

lemma join_started_simps [simp]:
  "ts_ctx (tc_join_started t s) = ts_ctx s" "ts_tasks (tc_join_started t s) = ts_tasks s" "ts_xsk (tc_join_started t s) = ts_xsk s"
  "ts_packet_context (tc_join_started t s) = ts_packet_context s" "ts_socket_fd (tc_join_started t s) = ts_socket_fd s"
  "ts_held (tc_join_started t s) = release (if ts_tasks s t = None then [] else [TR_thread t]) (ts_held s)"
  by (simp_all add: tc_join_started_def tc_join_def)

lemma wait_simps:
  "ts_ctx (tc_threads_wait_for_finish s) = ts_ctx s" "ts_xsk (tc_threads_wait_for_finish s) = ts_xsk s"
  "ts_packet_context (tc_threads_wait_for_finish s) = ts_packet_context s" "ts_socket_fd (tc_threads_wait_for_finish s) = ts_socket_fd s"
  "mset (ts_held (tc_threads_wait_for_finish s)) = mset (ts_held s) -
     mset (map TR_workload_thread (workload_thread_wait_for_finish (conf (ts_ctx s))) @ task_cells s)"
  by (simp_all add: tc_threads_wait_for_finish_def task_cells_def mset_release add_mset_commute Let_def del: release_simps(2))

lemma free_simps:
  "mset (ts_held (tc_threads_free oc s)) = mset (ts_held s) - mset (
     [TR_frame_copy] @ map TR_tx_security (security_exit (tx_security_context (ts_ctx s))) @
     map TR_rx_security (security_exit (rx_security_context (ts_ctx s))) @
     map TR_mirror (ring_buffer_free (mirror_buffer (ts_ctx s))) @ map TR_packet (packet_free (ts_packet_context s)) @
     [TR_tx_frame_data, TR_rx_frame_data] @ (if ts_socket_fd s > 0 then [TR_socket (ts_socket_fd s)] else []) @
     map TR_workload_set_up (fst (workload_thread_free (conf (ts_ctx s)))) @
     map TR_workload (snd (workload_thread_free (conf (ts_ctx s)))) @ [TR_desc])"
  "shared (tc_threads_free oc s) = xdp_closed oc s"
proof -
  show "shared (tc_threads_free oc s) = xdp_closed oc s"
    by (auto simp: tc_threads_free_def xdp_closed_def tc_close_xsk_def Let_def split: prod.split option.split)
  show "mset (ts_held (tc_threads_free oc s)) = mset (ts_held s) - mset (
     [TR_frame_copy] @ map TR_tx_security (security_exit (tx_security_context (ts_ctx s))) @
     map TR_rx_security (security_exit (rx_security_context (ts_ctx s))) @
     map TR_mirror (ring_buffer_free (mirror_buffer (ts_ctx s))) @ map TR_packet (packet_free (ts_packet_context s)) @
     [TR_tx_frame_data, TR_rx_frame_data] @ (if ts_socket_fd s > 0 then [TR_socket (ts_socket_fd s)] else []) @
     map TR_workload_set_up (fst (workload_thread_free (conf (ts_ctx s)))) @
     map TR_workload (snd (workload_thread_free (conf (ts_ctx s)))) @ [TR_desc])"
    by (cases "ts_socket_fd s > 0")
      (simp_all add: tc_threads_free_def mset_release case_prod_unfold Let_def diff_diff_add_mset ac_simps del: release_simps(2) mset_map)
qed

lemma free_nothing_held:
  assumes "mset (ts_held s) \<subseteq># mset (tc_released s)"
  shows "ts_held (tc_threads_free oc (share p (tc_threads_wait_for_finish s))) = []"
proof -
  have "mset (ts_held (tc_threads_free oc (share p (tc_threads_wait_for_finish s)))) = mset (ts_held s) - mset (tc_released s)"
    by (simp add: free_simps(1) wait_simps tc_released_def Let_def diff_diff_add_mset ac_simps del: mset_map)
  then show ?thesis using assms by (metis Diff_eq_empty_iff_mset mset_zero_iff)
qed

text \<open>What a created class guarantees, if its workload has both functions or none.\<close>

definition wl_paired :: "traffic_class_config \<Rightarrow> bool" where
  "wl_paired cfg \<longleftrightarrow> (workload_setup_function cfg = None) = (workload_teardown_function cfg = None)"

lemma workload_succeeded:
  assumes "workload_context_init wo cfg = (None, r)" "wl_paired cfg"
  shows "mset (workload_cells r) = mset (map TR_workload_thread (workload_thread_wait_for_finish cfg) @
    map TR_workload_set_up (fst (workload_thread_free cfg)) @ map TR_workload (snd (workload_thread_free cfg)))"
  using assms
  by (auto simp: workload_context_init_def workload_thread_free_def workload_thread_wait_for_finish_def workload_cells_def
      wl_paired_def Let_def split: if_splits option.splits)

lemma owned_released:
  assumes "workload_context_init wo (conf (ts_ctx s)) = (None, r)" "tc_owned (workload_cells r @ task_cells s) s"
    "wl_paired (conf (ts_ctx s))"
  shows "mset (ts_held s) \<subseteq># mset (tc_released s)"
proof -
  let ?x = "xdp_enabled (conf (ts_ctx s))"
  have h: "ts_held s = (workload_cells r @ task_cells s) @ security_cells s @ mirror_cells s @ socket_cells s @
      TR_frame_copy # buffer_cells ?x @ [TR_desc]" and p: "ts_packet_context s = (\<not> ?x)"
    and fd: "if ?x then ts_socket_fd s = 0 else ts_socket_fd s > 0"
    using assms(2) by (simp_all add: tc_owned_def Let_def)
  have sec: "mset (security_cells s) = mset (map TR_tx_security (security_exit (tx_security_context (ts_ctx s))) @
      map TR_rx_security (security_exit (rx_security_context (ts_ctx s))))"
    by (auto simp: security_cells_def security_exit_def split: option.split)
  have mir: "mset (mirror_cells s) = mset (map TR_mirror (ring_buffer_free (mirror_buffer (ts_ctx s))))"
    by (auto simp: mirror_cells_def ring_buffer_free_def split: option.split)
  have sock: "mset (socket_cells s) = mset (if ts_socket_fd s > 0 then [TR_socket (ts_socket_fd s)] else [])"
    using fd by (auto simp: socket_cells_def split: if_splits)
  have buf: "mset (buffer_cells ?x) \<subseteq># mset (map TR_packet (packet_free (ts_packet_context s)) @ [TR_tx_frame_data, TR_rx_frame_data])"
    using p by (auto simp: buffer_cells_def packet_free_def)
  have "mset (ts_held s) = mset (workload_cells r) + mset (task_cells s) + mset (security_cells s) + mset (mirror_cells s) +
      mset (socket_cells s) + {#TR_frame_copy, TR_desc#} + mset (buffer_cells ?x)"
    unfolding h by (simp add: ac_simps)
  also have "\<dots> \<subseteq># mset (tc_released s)"
    unfolding workload_succeeded [OF assms(1,3)] sec mir sock tc_released_def Let_def mset_append
    using buf by (simp add: ac_simps del: mset_map)
  finally show ?thesis .
qed

section \<open>Creating a class\<close>

definition tc_empty :: "'c tc_state \<Rightarrow> bool" where
  "tc_empty s \<longleftrightarrow> ts_held s = [] \<and> \<not> ts_packet_context s \<and> ts_xsk s = None \<and> ts_socket_fd s = 0 \<and>
     ts_tasks s = (\<lambda>_. None) \<and> mirror_buffer (ts_ctx s) = None \<and>
     tx_security_context (ts_ctx s) = None \<and> rx_security_context (ts_ctx s) = None"

text \<open>Descriptor 0 is in use, and the interface exists when a socket is closed.\<close>

definition tc_env_ok :: "tc_outcome \<Rightarrow> bool" where
  "tc_env_ok oc \<longleftrightarrow> so_socket (to_socket oc) \<noteq> Inr 0 \<and> to_close_if_index oc \<noteq> 0 \<and>
     (case create_udp_socket (to_udp_socket oc) of (Inr (fd, _), _) \<Rightarrow> fd \<noteq> 0 | _ \<Rightarrow> True)"

definition tc_ready :: "nat \<Rightarrow> 'c tc_state \<Rightarrow> bool" where
  "tc_ready u s \<longleftrightarrow> mset (ts_held s) \<subseteq># mset (tc_released s) \<and> xdp_balanced (shared s) \<and>
     xi_initialized (ts_xdp_init s) = (if ts_xsk s = None then u else Suc u)"

definition tc_create_ok :: "tc_outcome \<Rightarrow> 'c tc_state \<Rightarrow> errno option \<times> 'c tc_state \<Rightarrow> bool" where
  "tc_create_ok oc s r \<longleftrightarrow> (case r of
     (Some e, s') \<Rightarrow> list_all (stray_of oc) (ts_held s') \<and> xi_initialized (ts_xdp_init s') = xi_initialized (ts_xdp_init s)
   | (None, s') \<Rightarrow> tc_ready (xi_initialized (ts_xdp_init s)) s')"

lemma class_create_ok:
  assumes "tc_empty s" "xdp_balanced (shared s)" "sockets_ok d" "tc_env_ok oc" "wl_paired (classes app t)"
  shows "tc_create_ok oc s (tc_class_create md B app E oc t fid d s)"
proof -
  let ?u = "xi_initialized (ts_xdp_init s)"
  let ?s1 = "s\<lparr>ts_ctx := (ts_ctx s)\<lparr>conf := classes app t, frame_type := t,
    traffic_class := stat_frame_type_to_string app t, frame_id := fid\<rparr>\<rparr>"
  let ?s2 = "tc_acquire [TR_desc] (?s1\<lparr>ts_desc := Some d, ts_ctx := (ts_ctx ?s1)\<lparr>tx_model := desc_tx_model d\<rparr>\<rparr>)"
  obtain ret s3 where c: "tc_threads_create md B app E oc d ?s2 = (ret, s3)" by fastforce
  have "tc_blank ?s2" using assms(1) by (simp add: tc_empty_def tc_blank_def)
  then have l: "tc_late_ok oc ?u ?s2 (tc_up oc ?u) (ret, s3)"
    using tc_threads_create_held [of ?s2 d oc md B app E] assms(2-4) unfolding c by (simp add: tc_env_ok_def)
  have "list_all (stray_of oc) (ts_held (tc_release [TR_desc] s3)) \<and> xi_initialized (ts_xdp_init s3) = ?u" if e: "ret = Some e" for e
  proof -
    obtain L where L: "ts_held s3 = L @ [TR_desc]" "list_all (stray_of oc) L" "xi_initialized (ts_xdp_init s3) = ?u"
      using l e by (auto simp: tc_late_ok_def tc_failed_def)
    then have "TR_desc \<notin> set L" by (auto simp: list_all_iff stray_of_def)
    then show ?thesis using L by (simp add: remove1_append)
  qed
  moreover have "tc_ready ?u s3" if n: "ret = None"
  proof -
    have up: "tc_up oc ?u s3" and cf: "conf (ts_ctx s3) = classes app t" using l n by (auto simp: tc_late_ok_def)
    then obtain r where "workload_context_init (to_workload oc) (conf (ts_ctx s3)) = (None, r)"
      "tc_live ?u (workload_cells r @ task_cells s3) s3" by (auto simp: tc_up_def)
    then show ?thesis using owned_released [of "to_workload oc" s3 r] assms(5) cf by (simp add: tc_ready_def tc_live_def)
  qed
  moreover have "tc_ready ?u s" using assms(1,2) by (simp add: tc_ready_def tc_empty_def)
  ultimately show ?thesis using c assms(1)
    by (auto simp: tc_class_create_def tc_create_ok_def tc_empty_def Let_def split: option.split)
qed

lemma udp_sockets:
  "case create_udp_socket uo of (Inl _, fds) \<Rightarrow> fds = [] | (Inr (fd, _), fds) \<Rightarrow> fds = [fd]"
  by (auto simp: create_udp_socket_def dns_lookup_def Let_def split: prod.splits sum.splits option.splits if_splits)

definition udp_owned :: "tc_resource list \<Rightarrow> 'c tc_state \<Rightarrow> bool" where
  "udp_owned L s \<longleftrightarrow> ts_held s = L @ mirror_cells s @ [TR_rx_frame_data, TR_tx_frame_data, TR_socket (ts_socket_fd s)] \<and>
     ts_socket_fd s > 0 \<and> ts_xsk s = None"

lemma udp_err_failed:
  assumes "udp_owned L s" "list_all (stray_of oc) L"
  shows "list_all (stray_of oc) (ts_held (udp_err_thread s)) \<and> shared (udp_err_thread s) = shared s"
  using assms stray_of_stray [OF assms(2)]
  by (auto simp: udp_err_thread_def udp_err_buffer_def udp_err_rx_def udp_err_tx_def udp_owned_def mirror_cells_def
      ring_buffer_free_def remove1_stray split: option.split)

lemma udp_join:
  "udp_owned (L @ TR_thread t # L') s \<Longrightarrow> TR_thread t \<notin> set L \<Longrightarrow> udp_owned (L @ L') (tc_join t (tc_stop s))"
  by (simp add: udp_owned_def tc_join_def remove1_append)

lemma udp_acquire: "udp_owned L s \<Longrightarrow> udp_owned (rs @ L) (tc_acquire rs (s\<lparr>ts_tasks := x\<rparr>))"
  by (simp add: udp_owned_def)

lemma udp_err_txgen_failed:
  assumes "udp_owned (L @ [TR_thread Tx_thread]) s" "list_all (stray_of oc) L" "TR_thread Tx_thread \<notin> set L"
  shows "list_all (stray_of oc) (ts_held (udp_err_thread_txgen s)) \<and> shared (udp_err_thread_txgen s) = shared s"
  using udp_err_failed [of L "tc_join Tx_thread (tc_stop s)" oc] udp_join [OF assms(1,3)] assms(2)
  by (simp add: udp_err_thread_txgen_def tc_join_def)

lemma udp_err_rx_failed:
  assumes "udp_owned (L @ (if ts_tasks s Tx_gen_thread = None then [] else [TR_thread Tx_gen_thread]) @ [TR_thread Tx_thread]) s"
    "list_all (stray_of oc) L" "TR_thread Tx_thread \<notin> set L" "TR_thread Tx_gen_thread \<notin> set L"
  shows "list_all (stray_of oc) (ts_held (udp_err_thread_rx s)) \<and> shared (udp_err_thread_rx s) = shared s"
proof (cases "ts_tasks s Tx_gen_thread")
  case None
  then show ?thesis using udp_err_txgen_failed [of L "tc_stop s" oc] assms
    by (simp add: udp_err_thread_rx_def tc_join_started_def udp_owned_def)
next
  case (Some th)
  then show ?thesis
    using udp_err_txgen_failed [of L "tc_join Tx_gen_thread (tc_stop s)" oc] udp_join [of L Tx_gen_thread "[TR_thread Tx_thread]" s] assms
    by (simp add: udp_err_thread_rx_def tc_join_started_def) (simp add: tc_join_def)
qed

text \<open>Buffers and threads: an error leaves strays only.\<close>

definition udp_step_ok :: "tc_outcome \<Rightarrow> 'c tc_state \<Rightarrow> ('c tc_state \<Rightarrow> bool) \<Rightarrow> errno option \<times> 'c tc_state \<Rightarrow> bool" where
  "udp_step_ok oc s P r \<longleftrightarrow> (case r of (ret, s') \<Rightarrow> shared s' = shared s \<and>
     (if ret = None then P s' else list_all (stray_of oc) (ts_held s')))"

lemma udp_buffers_ok:
  assumes "ts_held s = [TR_socket (ts_socket_fd s)]" "ts_socket_fd s > 0" "ts_xsk s = None" "no_mirror s"
  shows "udp_step_ok oc s (\<lambda>s'. udp_owned [] s' \<and> no_threads s') (udp_create_buffers oc s)"
  using assms by (auto simp: udp_create_buffers_def udp_step_ok_def udp_owned_def mirror_cells_def no_mirror_def no_security_def
      no_threads_def udp_err_buffer_def udp_err_rx_def udp_err_tx_def Let_def split: option.split)

text \<open>Starting a thread on top of what a UDP class owns.\<close>

lemma udp_start_thread:
  assumes "tc_start_thread (to_thread oc t) prio cpu nm t s = (ret, s')" "udp_owned L s"
  shows "shared s' = shared s" "ret \<noteq> None \<Longrightarrow> \<exists>L'. udp_owned (L' @ L) s' \<and> list_all (stray_of oc) L' \<and> set L' \<subseteq> {TR_thread t}"
    "ret = None \<Longrightarrow> udp_owned (TR_thread t # L) s' \<and> (\<exists>th. ts_tasks s' = (ts_tasks s)(t := Some th))"
    "t' \<noteq> t \<Longrightarrow> ts_tasks s' t' = ts_tasks s t'"
proof -
  have a: "udp_owned (TR_thread t # L) (tc_acquire [TR_thread t] (s\<lparr>ts_tasks := x\<rparr>))" for x
    using udp_acquire [OF assms(2), of "[TR_thread t]" x] by simp
  note c = start_thread_cases [OF assms(1)]
  show "shared s' = shared s" "t' \<noteq> t \<Longrightarrow> ts_tasks s' t' = ts_tasks s t'" using c by auto
  show "ret = None \<Longrightarrow> udp_owned (TR_thread t # L) s' \<and> (\<exists>th. ts_tasks s' = (ts_tasks s)(t := Some th))" using c a by auto
  show "\<exists>L'. udp_owned (L' @ L) s' \<and> list_all (stray_of oc) L' \<and> set L' \<subseteq> {TR_thread t}" if "ret \<noteq> None"
    using c
  proof
    assume "ret \<noteq> None \<and> s' = s"
    then show ?thesis using assms(2) by (intro exI [of _ "[]"]) simp
  next
    assume "(\<exists>th. s' = tc_acquire [TR_thread t] (s\<lparr>ts_tasks := (ts_tasks s)(t := Some th)\<rparr>)) \<and>
      (ret \<noteq> None \<longrightarrow> rto_setname (to_thread oc t) \<noteq> None)"
    then show ?thesis using a that by (intro exI [of _ "[TR_thread t]"]) (auto simp: stray_of_def)
  qed
qed

lemma udp_rx_thread_ok:
  assumes "udp_owned (task_cells s) s" "tx_running s"
    "tc_start_thread (to_thread oc Rx_thread) prio cpu nm Rx_thread s = (ret, s')"
  shows "udp_step_ok oc s (\<lambda>s'. udp_owned (task_cells s') s') (if ret \<noteq> None then (ret, udp_err_thread_rx s') else (None, s'))"
proof (cases "ret = None")
  case True
  then show ?thesis using udp_start_thread(1,3) [OF assms(3,1)] assms(2)
    by (auto simp: udp_step_ok_def task_cells_def tx_running_def)
next
  case False
  then obtain L where L: "udp_owned (L @ task_cells s) s'" "list_all (stray_of oc) L" "set L \<subseteq> {TR_thread Rx_thread}"
    using udp_start_thread(2) [OF assms(3,1)] by blast
  have "task_cells s = (if ts_tasks s' Tx_gen_thread = None then [] else [TR_thread Tx_gen_thread]) @ [TR_thread Tx_thread]"
    using assms(2) udp_start_thread(4) [OF assms(3,1), of Tx_gen_thread] by (auto simp: task_cells_def tx_running_def)
  then have "list_all (stray_of oc) (ts_held (udp_err_thread_rx s')) \<and> shared (udp_err_thread_rx s') = shared s'"
    using L by (intro udp_err_rx_failed [of L]) auto
  then show ?thesis using False udp_start_thread(1) [OF assms(3,1)] by (auto simp: udp_step_ok_def)
qed

lemma udp_start_threads_ok:
  assumes "udp_owned [] s" "no_threads s"
  shows "udp_step_ok oc s (\<lambda>s'. udp_owned (task_cells s') s') (udp_start_threads oc s)"
proof -
  let ?cfg = "conf (ts_ctx s)"
  obtain r1 s1 where t: "tc_start_thread (to_thread oc Tx_thread) (tx_thread_priority ?cfg) (tx_thread_cpu ?cfg)
      (traffic_class (ts_ctx s) @ ''TxThread'') Tx_thread s = (r1, s1)" by fastforce
  obtain r2 s2 where g: "tc_start_thread (to_thread oc Tx_gen_thread) (tx_thread_priority ?cfg) (tx_thread_cpu ?cfg)
      (traffic_class (ts_ctx s) @ ''TxGenThread'') Tx_gen_thread s1 = (r2, s2)" by fastforce
  let ?rx = "tc_start_thread (to_thread oc Rx_thread) (rx_thread_priority ?cfg) (rx_thread_cpu ?cfg)
      (traffic_class (ts_ctx s) @ ''RxThread'') Rx_thread"
  note tx = udp_start_thread [OF t assms(1)]
  have rx: "udp_step_ok oc s (\<lambda>s'. udp_owned (task_cells s') s') (case ?rx s' of (ret, s'') \<Rightarrow> if ret \<noteq> None then (ret, udp_err_thread_rx s'') else (None, s''))"
    if "udp_owned (task_cells s') s'" "tx_running s'" "shared s' = shared s" for s'
  proof -
    obtain ret s'' where e: "?rx s' = (ret, s'')" by fastforce
    show ?thesis using udp_rx_thread_ok [OF that(1,2) e] that(3) by (auto simp: udp_step_ok_def e split: if_splits)
  qed
  show ?thesis
  proof (cases "r1 = None")
    case False
    then obtain L where "udp_owned L s1" "list_all (stray_of oc) L" using tx(2) by auto
    then show ?thesis using udp_err_failed [of L s1 oc] tx(1) t False by (auto simp: udp_start_threads_def udp_step_ok_def Let_def)
  next
    case True
    then have o1: "udp_owned [TR_thread Tx_thread] s1" "\<exists>th. ts_tasks s1 = (\<lambda>_. None)(Tx_thread := Some th)"
      using tx(3) assms(2) by (auto simp: no_threads_def)
    note gen = udp_start_thread [OF g o1(1)]
    have e: "list_all (stray_of oc) (ts_held (udp_err_thread_txgen s2)) \<and> shared (udp_err_thread_txgen s2) = shared s2" if ne: "r2 \<noteq> None"
    proof -
      obtain L where "udp_owned (L @ [TR_thread Tx_thread]) s2" "list_all (stray_of oc) L" "set L \<subseteq> {TR_thread Tx_gen_thread}"
        using gen(2) [OF ne] by blast
      then show ?thesis by (intro udp_err_txgen_failed [of L]) auto
    qed
    have o2: "udp_owned (task_cells s2) s2 \<and> tx_running s2" if "r2 = None"
      using gen(3) [OF that] o1(2) by (auto simp: task_cells_def tx_running_def)
    have "udp_owned (task_cells s1) s1 \<and> tx_running s1" using o1 by (auto simp: task_cells_def tx_running_def)
    then show ?thesis using rx [of s1] rx [of s2] o2 e t g True tx(1) gen(1)
      by (auto simp: udp_start_threads_def udp_step_ok_def Let_def split: prod.splits)
  qed
qed

lemma udp_create_ok:
  assumes "tc_empty s" "xdp_balanced (shared s)" "tc_env_ok oc"
  shows "tc_create_ok oc s (udp_threads_create app oc s)"
proof -
  obtain r fds where c: "create_udp_socket (to_udp_socket oc) = (r, fds)" by fastforce
  show ?thesis
  proof (cases "config_is_tc_active app (frame_type (ts_ctx s)) \<and> (\<exists>x. r = Inr x)")
    case False
    then show ?thesis using assms c udp_sockets [of "to_udp_socket oc"]
      by (cases r) (auto simp: udp_threads_create_def tc_create_ok_def tc_ready_def tc_empty_def split: option.split)
  next
    case True
    then obtain fd dst where r: "r = Inr (fd, dst)" "fds = [fd]" "fd > 0"
      using c udp_sockets [of "to_udp_socket oc"] assms(3) by (auto simp: tc_env_ok_def)
    let ?s = "tc_acquire (map (TR_socket \<circ> int) fds) (s\<lparr>ts_socket_fd := int fd, ts_destination := Some dst\<rparr>)"
    have b: "udp_step_ok oc ?s (\<lambda>s'. udp_owned [] s' \<and> no_threads s') (udp_create_buffers oc ?s)"
      using assms(1) r by (intro udp_buffers_ok) (simp_all add: tc_empty_def no_mirror_def no_security_def no_threads_def)
    have "udp_step_ok oc ?s (\<lambda>s'. udp_owned (task_cells s') s') (and_then (udp_create_buffers oc ?s) (udp_start_threads oc))"
      using b udp_start_threads_ok [of _ oc] by (fastforce simp: udp_step_ok_def and_then_def split: prod.splits option.splits)
    moreover have "mset (ts_held s') \<subseteq># mset (tc_released s')" if "udp_owned (task_cells s') s'" for s' :: "'a tc_state"
      using that by (auto simp: udp_owned_def tc_released_def mirror_cells_def ring_buffer_free_def Let_def ac_simps split: option.splits)
    ultimately show ?thesis using True c r assms(2)
      by (auto simp: udp_threads_create_def udp_step_ok_def tc_create_ok_def tc_ready_def udp_owned_def split: prod.splits option.splits if_splits)
  qed
qed

section \<open>The classes\<close>

lemma create_socket_fd:
  "case create_socket B app so t prog of (Inl _, fds) \<Rightarrow> fds = [] | (Inr s, fds) \<Rightarrow> fds = [rs_fd s] \<and> so_socket so = Inr (rs_fd s)"
  using create_raw_socket_ok [of so "interface (classes app t)" "socket_priority (classes app t)"]
  by (auto simp: create_socket_def Let_def split: sum.splits option.splits prod.splits if_splits)

lemma class_sockets_ok:
  assumes "ops_create_socket (desc_ops d) \<in> {create_tsn_high_socket B app, create_tsn_low_socket B app, create_rtc_socket B app,
    create_rta_socket B app, create_dcp_socket B app, create_lldp_socket B app, create_generic_l2_socket B app,
    create_ethercat_socket B app}"
  shows "sockets_ok d"
  unfolding sockets_ok_def
proof
  fix so
  obtain t prog where e: "ops_create_socket (desc_ops d) so = create_socket B app so t prog"
    using assms by (auto simp: create_tsn_high_socket_def create_tsn_low_socket_def create_rtc_socket_def create_rta_socket_def
      create_dcp_socket_def create_lldp_socket_def create_generic_l2_socket_def create_ethercat_socket_def)
  show "case ops_create_socket (desc_ops d) so of
     (Inl _, fds) \<Rightarrow> fds = [] | (Inr s, fds) \<Rightarrow> fds = [rs_fd s] \<and> so_socket so = Inr (rs_fd s)"
    unfolding e by (rule create_socket_fd)
qed

lemma tc_empty_ctx:
  "tc_empty s \<Longrightarrow> tc_empty (s\<lparr>ts_ctx := (ts_ctx s)\<lparr>conf := c, frame_type := t, traffic_class := n\<rparr>\<rparr>)"
  by (simp add: tc_empty_def)

lemma pn_create_ok:
  assumes "tc_empty s" "xdp_balanced (shared s)" "tc_env_ok oc" "wl_paired (classes app (pn_frame_type p))"
  shows "tc_create_ok oc s (pn_threads_create md B app E oc p s)"
proof -
  have udp: "tc_create_ok oc s (udp_threads_create app oc (s\<lparr>ts_ctx := (ts_ctx s)\<lparr>conf := c, frame_type := t, traffic_class := n\<rparr>\<rparr>))" for c t n
    using udp_create_ok [OF tc_empty_ctx [OF assms(1), where c = c and t = t and n = n] _ assms(3), of app] assms(2)
    by (auto simp: tc_create_ok_def split: prod.splits option.splits)
  note cls = class_create_ok [OF assms(1,2) class_sockets_ok assms(3)]
  note creates = tsn_high_threads_create_def tsn_low_threads_create_def rtc_threads_create_def rta_threads_create_def
    dcp_threads_create_def lldp_threads_create_def udp_high_threads_create_def udp_low_threads_create_def
  show ?thesis
    by (cases p; simp only: pn_threads_create_def creates pn_thread_type.case;
        ((rule udp) | (rule cls [where B1 = B and app1 = app], simp add: class_ops_def, use assms(4) in simp)))
qed

lemma g2_create_ok:
  assumes "tc_empty s" "xdp_balanced (shared s)" "tc_env_ok oc" "wl_paired (classes app GENERICL2_FRAME_TYPE)"
  shows "tc_create_ok oc s (generic_l2_threads_create md B app E oc s)"
  unfolding generic_l2_threads_create_def
  by (rule class_create_ok [OF assms(1,2) class_sockets_ok [where B = B and app = app] assms(3,4)]) (simp add: class_ops_def)


section \<open>The program\<close>

definition xsk_users :: "'c tc_state list \<Rightarrow> nat" where "xsk_users ts = length (filter (\<lambda>s. ts_xsk s \<noteq> None) ts)"

text \<open>Some classes were created, others are as allocated; \<open>prev\<close> was created last, \<open>u\<close> users of
  the XDP program come from elsewhere.\<close>

definition tb_inv :: "nat \<Rightarrow> 'c tc_state \<Rightarrow> 'c tc_state list \<Rightarrow> bool" where
  "tb_inv u prev ts \<longleftrightarrow> xdp_balanced (shared prev) \<and> xi_initialized (ts_xdp_init prev) = u + xsk_users ts \<and>
     (\<forall>s \<in> set ts. mset (ts_held s) \<subseteq># mset (tc_released s))"

lemma xsk_users_update:
  "i < length ts \<Longrightarrow> ts_xsk (ts ! i) = None \<Longrightarrow>
     xsk_users (ts[i := s]) = (if ts_xsk s = None then xsk_users ts else Suc (xsk_users ts))"
  unfolding xsk_users_def
proof (induction ts arbitrary: i)
  case (Cons a ts)
  then show ?case by (cases i) auto
qed simp

lemma tb_create_pn_inv:
  assumes "tb_create_pn md B app E ocs ps prev ts = Some ts'" "tb_inv u prev ts" "distinct ps" "length ts = 8"
    and "\<forall>p \<in> set ps. tc_empty (ts ! pn_index p)" "\<And>p. tc_env_ok (ocs p)" "\<And>t. wl_paired (classes app t)"
  shows "\<exists>last. tb_inv u last ts' \<and> length ts' = 8 \<and> last = (if ps = [] then prev else ts' ! pn_index (List.last ps))"
  using assms(1-5)
proof (induction ps arbitrary: prev ts)
  case (Cons p ps)
  let ?s = "share prev (ts ! pn_index p)"
  obtain ret s where c: "pn_threads_create md B app E (ocs p) p ?s = (ret, s)" by fastforce
  have e: "tc_empty ?s" using Cons.prems(5) by (simp add: tc_empty_def)
  have r: "ret = None" "tb_create_pn md B app E ocs ps s (ts[pn_index p := s]) = Some ts'"
    using Cons.prems(1) c by (auto split: if_splits)
  have "tc_ready (xi_initialized (ts_xdp_init prev)) s"
    using pn_create_ok [OF e _ assms(6) [of p] assms(7) [of "pn_frame_type p"], of md B E] Cons.prems(2) c r(1) by (simp add: tb_inv_def tc_create_ok_def)
  then have inv: "tb_inv u s (ts[pn_index p := s])"
    using Cons.prems(2,4,5) set_update_subset_insert [of ts "pn_index p" s]
    by (auto simp: tb_inv_def tc_ready_def tc_empty_def xsk_users_update)
  have "\<exists>last. tb_inv u last ts' \<and> length ts' = 8 \<and> last = (if ps = [] then s else ts' ! pn_index (List.last ps))"
    using Cons.prems(3-5) by (intro Cons.IH [OF r(2) inv]) (auto simp: nth_list_update)
  then show ?case using r(2) Cons.prems(4) by (cases ps) auto
qed auto

lemma xdp_closed_inv:
  assumes "xdp_balanced (shared prev)" "xi_initialized (ts_xdp_init prev) = (if ts_xsk s = None then u else Suc u)"
    "to_close_if_index oc \<noteq> 0"
  shows "xdp_balanced (xdp_closed oc (share prev s)) \<and> xi_initialized (fst (xdp_closed oc (share prev s))) = u"
  using assms close_balanced [of "ts_xdp_init prev" "ts_xdp_held prev" u "to_close_if_index oc"] by (auto simp: xdp_closed_def)

lemma tb_free_pn_ok:
  assumes "tb_inv u prev ts" "to_close_if_index oc \<noteq> 0"
  shows "case tb_free_pn oc prev (map tc_threads_wait_for_finish ts) of
    (p, ss) \<Rightarrow> xdp_balanced (shared p) \<and> xi_initialized (ts_xdp_init p) = u \<and> (\<forall>s \<in> set ss. ts_held s = [])"
  using assms(1)
proof (induction ts arbitrary: prev)
  case (Cons s ts)
  let ?w = "tc_threads_wait_for_finish s"
  let ?f = "tc_threads_free oc (share prev ?w)"
  have u: "xi_initialized (ts_xdp_init prev) = (if ts_xsk ?w = None then u + xsk_users ts else Suc (u + xsk_users ts))"
    and b: "xdp_balanced (shared prev)" and m: "mset (ts_held s) \<subseteq># mset (tc_released s)"
    using Cons.prems by (auto simp: tb_inv_def xsk_users_def wait_simps)
  have "shared ?f = xdp_closed oc (share prev ?w)" by (rule free_simps(2))
  then have "xdp_balanced (shared ?f)" "xi_initialized (ts_xdp_init ?f) = u + xsk_users ts"
    using xdp_closed_inv [OF b u assms(2)] by (metis, metis fst_conv)
  then have "tb_inv u ?f ts" using Cons.prems by (simp add: tb_inv_def)
  then show ?case using Cons.IH [of ?f] free_nothing_held [OF m, of oc prev] by (simp add: Let_def split: prod.splits)
qed (simp add: tb_inv_def xsk_users_def)

lemma stop_released [simp]: "tc_released (tc_stop s) = tc_released s" "xsk_users (map tc_stop ts) = xsk_users ts"
  by (simp_all add: tc_released_def task_cells_def xsk_users_def comp_def filter_map)
    (simp_all add: tc_stop_def)

lemma link_length: "link_pn_threads app ts = Some (ret, ts') \<Longrightarrow> length ts = 8 \<Longrightarrow> length ts' = 8"
  by (auto simp: link_pn_threads_def Let_def bind_eq_Some split: if_splits)

text \<open>The creation order is that of the chain, reversed: all classes a class may signal exist
  already.\<close>

lemma tb_create_order_rev: "tb_create_order = rev pn_thread_types"
  by (simp add: tb_create_order_def pn_thread_types_def)

lemma all_update:
  assumes "\<forall>c \<in> set ts. Q c" "\<And>c. Q c \<Longrightarrow> Q (f c)"
  shows "\<forall>c \<in> set (ts[i := f (ts ! i)]). Q c"
proof (cases "i < length ts")
  case True
  then show ?thesis using assms set_update_subset_insert [of ts i "f (ts ! i)"] nth_mem [of i ts] by blast
qed (use assms(1) in \<open>simp add: list_update_beyond\<close>)

definition owns_nothing :: "'c thread_context \<Rightarrow> bool" where
  "owns_nothing c \<longleftrightarrow> mirror_buffer c = None \<and> tx_security_context c = None \<and> rx_security_context c = None"

lemma linked_empty:
  assumes "link_pn_threads app ts = Some (ret, ctxs)" "\<forall>c \<in> set ts. owns_nothing c"
  shows "\<forall>c \<in> set ctxs. owns_nothing c"
proof -
  let ?ts = "map (\<lambda>(p, c). c\<lparr>next_ctx := map_option pn_index (find_next_pn_thread app p)\<rparr>) (zip pn_thread_types ts)"
  have z: "\<forall>c \<in> set ?ts. owns_nothing c" using assms(2) by (auto simp: owns_nothing_def dest: set_zip_rightD)
  have u: "\<forall>c \<in> set (ts'[i := (ts' ! i)\<lparr>is_first := b\<rparr>]). owns_nothing c" "\<forall>c \<in> set (ts'[i := (ts' ! i)\<lparr>is_last := b\<rparr>]). owns_nothing c"
    if "\<forall>c \<in> set ts'. owns_nothing c" for ts' :: "'a thread_context list" and i b
    using all_update [OF that, of "\<lambda>c. c\<lparr>is_first := b\<rparr>" i] all_update [OF that, of "\<lambda>c. c\<lparr>is_last := b\<rparr>" i]
    by (simp_all add: owns_nothing_def)
  have "ctxs = ?ts \<or> (\<exists>i j. ctxs = ?ts[i := (?ts ! i)\<lparr>is_first := True\<rparr>, j := (?ts[i := (?ts ! i)\<lparr>is_first := True\<rparr>] ! j)\<lparr>is_last := True\<rparr>])"
    using assms(1) unfolding link_pn_threads_def Let_def bind_eq_Some by (auto split: if_splits simp: bind_eq_Some)
  then show ?thesis using z u(2) [OF u(1) [OF z]] by blast
qed

lemma join_shared [simp]: "ts_xdp_init (tc_join_started t s) = ts_xdp_init s" "ts_xdp_held (tc_join_started t s) = ts_xdp_held s"
  by (simp_all add: tc_join_started_def tc_join_def)

lemma wait_shared [simp]: "ts_xdp_init (tc_threads_wait_for_finish s) = ts_xdp_init s" "ts_xdp_held (tc_threads_wait_for_finish s) = ts_xdp_held s"
  by (simp_all add: tc_threads_wait_for_finish_def Let_def)

lemma tb_create_inv:
  assumes "tb_create_threads md B app E g2_ok threads_ok oc ocs g = Some (Some tb)" "xi_initialized g = 0"
    "tc_env_ok oc" "\<And>p. tc_env_ok (ocs p)" "\<And>t. wl_paired (classes app t)"
  shows "tb_inv (xsk_users [g2_threads tb]) (pn_threads tb ! 0) (pn_threads tb)" "length (pn_threads tb) = 8"
    "mset (ts_held (g2_threads tb)) \<subseteq># mset (tc_released (g2_threads tb))"
proof -
  let ?z = "zero_tc_state g"
  obtain g2 ctxs ts where g2: "generic_l2_threads_create md B app E oc ?z = (None, g2)"
    and lk: "link_pn_threads app (map ts_ctx (replicate 8 ?z)) = Some (None, ctxs)"
    and ts: "tb_create_pn md B app E ocs tb_create_order g2 (map (\<lambda>c. ?z\<lparr>ts_ctx := c\<rparr>) ctxs) = Some ts"
    and tb: "tb = \<lparr>g2_threads = g2, pn_threads = ts\<rparr>"
    using assms(1) by (auto simp: tb_create_threads_def Let_def bind_eq_Some split: if_splits prod.splits)
  have e: "tc_empty ?z" "xdp_balanced (shared ?z)"
    using assms(2) by (simp_all add: tc_empty_def zero_tc_state_def fresh_context_def xdp_balanced_def)
  then have r: "tc_ready 0 g2"
    using g2_create_ok [OF e assms(3,5), of md B E] g2 assms(2) by (simp add: tc_create_ok_def zero_tc_state_def)
  have len: "length ctxs = 8" using link_length [OF lk] by simp
  have c: "tc_empty (?z\<lparr>ts_ctx := c\<rparr>)" if "c \<in> set ctxs" for c
    using linked_empty [OF lk] that by (simp add: tc_empty_def owns_nothing_def zero_tc_state_def fresh_context_def)
  have "tb_inv (xsk_users [g2]) g2 (map (\<lambda>c. ?z\<lparr>ts_ctx := c\<rparr>) ctxs)"
    using r by (auto simp: tb_inv_def tc_ready_def xsk_users_def zero_tc_state_def)
  moreover have "\<forall>p \<in> set tb_create_order. tc_empty (map (\<lambda>c. ?z\<lparr>ts_ctx := c\<rparr>) ctxs ! pn_index p)"
    using c len by simp
  moreover have "distinct tb_create_order" "tb_create_order \<noteq> []" "List.last tb_create_order = TSN_HIGH_THREAD"
    by (simp_all add: tb_create_order_def)
  ultimately show "tb_inv (xsk_users [g2_threads tb]) (pn_threads tb ! 0) (pn_threads tb)" "length (pn_threads tb) = 8"
    using tb_create_pn_inv [OF ts _ _ _ _ assms(4,5)] len tb by auto
  show "mset (ts_held (g2_threads tb)) \<subseteq># mset (tc_released (g2_threads tb))" using r tb by (simp add: tc_ready_def)
qed



section \<open>Ready to send\<close>

text \<open>The context a successful creation leaves behind, step by step.\<close>

lemma buffers_ctx:
  assumes "tc_create_buffers oc s = (None, s')" "\<not> xdp_enabled (conf (ts_ctx s))"
  shows "\<exists>rx. ts_ctx s' = (ts_ctx s)\<lparr>tx_frame_data := replicate (num_frames_per_cycle (conf (ts_ctx s)) * MAX_FRAME_SIZE) 0, rx_frame_data := rx\<rparr>"
  using assms by (auto simp: tc_create_buffers_def Let_def split: if_splits prod.splits)

lemma template_ctx:
  assumes "tc_create_template oc s = (None, s')"
  shows "\<exists>a. to_mac_ioctl oc = Inr a \<and> ts_ctx s' = (ts_ctx s)\<lparr>source := take ETH_ALEN a, frame_copy := Some (replicate MAX_FRAME_SIZE 0),
    ctx_payload_pattern := Some 44, ctx_payload_pattern_length := nat ((int (frame_length (conf (ts_ctx s))) - 60) mod 2 ^ 64)\<rparr>"
  using assms by (auto simp: tc_create_template_def get_interface_mac_address_def Let_def split: if_splits sum.splits)

lemma socket_ctx: "tc_create_socket md B app oc d s = (None, s') \<Longrightarrow> ts_ctx s' = ts_ctx s"
  by (auto simp: tc_create_socket_def Let_def split: if_splits sum.splits prod.splits)

lemma mirror_ctx: "tc_create_mirror oc s = (None, s') \<Longrightarrow> \<exists>m. ts_ctx s' = (ts_ctx s)\<lparr>mirror_buffer := m\<rparr>"
  by (auto simp: tc_create_mirror_def Let_def split: if_splits option.splits
      intro: exI [of _ "mirror_buffer (ts_ctx s)"])

definition security_ready :: "('c, 's) evp \<Rightarrow> traffic_class_config \<Rightarrow> 'c security_context option \<Rightarrow> bool" where
  "security_ready E cfg sec \<longleftrightarrow>
     (if security_mode cfg = SECURITY_MODE_NONE then sec = None
      else \<exists>sc alg. sec = Some sc \<and> EVP_EncryptInit_key E alg (ptr_bytes (security_key cfg)) = Some (sc_ctx sc))"

lemma security_init_ready:
  "security_init E ok alg key = (Some sc, rs) \<Longrightarrow> EVP_EncryptInit_key E (security_algorithm_to_string alg) key = Some (sc_ctx sc)"
  by (auto simp: security_init_def split: if_splits option.splits)

lemma security_ctx:
  assumes "tc_create_security E oc s = (None, s')"
  shows "ts_ctx s' = (ts_ctx s)\<lparr>tx_security_context := tx_security_context (ts_ctx s'), rx_security_context := rx_security_context (ts_ctx s')\<rparr> \<and>
    security_ready E (conf (ts_ctx s)) (tx_security_context (ts_ctx s')) \<and>
    security_ready E (conf (ts_ctx s)) (rx_security_context (ts_ctx s'))"
  using assms by (auto simp: tc_create_security_def security_ready_def Let_def split: if_splits prod.splits dest!: security_init_ready)

lemma start_thread_ctx: "tc_start_thread ro prio cpu nm t s = (r, s') \<Longrightarrow> ts_ctx s' = ts_ctx s"
  by (auto simp: tc_start_thread_def split: prod.splits option.splits)

lemma tx_threads_ctx:
  assumes "tc_create_tx_threads oc d s = (None, s')"
  shows "ts_ctx s' = (ts_ctx s)\<lparr>meta_data_offset := get_meta_data_offset (frame_type (ts_ctx s)) (security_mode (conf (ts_ctx s)))\<rparr>"
  using assms by (auto simp: tc_create_tx_threads_def Let_def split: if_splits prod.splits dest!: start_thread_ctx)

lemma rx_threads_ctx: "tc_create_rx_threads oc s = (None, s') \<Longrightarrow> ts_ctx s' = ts_ctx s"
  by (auto simp: tc_create_rx_threads_def Let_def split: if_splits prod.splits dest!: start_thread_ctx)

lemma and_then_None: "and_then r f = (None, s'') \<Longrightarrow> \<exists>s'. r = (None, s') \<and> f s' = (None, s'')"
  by (auto simp: and_then_def split: prod.splits option.splits)

lemma threads_create_ctx:
  assumes "tc_threads_create md B app E oc d s = (None, s')" "\<not> xdp_enabled (conf (ts_ctx s))"
  defines "cfg \<equiv> conf (ts_ctx s)"
  shows "conf (ts_ctx s') = cfg" "frame_type (ts_ctx s') = frame_type (ts_ctx s)" "frame_id (ts_ctx s') = frame_id (ts_ctx s)"
    "length (tx_frame_data (ts_ctx s')) = num_frames_per_cycle cfg * MAX_FRAME_SIZE"
    "\<exists>a. to_mac_ioctl oc = Inr a \<and> source (ts_ctx s') = take ETH_ALEN a"
    "frame_copy (ts_ctx s') = Some (replicate MAX_FRAME_SIZE 0)" "ctx_payload_pattern (ts_ctx s') = Some 44"
    "ctx_payload_pattern_length (ts_ctx s') = nat ((int (frame_length cfg) - 60) mod 2 ^ 64)"
    "meta_data_offset (ts_ctx s') = get_meta_data_offset (frame_type (ts_ctx s)) (security_mode cfg)"
    "security_ready E cfg (tx_security_context (ts_ctx s'))" "security_ready E cfg (rx_security_context (ts_ctx s'))"
proof -
  obtain s1 s2 s3 s4 s5 s6 where
    "tc_create_buffers oc s = (None, s1)" and st: "tc_create_template oc s1 = (None, s2)" "tc_create_socket md B app oc d s2 = (None, s3)"
    "tc_create_mirror oc s3 = (None, s4)" "tc_create_security E oc s4 = (None, s5)" "tc_create_tx_threads oc d s5 = (None, s6)"
    "tc_create_rx_threads oc s6 = (None, s')"
    using assms(1) unfolding tc_threads_create_def by (blast dest: and_then_None)
  then obtain rx where c1: "ts_ctx s1 = (ts_ctx s)\<lparr>tx_frame_data := replicate (num_frames_per_cycle cfg * MAX_FRAME_SIZE) 0, rx_frame_data := rx\<rparr>"
    using buffers_ctx assms(2) unfolding cfg_def by blast
  obtain a where a: "to_mac_ioctl oc = Inr a" and c2: "ts_ctx s2 = (ts_ctx s1)\<lparr>source := take ETH_ALEN a, frame_copy := Some (replicate MAX_FRAME_SIZE 0),
    ctx_payload_pattern := Some 44, ctx_payload_pattern_length := nat ((int (frame_length (conf (ts_ctx s1))) - 60) mod 2 ^ 64)\<rparr>"
    using template_ctx [OF st(1)] by blast
  obtain m where c4: "ts_ctx s4 = (ts_ctx s2)\<lparr>mirror_buffer := m\<rparr>" using mirror_ctx [OF st(3)] socket_ctx [OF st(2)] by auto
  note c5 = security_ctx [OF st(4)]
  have c7: "ts_ctx s' = (ts_ctx s5)\<lparr>meta_data_offset := get_meta_data_offset (frame_type (ts_ctx s5)) (security_mode (conf (ts_ctx s5)))\<rparr>"
    using tx_threads_ctx [OF st(5)] rx_threads_ctx [OF st(6)] by simp
  obtain tx rx' where c6: "ts_ctx s5 = (ts_ctx s4)\<lparr>tx_security_context := tx, rx_security_context := rx'\<rparr>"
    "security_ready E (conf (ts_ctx s4)) tx" "security_ready E (conf (ts_ctx s4)) rx'" using c5 by blast
  show "conf (ts_ctx s') = cfg" "frame_type (ts_ctx s') = frame_type (ts_ctx s)" "frame_id (ts_ctx s') = frame_id (ts_ctx s)"
    "length (tx_frame_data (ts_ctx s')) = num_frames_per_cycle cfg * MAX_FRAME_SIZE"
    "\<exists>a. to_mac_ioctl oc = Inr a \<and> source (ts_ctx s') = take ETH_ALEN a"
    "frame_copy (ts_ctx s') = Some (replicate MAX_FRAME_SIZE 0)" "ctx_payload_pattern (ts_ctx s') = Some 44"
    "ctx_payload_pattern_length (ts_ctx s') = nat ((int (frame_length cfg) - 60) mod 2 ^ 64)"
    "meta_data_offset (ts_ctx s') = get_meta_data_offset (frame_type (ts_ctx s)) (security_mode cfg)"
    "security_ready E cfg (tx_security_context (ts_ctx s'))" "security_ready E cfg (rx_security_context (ts_ctx s'))"
    using a c6(2,3) unfolding c7 c6(1) c4 c2 c1 cfg_def by simp_all
qed

text \<open>The PROFINET classes with security, and the parts of their create functions that differ.\<close>

lemma pn_class_create:
  assumes "p \<in> {TSN_HIGH_THREAD, TSN_LOW_THREAD, RTC_THREAD, RTA_THREAD}" "pn_active app p"
    "pn_threads_create md B app E oc p s = (None, s')"
  shows "\<exists>d s0. tc_threads_create md B app E oc d s0 = (None, s') \<and> conf (ts_ctx s0) = classes app (pn_frame_type p) \<and>
    frame_type (ts_ctx s0) = pn_frame_type p"
  using assms by (auto simp: pn_threads_create_def tsn_high_threads_create_def tsn_low_threads_create_def rtc_threads_create_def
      rta_threads_create_def tc_class_create_def Let_def split: if_splits prod.splits) (force simp: tc_acquire_def)+

text \<open>C2. From the configuration file to a class that is ready: for a configuration with which
  the program starts, creating an active PROFINET class with a raw socket leaves a context that
  meets the conditions under which its frames are sent and received correctly: buffers for
  all frames, the template, the position of the meta data, and for a secured class cipher
  contexts keyed with the configured key.  The receive side needs frames of at least 60
  bytes, which every secured class has.\<close>

theorem pn_startup_ready:
  assumes "startup_config mem now mirror toks current B = Some app"
    and "p \<in> {TSN_HIGH_THREAD, TSN_LOW_THREAD, RTC_THREAD, RTA_THREAD}" "pn_active app p"
    and "\<not> xdp_enabled (classes app (pn_frame_type p))" "num_frames_per_cycle (classes app (pn_frame_type p)) \<le> 2 ^ 32"
    and "\<And>alg key c. EVP_EncryptInit_key E alg key = Some c \<Longrightarrow> evp_aead E c"
    and "\<And>a. to_mac_ioctl oc = Inr a \<Longrightarrow> ETH_ALEN \<le> length a"
    and "pn_threads_create md B' app E oc p s = (None, s')"
  shows "conf (ts_ctx s') = classes app (pn_frame_type p) \<and> pn_tx_ok E (ts_ctx s') \<and>
    (60 \<le> frame_length (classes app (pn_frame_type p)) \<longrightarrow> pn_ctx_ok (ts_ctx s'))"
proof -
  let ?t = "pn_frame_type p" and ?c = "classes app (pn_frame_type p)"
  obtain d s0 where d: "tc_threads_create md B' app E oc d s0 = (None, s')" "conf (ts_ctx s0) = ?c" "frame_type (ts_ctx s0) = ?t"
    using pn_class_create [OF assms(2,3,8)] by blast
  have t: "?t \<in> {TSN_HIGH_FRAME_TYPE, TSN_LOW_FRAME_TYPE, RTC_FRAME_TYPE, RTA_FRAME_TYPE}" using assms(2) by auto
  note sizes = startup_class_sizes [OF assms(1) t]
  have w: "class_wf ?c" using startup_cases [OF assms(1)] by (simp add: app_wf_def)
  note ctx = threads_create_ctx [OF d(1), unfolded d(2,3), OF assms(4)]
  have len: "ctx_payload_pattern_length (ts_ctx s') + 60 = frame_length ?c" if "60 \<le> frame_length ?c"
  proof -
    have "(int (frame_length ?c) - 60) mod 2 ^ 64 = int (frame_length ?c) - 60"
      by (rule mod_pos_pos_trivial) (use that sizes(1) in simp_all)
    then show ?thesis using ctx(8) that by simp
  qed
  have src: "length (source (ts_ctx s')) = 6" using ctx(5) assms(7) by auto
  have n: "0 < num_frames_per_cycle ?c" using assms(3) by (simp add: config_is_tc_active_def)
  have off: "meta_data_offset (ts_ctx s') = (if security_mode ?c \<noteq> SECURITY_MODE_NONE then 28 else 20)" "?t \<noteq> GENERICL2_FRAME_TYPE"
    using ctx(9) t by (auto simp: get_meta_data_offset_def split: security_mode.split)
  have pat: "payload_pattern_length ?c = length (ptr_bytes (payload_pattern ?c))" "length (l2_destination ?c) = 6"
    using w by (simp_all add: class_wf_def)
  have tx: "pn_tx_ok E (ts_ctx s')"
  proof (cases "security_mode ?c = SECURITY_MODE_NONE")
    case True
    then show ?thesis unfolding pn_tx_ok_def pn_secure_def Let_def ctx(1)
      using sizes(1,2) pat ctx(2,4,6,10) src n off assms(5) by (simp add: security_ready_def)
  next
    case False
    then obtain sc where "tx_security_context (ts_ctx s') = Some sc" "evp_aead E (sc_ctx sc)"
      using ctx(10) assms(6) by (auto simp: security_ready_def)
    moreover have "60 \<le> frame_length ?c" using sizes(2) False by simp
    ultimately show ?thesis unfolding pn_tx_ok_def pn_secure_def Let_def ctx(1)
      using False sizes pat ctx(2,4,6,7) src n off assms(5) len by simp
  qed
  have "pn_ctx_ok (ts_ctx s')" if "60 \<le> frame_length ?c"
    unfolding pn_ctx_ok_def Let_def ctx(1)
    using sizes(1-3) pat ctx(6,7,11) len [OF that] by (auto simp: security_ready_def split: if_splits)
  then show ?thesis using ctx(1) tx by simp
qed

section \<open>Examples\<close>

definition demo_rt :: "errno option \<Rightarrow> rt_outcome" where
  "demo_rt setname = \<lparr>rto_attr_init = None, rto_stacksize = None, rto_policy = None, rto_param = None, rto_inherit = None,
     rto_affinity = None, rto_create = None, rto_setname = setname\<rparr>"

definition demo_xdp_init :: xdp_init where "demo_xdp_init = \<lparr>xi_prog = None, xi_initialized = 0, xi_xsks_map = 0\<rparr>"

definition demo_tc_outcome :: "errno option \<Rightarrow> tc_outcome" where
  "demo_tc_outcome setname = \<lparr>to_packet = (\<lambda>_. True), to_tx_frame_data = True, to_rx_frame_data = True, to_mac_socket = Inr 5,
     to_mac_ioctl = Inr [2, 0, 0, 0, 0, 1], to_frame_copy = True, to_xdp = demo_open, to_close_if_index = 2,
     to_socket = demo_socket, to_udp_socket = \<lparr>uo_destination = None, uo_source = None, uo_bind = None, uo_priority = None,
     uo_nonblocking = None\<rparr>, to_udp_errno = None, to_ring_buffer = True, to_ring_buffer_data = True, to_tx_security = True,
     to_rx_security = True, to_thread = (\<lambda>t. demo_rt (if t = Tx_thread then setname else None)),
     to_workload = demo_wl_outcome None, to_desc = True\<rparr>"

text \<open>A file that enables RTC with a raw socket.\<close>

definition demo_rtc_tokens :: "yaml_token list" where
  "demo_rtc_tokens = [YAML_KEY_TOKEN, YAML_SCALAR_TOKEN ''RtcEnabled'' True, YAML_VALUE_TOKEN, YAML_SCALAR_TOKEN ''true'' True,
     YAML_KEY_TOKEN, YAML_SCALAR_TOKEN ''RtcXdpEnabled'' True, YAML_VALUE_TOKEN, YAML_SCALAR_TOKEN ''false'' True]"

definition demo_rtc_app :: application_config where
  "demo_rtc_app = demo_defaults\<lparr>classes := (classes demo_defaults)(RTC_FRAME_TYPE :=
     (classes demo_defaults RTC_FRAME_TYPE)\<lparr>enabled := True, xdp_enabled := False\<rparr>)\<rparr>"

lemma demo_rtc_store:
  "config_store_class_option True ''RtcEnabled'' ''true'' app =
     Some (None, app\<lparr>classes := (classes app)(RTC_FRAME_TYPE := (classes app RTC_FRAME_TYPE)\<lparr>enabled := True\<rparr>)\<rparr>)"
  "config_store_class_option True ''RtcXdpEnabled'' ''false'' app =
     Some (None, app\<lparr>classes := (classes app)(RTC_FRAME_TYPE := (classes app RTC_FRAME_TYPE)\<lparr>xdp_enabled := False\<rparr>)\<rparr>)"
proof -
  have "find_class_option class_options RTC_FRAME_TYPE ''Enabled'' = Some (CONFIG_TYPE_BOOL enabled (put enabled_update))"
    by (rule find_class_option_row [OF _ _ class_names_distinct, where tcs = TC_ALL]) (simp_all add: class_options_def tc_masks)
  then show "config_store_class_option True ''RtcEnabled'' ''true'' app =
     Some (None, app\<lparr>classes := (classes app)(RTC_FRAME_TYPE := (classes app RTC_FRAME_TYPE)\<lparr>enabled := True\<rparr>)\<rparr>)"
    using opt_to_type_prefix [of RTC_FRAME_TYPE "''Enabled''"]
    by (simp add: config_store_class_option_def config_store_value_def store_parsed_def config_parse_bool_def strcaseeq_def)
  have "find_class_option class_options RTC_FRAME_TYPE ''XdpEnabled'' = Some (CONFIG_TYPE_BOOL xdp_enabled (put xdp_enabled_update))"
    by (rule find_class_option_row [OF _ _ class_names_distinct, where tcs = TC_XDP]) (simp_all add: class_options_def tc_masks)
  then show "config_store_class_option True ''RtcXdpEnabled'' ''false'' app =
     Some (None, app\<lparr>classes := (classes app)(RTC_FRAME_TYPE := (classes app RTC_FRAME_TYPE)\<lparr>xdp_enabled := False\<rparr>)\<rparr>)"
    using opt_to_type_prefix [of RTC_FRAME_TYPE "''XdpEnabled''"]
    by (simp add: config_store_class_option_def config_store_value_def store_parsed_def config_parse_bool_def strcaseeq_def)
qed

lemma demo_rtc_classes:
  "classes demo_rtc_app = (\<lambda>t. default_of t False zero_class_config)
     (RTC_FRAME_TYPE := (default_of RTC_FRAME_TYPE False zero_class_config)\<lparr>enabled := True, xdp_enabled := False\<rparr>)"
  "application_clock_id demo_rtc_app = CLOCK_TAI" "application_base_cycle_time_ns demo_rtc_app = 1000000"
  "application_tx_base_offset_ns demo_rtc_app = 800000" "application_rx_base_offset_ns demo_rtc_app = 300000"
  "stats_histogram_minimum_ns demo_rtc_app = 1000000" "stats_histogram_maximum_ns demo_rtc_app = 10000000"
  by (simp_all add: demo_rtc_app_def demo_defaults_def default_services_def default_globals_def)

lemma demo_rtc_startup:
  "startup_config (\<lambda>_. True) \<lparr>tv_sec = 100, tv_nsec = 0\<rparr> False demo_rtc_tokens None demo_switches = Some demo_rtc_app"
proof -
  have "config_set_defaults (\<lambda>_. True) \<lparr>tv_sec = 100, tv_nsec = 0\<rparr> False zero_app_config = Inr demo_defaults"
    by (simp add: config_set_defaults_def demo_defaults_def default_globals_def zero_app_config_def list_all_iff Let_def)
  moreover have "config_read_from_file True True True demo_rtc_tokens None demo_defaults = Some (None, demo_rtc_app)"
    by (simp add: config_read_from_file_def demo_rtc_tokens_def demo_rtc_store demo_rtc_app_def demo_rtc_classes [unfolded demo_rtc_app_def])
  moreover have "config_sanity_check demo_switches demo_rtc_app"
    by (simp add: config_sanity_check_def config_check_features_def config_check_all_keys_def demo_rtc_classes config_is_tc_active_def
        frame_length_invalid_def min_frame_size_def default_defs demo_switches_def config_have_defs config_check_keys_def Let_def)
  ultimately show ?thesis by (simp add: startup_config_def)
qed

lemma demo_rtc_active: "config_is_tc_active demo_rtc_app t \<longleftrightarrow> t = RTC_FRAME_TYPE"
  by (cases t) (simp_all add: demo_rtc_classes config_is_tc_active_def default_defs)

lemma demo_env_ok: "tc_env_ok (demo_tc_outcome e)"
  by (simp add: tc_env_ok_def demo_tc_outcome_def demo_socket_def create_udp_socket_def dns_lookup_def)

lemma demo_blank: "tc_empty (zero_tc_state demo_xdp_init)" "xdp_balanced (shared (zero_tc_state demo_xdp_init))"
  by (simp_all add: tc_empty_def zero_tc_state_def fresh_context_def xdp_balanced_def demo_xdp_init_def)

lemma demo_paired: "wl_paired (classes demo_rtc_app t)"
  by (cases t) (simp_all add: wl_paired_def demo_rtc_classes default_defs)

lemma demo_rtc_socket:
  "\<exists>sock. create_rtc_socket demo_net_build demo_rtc_app demo_socket = (Inr sock, [7]) \<and> rs_fd sock = 7"
  by (simp add: create_rtc_socket_def create_socket_def create_raw_socket_def demo_socket_def demo_rtc_classes default_defs
      set_promiscuous_mode_def mark_socket_non_blocking_def demo_net_build_def config_class_rx_timestamp_enabled_def
      config_class_tx_timestamp_enabled_def Let_def)

lemma demo_rtc_created:
  assumes "tc_empty s"
  shows "\<exists>s'. pn_threads_create 0 demo_net_build demo_rtc_app demo_evp (demo_tc_outcome None) RTC_THREAD s = (None, s')"
    "\<exists>s'. pn_threads_create 0 demo_net_build demo_rtc_app demo_evp (demo_tc_outcome (Some EPERM)) RTC_THREAD s = (Some EPERM, s') \<and>
       ts_held s' = [TR_thread Tx_thread]"
proof -
  obtain sock where sock: "create_rtc_socket demo_net_build demo_rtc_app demo_socket = (Inr sock, [7])" "rs_fd sock = 7"
    using demo_rtc_socket by blast
  have cfg: "\<not> xdp_enabled (classes demo_rtc_app RTC_FRAME_TYPE)" "\<not> rx_mirror_enabled (classes demo_rtc_app RTC_FRAME_TYPE)"
    "security_mode (classes demo_rtc_app RTC_FRAME_TYPE) = SECURITY_MODE_NONE" "\<not> rx_workload_enabled (classes demo_rtc_app RTC_FRAME_TYPE)"
    by (simp_all add: demo_rtc_classes default_defs)
  have pk: "packet_init (\<lambda>_. True) = (True, [PC_tx_completion_frame, PC_rx_control_msgs, PC_tx_control_msgs, PC_tx_msgs, PC_tx_iovecs,
      PC_rx_msgs, PC_rx_iovecs, PC_rx_frames, PC_context])" by (simp add: packet_init_def)
  note steps = pn_threads_create_def rtc_threads_create_def tc_class_create_def demo_rtc_active tc_threads_create_def and_then_def
    tc_create_buffers_def tc_create_template_def tc_create_socket_def tc_create_mirror_def tc_create_security_def
    tc_create_tx_threads_def tc_create_rx_threads_def demo_tc_outcome_def class_ops_def get_interface_mac_address_def
    tc_start_thread_def create_rt_thread_def demo_rt_def workload_context_init_def cfg pk sock
  show "\<exists>s'. pn_threads_create 0 demo_net_build demo_rtc_app demo_evp (demo_tc_outcome None) RTC_THREAD s = (None, s')"
    by (simp add: steps Let_def)
  show "\<exists>s'. pn_threads_create 0 demo_net_build demo_rtc_app demo_evp (demo_tc_outcome (Some EPERM)) RTC_THREAD s = (Some EPERM, s') \<and>
       ts_held s' = [TR_thread Tx_thread]"
    using assms by (simp add: steps Let_def err_thread_tx_def err_rx_sec_def err_tx_sec_def err_thread_def err_socket_def err_mac_def
        err_rx_def err_tx_def security_exit_def ring_buffer_free_def packet_free_def tc_empty_def tc_close_xsk_def)
qed


lemma demo_inactive:
  "p \<noteq> RTC_THREAD \<Longrightarrow> \<exists>s'. pn_threads_create 0 B demo_rtc_app E oc p s = (None, s')"
  by (cases p) (simp_all add: pn_threads_create_def tsn_high_threads_create_def tsn_low_threads_create_def rta_threads_create_def
      dcp_threads_create_def lldp_threads_create_def udp_high_threads_create_def udp_low_threads_create_def tc_class_create_def
      udp_threads_create_def demo_rtc_active)

lemma demo_created:
  "\<lbrakk>\<forall>p \<in> set ps. tc_empty (ts ! pn_index p); distinct ps; length ts = 8\<rbrakk> \<Longrightarrow>
     \<exists>ts'. tb_create_pn 0 demo_net_build demo_rtc_app demo_evp (\<lambda>_. demo_tc_outcome None) ps prev ts = Some ts'"
proof (induction ps arbitrary: prev ts)
  case (Cons p ps)
  have "tc_empty (share prev (ts ! pn_index p))" using Cons.prems(1) by (simp add: tc_empty_def)
  then obtain s' where "pn_threads_create 0 demo_net_build demo_rtc_app demo_evp (demo_tc_outcome None) p (share prev (ts ! pn_index p)) =
      (None, s')" using demo_rtc_created(1) demo_inactive by (cases "p = RTC_THREAD") blast+
  moreover have "\<exists>ts'. tb_create_pn 0 demo_net_build demo_rtc_app demo_evp (\<lambda>_. demo_tc_outcome None) ps s' (ts[pn_index p := s']) = Some ts'"
    using Cons.prems by (intro Cons.IH) (auto simp: nth_list_update)
  ultimately show ?case by simp
qed simp

lemma demo_tb_created:
  "\<exists>tb. tb_create_threads 0 demo_net_build demo_rtc_app demo_evp True True (demo_tc_outcome None) (\<lambda>_. demo_tc_outcome None) demo_xdp_init =
     Some (Some tb)"
proof -
  let ?z = "zero_tc_state demo_xdp_init :: bytes tc_state"
  have "length (map ts_ctx (replicate 8 ?z)) = 8" by simp
  note l1 = pn_linked_first [OF pn_links [OF this, of demo_rtc_app], of RTC_THREAD True]
  obtain ctxs where l: "link_pn_threads demo_rtc_app (map ts_ctx (replicate 8 ?z)) = Some (None, ctxs)"
    using find_last_after [OF l1 refl, of RTC_THREAD 2] l1
    by (auto simp: link_pn_threads_def demo_rtc_active Let_def find_last_pn_thread.simps [of _ "Some _"] pn_linked_def)
  have "tc_empty (map (\<lambda>c. ?z\<lparr>ts_ctx := c\<rparr>) ctxs ! pn_index p)" for p
    using linked_empty [OF l] link_length [OF l] nth_mem [of "pn_index p" ctxs]
    by (auto simp: tc_empty_def owns_nothing_def zero_tc_state_def fresh_context_def)
  then obtain ts where "tb_create_pn 0 demo_net_build demo_rtc_app demo_evp (\<lambda>_. demo_tc_outcome None) tb_create_order ?z
      (map (\<lambda>c. ?z\<lparr>ts_ctx := c\<rparr>) ctxs) = Some ts"
    using demo_created [of tb_create_order "map (\<lambda>c. ?z\<lparr>ts_ctx := c\<rparr>) ctxs" ?z] link_length [OF l]
    by (auto simp: tb_create_order_def)
  then show ?thesis
    using l by (simp add: tb_create_threads_def generic_l2_threads_create_def tc_class_create_def demo_rtc_active)
qed


theorem pn_startup_ready_witness:
  "\<exists>s'. pn_threads_create 0 demo_net_build demo_rtc_app demo_evp (demo_tc_outcome None) RTC_THREAD (zero_tc_state demo_xdp_init) = (None, s') \<and>
     pn_tx_ok demo_evp (ts_ctx s') \<and> pn_ctx_ok (ts_ctx s')"
proof -
  obtain s' where s': "pn_threads_create 0 demo_net_build demo_rtc_app demo_evp (demo_tc_outcome None) RTC_THREAD (zero_tc_state demo_xdp_init) =
      (None, s')" using demo_rtc_created(1) [OF demo_blank(1)] by blast
  have c: "\<not> xdp_enabled (classes demo_rtc_app RTC_FRAME_TYPE)" "num_frames_per_cycle (classes demo_rtc_app RTC_FRAME_TYPE) = 1"
    "frame_length (classes demo_rtc_app RTC_FRAME_TYPE) = 128"
    by (simp_all add: demo_rtc_classes default_defs)
  have "pn_tx_ok demo_evp (ts_ctx s') \<and> (60 \<le> frame_length (classes demo_rtc_app (pn_frame_type RTC_THREAD)) \<longrightarrow> pn_ctx_ok (ts_ctx s'))"
    by (rule conjunct2 [OF pn_startup_ready [OF demo_rtc_startup _ _ _ _ _ _ s']])
      (use c demo_rtc_active demo_evp_aead in \<open>auto simp: demo_tc_outcome_def\<close>)
  then show ?thesis using s' c(3) by auto
qed

end
