(* ===== verification/TB_Log.thy ===== *)
theory TB_Log
  imports TB_Threads
begin

text \<open>
  The log: \<^verbatim>\<open>log.c\<close> and the helper \<^verbatim>\<open>snprintf_err_handling\<close> of \<^verbatim>\<open>utils.h\<close>.  Text is
  printed into a fixed buffer, messages go to a ring buffer, and a thread adds one line of
  statistics per period and writes the ring buffer to the log file.  A \<^verbatim>\<open>FILE *\<close> is the list of
  bytes written to it.
\<close>

section \<open>Formatted output\<close>

text \<open>The \<^verbatim>\<open>printf\<close> conversions \<^verbatim>\<open>PRIu64\<close>, \<^verbatim>\<open>%0nd\<close> and \<^verbatim>\<open>%lf\<close>: six decimals, the exact value
  of the number rounded to the nearest, ties to even.\<close>

definition show_u64 :: "u64 \<Rightarrow> string" where "show_u64 w = show_nat (unat w)"

definition pad0 :: "nat \<Rightarrow> string \<Rightarrow> string" where
  "pad0 width s = replicate (width - length s) (CHR ''0'') @ s"

definition show_int0 :: "nat \<Rightarrow> int \<Rightarrow> string" where
  "show_int0 width i =
     (if i < 0 then CHR ''-'' # pad0 (width - 1) (show_nat (nat (- i))) else pad0 width (show_nat (nat i)))"

definition show_lf :: "double \<Rightarrow> string" where
  "show_lf x =
     (let n = nat (round_half_even (\<bar>x\<bar> * 1000000))
      in (if x < 0 then ''-'' else '''') @ show_nat (n div 1000000) @ ''.'' @ pad0 6 (show_nat (n mod 1000000)))"

text \<open>The text in front of the pointer \<^verbatim>\<open>*buffer\<close>, and \<^verbatim>\<open>*len\<close>.  A text that does not fit is
  not kept: the pointer stays in front of it.\<close>

type_synonym out = "string \<times> nat"

definition snprintf_err_handling :: "string \<Rightarrow> int \<Rightarrow> out \<Rightarrow> errno option \<times> out" where
  "snprintf_err_handling text ret b =
     (case b of (acc, len) \<Rightarrow>
        if ret < 0 then (Some EINVAL, b)
        else if nat ret \<ge> len then (Some EINVAL, b)
        else (None, (acc @ text, len - nat ret)))"

definition snprintf :: "string list \<Rightarrow> out \<Rightarrow> errno option \<times> out" where
  "snprintf pieces b = (let text = concat pieces in snprintf_err_handling text (int (length text)) b)"

text \<open>A loop of output steps that ends with the first error; \<^const>\<open>None\<close> for an access outside
  an array.\<close>

fun out_loop :: "(nat \<Rightarrow> out \<Rightarrow> (errno option \<times> out) option) \<Rightarrow> nat list \<Rightarrow> out \<Rightarrow> (errno option \<times> out) option" where
  "out_loop f [] b = Some (None, b)"
| "out_loop f (i # is) b = do {
     (ret, b) \<leftarrow> f i b;
     if ret \<noteq> None then Some (ret, b) else out_loop f is b
   }"

text \<open>A list of output steps that ends with the first error.\<close>

fun out_steps :: "(out \<Rightarrow> errno option \<times> out) list \<Rightarrow> out \<Rightarrow> errno option \<times> out" where
  "out_steps [] b = (None, b)"
| "out_steps (f # fs) b = and_then (f b) (out_steps fs)"

section \<open>Messages\<close>

abbreviation (input) "LOG_BUFFER_SIZE \<equiv> 8 * 1024 * 1024 :: nat"

text \<open>The values of \<^verbatim>\<open>enum log_level\<close>.\<close>

primrec log_level_value :: "log_level \<Rightarrow> nat" where
  "log_level_value LOG_LEVEL_ERROR = 1"
| "log_level_value LOG_LEVEL_WARNING = 2"
| "log_level_value LOG_LEVEL_INFO = 3"
| "log_level_value LOG_LEVEL_DEBUG = 4"

text \<open>The variables of the file; \<open>lg_trace\<close> is the file that switches tracing off,
  \<^const>\<open>None\<close> while it is not open.\<close>

record log_state =
  lg_ring :: "ring_buffer option"
  lg_level :: log_level
  lg_trace :: "string option"

text \<open>\<open>rb_ok\<close>, \<open>data_ok\<close> and \<open>fopen_err\<close>: the results of the allocations and of \<^verbatim>\<open>fopen\<close>.
  Without a level \<^verbatim>\<open>strcmp\<close> reads through \<^verbatim>\<open>NULL\<close>.\<close>

definition log_init ::
  "bool \<Rightarrow> bool \<Rightarrow> errno option \<Rightarrow> application_config \<Rightarrow> log_state \<Rightarrow> (errno option \<times> log_state) option" where
  "log_init rb_ok data_ok fopen_err app L =
     (let L = L\<lparr>lg_ring := ring_buffer_allocate rb_ok data_ok LOG_BUFFER_SIZE\<rparr>
      in if lg_ring L = None then Some (Some ENOMEM, L)
         else do {
           level \<leftarrow> log_level app;
           let current = LOG_LEVEL_DEBUG;
           let current = (if level = ''Debug'' then LOG_LEVEL_DEBUG else current);
           let current = (if level = ''Info'' then LOG_LEVEL_INFO else current);
           let current = (if level = ''Warning'' then LOG_LEVEL_WARNING else current);
           let current = (if level = ''Error'' then LOG_LEVEL_ERROR else current);
           let L = L\<lparr>lg_level := current\<rparr>;
           Some (if debug_stop_trace_on_error app
                 then (case fopen_err of Some e \<Rightarrow> (Some e, L) | None \<Rightarrow> (None, L\<lparr>lg_trace := Some ''''\<rparr>))
                 else (None, L))
         })"

text \<open>What is released: the ring buffer, and the trace file, which \<^verbatim>\<open>fclose\<close> needs open.\<close>

definition log_free :: "application_config \<Rightarrow> log_state \<Rightarrow> log_state option" where
  "log_free app L =
     (let L = L\<lparr>lg_ring := None\<rparr>
      in if debug_stop_trace_on_error app
         then (case lg_trace L of None \<Rightarrow> None | Some _ \<Rightarrow> Some (L\<lparr>lg_trace := None\<rparr>))
         else Some L)"

definition log_level_to_string :: "log_level \<Rightarrow> string" where
  "log_level_to_string level =
     (if level = LOG_LEVEL_DEBUG then ''DEBUG''
      else if level = LOG_LEVEL_INFO then ''INFO''
      else if level = LOG_LEVEL_WARNING then ''WARNING'' else ''ERROR'')"

definition log_prefix :: "timespec option \<Rightarrow> log_level \<Rightarrow> string list" where
  "log_prefix clk level =
     (let time = app_clock_get clk
      in [''['', show_int0 8 (tv_sec time), ''.'', show_int0 9 (tv_nsec time), '']: ['', log_level_to_string level, '']: ''])"

text \<open>\<open>msg\<close> is the message after formatting, \<open>clk\<close> the clock.\<close>

definition log_message ::
  "application_config \<Rightarrow> timespec option \<Rightarrow> log_level \<Rightarrow> string list \<Rightarrow> log_state \<Rightarrow> log_state option" where
  "log_message app clk level msg L = do {
     L \<leftarrow> (if level = LOG_LEVEL_ERROR \<and> debug_stop_trace_on_error app
          then (case lg_trace L of None \<Rightarrow> None | Some f \<Rightarrow> Some (L\<lparr>lg_trace := Some (f @ ''0'' @ [CHR 0x0A])\<rparr>))
          else Some L);
     if log_level_value level > log_level_value (lg_level L) then Some L
     else (case and_then (snprintf (log_prefix clk level) ('''', 4096)) (snprintf msg) of
             (Some e, _) \<Rightarrow> Some L
           | (None, (text, len)) \<Rightarrow> do {
               rb \<leftarrow> ring_buffer_add (lg_ring L) (str_bytes text) (4096 - len);
               Some (L\<lparr>lg_ring := rb\<rparr>)
             })
   }"

section \<open>Statistics\<close>

definition log_add_stats :: "string \<Rightarrow> statistics \<Rightarrow> out \<Rightarrow> errno option \<times> out" where
  "log_add_stats nm st = snprintf
     [nm, ''Sent='', show_u64 (frames_sent st), '' | '', nm, ''Received='', show_u64 (frames_received st), '' | '',
      nm, ''RttMin='', show_u64 (round_trip_min st), '' [us] | '',
      nm, ''RttMax='', show_u64 (round_trip_max st), '' [us] | '',
      nm, ''RttAvg='', show_lf (round_trip_avg st), '' [us] | '',
      nm, ''OnewayMin='', show_int (oneway_min st), '' [us] | '',
      nm, ''OnewayMax='', show_int (oneway_max st), '' [us] | '',
      nm, ''OnewayAvg='', show_lf (oneway_avg st), '' [us] | '']"

definition log_add_proc_first_stats ::
  "build \<Rightarrow> application_config \<Rightarrow> string \<Rightarrow> stat_frame_type \<Rightarrow> statistics \<Rightarrow> out \<Rightarrow> errno option \<times> out" where
  "log_add_proc_first_stats B app nm t st b =
     (if tx_hwtstamp_enabled (classes app t) \<and> config_have_rx_timestamp B \<and> proc_first_count st > 0
      then snprintf
        [nm, ''ProcFirstMin='', show_u64 (proc_first_min st), '' [us] | '',
         nm, ''ProcFirstMax='', show_u64 (proc_first_max st), '' [us] | '',
         nm, ''ProcFirstAvg='', show_lf (proc_first_avg st), '' [us] | '',
         nm, ''ProcFirstOutliers='', show_u64 (proc_first_outliers st), '' | ''] b
      else (None, b))"

definition log_add_proc_batch_stats ::
  "build \<Rightarrow> application_config \<Rightarrow> string \<Rightarrow> stat_frame_type \<Rightarrow> statistics \<Rightarrow> out \<Rightarrow> errno option \<times> out" where
  "log_add_proc_batch_stats B app nm t st b =
     (if tx_hwtstamp_enabled (classes app t) \<and> config_have_rx_timestamp B \<and> proc_batch_count st > 0
      then snprintf
        [nm, ''ProcBatchMin='', show_u64 (proc_batch_min st), '' [us] | '',
         nm, ''ProcBatchMax='', show_u64 (proc_batch_max st), '' [us] | '',
         nm, ''ProcBatchAvg='', show_lf (proc_batch_avg st), '' [us] | '',
         nm, ''ProcBatchOutliers='', show_u64 (proc_batch_outliers st), '' | ''] b
      else (None, b))"

definition log_add_rx_hwts_stats ::
  "build \<Rightarrow> string \<Rightarrow> stat_frame_type \<Rightarrow> statistics \<Rightarrow> out \<Rightarrow> errno option \<times> out" where
  "log_add_rx_hwts_stats B nm t st b =
     (if config_class_rx_timestamp_enabled B t
      then snprintf
        [nm, ''RxMin='', show_u64 (rx_min st), '' [us] | '', nm, ''RxMax='', show_u64 (rx_max st), '' [us] | '',
         nm, ''RxAvg='', show_lf (rx_avg st), '' [us] | '',
         nm, ''RxHw2SwMin='', show_u64 (rx_hw2sw_min st), '' [us] | '',
         nm, ''RxHw2SwMax='', show_u64 (rx_hw2sw_max st), '' [us] | '',
         nm, ''RxHw2SwAvg='', show_lf (rx_hw2sw_avg st), '' [us] | '',
         nm, ''RxSw2AppMin='', show_u64 (rx_sw2app_min st), '' [us] | '',
         nm, ''RxSw2AppMax='', show_u64 (rx_sw2app_max st), '' [us] | '',
         nm, ''RxSw2AppAvg='', show_lf (rx_sw2app_avg st), '' [us] | ''] b
      else (None, b))"

definition log_add_tx_hwts_stats ::
  "application_config \<Rightarrow> string \<Rightarrow> stat_frame_type \<Rightarrow> statistics \<Rightarrow> out \<Rightarrow> errno option \<times> out" where
  "log_add_tx_hwts_stats app nm t st b =
     (if tx_hwtstamp_enabled (classes app t)
      then snprintf
        [nm, ''TxMin='', show_u64 (tx_min st), '' [us] | '', nm, ''TxMax='', show_u64 (tx_max st), '' [us] | '',
         nm, ''TxAvg='', show_lf (tx_avg st), '' [us] | '',
         nm, ''TxHwTimestampMissing='', show_u64 (tx_hw_timestamp_missing st), '' | ''] b
      else (None, b))"

definition log_add_outlier_stats :: "string \<Rightarrow> stat_frame_type \<Rightarrow> statistics \<Rightarrow> out \<Rightarrow> errno option \<times> out" where
  "log_add_outlier_stats nm t st b =
     (if stat_frame_type_is_real_time t
      then snprintf
        [nm, ''RttOutliers='', show_u64 (round_trip_outliers st), '' | '',
         nm, ''OnewayOutliers='', show_u64 (oneway_outliers st), '' | ''] b
      else (None, b))"

text \<open>One workload; \<open>ident\<close> is empty or the number of the workload.\<close>

definition log_workload :: "string \<Rightarrow> string \<Rightarrow> workload_statistics \<Rightarrow> out \<Rightarrow> errno option \<times> out" where
  "log_workload nm ident wl = snprintf
     [nm, ''RxWorkload'', ident, ''Min='', show_u64 (rx_workload_min wl), '' [us] | '',
      nm, ''RxWorkload'', ident, ''Max='', show_u64 (rx_workload_max wl), '' [us] | '',
      nm, ''RxWorkload'', ident, ''Avg='', show_lf (rx_workload_avg wl), '' [us] | '',
      nm, ''RxWorkload'', ident, ''Outliers='', show_u64 (rx_workload_outliers wl), '' | '']"

definition log_add_workload_stats ::
  "application_config \<Rightarrow> string \<Rightarrow> stat_frame_type \<Rightarrow> statistics \<Rightarrow> out \<Rightarrow> (errno option \<times> out) option" where
  "log_add_workload_stats app nm t st b =
     (let num = workload_thread_cpus_num (classes app t)
      in if \<not> rx_workload_enabled (classes app t) then Some (None, b)
         else if num = 1
         then (if 0 < length (workload st) then Some (log_workload nm '''' (workload st ! 0) b) else None)
         else out_loop (\<lambda>i b. if i < length (workload st)
                then Some (log_workload nm (show_int (int i)) (workload st ! i) b) else None) [0..<nat num] b)"

definition log_add_traffic_class ::
  "build \<Rightarrow> application_config \<Rightarrow> string \<Rightarrow> stat_frame_type \<Rightarrow> statistics \<Rightarrow> out \<Rightarrow> (errno option \<times> out) option" where
  "log_add_traffic_class B app nm t st b =
     (case and_then (and_then (and_then (and_then (and_then (log_add_stats nm st b)
             (log_add_proc_first_stats B app nm t st))
             (log_add_proc_batch_stats B app nm t st))
             (log_add_rx_hwts_stats B nm t st))
             (log_add_tx_hwts_stats app nm t st))
             (log_add_outlier_stats nm t st) of
        (Some e, b) \<Rightarrow> Some (Some e, b)
      | (None, b) \<Rightarrow> log_add_workload_stats app nm t st b)"

section \<open>The log thread\<close>

text \<open>The loop over the classes: an error does not end it, but clears \<^verbatim>\<open>success\<close>.\<close>

fun log_classes ::
  "build \<Rightarrow> application_config \<Rightarrow> (stat_frame_type \<Rightarrow> statistics) \<Rightarrow> stat_frame_type list \<Rightarrow> bool \<Rightarrow> out \<Rightarrow>
   (bool \<times> out) option" where
  "log_classes B app stats [] success b = Some (success, b)"
| "log_classes B app stats (t # ts) success b =
     (if config_is_tc_active app t
      then do {
        (ret, b) \<leftarrow> log_add_traffic_class B app (stat_frame_type_to_string app t) t (stats t) b;
        log_classes B app stats ts (success \<and> ret = None) b
      }
      else log_classes B app stats ts success b)"

record log_thread_context =
  lt_log :: log_state
  lt_stats :: "stat_frame_type \<Rightarrow> statistics"
  lt_data :: bytes
  lt_file :: bytes
  lt_time :: timespec

text \<open>One iteration: \<open>sleep_err\<close> is the result of \<^verbatim>\<open>clock_nanosleep\<close>, \<open>S\<close> the statistics.  The
  flag says whether the thread goes on.\<close>

definition log_thread_cycle ::
  "build \<Rightarrow> application_config \<Rightarrow> errno option \<Rightarrow> timespec option \<Rightarrow> stat_state \<Rightarrow> log_thread_context \<Rightarrow>
   (bool \<times> log_thread_context) option" where
  "log_thread_cycle B app sleep_err clk S w =
     (let w = w\<lparr>lt_time := increment_period (lt_time w) (int (unat (stats_collection_interval_ns app)))\<rparr>
      in if sleep_err \<noteq> None then Some (False, w)
         else do {
           let stats = stat_get_global_stats S (lt_stats w) sizeof_statistics_array;
           (success, (stat_message, _)) \<leftarrow> log_classes B app stats frame_types True ('''', 4096);
           L \<leftarrow> (if success then log_message app clk LOG_LEVEL_INFO [stat_message, [CHR 0x0A]] (lt_log w)
                else Some (lt_log w));
           (rb, data, len) \<leftarrow> ring_buffer_fetch (lg_ring L) (lt_data w) LOG_BUFFER_SIZE;
           Some (True, w\<lparr>lt_log := L\<lparr>lg_ring := rb\<rparr>, lt_stats := stats, lt_data := data,
                         lt_file := lt_file w @ (if len > 0 then take len data else [])\<rparr>)
         })"

subsection \<open>Life cycle\<close>

datatype log_resource = LR_context | LR_data | LR_file | LR_thread | LR_socket nat | LR_mosq | LR_mosq_lib

text \<open>The results of \<^verbatim>\<open>calloc\<close> (twice), \<^verbatim>\<open>fopen\<close> and of the thread.  \<open>started\<close> is the thread that
  runs; the second list holds what is held at the end.\<close>

definition log_thread_create ::
  "bool \<Rightarrow> bool \<Rightarrow> bool \<Rightarrow> rt_outcome \<Rightarrow> application_config \<Rightarrow> bool \<times> log_resource list" where
  "log_thread_create ctx_ok data_ok file_ok ro app =
     (if \<not> ctx_ok then (False, [])
      else if \<not> data_ok then (False, release [LR_context] [LR_context])
      else if \<not> file_ok then (False, release [LR_data, LR_context] [LR_context, LR_data])
      else let (ret, thr) = create_rt_thread ro (log_thread_priority app) (log_thread_cpu app) ''Logger'';
               held = [LR_context, LR_data, LR_file] @ (if thr \<noteq> None then [LR_thread] else [])
           in if ret \<noteq> None then (False, release [LR_file, LR_data, LR_context] held)
              else (True, held))"

text \<open>The functions that end the thread do nothing without one.  Joining takes the thread
  away, \<^verbatim>\<open>log_thread_free\<close> the rest.\<close>

definition log_thread_wait_for_finish :: "bool \<times> log_resource list \<Rightarrow> bool \<times> log_resource list" where
  "log_thread_wait_for_finish l = (if fst l then (True, release [LR_thread] (snd l)) else l)"

definition log_thread_free :: "bool \<times> log_resource list \<Rightarrow> log_resource list" where
  "log_thread_free l = (if fst l then release [LR_data, LR_file, LR_context] (snd l) else snd l)"

end
