(* ===== verification/TB_Json.thy ===== *)
theory TB_Json
  imports TB_Log
begin

text \<open>
  Publishing statistics: \<^verbatim>\<open>stat_to_json\<close> of \<^verbatim>\<open>stat.c\<close>, the thread that sends it as UDP
  datagrams (\<^verbatim>\<open>log_json.c\<close>) and the thread that hands it to the MQTT client library
  (\<^verbatim>\<open>log_mqtt.c\<close>).  The results of \<^verbatim>\<open>sendto\<close> and of the library are arguments; the
  messages published are part of the result.
\<close>

section \<open>Statistics as JSON\<close>

abbreviation (input) "QUOTE \<equiv> [CHR 0x22]"
abbreviation (input) "NEWLINE \<equiv> [CHR 0x0A]"

definition append_jlog_u64 :: "string \<Rightarrow> u64 \<Rightarrow> out \<Rightarrow> errno option \<times> out" where
  "append_jlog_u64 stat v = snprintf [QUOTE, stat, QUOTE, '': '', show_u64 v, '','', NEWLINE]"

definition append_jlog_i64 :: "string \<Rightarrow> int \<Rightarrow> out \<Rightarrow> errno option \<times> out" where
  "append_jlog_i64 stat v = snprintf [QUOTE, stat, QUOTE, '': '', show_int v, '','', NEWLINE]"

definition last_jlog_u64 :: "string \<Rightarrow> u64 \<Rightarrow> out \<Rightarrow> errno option \<times> out" where
  "last_jlog_u64 stat v = snprintf [QUOTE, stat, QUOTE, '': '', show_u64 v, NEWLINE]"

definition append_jlog_float :: "string \<Rightarrow> double \<Rightarrow> out \<Rightarrow> errno option \<times> out" where
  "append_jlog_float stat v = snprintf [QUOTE, stat, QUOTE, '': '', show_lf v, '','', NEWLINE]"

definition append_jlog_workload_stats ::
  "application_config \<Rightarrow> stat_frame_type \<Rightarrow> statistics \<Rightarrow> out \<Rightarrow> (errno option \<times> out) option" where
  "append_jlog_workload_stats app t st b =
     (let num = workload_thread_cpus_num (classes app t)
      in if num = 1
         then (if 0 < length (workload st)
               then Some (out_steps
                 [append_jlog_u64 ''RxWorkloadMin'' (rx_workload_min (workload st ! 0)),
                  append_jlog_u64 ''RxWorkloadMax'' (rx_workload_max (workload st ! 0)),
                  append_jlog_float ''RxWorkloadAv'' (rx_workload_avg (workload st ! 0)),
                  append_jlog_u64 ''RxWorkloadOutliers'' (rx_workload_outliers (workload st ! 0))] b)
               else None)
         else out_loop (\<lambda>i b. if i < length (workload st)
                then let wl = workload st ! i in Some (out_steps
                  [snprintf [QUOTE, ''RxWorkload'', show_int (int i), ''Min'', QUOTE, '': '', show_u64 (rx_workload_min wl),
                     '','', NEWLINE],
                   snprintf [QUOTE, ''RxWorkload'', show_int (int i), ''Max'', QUOTE, '': '', show_u64 (rx_workload_max wl),
                     '','', NEWLINE],
                   snprintf [QUOTE, ''RxWorkload'', show_int (int i), ''Av'', QUOTE, '': '', show_lf (rx_workload_avg wl),
                     '','', NEWLINE],
                   snprintf [QUOTE, ''RxWorkload'', show_int (int i), ''Outliers'', QUOTE, '': '',
                     show_u64 (rx_workload_outliers wl), '','', NEWLINE]] b)
                else None) [0..<nat num] b)"

text \<open>The text written to \<^verbatim>\<open>json\<close>, which has \<open>len\<close> bytes.\<close>

definition stat_to_json ::
  "application_config \<Rightarrow> nat \<Rightarrow> stat_frame_type \<Rightarrow> statistics \<Rightarrow> string \<Rightarrow> string \<Rightarrow> (errno option \<times> out) option" where
  "stat_to_json app len t st tc measurement =
     (case out_steps
        [snprintf [''{'', QUOTE, ''testbench'', QUOTE, '' :'', NEWLINE,
           ''{'', QUOTE, ''Timestamp'', QUOTE, '' : '', show_u64 (time_stamp st), '','', NEWLINE,
           QUOTE, ''MeasurementName'', QUOTE, '' : '', QUOTE, measurement, QUOTE, '','', NEWLINE,
           QUOTE, ''stats'', QUOTE, '' : '', NEWLINE, ''{'', NEWLINE,
           QUOTE, ''TCName'', QUOTE, '' : '', QUOTE, tc, QUOTE, '','', NEWLINE],
         append_jlog_u64 ''FramesSent'' (frames_sent st),
         append_jlog_u64 ''FramesReceived'' (frames_received st),
         append_jlog_u64 ''RoundTripTimeMin'' (round_trip_min st),
         append_jlog_u64 ''RoundTripMax'' (round_trip_max st),
         append_jlog_float ''RoundTripAv'' (round_trip_avg st),
         append_jlog_i64 ''OnewayMin'' (oneway_min st),
         append_jlog_i64 ''OnewayMax'' (oneway_max st),
         append_jlog_float ''OnewayAv'' (oneway_avg st),
         append_jlog_u64 ''ProcFirstMin'' (proc_first_min st),
         append_jlog_u64 ''ProcFirstMax'' (proc_first_max st),
         append_jlog_float ''ProcFirstAv'' (proc_first_avg st),
         append_jlog_u64 ''ProcFirstOutliers'' (proc_first_outliers st),
         append_jlog_u64 ''ProcBatchMin'' (proc_batch_min st),
         append_jlog_u64 ''ProcBatchMax'' (proc_batch_max st),
         append_jlog_float ''ProcBatchAv'' (proc_batch_avg st),
         append_jlog_u64 ''ProcBatchOutliers'' (proc_batch_outliers st),
         append_jlog_u64 ''RxMin'' (rx_min st),
         append_jlog_u64 ''RxMax'' (rx_max st),
         append_jlog_float ''RxAv'' (rx_avg st),
         append_jlog_u64 ''RxHw2SwMin'' (rx_hw2sw_min st),
         append_jlog_u64 ''RxHw2SwMax'' (rx_hw2sw_max st),
         append_jlog_float ''RxHw2SwAv'' (rx_hw2sw_avg st),
         append_jlog_u64 ''RxSw2AppMin'' (rx_sw2app_min st),
         append_jlog_u64 ''RxSw2AppMax'' (rx_sw2app_max st),
         append_jlog_float ''RxSw2AppAv'' (rx_sw2app_avg st)] ('''', len) of
        (Some e, b) \<Rightarrow> Some (Some e, b)
      | (None, b) \<Rightarrow> do {
          (ret, b) \<leftarrow> append_jlog_workload_stats app t st b;
          Some (and_then (ret, b) (out_steps
            [append_jlog_u64 ''TxMin'' (tx_min st),
             append_jlog_u64 ''TxMax'' (tx_max st),
             append_jlog_float ''TxAv'' (tx_avg st),
             append_jlog_u64 ''TxHwTimestampMissing'' (tx_hw_timestamp_missing st),
             append_jlog_u64 ''OutofOrderErrors'' (out_of_order_errors st),
             append_jlog_u64 ''FrameIdErrors'' (frame_id_errors st),
             append_jlog_u64 ''PayloadErrors'' (payload_errors st),
             append_jlog_u64 ''RoundTripOutliers'' (round_trip_outliers st),
             last_jlog_u64 ''OnewayOutliers'' (oneway_outliers st),
             snprintf [''}'', NEWLINE, ''}'', NEWLINE, ''}'', NEWLINE]]))
        })"

section \<open>Publishing\<close>

text \<open>The datagram sent for a class, and whether a debug message is logged.  Printing a name that is
  \<^verbatim>\<open>NULL\<close> is undefined.\<close>

definition log_json_add_traffic_class ::
  "application_config \<Rightarrow> address_family \<Rightarrow> bool \<Rightarrow> stat_frame_type \<Rightarrow> statistics \<Rightarrow> (string list \<times> bool) option" where
  "log_json_add_traffic_class app fam send_ok t st = do {
     measurement \<leftarrow> log_json_measurement_name app;
     (ret, (stat_message, _)) \<leftarrow> stat_to_json app 4096 t st (stat_frame_type_to_string app t) measurement;
     Some (if ret \<noteq> None then ([], True)
           else if fam = AF_INET \<or> fam = AF_INET6
           then (if send_ok then ([stat_message], False) else ([], True))
           else ([], True))
   }"

definition log_mqtt_add_traffic_class ::
  "application_config \<Rightarrow> bool \<Rightarrow> stat_frame_type \<Rightarrow> statistics \<Rightarrow> (string list \<times> bool) option" where
  "log_mqtt_add_traffic_class app publish_ok t st = do {
     measurement \<leftarrow> log_mqtt_measurement_name app;
     (ret, (stat_message, _)) \<leftarrow> stat_to_json app 4096 t st (stat_frame_type_to_string app t) measurement;
     Some (if ret \<noteq> None then ([], True)
           else if publish_ok then ([stat_message], False) else ([], True))
   }"

text \<open>The loop over the active classes with the function for one class.\<close>

fun publish_classes ::
  "application_config \<Rightarrow> (stat_frame_type \<Rightarrow> (string list \<times> bool) option) \<Rightarrow> stat_frame_type list \<Rightarrow>
   string list \<Rightarrow> nat \<Rightarrow> (string list \<times> nat) option" where
  "publish_classes app f [] sent failed = Some (sent, failed)"
| "publish_classes app f (t # ts) sent failed =
     (if config_is_tc_active app t
      then do {
        (ms, err) \<leftarrow> f t;
        publish_classes app f ts (sent @ ms) (failed + (if err then 1 else 0))
      }
      else publish_classes app f ts sent failed)"

text \<open>A publishing thread: its copy of the statistics, its wake-up time, the messages sent and
  the number of failures reported.\<close>

record publisher =
  pb_stats :: "stat_frame_type \<Rightarrow> statistics"
  pb_time :: timespec
  pb_sent :: "string list"
  pb_failed :: nat

definition log_json_cycle ::
  "application_config \<Rightarrow> errno option \<Rightarrow> address_family \<Rightarrow> (stat_frame_type \<Rightarrow> bool) \<Rightarrow> stat_state \<Rightarrow> publisher \<Rightarrow>
   (bool \<times> publisher) option" where
  "log_json_cycle app sleep_err fam send_ok S w =
     (let w = w\<lparr>pb_time := increment_period (pb_time w) (int (unat (stats_collection_interval_ns app)))\<rparr>
      in if sleep_err \<noteq> None then Some (False, w)
         else do {
           let stats = stat_get_global_stats S (pb_stats w) sizeof_statistics_array;
           (sent, failed) \<leftarrow> publish_classes app (\<lambda>t. log_json_add_traffic_class app fam (send_ok t) t (stats t))
                              frame_types (pb_sent w) (pb_failed w);
           Some (True, w\<lparr>pb_stats := stats, pb_sent := sent, pb_failed := failed\<rparr>)
         })"

definition log_mqtt_cycle ::
  "application_config \<Rightarrow> errno option \<Rightarrow> (stat_frame_type \<Rightarrow> bool) \<Rightarrow> stat_state \<Rightarrow> publisher \<Rightarrow>
   (bool \<times> publisher) option" where
  "log_mqtt_cycle app sleep_err publish_ok S w =
     (let w = w\<lparr>pb_time := increment_period (pb_time w) (int (unat (stats_collection_interval_ns app)))\<rparr>
      in if sleep_err \<noteq> None then Some (False, w)
         else do {
           let stats = stat_get_stats_per_period S (pb_stats w) sizeof_statistics_array;
           (sent, failed) \<leftarrow> publish_classes app (\<lambda>t. log_mqtt_add_traffic_class app (publish_ok t) t (stats t))
                              frame_types (pb_sent w) (pb_failed w);
           Some (True, w\<lparr>pb_stats := stats, pb_sent := sent, pb_failed := failed\<rparr>)
         })"

section \<open>Life cycle\<close>

text \<open>The thread that exists, and what is held.  \<^verbatim>\<open>create_udp_cl_socket\<close> returns the
  descriptor; 0 is taken for an error.\<close>

definition log_json_thread_create ::
  "bool \<Rightarrow> addr_record list option \<Rightarrow> rt_outcome \<Rightarrow> application_config \<Rightarrow> nat option \<times> log_resource list" where
  "log_json_thread_create ctx_ok dst ro app =
     (if \<not> log_json app then (None, [])
      else if \<not> ctx_ok then (None, [])
      else let (sock, fds) = create_udp_cl_socket dst; held = LR_context # map LR_socket fds
           in case sock of
                Inl e \<Rightarrow> (None, release [LR_context] held)
              | Inr (fd, _) \<Rightarrow>
                  if fd = 0 then (None, release [LR_context] held)
                  else let (ret, thr) = create_rt_thread ro (log_json_thread_priority app) (log_json_thread_cpu app) ''LoggerJson'';
                           held = held @ (if thr \<noteq> None then [LR_thread] else [])
                       in if ret \<noteq> None then (None, release [LR_socket fd, LR_context] held)
                          else (Some fd, held))"

definition log_json_thread_wait_for_finish :: "nat option \<times> log_resource list \<Rightarrow> nat option \<times> log_resource list" where
  "log_json_thread_wait_for_finish l = (if fst l \<noteq> None then (fst l, release [LR_thread] (snd l)) else l)"

definition log_json_thread_free :: "nat option \<times> log_resource list \<Rightarrow> log_resource list" where
  "log_json_thread_free l =
     (case fst l of None \<Rightarrow> snd l | Some fd \<Rightarrow> release [LR_socket fd, LR_context] (snd l))"

text \<open>Without \<^verbatim>\<open>WITH_MQTT\<close> there is never a thread.\<close>

definition log_mqtt_thread_create ::
  "build \<Rightarrow> bool \<Rightarrow> rt_outcome \<Rightarrow> application_config \<Rightarrow> bool \<times> log_resource list" where
  "log_mqtt_thread_create B ctx_ok ro app =
     (if \<not> config_have_mosquitto B then (False, [])
      else if \<not> log_mqtt app then (False, [])
      else if \<not> ctx_ok then (False, [])
      else let (ret, thr) = create_rt_thread ro (log_mqtt_thread_priority app) (log_mqtt_thread_cpu app) ''LoggerGraph'';
               held = LR_context # (if thr \<noteq> None then [LR_thread] else [])
           in if ret \<noteq> None then (False, release [LR_context] held) else (True, held))"

definition log_mqtt_thread_wait_for_finish :: "bool \<times> log_resource list \<Rightarrow> bool \<times> log_resource list" where
  "log_mqtt_thread_wait_for_finish l = (if fst l then (True, release [LR_thread] (snd l)) else l)"

definition log_mqtt_thread_free :: "bool \<times> log_resource list \<Rightarrow> log_resource list" where
  "log_mqtt_thread_free l = (if fst l then release [LR_context] (snd l) else snd l)"

text \<open>The MQTT thread: the results of creating the client, connecting, starting its loop and
  reading the clock; then whether the period loop is entered, and what is held.  The end of the
  thread destroys the client, if any, and cleans up the library.\<close>

record mqtt_outcome =
  mq_new :: bool
  mq_connect :: bool
  mq_loop_start :: bool
  mq_clock :: "timespec option"

definition log_mqtt_start :: "mqtt_outcome \<Rightarrow> timespec option \<times> log_resource list" where
  "log_mqtt_start mq =
     (let held = [LR_mosq_lib]
      in if \<not> mq_new mq then (None, held)
         else let held = LR_mosq # held
              in if \<not> mq_connect mq then (None, held)
                 else if \<not> mq_loop_start mq then (None, held)
                 else (mq_clock mq, held))"

definition log_mqtt_end :: "log_resource list \<Rightarrow> log_resource list" where
  "log_mqtt_end held =
     release [LR_mosq_lib] (if LR_mosq \<in> set held then release [LR_mosq] held else held)"

end
