(* ===== verification/TB_Log_Props.thy ===== *)
theory TB_Log_Props
  imports TB_Json
begin

text \<open>
  What the log and the publishing threads write: the line of statistics and the JSON message as
  tables of fields, and the log file as the sequence of all messages.
\<close>

section \<open>Output steps\<close>

text \<open>A step that appends \<open>text\<close> if it fits, together with the terminating zero, and fails
  without leaving the buffer otherwise.\<close>

definition appends :: "(out \<Rightarrow> errno option \<times> out) \<Rightarrow> string \<Rightarrow> bool" where
  "appends f text \<longleftrightarrow> (\<forall>acc len. 0 < len \<longrightarrow>
     (if length text < len then f (acc, len) = (None, (acc @ text, len - length text))
      else \<exists>acc' len'. f (acc, len) = (Some EINVAL, (acc', len')) \<and> 0 < len' \<and>
             length acc' + len' = length acc + len))"

lemma appendsI:
  assumes "\<And>acc len. 0 < len \<Longrightarrow> length text < len \<Longrightarrow> f (acc, len) = (None, (acc @ text, len - length text))"
    and "\<And>acc len. 0 < len \<Longrightarrow> \<not> length text < len \<Longrightarrow>
       \<exists>acc' len'. f (acc, len) = (Some EINVAL, (acc', len')) \<and> 0 < len' \<and> length acc' + len' = length acc + len"
  shows "appends f text"
  using assms by (simp add: appends_def)

lemma appendsD:
  assumes "appends f text" "0 < len"
  shows "length text < len \<Longrightarrow> f (acc, len) = (None, (acc @ text, len - length text))"
    and "\<not> length text < len \<Longrightarrow>
       \<exists>acc' len'. f (acc, len) = (Some EINVAL, (acc', len')) \<and> 0 < len' \<and> length acc' + len' = length acc + len"
  using assms by (auto simp: appends_def)

lemma snprintf_appends: "appends (snprintf ps) (concat ps)"
  by (rule appendsI) (auto simp: snprintf_def snprintf_err_handling_def Let_def)

lemma steps_appends: "appends (out_steps (map snprintf pss)) (concat (map concat pss))"
proof (induction pss)
  case Nil
  then show ?case by (auto simp: appends_def)
next
  case (Cons ps pss)
  let ?s = "concat ps" and ?t = "concat (map concat pss)"
  show ?case
  proof (rule appendsI)
    fix acc :: string and len :: nat
    assume l: "0 < len" "length (concat (map concat (ps # pss))) < len"
    then have "snprintf ps (acc, len) = (None, (acc @ ?s, len - length ?s))" "length ?t < len - length ?s"
      using appendsD(1) [OF snprintf_appends l(1), of ps acc] by simp_all
    then show "out_steps (map snprintf (ps # pss)) (acc, len) =
        (None, (acc @ concat (map concat (ps # pss)), len - length (concat (map concat (ps # pss)))))"
      using appendsD(1) [OF Cons.IH, of "len - length ?s" "acc @ ?s"] by (simp add: and_then_def)
  next
    fix acc :: string and len :: nat
    assume l: "0 < len" "\<not> length (concat (map concat (ps # pss))) < len"
    show "\<exists>acc' len'. out_steps (map snprintf (ps # pss)) (acc, len) = (Some EINVAL, (acc', len')) \<and> 0 < len' \<and>
        length acc' + len' = length acc + len"
    proof (cases "length ?s < len")
      case True
      then have "\<not> length ?t < len - length ?s" "0 < len - length ?s" using l(2) by simp_all
      then show ?thesis
        using appendsD(1) [OF snprintf_appends l(1) True, of acc]
          appendsD(2) [OF Cons.IH, of "len - length ?s" "acc @ ?s"] True
        by (auto simp: and_then_def)
    next
      case False
      then show ?thesis
        using appendsD(2) [OF snprintf_appends l(1) False, of acc] by (auto simp: and_then_def)
    qed
  qed
qed

lemma and_then_None_steps [simp]: "and_then (None, b) f = f b"
  by (simp add: and_then_def)

lemma and_then_done [simp]: "and_then r (out_steps []) = r"
  by (auto simp: and_then_def split: prod.splits option.splits)

lemma out_steps_append: "out_steps (fs @ gs) b = and_then (out_steps fs b) (out_steps gs)"
  by (induction fs arbitrary: b) (auto simp: and_then_def split: prod.splits option.splits)

lemma out_loop_steps:
  assumes "\<And>i b. i \<in> set is \<Longrightarrow> f i b = Some (out_steps (g i) b)"
  shows "out_loop f is b = Some (out_steps (concat (map g is)) b)"
  using assms
  by (induction "is" arbitrary: b) (auto simp: out_steps_append and_then_def split: prod.splits option.splits)

text \<open>An operation is a sequence of steps that print \<open>text\<close>.\<close>

definition prints :: "(out \<Rightarrow> (errno option \<times> out) option) \<Rightarrow> string \<Rightarrow> bool" where
  "prints f text \<longleftrightarrow> (\<exists>pss. (\<forall>b. f b = Some (out_steps (map snprintf pss) b)) \<and> text = concat (map concat pss))"

lemma printsI:
  "(\<And>b. f b = Some (out_steps (map snprintf pss) b)) \<Longrightarrow> text = concat (map concat pss) \<Longrightarrow> prints f text"
  by (auto simp: prints_def)

lemma prints_nothing: "prints (\<lambda>b. Some (None, b)) ''''"
  by (rule printsI [where pss = "[]"]) auto

lemma prints_snprintf: "concat ps = text \<Longrightarrow> prints (\<lambda>b. Some (snprintf ps b)) text"
  by (rule printsI [where pss = "[ps]"]) (auto simp: and_then_def split: prod.splits option.splits)

lemma prints_seq:
  assumes "prints f s" "prints g t"
    and "\<And>b. h b = (case f b of None \<Rightarrow> None | Some (Some e, b) \<Rightarrow> Some (Some e, b) | Some (None, b) \<Rightarrow> g b)"
  shows "prints h (s @ t)"
proof -
  obtain pss qss where "\<And>b. f b = Some (out_steps (map snprintf pss) b)" "s = concat (map concat pss)"
      "\<And>b. g b = Some (out_steps (map snprintf qss) b)" "t = concat (map concat qss)"
    using assms(1,2) by (auto simp: prints_def)
  then show ?thesis
    by (intro printsI [where pss = "pss @ qss"])
       (auto simp: assms(3) out_steps_append and_then_def split: prod.splits option.splits)
qed

lemma prints_cases:
  assumes "prints f text" "0 < len"
  shows "length text < len \<Longrightarrow> f (acc, len) = Some (None, (acc @ text, len - length text))"
    and "\<not> length text < len \<Longrightarrow>
       \<exists>acc' len'. f (acc, len) = Some (Some EINVAL, (acc', len')) \<and> 0 < len' \<and> length acc' + len' = length acc + len"
proof -
  obtain pss where p: "\<And>b. f b = Some (out_steps (map snprintf pss) b)" "text = concat (map concat pss)"
    using assms(1) by (auto simp: prints_def)
  show "length text < len \<Longrightarrow> f (acc, len) = Some (None, (acc @ text, len - length text))"
    using appendsD(1) [OF steps_appends assms(2)] by (simp add: p)
  show "\<not> length text < len \<Longrightarrow>
      \<exists>acc' len'. f (acc, len) = Some (Some EINVAL, (acc', len')) \<and> 0 < len' \<and> length acc' + len' = length acc + len"
    using appendsD(2) [OF steps_appends assms(2), of pss] by (simp add: p)
qed
section \<open>The line of statistics\<close>

text \<open>The fields of a class: name, value, and whether it is a time in microseconds.\<close>

type_synonym log_field = "string \<times> string \<times> bool"

text \<open>The numbers of the workloads are part of the names unless there is just one.\<close>

definition workload_ident :: "int \<Rightarrow> nat \<Rightarrow> string" where
  "workload_ident num i = (if num = 1 then '''' else show_nat i)"

definition workload_fields :: "string \<Rightarrow> workload_statistics \<Rightarrow> log_field list" where
  "workload_fields ident wl =
     [(''RxWorkload'' @ ident @ ''Min'', show_u64 (rx_workload_min wl), True),
      (''RxWorkload'' @ ident @ ''Max'', show_u64 (rx_workload_max wl), True),
      (''RxWorkload'' @ ident @ ''Avg'', show_lf (rx_workload_avg wl), True),
      (''RxWorkload'' @ ident @ ''Outliers'', show_u64 (rx_workload_outliers wl), False)]"

definition basic_fields :: "statistics \<Rightarrow> log_field list" where
  "basic_fields st =
     [(''Sent'', show_u64 (frames_sent st), False), (''Received'', show_u64 (frames_received st), False),
      (''RttMin'', show_u64 (round_trip_min st), True), (''RttMax'', show_u64 (round_trip_max st), True),
      (''RttAvg'', show_lf (round_trip_avg st), True), (''OnewayMin'', show_int (oneway_min st), True),
      (''OnewayMax'', show_int (oneway_max st), True), (''OnewayAvg'', show_lf (oneway_avg st), True)]"

definition proc_first_fields :: "build \<Rightarrow> traffic_class_config \<Rightarrow> statistics \<Rightarrow> log_field list" where
  "proc_first_fields B cfg st =
     (if tx_hwtstamp_enabled cfg \<and> RX_TIMESTAMP B \<and> proc_first_count st > 0
      then [(''ProcFirstMin'', show_u64 (proc_first_min st), True), (''ProcFirstMax'', show_u64 (proc_first_max st), True),
            (''ProcFirstAvg'', show_lf (proc_first_avg st), True),
            (''ProcFirstOutliers'', show_u64 (proc_first_outliers st), False)] else [])"

definition proc_batch_fields :: "build \<Rightarrow> traffic_class_config \<Rightarrow> statistics \<Rightarrow> log_field list" where
  "proc_batch_fields B cfg st =
     (if tx_hwtstamp_enabled cfg \<and> RX_TIMESTAMP B \<and> proc_batch_count st > 0
      then [(''ProcBatchMin'', show_u64 (proc_batch_min st), True), (''ProcBatchMax'', show_u64 (proc_batch_max st), True),
            (''ProcBatchAvg'', show_lf (proc_batch_avg st), True),
            (''ProcBatchOutliers'', show_u64 (proc_batch_outliers st), False)] else [])"

definition rx_hwts_fields :: "build \<Rightarrow> stat_frame_type \<Rightarrow> statistics \<Rightarrow> log_field list" where
  "rx_hwts_fields B t st =
     (if config_class_rx_timestamp_enabled B t
      then [(''RxMin'', show_u64 (rx_min st), True), (''RxMax'', show_u64 (rx_max st), True),
            (''RxAvg'', show_lf (rx_avg st), True),
            (''RxHw2SwMin'', show_u64 (rx_hw2sw_min st), True), (''RxHw2SwMax'', show_u64 (rx_hw2sw_max st), True),
            (''RxHw2SwAvg'', show_lf (rx_hw2sw_avg st), True),
            (''RxSw2AppMin'', show_u64 (rx_sw2app_min st), True), (''RxSw2AppMax'', show_u64 (rx_sw2app_max st), True),
            (''RxSw2AppAvg'', show_lf (rx_sw2app_avg st), True)] else [])"

definition tx_hwts_fields :: "traffic_class_config \<Rightarrow> statistics \<Rightarrow> log_field list" where
  "tx_hwts_fields cfg st =
     (if tx_hwtstamp_enabled cfg
      then [(''TxMin'', show_u64 (tx_min st), True), (''TxMax'', show_u64 (tx_max st), True),
            (''TxAvg'', show_lf (tx_avg st), True),
            (''TxHwTimestampMissing'', show_u64 (tx_hw_timestamp_missing st), False)] else [])"

definition outlier_fields :: "stat_frame_type \<Rightarrow> statistics \<Rightarrow> log_field list" where
  "outlier_fields t st =
     (if stat_frame_type_is_real_time t
      then [(''RttOutliers'', show_u64 (round_trip_outliers st), False),
            (''OnewayOutliers'', show_u64 (oneway_outliers st), False)] else [])"

definition workloads_fields :: "traffic_class_config \<Rightarrow> statistics \<Rightarrow> log_field list" where
  "workloads_fields cfg st =
     (let num = workload_thread_cpus_num cfg
      in if rx_workload_enabled cfg
         then concat (map (\<lambda>i. workload_fields (workload_ident num i) (workload st ! i)) [0..<nat num]) else [])"

definition class_fields :: "build \<Rightarrow> application_config \<Rightarrow> stat_frame_type \<Rightarrow> statistics \<Rightarrow> log_field list" where
  "class_fields B app t st =
     (let cfg = classes app t
      in basic_fields st @ proc_first_fields B cfg st @ proc_batch_fields B cfg st @ rx_hwts_fields B t st @
         tx_hwts_fields cfg st @ outlier_fields t st @ workloads_fields cfg st)"

definition log_text :: "string \<Rightarrow> log_field list \<Rightarrow> string" where
  "log_text nm fs = concat (map (\<lambda>(k, v, us). nm @ k @ ''='' @ v @ (if us then '' [us]'' else '''') @ '' | '') fs)"

text \<open>The array of workloads is long enough for the threads configured.\<close>

definition log_wl_ok :: "application_config \<Rightarrow> stat_frame_type \<Rightarrow> statistics \<Rightarrow> bool" where
  "log_wl_ok app t st \<longleftrightarrow> workload_thread_cpus_num (classes app t) \<le> int (length (workload st))"

lemma log_text_append [simp]: "log_text nm (fs @ gs) = log_text nm fs @ log_text nm gs"
  by (simp add: log_text_def)

lemma log_text_concat: "log_text nm (concat fss) = concat (map (log_text nm) fss)"
  by (induction fss) (simp_all add: log_text_def)

lemma concat_steps: "concat (map concat (concat psss)) = concat (map (\<lambda>pss. concat (map concat pss)) psss)"
  by (induction psss) simp_all

lemma show_int_of_nat [simp]: "show_int (int n) = show_nat n"
  by (simp add: show_int_def)

lemma workloads_print:
  assumes "log_wl_ok app t st"
  shows "prints (log_add_workload_stats app nm t st) (log_text nm (workloads_fields (classes app t) st))"
proof -
  define num where "num = workload_thread_cpus_num (classes app t)"
  define ps where "ps i = [[nm, ''RxWorkload'', workload_ident num i, ''Min='', show_u64 (rx_workload_min (workload st ! i)), '' [us] | '',
      nm, ''RxWorkload'', workload_ident num i, ''Max='', show_u64 (rx_workload_max (workload st ! i)), '' [us] | '',
      nm, ''RxWorkload'', workload_ident num i, ''Avg='', show_lf (rx_workload_avg (workload st ! i)), '' [us] | '',
      nm, ''RxWorkload'', workload_ident num i, ''Outliers='', show_u64 (rx_workload_outliers (workload st ! i)), '' | '']]" for i
  have one: "out_steps (map snprintf (ps i)) b = log_workload nm (workload_ident num i) (workload st ! i) b" for i b
    by (simp add: ps_def log_workload_def)
  have t: "concat (map concat (ps i)) = log_text nm (workload_fields (workload_ident num i) (workload st ! i))" for i
    by (simp add: ps_def workload_fields_def log_text_def)
  have len: "num \<le> int (length (workload st))" using assms by (simp add: log_wl_ok_def num_def)
  show ?thesis
  proof (cases "rx_workload_enabled (classes app t)")
    case False
    then show ?thesis
      using prints_nothing by (simp add: prints_def log_add_workload_stats_def workloads_fields_def Let_def log_text_def)
  next
    case True
    show ?thesis
    proof (rule printsI [where pss = "concat (map ps [0..<nat num])"])
      fix b
      show "log_add_workload_stats app nm t st b = Some (out_steps (map snprintf (concat (map ps [0..<nat num]))) b)"
      proof (cases "num = 1")
        case n: True
        then have "0 < length (workload st)" using len by linarith
        then show ?thesis using True n one [of 0 b]
          by (simp add: log_add_workload_stats_def num_def [symmetric] workload_ident_def)
      next
        case n: False
        have "out_loop (\<lambda>i b. if i < length (workload st)
                then Some (log_workload nm (show_int (int i)) (workload st ! i) b) else None) [0..<nat num] b =
              Some (out_steps (concat (map (\<lambda>i. map snprintf (ps i)) [0..<nat num])) b)"
          using len n by (intro out_loop_steps) (auto simp: one workload_ident_def)
        then show ?thesis using True n
          by (simp add: log_add_workload_stats_def num_def [symmetric] map_concat comp_def)
      qed
      show "log_text nm (workloads_fields (classes app t) st) = concat (map concat (concat (map ps [0..<nat num])))"
        using True by (simp add: workloads_fields_def num_def [symmetric] log_text_concat concat_steps comp_def t [symmetric])
    qed
  qed
qed

lemma class_prints:
  assumes "log_wl_ok app t st"
  shows "prints (log_add_traffic_class B app nm t st) (log_text nm (class_fields B app t st))"
proof -
  let ?cfg = "classes app t"
  have b: "prints (\<lambda>b. Some (log_add_stats nm st b)) (log_text nm (basic_fields st))"
    unfolding log_add_stats_def by (rule prints_snprintf) (simp add: log_text_def basic_fields_def)
  have f: "prints (\<lambda>b. Some (log_add_proc_first_stats B app nm t st b)) (log_text nm (proc_first_fields B ?cfg st))"
    unfolding log_add_proc_first_stats_def
    by (auto simp: log_text_def proc_first_fields_def config_have_rx_timestamp_def
        intro!: prints_snprintf prints_nothing [simplified])
  have a: "prints (\<lambda>b. Some (log_add_proc_batch_stats B app nm t st b)) (log_text nm (proc_batch_fields B ?cfg st))"
    unfolding log_add_proc_batch_stats_def
    by (auto simp: log_text_def proc_batch_fields_def config_have_rx_timestamp_def
        intro!: prints_snprintf prints_nothing [simplified])
  have r: "prints (\<lambda>b. Some (log_add_rx_hwts_stats B nm t st b)) (log_text nm (rx_hwts_fields B t st))"
    unfolding log_add_rx_hwts_stats_def
    by (auto simp: log_text_def rx_hwts_fields_def intro!: prints_snprintf prints_nothing [simplified])
  have x: "prints (\<lambda>b. Some (log_add_tx_hwts_stats app nm t st b)) (log_text nm (tx_hwts_fields ?cfg st))"
    unfolding log_add_tx_hwts_stats_def
    by (auto simp: log_text_def tx_hwts_fields_def intro!: prints_snprintf prints_nothing [simplified])
  have u: "prints (\<lambda>b. Some (log_add_outlier_stats nm t st b)) (log_text nm (outlier_fields t st))"
    unfolding log_add_outlier_stats_def
    by (auto simp: log_text_def outlier_fields_def intro!: prints_snprintf prints_nothing [simplified])
  show ?thesis
    unfolding class_fields_def Let_def log_text_append
    by (rule prints_seq [OF b prints_seq [OF f prints_seq [OF a prints_seq [OF r prints_seq [OF x
          prints_seq [OF u workloads_print [OF assms] refl] refl] refl] refl] refl]])
       (simp add: log_add_traffic_class_def and_then_def split: prod.splits option.splits)
qed

text \<open>The statistics of all active classes.\<close>

definition stat_text :: "build \<Rightarrow> application_config \<Rightarrow> (stat_frame_type \<Rightarrow> statistics) \<Rightarrow> stat_frame_type list \<Rightarrow> string" where
  "stat_text B app stats ts =
     concat (map (\<lambda>t. log_text (stat_frame_type_to_string app t) (class_fields B app t (stats t)))
       (filter (config_is_tc_active app) ts))"

definition stats_wl_ok :: "application_config \<Rightarrow> (stat_frame_type \<Rightarrow> statistics) \<Rightarrow> bool" where
  "stats_wl_ok app stats \<longleftrightarrow> list_all (\<lambda>t. log_wl_ok app t (stats t)) frame_types"

lemma log_classes_text:
  assumes "list_all (\<lambda>t. log_wl_ok app t (stats t)) ts" "0 < len"
  shows "\<exists>b. log_classes B app stats ts ok (acc, len) = Some (ok \<and> length (stat_text B app stats ts) < len, b) \<and>
     (length (stat_text B app stats ts) < len \<longrightarrow> fst b = acc @ stat_text B app stats ts)"
  using assms
proof (induction ts arbitrary: ok acc len)
  case Nil
  then show ?case by (simp add: stat_text_def)
next
  case (Cons t ts)
  let ?x = "log_text (stat_frame_type_to_string app t) (class_fields B app t (stats t))"
  show ?case
  proof (cases "config_is_tc_active app t")
    case False
    then show ?thesis using Cons by (simp add: stat_text_def)
  next
    case True
    have p: "prints (log_add_traffic_class B app (stat_frame_type_to_string app t) t (stats t)) ?x"
      using Cons.prems(1) by (simp add: class_prints)
    have s: "stat_text B app stats (t # ts) = ?x @ stat_text B app stats ts" using True by (simp add: stat_text_def)
    show ?thesis
    proof (cases "length ?x < len")
      case l: True
      show ?thesis
        using Cons.IH [of "len - length ?x" ok "acc @ ?x"] Cons.prems(1) l True prints_cases(1) [OF p Cons.prems(2) l, of acc]
        by (auto simp: s less_diff_conv2 algebra_simps)
    next
      case l: False
      then obtain acc' len' where
        "log_add_traffic_class B app (stat_frame_type_to_string app t) t (stats t) (acc, len) = Some (Some EINVAL, (acc', len'))"
        "0 < len'"
        using prints_cases(2) [OF p Cons.prems(2) l, of acc] by blast
      then show ?thesis using Cons.IH [of len' False acc'] Cons.prems(1) l True by (auto simp: s)
    qed
  qed
qed

section \<open>The log file\<close>

text \<open>What a message of some level adds to the log: nothing if its level is not enabled or if it is
  too long with its prefix.\<close>

definition message_bytes :: "log_level \<Rightarrow> timespec option \<Rightarrow> log_level \<Rightarrow> string \<Rightarrow> bytes" where
  "message_bytes current clk level msg =
     (let text = concat (log_prefix clk level) @ msg
      in if log_level_value level \<le> log_level_value current \<and> length text < 4096 then str_bytes text else [])"

text \<open>The state the initialisation leaves: a valid ring buffer, and the trace file open if it is needed.\<close>

definition log_ok :: "application_config \<Rightarrow> log_state \<Rightarrow> ring_buffer \<Rightarrow> bool" where
  "log_ok app L rb \<longleftrightarrow> lg_ring L = Some rb \<and> rb_inv rb \<and> rb_size rb = LOG_BUFFER_SIZE \<and>
     (debug_stop_trace_on_error app \<longrightarrow> lg_trace L \<noteq> None)"

lemma log_init_ok:
  assumes "log_init rb_ok data_ok fopen_err app L = Some (None, L')"
  shows "\<exists>rb. log_ok app L' rb \<and> rb_contents rb = []"
  using assms rb_allocate_ok [of LOG_BUFFER_SIZE]
  by (auto simp: log_init_def log_ok_def Let_def ring_buffer_allocate_def rb_inv_def rb_contents_def bind_eq_Some
      split: if_splits option.splits)

lemma queue_add_Nil: "length q \<le> cap \<Longrightarrow> queue_add cap q [] = q"
  by (simp add: queue_add_def)

lemma log_message_adds:
  assumes "log_ok app L rb"
  shows "\<exists>L' rb'. log_message app clk level msg L = Some L' \<and> log_ok app L' rb' \<and> lg_level L' = lg_level L \<and>
     rb_contents rb' = queue_add LOG_BUFFER_SIZE (rb_contents rb) (message_bytes (lg_level L) clk level (concat msg))"
proof -
  let ?m = "concat (log_prefix clk level) @ concat msg"
  have pr: "prints (\<lambda>b. Some (and_then (snprintf (log_prefix clk level) b) (snprintf msg))) ?m"
    by (rule prints_seq [OF prints_snprintf [OF refl] prints_snprintf [OF refl]])
       (auto simp: and_then_def split: prod.splits option.splits)
  have "\<exists>L1. (if level = LOG_LEVEL_ERROR \<and> debug_stop_trace_on_error app
          then (case lg_trace L of None \<Rightarrow> None | Some f \<Rightarrow> Some (L\<lparr>lg_trace := Some (f @ ''0'' @ [CHR 0x0A])\<rparr>))
          else Some L) = Some L1 \<and> log_ok app L1 rb \<and> lg_level L1 = lg_level L \<and> lg_ring L1 = Some rb"
    using assms by (cases "lg_trace L") (auto simp: log_ok_def)
  then obtain L1 where L1: "(if level = LOG_LEVEL_ERROR \<and> debug_stop_trace_on_error app
          then (case lg_trace L of None \<Rightarrow> None | Some f \<Rightarrow> Some (L\<lparr>lg_trace := Some (f @ ''0'' @ [CHR 0x0A])\<rparr>))
          else Some L) = Some L1" "log_ok app L1 rb" "lg_level L1 = lg_level L" "lg_ring L1 = Some rb"
    by blast
  have keep: "queue_add LOG_BUFFER_SIZE (rb_contents rb) [] = rb_contents rb"
    using assms rb_bounded [of rb] by (simp add: log_ok_def queue_add_Nil)
  show ?thesis
  proof (cases "log_level_value level \<le> log_level_value (lg_level L) \<and> length ?m < 4096")
    case False
    then consider "log_level_value level > log_level_value (lg_level L)" |
      "log_level_value level \<le> log_level_value (lg_level L)" "\<not> length ?m < 4096" by linarith
    then show ?thesis
    proof cases
      case 1
      then show ?thesis using L1 keep
        by (intro exI [of _ L1] exI [of _ rb]) (simp add: log_message_def message_bytes_def Let_def)
    next
      case 2
      then show ?thesis
        using L1 keep prints_cases(2) [OF pr _ 2(2), of "''''"]
        by (intro exI [of _ L1] exI [of _ rb]) (auto simp: log_message_def message_bytes_def Let_def)
    qed
  next
    case True
    then have s: "and_then (snprintf (log_prefix clk level) ('''', 4096)) (snprintf msg) = (None, (?m, 4096 - length ?m))"
      using prints_cases(1) [OF pr, of 4096 "''''"] by simp
    have "rb_inv rb" "rb_size rb = LOG_BUFFER_SIZE" using assms by (simp_all add: log_ok_def)
    then obtain rb' where "ring_buffer_add (Some rb) (str_bytes ?m) (length ?m) = Some (Some rb')" "rb_inv rb'"
        "rb_size rb' = LOG_BUFFER_SIZE" "rb_contents rb' = queue_add LOG_BUFFER_SIZE (rb_contents rb) (str_bytes ?m)"
      using rb_add_law [of rb "length ?m" "str_bytes ?m"]
      by (auto simp: rb_add_def split: option.splits if_splits)
    then show ?thesis
      using L1 True s
      by (intro exI [of _ "L1\<lparr>lg_ring := Some rb'\<rparr>"] exI [of _ rb'])
         (simp add: log_message_def message_bytes_def Let_def log_ok_def)
  qed
qed

text \<open>The line of statistics of a period.\<close>

definition stat_line :: "build \<Rightarrow> application_config \<Rightarrow> stat_state \<Rightarrow> string" where
  "stat_line B app S = stat_text B app (global_statistics_for_log S) frame_types @ [CHR 0x0A]"

lemma message_too_long: "4096 \<le> length msg \<Longrightarrow> message_bytes current clk level msg = []"
  by (simp add: message_bytes_def Let_def)

text \<open>A period empties the ring buffer into the file, after the line of statistics was added.\<close>

lemma log_cycle_writes:
  assumes "log_ok app (lt_log w) rb" "length (lt_data w) = LOG_BUFFER_SIZE"
    and "stats_wl_ok app (global_statistics_for_log S)"
  shows "\<exists>w' rb'. log_thread_cycle B app None clk S w = Some (True, w') \<and> log_ok app (lt_log w') rb' \<and>
     lg_level (lt_log w') = lg_level (lt_log w) \<and> rb_contents rb' = [] \<and> length (lt_data w') = LOG_BUFFER_SIZE \<and>
     lt_file w' = lt_file w @ queue_add LOG_BUFFER_SIZE (rb_contents rb)
       (message_bytes (lg_level (lt_log w)) clk LOG_LEVEL_INFO (stat_line B app S))"
proof -
  let ?t = "stat_text B app (global_statistics_for_log S) frame_types"
  let ?m = "message_bytes (lg_level (lt_log w)) clk LOG_LEVEL_INFO (stat_line B app S)"
  obtain b where b: "log_classes B app (global_statistics_for_log S) frame_types True ('''', 4096) =
      Some (length ?t < 4096, b)" "length ?t < 4096 \<Longrightarrow> fst b = ?t"
    using log_classes_text [of app "global_statistics_for_log S" frame_types 4096 B True "''''"] assms(3)
    by (auto simp: stats_wl_ok_def)
  obtain acc len where ab: "b = (acc, len)" by (cases b)
  have "\<exists>L rb1. (if length ?t < 4096 then log_message app clk LOG_LEVEL_INFO [acc, [CHR 0x0A]] (lt_log w)
            else Some (lt_log w)) = Some L \<and> log_ok app L rb1 \<and> lg_level L = lg_level (lt_log w) \<and>
      rb_contents rb1 = queue_add LOG_BUFFER_SIZE (rb_contents rb) ?m"
  proof (cases "length ?t < 4096")
    case True
    then show ?thesis
      using log_message_adds [OF assms(1), of clk LOG_LEVEL_INFO "[acc, [CHR 0x0A]]"] b(2) ab
      by (simp add: stat_line_def)
  next
    case False
    then have "?m = []" by (intro message_too_long) (simp add: stat_line_def)
    then show ?thesis using False assms(1) rb_bounded [of rb] by (auto simp: log_ok_def queue_add_Nil)
  qed
  then obtain L rb1 where L: "(if length ?t < 4096 then log_message app clk LOG_LEVEL_INFO [acc, [CHR 0x0A]] (lt_log w)
            else Some (lt_log w)) = Some L" "log_ok app L rb1" "lg_level L = lg_level (lt_log w)"
      "rb_contents rb1 = queue_add LOG_BUFFER_SIZE (rb_contents rb) ?m"
    by blast
  have i: "rb_inv rb1" "rb_size rb1 = LOG_BUFFER_SIZE" "lg_ring L = Some rb1" using L(2) by (simp_all add: log_ok_def)
  let ?c = "rb_contents rb1"
  have bd: "length ?c \<le> LOG_BUFFER_SIZE" using rb_bounded [OF i(1)] i(2) by simp
  have "queue_fetch (rb_size rb1) ?c LOG_BUFFER_SIZE = (?c, [])" using bd by (simp add: queue_fetch_def i(2))
  then obtain rb2 where "rb_fetch rb1 (lt_data w) LOG_BUFFER_SIZE = Some (rb2, ?c @ drop (length ?c) (lt_data w), length ?c)"
      "rb_inv rb2" "rb_size rb2 = LOG_BUFFER_SIZE" "rb_contents rb2 = []"
    using rb_fetch_law [OF i(1), of LOG_BUFFER_SIZE "lt_data w" ?c "[]"] assms(2) i(2) by auto
  moreover from this have "ring_buffer_fetch (lg_ring L) (lt_data w) LOG_BUFFER_SIZE =
      Some (Some rb2, ?c @ drop (length ?c) (lt_data w), length ?c)"
    by (auto simp: rb_fetch_def i(3) bind_eq_Some)
  ultimately have fetch: "ring_buffer_fetch (lg_ring L) (lt_data w) LOG_BUFFER_SIZE =
      Some (Some rb2, ?c @ drop (length ?c) (lt_data w), length ?c)"
      and rb2: "rb_inv rb2" "rb_size rb2 = LOG_BUFFER_SIZE" "rb_contents rb2 = []" by blast+
  have "log_thread_cycle B app None clk S w = Some (True, w\<lparr>
      lt_time := increment_period (lt_time w) (int (unat (stats_collection_interval_ns app))), lt_log := L\<lparr>lg_ring := Some rb2\<rparr>,
      lt_stats := global_statistics_for_log S, lt_data := ?c @ drop (length ?c) (lt_data w), lt_file := lt_file w @ ?c\<rparr>)"
    using b(1) L(1) fetch
    by (cases "?c = []") (simp_all add: log_thread_cycle_def Let_def stat_get_global_stats_def ab cong: if_cong split del: if_split)
  then show ?thesis using rb2 L(2-4) bd assms(2) by (simp add: log_ok_def)
qed

text \<open>A run: messages of all threads and periods of the log thread, in the order the mutex of the ring
  buffer gives them.\<close>

datatype log_event = Message "timespec option" log_level string | Period "timespec option" stat_state

fun log_run :: "build \<Rightarrow> application_config \<Rightarrow> log_event list \<Rightarrow> log_thread_context \<Rightarrow> log_thread_context option" where
  "log_run B app [] w = Some w"
| "log_run B app (Message clk level msg # evs) w = do {
     L \<leftarrow> log_message app clk level [msg] (lt_log w);
     log_run B app evs (w\<lparr>lt_log := L\<rparr>)
   }"
| "log_run B app (Period clk S # evs) w = do {
     (_, w) \<leftarrow> log_thread_cycle B app None clk S w;
     log_run B app evs w
   }"

fun event_bytes :: "build \<Rightarrow> application_config \<Rightarrow> log_level \<Rightarrow> log_event \<Rightarrow> bytes" where
  "event_bytes B app current (Message clk level msg) = message_bytes current clk level msg"
| "event_bytes B app current (Period clk S) = message_bytes current clk LOG_LEVEL_INFO (stat_line B app S)"

text \<open>The messages between two periods fit into the ring buffer, which holds \<open>n\<close> bytes.\<close>

fun log_fits :: "build \<Rightarrow> application_config \<Rightarrow> log_level \<Rightarrow> nat \<Rightarrow> log_event list \<Rightarrow> bool" where
  "log_fits B app current n [] = True"
| "log_fits B app current n (ev # evs) =
     (let n' = n + length (event_bytes B app current ev)
      in n' \<le> LOG_BUFFER_SIZE \<and>
         log_fits B app current (case ev of Message _ _ _ \<Rightarrow> n' | Period _ _ \<Rightarrow> 0) evs)"

fun event_ok :: "application_config \<Rightarrow> log_event \<Rightarrow> bool" where
  "event_ok app (Message _ _ _) = True"
| "event_ok app (Period clk S) = stats_wl_ok app (global_statistics_for_log S)"

lemma queue_add_fits: "length q + length d \<le> cap \<Longrightarrow> queue_add cap q d = q @ d"
  by (simp add: queue_add_def)

lemma log_run_ok:
  assumes "log_ok app (lt_log w) rb" "length (lt_data w) = LOG_BUFFER_SIZE" "list_all (event_ok app) evs"
    and "log_fits B app (lg_level (lt_log w)) (length (rb_contents rb)) evs"
  shows "\<exists>w' rb'. log_run B app evs w = Some w' \<and> log_ok app (lt_log w') rb' \<and> length (lt_data w') = LOG_BUFFER_SIZE \<and>
     lg_level (lt_log w') = lg_level (lt_log w) \<and>
     lt_file w' @ rb_contents rb' =
       lt_file w @ rb_contents rb @ concat (map (event_bytes B app (lg_level (lt_log w))) evs) \<and>
     (evs \<noteq> [] \<and> (\<exists>clk S. last evs = Period clk S) \<longrightarrow> rb_contents rb' = [])"
  using assms
proof (induction evs arbitrary: w rb)
  case Nil
  then show ?case by auto
next
  case (Cons ev evs)
  show ?case
  proof (cases ev)
    case (Message clk level msg)
    obtain L rb1 where L: "log_message app clk level [msg] (lt_log w) = Some L" "log_ok app L rb1" "lg_level L = lg_level (lt_log w)"
        "rb_contents rb1 = rb_contents rb @ event_bytes B app (lg_level (lt_log w)) ev"
      using log_message_adds [OF Cons.prems(1), of clk level "[msg]"] Cons.prems(4)
      by (auto simp: Message queue_add_fits Let_def)
    show ?thesis
      using Cons.IH [of "w\<lparr>lt_log := L\<rparr>" rb1] L Cons.prems by (auto simp: Message Let_def)
  next
    case (Period clk S)
    obtain w1 rb1 where L: "log_thread_cycle B app None clk S w = Some (True, w1)" "log_ok app (lt_log w1) rb1"
        "lg_level (lt_log w1) = lg_level (lt_log w)" "rb_contents rb1 = []" "length (lt_data w1) = LOG_BUFFER_SIZE"
        "lt_file w1 = lt_file w @ rb_contents rb @ event_bytes B app (lg_level (lt_log w)) ev"
      using log_cycle_writes [OF Cons.prems(1,2), of S B clk] Cons.prems(3,4)
      by (auto simp: Period queue_add_fits Let_def)
    show ?thesis
      using Cons.IH [of w1 rb1] L Cons.prems by (auto simp: Period Let_def)
  qed
qed

subsection \<open>Lines that are too long\<close>

lemma show_nat_pos: "1 \<le> length (show_nat n)"
  using show_base_nonempty [of 10 n] by (cases "show_nat n") (auto simp: show_nat_def)

lemma show_u64_pos: "1 \<le> length (show_u64 w)"
  unfolding show_u64_def by (rule show_nat_pos)

lemma show_int_pos: "1 \<le> length (show_int i)"
  using show_nat_pos [of "nat i"] by (auto simp: show_int_def)

lemma show_lf_long: "8 \<le> length (show_lf x)"
proof -
  have "6 \<le> length (pad0 6 s)" for s by (simp add: pad0_def)
  moreover have "1 \<le> length (show_nat n)" for n by (rule show_nat_pos)
  ultimately have "8 \<le> length (show_nat n @ ''.'' @ pad0 6 s)" for n s
    using add_mono [of 1 "length (show_nat n)" 6 "length (pad0 6 s)"] by simp
  then have "8 \<le> length (s @ show_nat n @ ''.'' @ pad0 6 t)" for s n t
    by (metis le_add2 length_append order_trans)
  then show ?thesis unfolding show_lf_def Let_def .
qed

lemmas show_bounds = show_u64_pos show_int_pos show_lf_long

lemma concat_long: "(\<And>x. x \<in> set xs \<Longrightarrow> c \<le> length (f x)) \<Longrightarrow> length xs * c \<le> length (concat (map f xs))"
  by (induction xs) (simp_all add: add_mono)

lemma basic_text_long: "141 + 8 * length nm \<le> length (log_text nm (basic_fields st))"
proof -
  have "1 \<le> length (show_u64 (frames_sent st))" "1 \<le> length (show_u64 (frames_received st))"
    "1 \<le> length (show_u64 (round_trip_min st))" "1 \<le> length (show_u64 (round_trip_max st))"
    "8 \<le> length (show_lf (round_trip_avg st))" "1 \<le> length (show_int (oneway_min st))"
    "1 \<le> length (show_int (oneway_max st))" "8 \<le> length (show_lf (oneway_avg st))"
    by (rule show_bounds)+
  then show ?thesis by (simp add: log_text_def basic_fields_def)
qed

lemma workload_text_long: "99 + 4 * length nm + 4 * length ident \<le> length (log_text nm (workload_fields ident wl))"
proof -
  have "1 \<le> length (show_u64 (rx_workload_min wl))" "1 \<le> length (show_u64 (rx_workload_max wl))"
    "8 \<le> length (show_lf (rx_workload_avg wl))" "1 \<le> length (show_u64 (rx_workload_outliers wl))"
    by (rule show_bounds)+
  then show ?thesis by (simp add: log_text_def workload_fields_def)
qed

lemma workloads_text_long:
  assumes "rx_workload_enabled cfg" "2 \<le> workload_thread_cpus_num cfg"
  shows "nat (workload_thread_cpus_num cfg) * (103 + 4 * length nm) \<le> length (log_text nm (workloads_fields cfg st))"
proof -
  let ?num = "workload_thread_cpus_num cfg"
  have "103 + 4 * length nm \<le> length (log_text nm (workload_fields (workload_ident ?num i) (workload st ! i)))" for i
    using workload_text_long [of nm "workload_ident ?num i" "workload st ! i"] show_nat_pos [of i] assms(2)
    by (simp add: workload_ident_def)
  then show ?thesis
    using concat_long [of "[0..<nat ?num]" "103 + 4 * length nm"
        "\<lambda>i. log_text nm (workload_fields (workload_ident ?num i) (workload st ! i))"] assms(1)
    by (simp add: workloads_fields_def Let_def log_text_concat comp_def)
qed

lemma stat_text_long:
  assumes "config_is_tc_active app t"
  shows "length (log_text (stat_frame_type_to_string app t) (class_fields B app t (stats t))) \<le>
     length (stat_text B app stats frame_types)"
proof -
  have "t \<in> set frame_types" using assms by (cases t) (simp_all add: config_is_tc_active_def frame_types_def)
  then obtain xs ys where fr: "frame_types = xs @ t # ys" by (meson split_list)
  show ?thesis using assms unfolding stat_text_def fr by simp
qed

section \<open>Properties\<close>

text \<open>C16. The log file is complete and in order: after any interleaving of messages of all threads with
  periods of the log thread that ends with a period, the file holds exactly the messages that
  were logged (those of an enabled level, with prefix below 4096 bytes) and one line of statistics per
  period with the fields of all active classes, provided that never more than the 8 MiB of the ring
  buffer are logged between two periods.\<close>

theorem log_file_complete:
  assumes "log_init rb_ok data_ok fopen_err app L0 = Some (None, L)"
    and "lt_log w = L" "length (lt_data w) = LOG_BUFFER_SIZE" "lt_file w = []"
    and "list_all (event_ok app) (evs @ [Period clk S])"
    and "log_fits B app (lg_level L) 0 (evs @ [Period clk S])"
  shows "\<exists>w'. log_run B app (evs @ [Period clk S]) w = Some w' \<and>
     lt_file w' = concat (map (event_bytes B app (lg_level L)) (evs @ [Period clk S]))"
proof -
  obtain rb where rb: "log_ok app L rb" "rb_contents rb = []" using log_init_ok [OF assms(1)] by blast
  have "\<exists>w' rb'. log_run B app (evs @ [Period clk S]) w = Some w' \<and>
      lt_file w' @ rb_contents rb' = concat (map (event_bytes B app (lg_level L)) (evs @ [Period clk S])) \<and> rb_contents rb' = []"
    using log_run_ok [of app w rb "evs @ [Period clk S]" B] rb assms(2-6) by auto
  then show ?thesis by auto
qed

definition demo_log_app :: application_config where
  "demo_log_app = zero_app_config\<lparr>log_level := Some ''Info''\<rparr>"

definition demo_log_state :: log_state where
  "demo_log_state = \<lparr>lg_ring = ring_buffer_allocate True True LOG_BUFFER_SIZE, lg_level = LOG_LEVEL_INFO, lg_trace = None\<rparr>"

definition demo_log_thread :: log_thread_context where
  "demo_log_thread = \<lparr>lt_log = demo_log_state, lt_stats = (\<lambda>_. zero_statistics), lt_data = replicate LOG_BUFFER_SIZE 0,
     lt_file = [], lt_time = \<lparr>tv_sec = 0, tv_nsec = 0\<rparr>\<rparr>"

lemma demo_log_init: "log_init True True None demo_log_app demo_log_state = Some (None, demo_log_state)"
  by (simp add: log_init_def demo_log_app_def zero_app_config_def demo_log_state_def ring_buffer_allocate_def Let_def)

lemma demo_log_line: "stat_line B demo_log_app S = [CHR 0x0A]"
  by (simp add: stat_line_def stat_text_def demo_log_app_def zero_app_config_def zero_class_config_def config_is_tc_active_def)

lemma demo_prefix:
  "concat (log_prefix None LOG_LEVEL_WARNING) = ''[00000000.000000000]: [WARNING]: ''"
  "concat (log_prefix None LOG_LEVEL_INFO) = ''[00000000.000000000]: [INFO]: ''"
  by code_simp+

lemma demo_log_bytes:
  "message_bytes LOG_LEVEL_INFO None LOG_LEVEL_WARNING ''a'' = str_bytes ''[00000000.000000000]: [WARNING]: a''"
  "message_bytes LOG_LEVEL_INFO None LOG_LEVEL_DEBUG ''b'' = []"
  "message_bytes LOG_LEVEL_INFO None LOG_LEVEL_INFO [CHR 0x0A] = str_bytes (''[00000000.000000000]: [INFO]: '' @ [CHR 0x0A])"
  by (simp_all add: message_bytes_def demo_prefix Let_def)

theorem log_file_complete_witness:
  "\<exists>w'. log_run demo_build demo_log_app
       [Message None LOG_LEVEL_WARNING ''a'', Message None LOG_LEVEL_DEBUG ''b'', Period None zero_stat_state] demo_log_thread = Some w' \<and>
     lt_file w' = str_bytes (''[00000000.000000000]: [WARNING]: a[00000000.000000000]: [INFO]: '' @ [CHR 0x0A])"
proof -
  let ?evs = "[Message None LOG_LEVEL_WARNING ''a'', Message None LOG_LEVEL_DEBUG ''b'']"
  have "list_all (event_ok demo_log_app) (?evs @ [Period None zero_stat_state])"
    by (simp add: stats_wl_ok_def log_wl_ok_def frame_types_def demo_log_app_def zero_app_config_def zero_class_config_def)
  moreover have "log_fits demo_build demo_log_app (lg_level demo_log_state) 0 (?evs @ [Period None zero_stat_state])"
    by (simp add: demo_log_line demo_log_bytes demo_log_state_def)
  ultimately have "\<exists>w'. log_run demo_build demo_log_app (?evs @ [Period None zero_stat_state]) demo_log_thread = Some w' \<and>
      lt_file w' = concat (map (event_bytes demo_build demo_log_app (lg_level demo_log_state)) (?evs @ [Period None zero_stat_state]))"
    by (intro log_file_complete [OF demo_log_init]) (simp_all add: demo_log_thread_def)
  then show ?thesis by (simp add: demo_log_line demo_log_bytes demo_log_state_def str_bytes_def)
qed

text \<open>C37. The statistics of a class with many workload threads never reach the log: if one line of
  basic fields and one group of fields per workload already take 4096 bytes, no period writes a
  line of statistics, whatever the values are and whatever other classes there are; nothing
  reports that it is dropped.\<close>

theorem log_line_dropped:
  assumes "log_ok app (lt_log w) rb" "length (lt_data w) = LOG_BUFFER_SIZE"
    and "stats_wl_ok app (global_statistics_for_log S)"
    and "config_is_tc_active app t" "rx_workload_enabled (classes app t)" "2 \<le> workload_thread_cpus_num (classes app t)"
    and "nm = stat_frame_type_to_string app t"
    and "4096 \<le> 141 + 8 * length nm + nat (workload_thread_cpus_num (classes app t)) * (103 + 4 * length nm)"
  shows "\<exists>w'. log_thread_cycle B app None clk S w = Some (True, w') \<and> lt_file w' = lt_file w @ rb_contents rb"
proof -
  have "4096 \<le> length (log_text nm (class_fields B app t (global_statistics_for_log S t)))"
    using assms(8) basic_text_long [of nm "global_statistics_for_log S t"]
      workloads_text_long [OF assms(5,6), of nm "global_statistics_for_log S t"]
    by (simp add: class_fields_def Let_def)
  then have "4096 \<le> length (stat_line B app S)"
    using stat_text_long [OF assms(4), of B "global_statistics_for_log S"] assms(7) by (simp add: stat_line_def)
  then have "message_bytes (lg_level (lt_log w)) clk LOG_LEVEL_INFO (stat_line B app S) = []" by (rule message_too_long)
  moreover have "length (rb_contents rb) \<le> LOG_BUFFER_SIZE" using assms(1) rb_bounded [of rb] by (simp add: log_ok_def)
  ultimately show ?thesis
    using log_cycle_writes [OF assms(1-3), of B clk] by (auto simp: queue_add_Nil)
qed

definition demo_busy_app :: application_config where
  "demo_busy_app = zero_app_config\<lparr>classes := (\<lambda>_. zero_class_config)(TSN_HIGH_FRAME_TYPE := zero_class_config\<lparr>enabled := True,
     num_frames_per_cycle := 1, rx_workload_enabled := True, workload_thread_cpus_num := 32\<rparr>)\<rparr>"

theorem log_line_dropped_witness:
  "\<exists>w'. log_thread_cycle demo_build demo_busy_app None None zero_stat_state demo_log_thread = Some (True, w') \<and> lt_file w' = []"
proof -
  let ?rb = "the (ring_buffer_allocate True True LOG_BUFFER_SIZE)"
  have rb: "log_ok demo_busy_app (lt_log demo_log_thread) ?rb" "rb_contents ?rb = []"
    by (simp_all add: log_ok_def demo_log_thread_def demo_log_state_def ring_buffer_allocate_def rb_inv_def rb_contents_def
        demo_busy_app_def zero_app_config_def)
  have "stats_wl_ok demo_busy_app (global_statistics_for_log zero_stat_state)"
    by (simp add: stats_wl_ok_def log_wl_ok_def frame_types_def demo_busy_app_def zero_app_config_def zero_class_config_def
        zero_stat_state_def zero_statistics_def)
  then show ?thesis
    using log_line_dropped [OF rb(1), of zero_stat_state TSN_HIGH_FRAME_TYPE "''TsnHigh''" demo_build None] rb(2)
    by (simp add: demo_log_thread_def demo_busy_app_def config_is_tc_active_def stat_frame_type_to_string_def)
qed

end
