(* ===== verification/TB_Json_Props.thy ===== *)
theory TB_Json_Props
  imports TB_Log_Props
begin

text \<open>
  The JSON messages: \<^verbatim>\<open>stat_to_json\<close> prints a well-formed object with distinct keys or fails inside its
  buffer, the publishing threads send one per active class and period, and the life cycle of the
  three logging threads.
\<close>

section \<open>JSON\<close>

datatype json = JNum string | JStr string | JObj "(string \<times> json) list"

fun join :: "string \<Rightarrow> string list \<Rightarrow> string" where
  "join sep [] = ''''"
| "join sep [x] = x"
| "join sep (x # y # zs) = x @ sep @ join sep (y # zs)"

fun json_print :: "json \<Rightarrow> string" where
  "json_print (JNum s) = s"
| "json_print (JStr s) = QUOTE @ s @ QUOTE"
| "json_print (JObj fs) = ''{'' @ join '','' (map (\<lambda>(k, v). QUOTE @ k @ QUOTE @ '':'' @ json_print v) fs) @ ''}''"

text \<open>Text without blanks and line ends.\<close>

definition strip :: "string \<Rightarrow> string" where
  "strip s = filter (\<lambda>c. c \<noteq> CHR '' '' \<and> c \<noteq> CHR 0x0A) s"

section \<open>The fields of a message\<close>

definition json_workload :: "string \<Rightarrow> workload_statistics \<Rightarrow> (string \<times> string) list" where
  "json_workload ident wl =
     [(''RxWorkload'' @ ident @ ''Min'', show_u64 (rx_workload_min wl)),
      (''RxWorkload'' @ ident @ ''Max'', show_u64 (rx_workload_max wl)),
      (''RxWorkload'' @ ident @ ''Av'', show_lf (rx_workload_avg wl)),
      (''RxWorkload'' @ ident @ ''Outliers'', show_u64 (rx_workload_outliers wl))]"

definition json_workloads :: "int \<Rightarrow> statistics \<Rightarrow> (string \<times> string) list" where
  "json_workloads num st = concat (map (\<lambda>i. json_workload (workload_ident num i) (workload st ! i)) [0..<nat num])"

definition json_front :: "statistics \<Rightarrow> (string \<times> string) list" where
  "json_front st =
     [(''FramesSent'', show_u64 (frames_sent st)), (''FramesReceived'', show_u64 (frames_received st)),
      (''RoundTripTimeMin'', show_u64 (round_trip_min st)), (''RoundTripMax'', show_u64 (round_trip_max st)),
      (''RoundTripAv'', show_lf (round_trip_avg st)), (''OnewayMin'', show_int (oneway_min st)),
      (''OnewayMax'', show_int (oneway_max st)), (''OnewayAv'', show_lf (oneway_avg st)),
      (''ProcFirstMin'', show_u64 (proc_first_min st)), (''ProcFirstMax'', show_u64 (proc_first_max st)),
      (''ProcFirstAv'', show_lf (proc_first_avg st)), (''ProcFirstOutliers'', show_u64 (proc_first_outliers st)),
      (''ProcBatchMin'', show_u64 (proc_batch_min st)), (''ProcBatchMax'', show_u64 (proc_batch_max st)),
      (''ProcBatchAv'', show_lf (proc_batch_avg st)), (''ProcBatchOutliers'', show_u64 (proc_batch_outliers st)),
      (''RxMin'', show_u64 (rx_min st)), (''RxMax'', show_u64 (rx_max st)), (''RxAv'', show_lf (rx_avg st)),
      (''RxHw2SwMin'', show_u64 (rx_hw2sw_min st)), (''RxHw2SwMax'', show_u64 (rx_hw2sw_max st)),
      (''RxHw2SwAv'', show_lf (rx_hw2sw_avg st)),
      (''RxSw2AppMin'', show_u64 (rx_sw2app_min st)), (''RxSw2AppMax'', show_u64 (rx_sw2app_max st)),
      (''RxSw2AppAv'', show_lf (rx_sw2app_avg st))]"

definition json_back :: "statistics \<Rightarrow> (string \<times> string) list" where
  "json_back st =
     [(''TxMin'', show_u64 (tx_min st)), (''TxMax'', show_u64 (tx_max st)), (''TxAv'', show_lf (tx_avg st)),
      (''TxHwTimestampMissing'', show_u64 (tx_hw_timestamp_missing st)),
      (''OutofOrderErrors'', show_u64 (out_of_order_errors st)), (''FrameIdErrors'', show_u64 (frame_id_errors st)),
      (''PayloadErrors'', show_u64 (payload_errors st)), (''RoundTripOutliers'', show_u64 (round_trip_outliers st))]"

definition json_fields :: "int \<Rightarrow> statistics \<Rightarrow> (string \<times> string) list" where
  "json_fields num st = json_front st @ json_workloads num st @ json_back st @
     [(''OnewayOutliers'', show_u64 (oneway_outliers st))]"

definition json_tree :: "int \<Rightarrow> statistics \<Rightarrow> string \<Rightarrow> string \<Rightarrow> json" where
  "json_tree num st tc measurement =
     JObj [(''testbench'', JObj
       [(''Timestamp'', JNum (show_u64 (time_stamp st))), (''MeasurementName'', JStr measurement),
        (''stats'', JObj ((''TCName'', JStr tc) # map (\<lambda>(k, v). (k, JNum v)) (json_fields num st)))])]"

text \<open>The text with its blanks and line ends.\<close>

definition json_line :: "string \<times> string \<Rightarrow> string" where
  "json_line f = QUOTE @ fst f @ QUOTE @ '': '' @ snd f @ '','' @ NEWLINE"

definition json_header :: "statistics \<Rightarrow> string \<Rightarrow> string \<Rightarrow> string" where
  "json_header st tc measurement = concat [''{'', QUOTE, ''testbench'', QUOTE, '' :'', NEWLINE,
     ''{'', QUOTE, ''Timestamp'', QUOTE, '' : '', show_u64 (time_stamp st), '','', NEWLINE,
     QUOTE, ''MeasurementName'', QUOTE, '' : '', QUOTE, measurement, QUOTE, '','', NEWLINE,
     QUOTE, ''stats'', QUOTE, '' : '', NEWLINE, ''{'', NEWLINE,
     QUOTE, ''TCName'', QUOTE, '' : '', QUOTE, tc, QUOTE, '','', NEWLINE]"

definition json_message :: "int \<Rightarrow> statistics \<Rightarrow> string \<Rightarrow> string \<Rightarrow> string" where
  "json_message num st tc measurement =
     json_header st tc measurement @ concat (map json_line (json_front st @ json_workloads num st @ json_back st)) @
     QUOTE @ ''OnewayOutliers'' @ QUOTE @ '': '' @ show_u64 (oneway_outliers st) @ NEWLINE @
     ''}'' @ NEWLINE @ ''}'' @ NEWLINE @ ''}'' @ NEWLINE"

section \<open>Printing\<close>

lemma jlog_steps:
  "append_jlog_u64 k v = snprintf [json_line (k, show_u64 v)]"
  "append_jlog_i64 k i = snprintf [json_line (k, show_int i)]"
  "append_jlog_float k x = snprintf [json_line (k, show_lf x)]"
  by (simp_all add: fun_eq_iff append_jlog_u64_def append_jlog_i64_def append_jlog_float_def json_line_def snprintf_def)

lemma out_steps_lines: "out_steps (map (\<lambda>f. snprintf [json_line f]) fs) b = out_steps (map snprintf (map (\<lambda>f. [json_line f]) fs)) b"
  by (simp add: comp_def)

lemma prints_steps:
  "prints (\<lambda>b. Some (out_steps (map snprintf pss) b)) (concat (map concat pss))"
  by (rule printsI) auto

lemma workload_lines:
  assumes "workload_thread_cpus_num (classes app t) = num" "log_wl_ok app t st"
  shows "prints (append_jlog_workload_stats app t st) (concat (map json_line (json_workloads num st)))"
proof -
  define ps where "ps i = map (\<lambda>f. [json_line f]) (json_workload (workload_ident num i) (workload st ! i))" for i
  have len: "num \<le> int (length (workload st))" using assms by (simp add: log_wl_ok_def)
  show ?thesis
  proof (rule printsI [where pss = "concat (map ps [0..<nat num])"])
    fix b
    show "append_jlog_workload_stats app t st b = Some (out_steps (map snprintf (concat (map ps [0..<nat num]))) b)"
    proof (cases "num = 1")
      case True
      then have "0 < length (workload st)" using len by linarith
      then show ?thesis using True assms(1)
        by (simp add: append_jlog_workload_stats_def ps_def json_workload_def workload_ident_def jlog_steps)
    next
      case False
      let ?f = "\<lambda>i b. if i < length (workload st)
                then let wl = workload st ! i in Some (out_steps
                  [snprintf [QUOTE, ''RxWorkload'', show_int (int i), ''Min'', QUOTE, '': '', show_u64 (rx_workload_min wl),
                     '','', NEWLINE],
                   snprintf [QUOTE, ''RxWorkload'', show_int (int i), ''Max'', QUOTE, '': '', show_u64 (rx_workload_max wl),
                     '','', NEWLINE],
                   snprintf [QUOTE, ''RxWorkload'', show_int (int i), ''Av'', QUOTE, '': '', show_lf (rx_workload_avg wl),
                     '','', NEWLINE],
                   snprintf [QUOTE, ''RxWorkload'', show_int (int i), ''Outliers'', QUOTE, '': '',
                     show_u64 (rx_workload_outliers wl), '','', NEWLINE]] b)
                else None"
      have "snprintf [QUOTE, ''RxWorkload'', show_int (int i), x, QUOTE, '': '', v, '','', NEWLINE] =
          snprintf [json_line (''RxWorkload'' @ show_nat i @ x, v)]" for i x v
        by (simp add: fun_eq_iff snprintf_def json_line_def)
      then have "?f i b = Some (out_steps (map snprintf (ps i)) b)" if "i \<in> set [0..<nat num]" for i b
        using that len False by (simp add: ps_def json_workload_def workload_ident_def Let_def)
      then have "out_loop ?f [0..<nat num] b = Some (out_steps (concat (map (\<lambda>i. map snprintf (ps i)) [0..<nat num])) b)"
        by (rule out_loop_steps)
      then show ?thesis using False assms(1)
        by (simp add: append_jlog_workload_stats_def map_concat comp_def)
    qed
    show "concat (map json_line (json_workloads num st)) = concat (map concat (concat (map ps [0..<nat num])))"
      by (simp add: json_workloads_def concat_steps ps_def map_concat comp_def)
  qed
qed

lemma stat_to_json_prints:
  assumes "workload_thread_cpus_num (classes app t) = num" "log_wl_ok app t st"
  shows "\<exists>h. stat_to_json app len t st tc measurement = h ('''', len) \<and> prints h (json_message num st tc measurement)"
proof -
  define F where "F = [json_header st tc measurement] # map (\<lambda>f. [json_line f]) (json_front st)"
  define G where "G = map (\<lambda>f. [json_line f]) (json_back st) @
    [[QUOTE @ ''OnewayOutliers'' @ QUOTE @ '': '' @ show_u64 (oneway_outliers st) @ NEWLINE],
     [''}'' @ NEWLINE @ ''}'' @ NEWLINE @ ''}'' @ NEWLINE]]"
  have hd: "snprintf [''{'', QUOTE, ''testbench'', QUOTE, '' :'', NEWLINE,
           ''{'', QUOTE, ''Timestamp'', QUOTE, '' : '', show_u64 (time_stamp st), '','', NEWLINE,
           QUOTE, ''MeasurementName'', QUOTE, '' : '', QUOTE, measurement, QUOTE, '','', NEWLINE,
           QUOTE, ''stats'', QUOTE, '' : '', NEWLINE, ''{'', NEWLINE,
           QUOTE, ''TCName'', QUOTE, '' : '', QUOTE, tc, QUOTE, '','', NEWLINE] = snprintf [json_header st tc measurement]"
    by (simp add: fun_eq_iff snprintf_def json_header_def)
  have ft: "last_jlog_u64 ''OnewayOutliers'' v = snprintf [QUOTE @ ''OnewayOutliers'' @ QUOTE @ '': '' @ show_u64 v @ NEWLINE]"
      "snprintf [''}'', NEWLINE, ''}'', NEWLINE, ''}'', NEWLINE] = snprintf [''}'' @ NEWLINE @ ''}'' @ NEWLINE @ ''}'' @ NEWLINE]" for v
    by (simp_all add: fun_eq_iff snprintf_def last_jlog_u64_def)
  define h where "h b = (case out_steps (map snprintf F) b of (Some e, b) \<Rightarrow> Some (Some e, b)
      | (None, b) \<Rightarrow> do { (ret, b) \<leftarrow> append_jlog_workload_stats app t st b;
                          Some (and_then (ret, b) (out_steps (map snprintf G))) })" for b
  have "stat_to_json app len t st tc measurement = h ('''', len)"
    unfolding stat_to_json_def h_def F_def G_def hd ft jlog_steps json_front_def json_back_def list.map append.simps ..
  moreover have "prints h (concat (map concat F) @ concat (map json_line (json_workloads num st)) @ concat (map concat G))"
  proof (rule prints_seq [OF prints_steps prints_seq [OF workload_lines [OF assms] prints_steps refl]])
    fix b
    show "h b = (case Some (out_steps (map snprintf F) b) of None \<Rightarrow> None | Some (Some e, b) \<Rightarrow> Some (Some e, b)
      | Some (None, b) \<Rightarrow> (case append_jlog_workload_stats app t st b of None \<Rightarrow> None | Some (Some e, b) \<Rightarrow> Some (Some e, b)
          | Some (None, b) \<Rightarrow> Some (out_steps (map snprintf G) b)))"
      by (auto simp: h_def and_then_def split: prod.splits option.splits bind_split)
  qed
  moreover have "json_message num st tc measurement =
      concat (map concat F) @ concat (map json_line (json_workloads num st)) @ concat (map concat G)"
    by (simp add: json_message_def F_def G_def comp_def)
  ultimately show ?thesis by auto
qed

section \<open>Shape\<close>

lemma strip_append [simp]: "strip (s @ t) = strip s @ strip t"
  by (simp add: strip_def)

lemma strip_concat: "strip (concat xs) = concat (map strip xs)"
  by (induction xs) (simp_all add: strip_def)

lemma join_snoc: "join sep (xs @ [y]) = concat (map (\<lambda>x. x @ sep) xs) @ y"
  by (induction sep xs rule: join.induct) simp_all

lemma json_message_shape: "strip (json_message num st tc measurement) = strip (json_print (json_tree num st tc measurement))"
proof -
  let ?fs = "json_front st @ json_workloads num st @ json_back st"
  let ?p = "\<lambda>(k, v). QUOTE @ k @ QUOTE @ '':'' @ json_print v"
  have "join '','' (map ?p ((''TCName'', JStr tc) # map (\<lambda>(k, v). (k, JNum v)) (json_fields num st))) =
      QUOTE @ ''TCName'' @ QUOTE @ '':'' @ QUOTE @ tc @ QUOTE @ '','' @ concat (map (\<lambda>(k, v). QUOTE @ k @ QUOTE @ '':'' @ v @ '','') ?fs) @
      QUOTE @ ''OnewayOutliers'' @ QUOTE @ '':'' @ show_u64 (oneway_outliers st)"
    using join_snoc [of "'',''" "map ?p ((''TCName'', JStr tc) # map (\<lambda>(k, v). (k, JNum v)) ?fs)"
        "?p (''OnewayOutliers'', JNum (show_u64 (oneway_outliers st)))"]
    by (simp add: json_fields_def comp_def case_prod_unfold)
  moreover have "strip (concat (map json_line fs)) = strip (concat (map (\<lambda>(k, v). QUOTE @ k @ QUOTE @ '':'' @ v @ '','') fs))" for fs
    by (induction fs) (auto simp: json_line_def strip_def)
  ultimately show ?thesis
    by (simp add: json_message_def json_header_def json_tree_def) (simp add: strip_def)
qed

section \<open>Keys\<close>

abbreviation (input) "wl_suffixes \<equiv> [''Min'', ''Max'', ''Av'', ''Outliers'']"

lemma digits_name: "s \<in> set wl_suffixes \<Longrightarrow> digits 10 0 (show_nat i @ s) = (i, s)"
proof -
  assume "s \<in> set wl_suffixes"
  then have "\<not> starts_with_digit 10 s" by (auto simp: starts_with_digit_def digit_val_def)
  then show ?thesis using digits_show_base [of 10 0 i s] digits_stop [of 10 s i] by (simp add: show_nat_def)
qed

lemma workload_key_inj:
  assumes "s \<in> set wl_suffixes" "s' \<in> set wl_suffixes" "''RxWorkload'' @ show_nat i @ s = ''RxWorkload'' @ show_nat j @ s'"
  shows "i = j \<and> s = s'"
proof -
  have "show_nat i @ s = show_nat j @ s'" using assms(3) by simp
  then have "(i, s) = (j, s')" using digits_name [OF assms(1), of i] digits_name [OF assms(2), of j] by metis
  then show ?thesis by simp
qed

lemma workload_keys_distinct: "distinct (map fst (json_workloads num st))"
proof (cases "num = 1")
  case True
  then show ?thesis by (simp add: json_workloads_def json_workload_def workload_ident_def)
next
  case False
  let ?k = "\<lambda>(i, s). ''RxWorkload'' @ show_nat i @ s"
  have "concat (map (\<lambda>i. map fst (json_workload (workload_ident num i) (workload st ! i))) ns) = map ?k (List.product ns wl_suffixes)" for ns
    using False by (induction ns) (simp_all add: json_workload_def workload_ident_def)
  then have k: "map fst (json_workloads num st) = map ?k (List.product [0..<nat num] wl_suffixes)"
    by (simp add: json_workloads_def map_concat comp_def)
  have "inj_on ?k (set (List.product [0..<nat num] wl_suffixes))"
  proof (rule inj_onI)
    fix x y assume "x \<in> set (List.product [0..<nat num] wl_suffixes)" "y \<in> set (List.product [0..<nat num] wl_suffixes)" "?k x = ?k y"
    then show "x = y" using workload_key_inj [of "snd x" "snd y" "fst x" "fst y"] by (auto simp: prod_eq_iff)
  qed
  moreover have "distinct (List.product [0..<nat num] wl_suffixes)" by (rule distinct_product) simp_all
  ultimately show ?thesis unfolding k distinct_map by blast
qed

lemma workload_keys_prefix: "k \<in> set (map fst (json_workloads num st)) \<Longrightarrow> take 10 k = ''RxWorkload''"
  by (auto simp: json_workloads_def json_workload_def)

lemma other_keys:
  "distinct (map fst (json_front st @ json_back st @ [(''OnewayOutliers'', v)]))"
  "\<forall>k \<in> set (map fst (json_front st @ json_back st @ [(''OnewayOutliers'', v)])). take 10 k \<noteq> ''RxWorkload''"
  by (simp_all add: json_front_def json_back_def)

lemma json_keys_distinct: "distinct (map fst (json_fields num st))"
proof -
  have "set (map fst (json_workloads num st)) \<inter> set (map fst (json_front st @ json_back st @ [(''OnewayOutliers'', v)])) = {}" for v
    using workload_keys_prefix other_keys(2) by blast
  then show ?thesis
    using workload_keys_distinct [of num st] other_keys(1) [of st] by (auto simp: json_fields_def)
qed

section \<open>Publishing\<close>

text \<open>The message of a class, if it fits into the buffer of the thread.\<close>

definition class_message :: "application_config \<Rightarrow> (stat_frame_type \<Rightarrow> statistics) \<Rightarrow> string \<Rightarrow> stat_frame_type \<Rightarrow> string" where
  "class_message app stats measurement t =
     json_message (workload_thread_cpus_num (classes app t)) (stats t) (stat_frame_type_to_string app t) measurement"

definition published :: "application_config \<Rightarrow> (stat_frame_type \<Rightarrow> statistics) \<Rightarrow> string \<Rightarrow> (stat_frame_type \<Rightarrow> bool) \<Rightarrow>
    stat_frame_type list \<Rightarrow> string list" where
  "published app stats measurement send_ok ts =
     map (class_message app stats measurement)
       (filter (\<lambda>t. config_is_tc_active app t \<and> length (class_message app stats measurement t) < 4096 \<and> send_ok t) ts)"

lemma stat_to_json_cases:
  assumes "log_wl_ok app t st" "0 < len" "m = json_message (workload_thread_cpus_num (classes app t)) st tc measurement"
  shows "length m < len \<Longrightarrow> stat_to_json app len t st tc measurement = Some (None, (m, len - length m))"
    and "\<not> length m < len \<Longrightarrow>
       \<exists>acc' len'. stat_to_json app len t st tc measurement = Some (Some EINVAL, (acc', len')) \<and> length acc' < len"
proof -
  obtain h where h: "stat_to_json app len t st tc measurement = h ('''', len)" "prints h m"
    using stat_to_json_prints [OF refl assms(1)] assms(3) by blast
  show "length m < len \<Longrightarrow> stat_to_json app len t st tc measurement = Some (None, (m, len - length m))"
    using prints_cases(1) [OF h(2) assms(2), of "''''"] h(1) by simp
  show "\<not> length m < len \<Longrightarrow>
       \<exists>acc' len'. stat_to_json app len t st tc measurement = Some (Some EINVAL, (acc', len')) \<and> length acc' < len"
    using prints_cases(2) [OF h(2) assms(2), of "''''"] h(1) by fastforce
qed

lemma publish_classes_sends:
  assumes "\<And>t. t \<in> set ts \<Longrightarrow> config_is_tc_active app t \<Longrightarrow>
      f t = Some (if length (class_message app stats m t) < 4096 \<and> ok t then ([class_message app stats m t], False) else ([], True))"
  shows "publish_classes app f ts sent failed = Some (sent @ published app stats m ok ts,
      failed + length (filter (config_is_tc_active app) ts) - length (published app stats m ok ts))"
  using assms
proof (induction ts arbitrary: sent failed)
  case Nil
  then show ?case by (simp add: published_def)
next
  case (Cons t ts)
  have "length (published app stats m ok ts) \<le> length (filter (config_is_tc_active app) ts)"
    unfolding published_def by (induction ts) auto
  then show ?case using Cons by (auto simp: published_def)
qed

lemma json_class_sends:
  assumes "log_json_measurement_name app = Some m" "fam = AF_INET \<or> fam = AF_INET6" "log_wl_ok app t (stats t)"
  shows "log_json_add_traffic_class app fam ok t (stats t) =
     Some (if length (class_message app stats m t) < 4096 \<and> ok then ([class_message app stats m t], False) else ([], True))"
  using stat_to_json_cases [OF assms(3) _ refl, of 4096 "stat_frame_type_to_string app t" m] assms(1,2)
  by (cases "length (class_message app stats m t) < 4096") (auto simp: log_json_add_traffic_class_def class_message_def)

lemma mqtt_class_sends:
  assumes "log_mqtt_measurement_name app = Some m" "log_wl_ok app t (stats t)"
  shows "log_mqtt_add_traffic_class app ok t (stats t) =
     Some (if length (class_message app stats m t) < 4096 \<and> ok then ([class_message app stats m t], False) else ([], True))"
  using stat_to_json_cases [OF assms(2) _ refl, of 4096 "stat_frame_type_to_string app t" m] assms(1)
  by (cases "length (class_message app stats m t) < 4096") (auto simp: log_mqtt_add_traffic_class_def class_message_def)

section \<open>Life cycle\<close>

lemma create_rt_cases:
  "create_rt_thread ro prio cpu nm = (ret, thr) \<Longrightarrow> rto_setname ro = None \<Longrightarrow> (ret = None) = (thr \<noteq> None)"
  by (auto simp: create_rt_thread_def Let_def split: option.splits) metis+

lemma log_thread_released:
  "rto_setname ro = None \<Longrightarrow> log_thread_free (log_thread_wait_for_finish (log_thread_create a b c ro app)) = []"
  using create_rt_cases [of ro "log_thread_priority app" "log_thread_cpu app" "''Logger''"]
  by (auto simp: log_thread_free_def log_thread_wait_for_finish_def log_thread_create_def release_def
      split: prod.splits)

lemma udp_client_fds:
  "create_udp_cl_socket dst = (r, fds) \<Longrightarrow> fds = (case r of Inl _ \<Rightarrow> [] | Inr (fd, _) \<Rightarrow> [fd])"
  by (auto simp: create_udp_cl_socket_def dns_lookup_def split: option.splits prod.splits)

lemma log_json_released:
  assumes "rto_setname ro = None" "\<And>x. fst (create_udp_cl_socket dst) \<noteq> Inr (0, x)"
  shows "log_json_thread_free (log_json_thread_wait_for_finish (log_json_thread_create a dst ro app)) = []"
proof -
  obtain r fds where c: "create_udp_cl_socket dst = (r, fds)" by (cases "create_udp_cl_socket dst")
  obtain ret thr where e: "create_rt_thread ro (log_json_thread_priority app) (log_json_thread_cpu app) ''LoggerJson'' = (ret, thr)"
    by (cases "create_rt_thread ro (log_json_thread_priority app) (log_json_thread_cpu app) ''LoggerJson''")
  note defs = log_json_thread_free_def log_json_thread_wait_for_finish_def log_json_thread_create_def release_def
  show ?thesis
  proof (cases r)
    case (Inl err)
    then show ?thesis using udp_client_fds [OF c] c by (simp add: defs Let_def)
  next
    case (Inr p)
    then obtain fd x where r: "r = Inr (fd, x)" by (cases p) simp
    then have "fd \<noteq> 0" using assms(2) [of x] c by auto
    then show ?thesis
      using udp_client_fds [OF c] create_rt_cases [OF e assms(1)] c r
      by (cases ret; cases thr) (simp_all add: defs e Let_def)
  qed
qed

lemma log_mqtt_released:
  "rto_setname ro = None \<Longrightarrow> log_mqtt_thread_free (log_mqtt_thread_wait_for_finish (log_mqtt_thread_create B a ro app)) = []"
  using create_rt_cases [of ro "log_mqtt_thread_priority app" "log_mqtt_thread_cpu app" "''LoggerGraph''"]
  by (auto simp: log_mqtt_thread_free_def log_mqtt_thread_wait_for_finish_def log_mqtt_thread_create_def release_def
      split: prod.splits)

lemma mqtt_client_released: "log_mqtt_end (snd (log_mqtt_start mq)) = []"
  by (simp add: log_mqtt_end_def log_mqtt_start_def release_def Let_def)

section \<open>Properties\<close>


text \<open>C38. In every period the UDP thread sends, and the MQTT thread publishes, exactly one message per active
  class, in the order of the classes, with the overall statistics or those of the last period; only
  classes whose message takes 4096 bytes or more, or whose sending fails, are missing, and
  each of them is reported.\<close>

theorem statistics_published:
  assumes "log_json_measurement_name app = Some mj" "log_mqtt_measurement_name app = Some mm"
    and "fam = AF_INET \<or> fam = AF_INET6"
    and "stats_wl_ok app (global_statistics_for_log S)" "stats_wl_ok app (statistics_per_period_for_log S)"
    and "n = length (filter (config_is_tc_active app) frame_types)"
    and "js = published app (global_statistics_for_log S) mj ok frame_types"
    and "ms = published app (statistics_per_period_for_log S) mm ok frame_types"
  shows "(\<exists>w'. log_json_cycle app None fam ok S w = Some (True, w') \<and> pb_sent w' = pb_sent w @ js \<and>
            pb_failed w' = pb_failed w + n - length js) \<and>
     (\<exists>w'. log_mqtt_cycle app None ok S w = Some (True, w') \<and> pb_sent w' = pb_sent w @ ms \<and>
            pb_failed w' = pb_failed w + n - length ms)"
proof -
  have g: "log_wl_ok app t (global_statistics_for_log S t)" "log_wl_ok app t (statistics_per_period_for_log S t)"
    if "t \<in> set frame_types" for t
    using that assms(4,5) by (auto simp: stats_wl_ok_def list_all_iff)
  show ?thesis
    using publish_classes_sends [of frame_types app "\<lambda>t. log_json_add_traffic_class app fam (ok t) t (global_statistics_for_log S t)"
        "global_statistics_for_log S" mj ok "pb_sent w" "pb_failed w"]
      publish_classes_sends [of frame_types app "\<lambda>t. log_mqtt_add_traffic_class app (ok t) t (statistics_per_period_for_log S t)"
        "statistics_per_period_for_log S" mm ok "pb_sent w" "pb_failed w"]
    by (simp add: json_class_sends [OF assms(1,3)] mqtt_class_sends [OF assms(2)] g assms(6-8) log_json_cycle_def log_mqtt_cycle_def
        stat_get_global_stats_def stat_get_stats_per_period_def Let_def)
qed


definition demo_json_app :: application_config where
  "demo_json_app = zero_app_config\<lparr>log_json_measurement_name := Some ''m'', log_mqtt_measurement_name := Some ''m'',
     classes := (\<lambda>_. zero_class_config)(RTC_FRAME_TYPE := zero_class_config\<lparr>enabled := True, num_frames_per_cycle := 1,
       workload_thread_cpus_num := 2\<rparr>)\<rparr>"

lemma demo_json_wl: "log_wl_ok demo_json_app t zero_statistics"
  by (simp add: log_wl_ok_def demo_json_app_def zero_class_config_def zero_statistics_def)

lemma show_zero_nat: "show_nat 0 = ''0''" "show_nat 1 = ''1''" "pad0 6 ''0'' = ''000000''"
  by code_simp+

lemma show_zero: "show_u64 0 = ''0''" "show_int 0 = ''0''" "show_lf 0 = ''0.000000''"
  using round_half_even_of_int [of 0] by (simp_all add: show_u64_def show_int_def show_lf_def show_zero_nat)

lemma demo_json_workloads: "json_workloads 2 zero_statistics = json_workload ''0'' zero_workload @ json_workload ''1'' zero_workload"
proof -
  have "[0..<nat 2] = [0, 1]" by (simp add: upt_rec numeral_2_eq_2)
  then show ?thesis using show_zero_nat(1,2) by (simp add: json_workloads_def workload_ident_def zero_statistics_def)
qed

lemma demo_json_len: "length (json_message 2 zero_statistics ''Rtc'' ''m'') < 4096"
  unfolding json_message_def demo_json_workloads
  by (simp add: json_header_def json_front_def json_back_def json_workload_def json_line_def zero_statistics_def
      zero_workload_def show_zero)


theorem statistics_published_witness:
  "\<exists>w'. log_json_cycle demo_json_app None AF_INET (\<lambda>_. True) zero_stat_state
       \<lparr>pb_stats = (\<lambda>_. zero_statistics), pb_time = \<lparr>tv_sec = 0, tv_nsec = 0\<rparr>, pb_sent = [], pb_failed = 0\<rparr> = Some (True, w') \<and>
     pb_sent w' = [json_message 2 zero_statistics ''Rtc'' ''m''] \<and> pb_failed w' = 0"
proof -
  have "stats_wl_ok demo_json_app (global_statistics_for_log zero_stat_state)"
      "stats_wl_ok demo_json_app (statistics_per_period_for_log zero_stat_state)"
    by (simp_all add: stats_wl_ok_def demo_json_wl zero_stat_state_def list_all_iff)
  moreover have "config_is_tc_active demo_json_app t = (t = RTC_FRAME_TYPE)" for t
    by (auto simp: config_is_tc_active_def demo_json_app_def zero_class_config_def)
  moreover from this have "published demo_json_app (global_statistics_for_log zero_stat_state) ''m'' (\<lambda>_. True) frame_types =
      [json_message 2 zero_statistics ''Rtc'' ''m'']"
    using demo_json_len
    by (simp add: published_def class_message_def frame_types_def zero_stat_state_def stat_frame_type_to_string_def demo_json_app_def)
  ultimately show ?thesis
    using statistics_published [of demo_json_app "''m''" "''m''" AF_INET zero_stat_state _ _ "\<lambda>_. True" _
        "\<lparr>pb_stats = (\<lambda>_. zero_statistics), pb_time = \<lparr>tv_sec = 0, tv_nsec = 0\<rparr>, pb_sent = [], pb_failed = 0\<rparr>", OF _ _ _ _ _ refl refl refl]
    by (simp add: demo_json_app_def frame_types_def)
qed

definition demo_rt_ok :: rt_outcome where
  "demo_rt_ok = \<lparr>rto_attr_init = None, rto_stacksize = None, rto_policy = None, rto_param = None, rto_inherit = None,
     rto_affinity = None, rto_create = None, rto_setname = None\<rparr>"


end
