(* ===== verification/TB_Napi.thy ===== *)
theory TB_Napi
  imports TB_Text TB_Types
begin

text \<open>
  The tool \<^verbatim>\<open>napictl.c\<close>, which configures interrupt deferral of a network queue over netlink.
  The results of libnl are arguments: a request is a record of outcomes, the answer of the kernel the
  list of attribute sets handed to the callback.  The requests sent and what is still allocated are
  part of the result.
\<close>

section \<open>State and environment\<close>

text \<open>The variables of the file; the verbosity only affects printing.\<close>

record napictl =
  nc_interface :: "string option"
  nc_queue :: u32
  nc_defer_hard_irqs :: u32
  nc_gro_flush_timeout :: u32
  napi_id_tx :: u32
  napi_id_rx :: u32

definition napictl_zero :: napictl where
  "napictl_zero = \<lparr>nc_interface = None, nc_queue = 0, nc_defer_hard_irqs = 0, nc_gro_flush_timeout = 0,
     napi_id_tx = 0, napi_id_rx = 0\<rparr>"

text \<open>The attributes of one queue in an answer, and the two queue types of the kernel interface.\<close>

record queue_attrs =
  qa_id :: "u32 option"
  qa_napi_id :: "u32 option"
  qa_type :: "u32 option"

record netdev =
  NETDEV_QUEUE_TYPE_RX :: u32
  NETDEV_QUEUE_TYPE_TX :: u32

text \<open>The results of one request: whether socket and message are allocated, and the values of
  \<^verbatim>\<open>errno\<close> if not; the results of connecting, resolving the family, sending and receiving, and the
  queues delivered while receiving.\<close>

record nl_outcome =
  nl_socket :: bool
  nl_socket_errno :: int
  nl_connect :: int
  nl_family :: int
  nl_msg :: bool
  nl_msg_errno :: int
  nl_send :: int
  nl_queues :: "queue_attrs list"
  nl_recv :: int

datatype nl_request = Queue_get nat | Napi_set u32 u32 u32

datatype nl_resource = NL_socket | NL_msg

section \<open>Requests\<close>

definition parse_queue :: "netdev \<Rightarrow> queue_attrs \<Rightarrow> napictl \<Rightarrow> napictl" where
  "parse_queue nd a s =
     (case (qa_id a, qa_napi_id a, qa_type a) of
        (Some q, Some n, Some t) \<Rightarrow>
          if q = nc_queue s
          then let s = (if t = NETDEV_QUEUE_TYPE_RX nd then s\<lparr>napi_id_rx := n\<rparr> else s)
               in if t = NETDEV_QUEUE_TYPE_TX nd then s\<lparr>napi_id_tx := n\<rparr> else s
          else s
      | _ \<Rightarrow> s)"

text \<open>Return value, new state, the requests sent, and what is still held.\<close>

definition get_napi_id ::
  "netdev \<Rightarrow> nl_outcome \<Rightarrow> nat \<Rightarrow> napictl \<Rightarrow> int \<times> napictl \<times> nl_request list \<times> nl_resource list" where
  "get_napi_id nd nl ifindex s =
     (let free_socket = (\<lambda>ret s sent held. (ret, s, sent, remove1 NL_socket held))
      in if \<not> nl_socket nl then (- nl_socket_errno nl, s, [], [])
         else let held = [NL_socket]
              in if nl_connect nl \<noteq> 0 then free_socket (nl_connect nl) s [] held
                 else if nl_family nl < 0 then free_socket (nl_family nl) s [] held
                 else if \<not> nl_msg nl then free_socket (- nl_msg_errno nl) s [] held
                 else let held = NL_msg # held
                      in if nl_send nl < 0 then free_socket (nl_send nl) s [] (remove1 NL_msg held)
                         else let held = remove1 NL_msg held; s = fold (parse_queue nd) (nl_queues nl) s
                              in free_socket (nl_recv nl) s [Queue_get ifindex] held)"

definition set_napi_attributes ::
  "nl_outcome \<Rightarrow> u32 \<Rightarrow> napictl \<Rightarrow> int \<times> nl_request list \<times> nl_resource list" where
  "set_napi_attributes nl napi_id s =
     (let free_socket = (\<lambda>ret sent held. (ret, sent, remove1 NL_socket held))
      in if \<not> nl_socket nl then (- nl_socket_errno nl, [], [])
         else let held = [NL_socket]
              in if nl_connect nl \<noteq> 0 then free_socket (nl_connect nl) [] held
                 else if nl_family nl < 0 then free_socket (nl_family nl) [] held
                 else if \<not> nl_msg nl then free_socket (- nl_msg_errno nl) [] held
                 else let held = NL_msg # held
                      in if nl_send nl < 0 then free_socket (nl_send nl) [] (remove1 NL_msg held)
                         else free_socket (nl_recv nl) [Napi_set napi_id (nc_defer_hard_irqs s) (nc_gro_flush_timeout s)]
                                (remove1 NL_msg held))"

section \<open>Options\<close>

text \<open>\<^verbatim>\<open>unsigned long\<close> has 64 bits.  A \<^verbatim>\<open>NULL\<close> pointer must not be converted.\<close>

definition parse_uint :: "string option \<Rightarrow> (errno + u32) option" where
  "parse_uint v = do {
     v \<leftarrow> v;
     Some (case strtoull 10 v of
             None \<Rightarrow> Inl ERANGE
           | Some (tmp, rest) \<Rightarrow>
               if rest \<noteq> '''' then Inl ERANGE else if tmp > 2 ^ 32 - 1 then Inl ERANGE else Inr (ucast tmp))
   }"

text \<open>One result of \<^verbatim>\<open>getopt_long\<close>: the letter and \<^verbatim>\<open>optarg\<close>.\<close>

type_synonym option_result = "char \<times> string option"

text \<open>The program ends with the usage or version text (\<open>Inl\<close>) or goes on.\<close>

definition napictl_option :: "option_result \<Rightarrow> napictl \<Rightarrow> (unit + napictl) option" where
  "napictl_option c s =
     (let put = (\<lambda>upd. do { r \<leftarrow> parse_uint (snd c); Some (case r of Inl _ \<Rightarrow> Inl () | Inr v \<Rightarrow> Inr (upd v s)) })
      in if fst c = CHR ''V'' then Some (Inl ())
         else if fst c = CHR ''v'' then Some (Inr s)
         else if fst c = CHR ''i'' then Some (Inr (s\<lparr>nc_interface := snd c\<rparr>))
         else if fst c = CHR ''q'' then put (\<lambda>v. nc_queue_update (\<lambda>_. v))
         else if fst c = CHR ''d'' then put (\<lambda>v. nc_defer_hard_irqs_update (\<lambda>_. v))
         else if fst c = CHR ''g'' then put (\<lambda>v. nc_gro_flush_timeout_update (\<lambda>_. v))
         else Some (Inl ()))"

fun napictl_options :: "option_result list \<Rightarrow> napictl \<Rightarrow> (unit + napictl) option" where
  "napictl_options [] s = Some (Inr s)"
| "napictl_options (c # cs) s = do {
     r \<leftarrow> napictl_option c s;
     (case r of Inl _ \<Rightarrow> Some (Inl ()) | Inr s \<Rightarrow> napictl_options cs s)
   }"

text \<open>\<open>ifindex\<close> is the result of \<^verbatim>\<open>if_nametoindex\<close>, 0 on failure.  The result is the exit status, or
  none after the usage text; the requests sent; and what is held at the end.\<close>

definition napictl_main ::
  "netdev \<Rightarrow> (nat \<Rightarrow> nl_outcome) \<Rightarrow> (string \<Rightarrow> nat) \<Rightarrow> option_result list \<Rightarrow>
   (bool option \<times> nl_request list \<times> nl_resource list) option" where
  "napictl_main nd nls if_index cs = do {
     r \<leftarrow> napictl_options cs napictl_zero;
     (case r of
        Inl _ \<Rightarrow> Some (None, [], [])
      | Inr s \<Rightarrow>
          (case nc_interface s of
             None \<Rightarrow> Some (None, [], [])
           | Some iface \<Rightarrow>
               let ifindex = if_index iface
               in if ifindex = 0 then Some (Some False, [], [])
                  else let (ret, s, sent, held) = get_napi_id nd (nls 0) ifindex s
                       in if ret \<noteq> 0 then Some (Some False, sent, held)
                          else let (ret, sent', held') = set_napi_attributes (nls 1) (napi_id_rx s) s
                               in if ret \<noteq> 0 then Some (Some False, sent @ sent', held @ held')
                                  else let (ret, sent'', held'') = set_napi_attributes (nls 2) (napi_id_tx s) s
                                       in Some (Some (ret = 0), sent @ sent' @ sent'', held @ held' @ held'')))
   }"

section \<open>Lemmas\<close>

text \<open>The identifier the tool uses for a queue type: that of the last matching queue of the answer, 0 if
  there is none.\<close>

definition queue_matches :: "u32 \<Rightarrow> u32 \<Rightarrow> queue_attrs \<Rightarrow> bool" where
  "queue_matches q t a \<longleftrightarrow> qa_id a = Some q \<and> qa_type a = Some t \<and> qa_napi_id a \<noteq> None"

definition napi_of :: "u32 \<Rightarrow> u32 \<Rightarrow> queue_attrs list \<Rightarrow> u32" where
  "napi_of q t qs =
     (case rev (filter (queue_matches q t) qs) of [] \<Rightarrow> 0 | a # _ \<Rightarrow> the (qa_napi_id a))"

lemma napi_of_snoc:
  "napi_of q t (qs @ [a]) = (if queue_matches q t a then the (qa_napi_id a) else napi_of q t qs)"
  by (simp add: napi_of_def)

lemma parse_queue_eq:
  assumes "NETDEV_QUEUE_TYPE_RX nd \<noteq> NETDEV_QUEUE_TYPE_TX nd"
  shows "parse_queue nd a s = s\<lparr>
     napi_id_rx := (if queue_matches (nc_queue s) (NETDEV_QUEUE_TYPE_RX nd) a then the (qa_napi_id a) else napi_id_rx s),
     napi_id_tx := (if queue_matches (nc_queue s) (NETDEV_QUEUE_TYPE_TX nd) a then the (qa_napi_id a) else napi_id_tx s)\<rparr>"
  using assms by (auto simp: parse_queue_def queue_matches_def Let_def split: option.splits)

lemma parse_queues:
  assumes "NETDEV_QUEUE_TYPE_RX nd \<noteq> NETDEV_QUEUE_TYPE_TX nd" "napi_id_rx s = 0" "napi_id_tx s = 0"
  shows "fold (parse_queue nd) qs s = s\<lparr>napi_id_rx := napi_of (nc_queue s) (NETDEV_QUEUE_TYPE_RX nd) qs,
     napi_id_tx := napi_of (nc_queue s) (NETDEV_QUEUE_TYPE_TX nd) qs\<rparr>"
proof (induction qs rule: rev_induct)
  case Nil
  then show ?case using assms by (simp add: napi_of_def)
next
  case (snoc a qs)
  then show ?case by (simp add: parse_queue_eq [OF assms(1)] napi_of_snoc)
qed

text \<open>A failing allocation sets \<^verbatim>\<open>errno\<close>, and receiving returns an error code or 0.\<close>

definition nl_ok :: "nl_outcome \<Rightarrow> bool" where
  "nl_ok nl \<longleftrightarrow> 0 < nl_socket_errno nl \<and> 0 < nl_msg_errno nl"

lemma get_napi_id_ok:
  assumes "get_napi_id nd nl ifindex s = (ret, s', sent, held)"
  shows "held = [] \<and> (nl_ok nl \<and> ret = 0 \<longrightarrow> s' = fold (parse_queue nd) (nl_queues nl) s \<and> sent = [Queue_get ifindex])"
  using assms by (auto simp: get_napi_id_def nl_ok_def Let_def split: if_splits)

lemma set_napi_ok:
  assumes "set_napi_attributes nl i s = (ret, sent, held)"
  shows "held = [] \<and> (nl_ok nl \<and> ret = 0 \<longrightarrow> sent = [Napi_set i (nc_defer_hard_irqs s) (nc_gro_flush_timeout s)])"
  using assms by (auto simp: set_napi_attributes_def nl_ok_def Let_def split: if_splits)

lemma options_keep_ids:
  assumes "napictl_options cs s = Some (Inr s')"
  shows "napi_id_rx s' = napi_id_rx s \<and> napi_id_tx s' = napi_id_tx s"
  using assms
proof (induction cs arbitrary: s)
  case (Cons c cs)
  then obtain r where r: "napictl_option c s = Some r"
      "(case r of Inl _ \<Rightarrow> Some (Inl ()) | Inr s \<Rightarrow> napictl_options cs s) = Some (Inr s')"
    by (auto simp: bind_eq_Some)
  then obtain s1 where s1: "napictl_option c s = Some (Inr s1)" "napictl_options cs s1 = Some (Inr s')"
    by (cases r) auto
  then have "napi_id_rx s1 = napi_id_rx s \<and> napi_id_tx s1 = napi_id_tx s"
    by (cases "parse_uint (snd c)"; cases "the (parse_uint (snd c))") (auto simp: napictl_option_def Let_def split: if_splits)
  then show ?case using Cons.IH [OF s1(2)] by simp
qed simp

section \<open>Properties\<close>

text \<open>C40. Whatever fails, the tool ends with all netlink sockets and messages released.  If it reports
  success, it asked for the queues of the interface and then set the two options of exactly two
  identifiers: that of the receive and that of the transmit side of the requested queue, as the kernel
  reported them last (0 if it reported none).\<close>

theorem napi_configured:
  assumes "NETDEV_QUEUE_TYPE_RX nd \<noteq> NETDEV_QUEUE_TYPE_TX nd" "\<And>i. nl_ok (nls i)"
    and "napictl_main nd nls if_index cs = Some (status, sent, held)"
  shows "held = [] \<and>
     (status = Some True \<longrightarrow> (\<exists>s i. napictl_options cs napictl_zero = Some (Inr s) \<and> nc_interface s = Some i \<and>
        sent = [Queue_get (if_index i),
          Napi_set (napi_of (nc_queue s) (NETDEV_QUEUE_TYPE_RX nd) (nl_queues (nls 0))) (nc_defer_hard_irqs s) (nc_gro_flush_timeout s),
          Napi_set (napi_of (nc_queue s) (NETDEV_QUEUE_TYPE_TX nd) (nl_queues (nls 0))) (nc_defer_hard_irqs s) (nc_gro_flush_timeout s)]))"
proof -
  obtain r where r: "napictl_options cs napictl_zero = Some r" using assms(3) by (auto simp: napictl_main_def bind_eq_Some)
  show ?thesis
  proof (cases "\<exists>s i. r = Inr s \<and> nc_interface s = Some i \<and> if_index i \<noteq> 0")
    case False
    then show ?thesis using assms(3) r
      by (auto simp: napictl_main_def Let_def split: sum.splits option.splits if_splits)
  next
    case True
    then obtain s i where s: "r = Inr s" "nc_interface s = Some i" "if_index i \<noteq> 0" by blast
    obtain ret s1 sent1 held1 where g: "get_napi_id nd (nls 0) (if_index i) s = (ret, s1, sent1, held1)"
      by (cases "get_napi_id nd (nls 0) (if_index i) s") auto
    obtain ret2 sent2 held2 where t2: "set_napi_attributes (nls 1) (napi_id_rx s1) s1 = (ret2, sent2, held2)"
      by (cases "set_napi_attributes (nls 1) (napi_id_rx s1) s1") auto
    obtain ret3 sent3 held3 where t3: "set_napi_attributes (nls 2) (napi_id_tx s1) s1 = (ret3, sent3, held3)"
      by (cases "set_napi_attributes (nls 2) (napi_id_tx s1) s1") auto
    have "napi_id_rx s = 0" "napi_id_tx s = 0"
      using options_keep_ids [of cs napictl_zero s] r s(1) by (simp_all add: napictl_zero_def)
    note q = parse_queues [OF assms(1) this, of "nl_queues (nls 0)"]
    show ?thesis
      using assms(3) r s g t2 t3 q get_napi_id_ok [OF g] set_napi_ok [OF t2] set_napi_ok [OF t3] assms(2)
      by (auto simp: napictl_main_def Let_def split: if_splits)
  qed
qed

definition demo_nl :: "queue_attrs list \<Rightarrow> nl_outcome" where
  "demo_nl qs = \<lparr>nl_socket = True, nl_socket_errno = 12, nl_connect = 0, nl_family = 20, nl_msg = True, nl_msg_errno = 12,
     nl_send = 36, nl_queues = qs, nl_recv = 0\<rparr>"

theorem napi_configured_witness:
  "napictl_main \<lparr>NETDEV_QUEUE_TYPE_RX = 0, NETDEV_QUEUE_TYPE_TX = 1\<rparr>
       (\<lambda>_. demo_nl [\<lparr>qa_id = Some 0, qa_napi_id = Some 7, qa_type = Some 0\<rparr>, \<lparr>qa_id = Some 0, qa_napi_id = Some 8, qa_type = Some 1\<rparr>])
       (\<lambda>_. 3) [(CHR ''i'', Some ''eth0'')] =
     Some (Some True, [Queue_get 3, Napi_set 7 0 0, Napi_set 8 0 0], []) \<and>
   nl_ok (demo_nl [])"
proof -
  let ?nd = "\<lparr>NETDEV_QUEUE_TYPE_RX = 0, NETDEV_QUEUE_TYPE_TX = 1\<rparr>"
  let ?nls = "\<lambda>_ :: nat. demo_nl [\<lparr>qa_id = Some 0, qa_napi_id = Some 7, qa_type = Some 0\<rparr>, \<lparr>qa_id = Some 0, qa_napi_id = Some 8, qa_type = Some 1\<rparr>]"
  have ok: "nl_ok (demo_nl qs)" for qs by (simp add: nl_ok_def demo_nl_def)
  obtain sent held where r: "napictl_main ?nd ?nls (\<lambda>_. 3) [(CHR ''i'', Some ''eth0'')] = Some (Some True, sent, held)"
    by (simp add: napictl_main_def napictl_option_def napictl_zero_def get_napi_id_def set_napi_attributes_def demo_nl_def)
  then show ?thesis
    using napi_configured [of ?nd ?nls, OF _ ok r] ok
    by (simp add: napictl_option_def napictl_zero_def napi_of_def queue_matches_def demo_nl_def)
qed

end
