(* ===== verification/TB_Startup.thy ===== *)
theory TB_Startup
  imports TB_Threads_Props TB_Json_Props TB_Napi
begin

text \<open>
  The start of the program in \<^verbatim>\<open>tb.c\<close> as a whole: options, configuration, log, histograms,
  statistics, the logging threads and the traffic classes, in this order, each with its exit on
  failure.
\<close>

section \<open>Options\<close>

text \<open>The results of \<^verbatim>\<open>getopt_long\<close> in order; \<^const>\<open>None\<close> if the usage or version text ends the
  program.  \<^verbatim>\<open>optarg\<close> may be \<^verbatim>\<open>NULL\<close>, as the argument of the long option is optional.\<close>

fun tb_options :: "option_result list \<Rightarrow> string option \<Rightarrow> string option option" where
  "tb_options [] config_file = Some config_file"
| "tb_options (c # cs) config_file =
     (if fst c = CHR ''V'' then None
      else if fst c = CHR ''c'' then tb_options cs (snd c)
      else None)"

section \<open>Start\<close>

text \<open>What the environment contributes: memory and clocks for the configuration, the tokens of a
  file, and the results of the other calls.\<close>

record tb_outcome =
  bo_mem :: "nat \<Rightarrow> bool"
  bo_now :: timespec
  bo_tokens :: "string \<Rightarrow> yaml_token list"
  bo_current :: "timespec option"
  bo_mlock :: bool
  bo_log :: "bool \<times> bool \<times> errno option"
  bo_histogram :: "(stat_frame_type \<Rightarrow> bool) \<times> bool"
  bo_stat :: "(stat_frame_type \<Rightarrow> bool) \<times> bool"
  bo_log_thread :: "bool \<times> bool \<times> bool \<times> rt_outcome"
  bo_mqtt_thread :: "bool \<times> rt_outcome"
  bo_json_thread :: "bool \<times> addr_record list option \<times> rt_outcome"
  bo_g2_threads :: "bool \<times> tc_outcome"
  bo_threads :: "bool \<times> (pn_thread_type \<Rightarrow> tc_outcome)"

record 'c tb_running =
  br_app :: application_config
  br_log :: log_state
  br_stat :: stat_state
  br_log_thread :: "bool \<times> log_resource list"
  br_mqtt_thread :: "bool \<times> log_resource list"
  br_json_thread :: "nat option \<times> log_resource list"
  br_threads :: "'c tb_threads"

text \<open>The three logging threads.\<close>

definition tb_start_loggers ::
  "build \<Rightarrow> application_config \<Rightarrow> tb_outcome \<Rightarrow>
   ((bool \<times> log_resource list) \<times> (bool \<times> log_resource list) \<times> (nat option \<times> log_resource list)) option" where
  "tb_start_loggers B app bo =
     (let (ctx_ok, data_ok, file_ok, ro) = bo_log_thread bo;
          log_thread = log_thread_create ctx_ok data_ok file_ok ro app
      in if \<not> fst log_thread then None
         else let (ctx_ok, ro) = bo_mqtt_thread bo; mqtt = log_mqtt_thread_create B ctx_ok ro app
              in if \<not> fst mqtt \<and> log_mqtt app then None
                 else let (ctx_ok, dst, ro) = bo_json_thread bo; json = log_json_thread_create ctx_ok dst ro app
                      in if fst json = None \<and> log_json app then None
                         else Some (log_thread, mqtt, json))"

text \<open>Histograms, if the program has them, then statistics.\<close>

definition tb_start_statistics :: "application_config \<Rightarrow> tb_startup_mode \<Rightarrow> tb_outcome \<Rightarrow> stat_state option" where
  "tb_start_statistics app mode bo =
     (let S = zero_stat_state;
          (ret, H) = (if use_histogram mode
                      then histogram_init app (fst (bo_histogram bo)) (snd (bo_histogram bo)) (stat_histograms S)
                      else (None, stat_histograms S))
      in if ret \<noteq> None then None
         else (case stat_init app (fst (bo_stat bo)) (snd (bo_stat bo)) (tb_stat_mode app mode) (S\<lparr>stat_histograms := H\<rparr>) of
                 Inl _ \<Rightarrow> None
               | Inr S \<Rightarrow> Some S))"

text \<open>\<^const>\<open>None\<close> for undefined behaviour, \<open>Some None\<close> if the program exits.\<close>

definition tb_startup ::
  "nat \<Rightarrow> build \<Rightarrow> ('c, 's) evp \<Rightarrow> tb_startup_mode \<Rightarrow> tb_outcome \<Rightarrow> xdp_init \<Rightarrow> option_result list \<Rightarrow> log_state \<Rightarrow>
   'c tb_running option option" where
  "tb_startup md B E mode bo g cs L =
     (case Option.bind (tb_options cs None) id of
        None \<Rightarrow> Some None
      | Some config_file \<Rightarrow>
     (case startup_config (bo_mem bo) (bo_now bo) (is_mirror mode) (bo_tokens bo config_file) (bo_current bo) B of
        None \<Rightarrow> Some None
      | Some app \<Rightarrow>
          if \<not> bo_mlock bo then Some None
          else do {
            (ret, L) \<leftarrow> log_init (fst (bo_log bo)) (fst (snd (bo_log bo))) (snd (snd (bo_log bo))) app L;
            if ret \<noteq> None then Some None
            else (case tb_start_statistics app mode bo of
                    None \<Rightarrow> Some None
                  | Some S \<Rightarrow>
                 (case tb_start_loggers B app bo of
                    None \<Rightarrow> Some None
                  | Some (log_thread, mqtt, json) \<Rightarrow> do {
                      ts \<leftarrow> tb_create_threads md B app E (fst (bo_g2_threads bo)) (fst (bo_threads bo)) (snd (bo_g2_threads bo))
                              (snd (bo_threads bo)) g;
                      Some (map_option (\<lambda>ts. \<lparr>br_app = app, br_log = L, br_stat = S, br_log_thread = log_thread,
                                              br_mqtt_thread = mqtt, br_json_thread = json, br_threads = ts\<rparr>) ts)
                    }))
          }))"

section \<open>Lemmas\<close>

lemma tb_startup_cases:
  assumes "tb_startup md B E mode bo g cs L = Some (Some r)"
  obtains config_file where "tb_options cs None = Some (Some config_file)"
    "startup_config (bo_mem bo) (bo_now bo) (is_mirror mode) (bo_tokens bo config_file) (bo_current bo) B = Some (br_app r)"
    "log_init (fst (bo_log bo)) (fst (snd (bo_log bo))) (snd (snd (bo_log bo))) (br_app r) L = Some (None, br_log r)"
    "tb_start_statistics (br_app r) mode bo = Some (br_stat r)"
    "tb_start_loggers B (br_app r) bo = Some (br_log_thread r, br_mqtt_thread r, br_json_thread r)"
    "tb_create_threads md B (br_app r) E (fst (bo_g2_threads bo)) (fst (bo_threads bo)) (snd (bo_g2_threads bo))
       (snd (bo_threads bo)) g = Some (Some (br_threads r))"
proof -
  obtain config_file where o: "tb_options cs None = Some (Some config_file)"
    using assms by (cases "tb_options cs None") (auto simp: tb_startup_def split: option.splits)
  obtain app where a: "startup_config (bo_mem bo) (bo_now bo) (is_mirror mode) (bo_tokens bo config_file) (bo_current bo) B = Some app"
    "bo_mlock bo"
    using assms by (auto simp: tb_startup_def o split: option.splits if_splits)
  obtain L1 where l: "log_init (fst (bo_log bo)) (fst (snd (bo_log bo))) (snd (snd (bo_log bo))) app L = Some (None, L1)"
    using assms by (auto simp: tb_startup_def o a bind_eq_Some split: if_splits)
  obtain S where S: "tb_start_statistics app mode bo = Some S"
    using assms by (cases "tb_start_statistics app mode bo") (auto simp: tb_startup_def o a l)
  obtain lt mqtt json where t: "tb_start_loggers B app bo = Some (lt, mqtt, json)"
    using assms by (cases "tb_start_loggers B app bo") (auto simp: tb_startup_def o a l S)
  obtain ts where "tb_create_threads md B app E (fst (bo_g2_threads bo)) (fst (bo_threads bo)) (snd (bo_g2_threads bo))
       (snd (bo_threads bo)) g = Some (Some ts)"
      "r = \<lparr>br_app = app, br_log = L1, br_stat = S, br_log_thread = lt, br_mqtt_thread = mqtt, br_json_thread = json, br_threads = ts\<rparr>"
    using assms by (auto simp: tb_startup_def o a l S t bind_eq_Some)
  then show ?thesis using that [of config_file] o a l S t by simp
qed

lemma loggers_started:
  assumes "tb_start_loggers B app bo = Some (lt, mqtt, json)"
  shows "fst lt" "fst mqtt = log_mqtt app" "(fst json \<noteq> None) = log_json app"
  using assms
  by (auto simp: tb_start_loggers_def log_mqtt_thread_create_def log_json_thread_create_def Let_def split: prod.splits if_splits)

lemma statistics_started:
  assumes "tb_start_statistics app mode bo = Some S"
  shows "stat_needs_backlog app (tb_stat_mode app mode) t \<Longrightarrow> t \<in> set frame_types \<Longrightarrow>
      round_trip_contexts S t = stat_alloc_backlog app t"
    and "global_statistics_for_log S = (\<lambda>_. zero_statistics)" "statistics_per_period_for_log S = (\<lambda>_. zero_statistics)"
    and "\<forall>t \<in> set frame_types. global_statistics S t = stat_reset"
  using assms
  by (auto simp: tb_start_statistics_def stat_init_def Let_def zero_stat_state_def stat_needs_backlog_def
      split: prod.splits sum.splits if_splits)

lemma wf_wl_ok: "app_wf app \<Longrightarrow> log_wl_ok app t zero_statistics"
  by (simp add: app_wf_def class_wf_def log_wl_ok_def zero_statistics_def)

lemma wf_stats_ok: "app_wf app \<Longrightarrow> stats_wl_ok app (\<lambda>_. zero_statistics)"
  by (simp add: stats_wl_ok_def wf_wl_ok list_all_iff)

section \<open>Properties\<close>

text \<open>C18. Whenever the program reaches the point where it runs, its configuration is well-formed and passed the sanity check, the
  log has an empty valid ring buffer, the log and publishing threads find every workload inside the
  arrays, all counters are reset and every class that measures round trips has a backlog of 1024
  cycles, the log thread runs, and the publishing threads run exactly if they are configured.\<close>

theorem program_started:
  assumes "tb_startup md B E mode bo g cs L = Some (Some r)"
  shows "app_wf (br_app r) \<and> config_sanity_check B (br_app r) \<and>
     (\<exists>rb. log_ok (br_app r) (br_log r) rb \<and> rb_contents rb = []) \<and>
     stats_wl_ok (br_app r) (global_statistics_for_log (br_stat r)) \<and>
     stats_wl_ok (br_app r) (statistics_per_period_for_log (br_stat r)) \<and>
     list_all (\<lambda>t. global_statistics (br_stat r) t = stat_reset \<and>
        (if stat_needs_backlog (br_app r) (tb_stat_mode (br_app r) mode) t
         then round_trip_contexts (br_stat r) t = stat_alloc_backlog (br_app r) t else True)) frame_types \<and>
     fst (br_log_thread r) \<and> fst (br_mqtt_thread r) = log_mqtt (br_app r) \<and>
     (fst (br_json_thread r) \<noteq> None) = log_json (br_app r)"
proof -
  obtain config_file where s:
    "startup_config (bo_mem bo) (bo_now bo) (is_mirror mode) (bo_tokens bo config_file) (bo_current bo) B = Some (br_app r)"
    "log_init (fst (bo_log bo)) (fst (snd (bo_log bo))) (snd (snd (bo_log bo))) (br_app r) L = Some (None, br_log r)"
    "tb_start_statistics (br_app r) mode bo = Some (br_stat r)"
    "tb_start_loggers B (br_app r) bo = Some (br_log_thread r, br_mqtt_thread r, br_json_thread r)"
    by (rule tb_startup_cases [OF assms])
  have w: "app_wf (br_app r)" "config_sanity_check B (br_app r)" using startup_cases [OF s(1)] by simp_all
  show ?thesis
    using w log_init_ok [OF s(2)] loggers_started [OF s(4)] statistics_started [OF s(3)] wf_stats_ok [OF w(1)]
    by (auto simp: list_all_iff)
qed

definition demo_outcome :: tb_outcome where
  "demo_outcome = \<lparr>bo_mem = (\<lambda>_. True), bo_now = \<lparr>tv_sec = 100, tv_nsec = 0\<rparr>, bo_tokens = (\<lambda>_. demo_rtc_tokens), bo_current = None,
     bo_mlock = True, bo_log = (True, True, None), bo_histogram = (\<lambda>_. True, True), bo_stat = (\<lambda>_. True, True),
     bo_log_thread = (True, True, True, demo_rt_ok), bo_mqtt_thread = (True, demo_rt_ok), bo_json_thread = (True, None, demo_rt_ok),
     bo_g2_threads = (True, demo_tc_outcome None), bo_threads = (True, \<lambda>_. demo_tc_outcome None)\<rparr>"

lemma demo_outcome_sel:
  "bo_mem demo_outcome = (\<lambda>_. True)" "bo_now demo_outcome = \<lparr>tv_sec = 100, tv_nsec = 0\<rparr>"
  "bo_tokens demo_outcome = (\<lambda>_. demo_rtc_tokens)" "bo_current demo_outcome = None" "bo_mlock demo_outcome"
  "bo_log demo_outcome = (True, True, None)" "bo_histogram demo_outcome = (\<lambda>_. True, True)" "bo_stat demo_outcome = (\<lambda>_. True, True)"
  "bo_log_thread demo_outcome = (True, True, True, demo_rt_ok)" "bo_mqtt_thread demo_outcome = (True, demo_rt_ok)"
  "bo_json_thread demo_outcome = (True, None, demo_rt_ok)" "bo_g2_threads demo_outcome = (True, demo_tc_outcome None)"
  "bo_threads demo_outcome = (True, \<lambda>_. demo_tc_outcome None)"
  by (simp_all add: demo_outcome_def)

lemma demo_net_startup:
  "startup_config (\<lambda>_. True) \<lparr>tv_sec = 100, tv_nsec = 0\<rparr> False demo_rtc_tokens None demo_net_build = Some demo_rtc_app"
proof -
  have "config_sanity_check demo_net_build demo_rtc_app"
    by (simp add: config_sanity_check_def config_check_features_def config_check_all_keys_def demo_rtc_classes config_is_tc_active_def
        frame_length_invalid_def min_frame_size_def default_defs demo_net_build_def config_have_defs config_check_keys_def Let_def
        demo_rtc_app_def demo_defaults_def default_services_def default_globals_def zero_app_config_def)
  then show ?thesis using demo_rtc_startup by (auto simp: startup_config_def split: sum.splits option.splits prod.splits if_splits)
qed

theorem program_started_witness:
  "\<exists>r. tb_startup 0 demo_net_build demo_evp reference_main demo_outcome demo_xdp_init [(CHR ''c'', Some ''rtc.yaml'')] demo_log_state =
     Some (Some r) \<and> br_app r = demo_rtc_app \<and> app_wf (br_app r) \<and> fst (br_log_thread r) \<and> \<not> fst (br_mqtt_thread r)"
proof -
  obtain tb where tb: "tb_create_threads 0 demo_net_build demo_rtc_app demo_evp True True (demo_tc_outcome None)
      (\<lambda>_. demo_tc_outcome None) demo_xdp_init = Some (Some tb)" using demo_tb_created by blast
  have d: "log_level demo_rtc_app = Some ''Info''" "\<not> debug_stop_trace_on_error demo_rtc_app" "\<not> debug_stop_trace_on_outlier demo_rtc_app"
      "\<not> log_mqtt demo_rtc_app" "\<not> log_json demo_rtc_app"
    by (simp_all add: demo_rtc_app_def demo_defaults_def default_services_def default_globals_def zero_app_config_def)
  obtain L1 where l: "log_init True True None demo_rtc_app demo_log_state = Some (None, L1)"
    by (simp add: log_init_def d ring_buffer_allocate_def Let_def)
  have "distinct frame_types" by (simp add: frame_types_def)
  then have "\<exists>H. histogram_init demo_rtc_app (\<lambda>_. True) True (stat_histograms zero_stat_state) = (None, H)"
    by (cases "stats_histogram_enabled demo_rtc_app") (simp_all add: histogram_init_def histogram_init_loop_ok)
  then obtain H where "histogram_init demo_rtc_app (\<lambda>_. True) True (stat_histograms zero_stat_state) = (None, H)" by blast
  then obtain S where S: "tb_start_statistics demo_rtc_app reference_main demo_outcome = Some S"
    by (auto simp: tb_start_statistics_def d stat_init_def tb_stat_mode_def reference_main_def demo_outcome_sel list_all_iff Let_def)
  obtain ls where t: "tb_start_loggers demo_net_build demo_rtc_app demo_outcome = Some ls"
    by (simp add: tb_start_loggers_def demo_outcome_sel log_thread_create_def log_mqtt_thread_create_def log_json_thread_create_def
        create_rt_thread_def demo_rt_ok_def d Let_def)
  obtain r where r: "tb_startup 0 demo_net_build demo_evp reference_main demo_outcome demo_xdp_init [(CHR ''c'', Some ''rtc.yaml'')]
      demo_log_state = Some (Some r)" "br_app r = demo_rtc_app"
    using demo_net_startup l S t tb by (cases ls) (simp add: tb_startup_def demo_outcome_sel reference_main_def)
  then show ?thesis using program_started [OF r(1)] d(4) by auto
qed

end
