(* ===== verification/TB_Udp.thy ===== *)
theory TB_Udp
  imports TB_Xdp_Props
begin

text \<open>
  The transmit thread of the UDP classes in \<^verbatim>\<open>udp_thread.c\<close>: generated and mirrored datagrams.
  The receive thread is in \<^verbatim>\<open>TB_Layer2\<close>, the creation of both in \<^verbatim>\<open>TB_Threads\<close>.
\<close>

section \<open>Model\<close>

text \<open>For the \<open>i\<close>-th datagram of a cycle: the clock before sending and in the statistics, and
  whether \<^verbatim>\<open>sendto\<close> succeeds.\<close>

record udp_env =
  ue_build :: build
  ue_app :: application_config
  ue_clk_tx :: "nat \<Rightarrow> timespec option"
  ue_clk_sent :: "nat \<Rightarrow> timespec option"
  ue_sendto :: "nat \<Rightarrow> bool"

text \<open>\<open>ut_wire\<close> collects the datagrams sent, \<open>ut_failed\<close> the numbers logged as failed.\<close>

record 'c udp_tx_state =
  ut_ctx :: "'c thread_context"
  ut_destination :: "address_family \<times> bytes"
  ut_stat :: stat_state
  ut_wire :: "bytes list"
  ut_failed :: "u64 list"
  ut_sequence_counter :: u64

text \<open>The end both send functions share: the \<^verbatim>\<open>switch\<close> over the address family, then log or
  statistics.\<close>

definition udp_transmit :: "udp_env \<Rightarrow> nat \<Rightarrow> nat \<Rightarrow> bytes \<Rightarrow> u64 \<Rightarrow> 'c udp_tx_state \<Rightarrow> 'c udp_tx_state option" where
  "udp_transmit env i off buf seq w =
     (let ctx = ut_ctx w; fam = fst (ut_destination w)
      in if fam = AF_INET \<or> fam = AF_INET6
         then do {
           data \<leftarrow> mem_read off (frame_length (conf ctx)) buf;
           if ue_sendto env i
           then do {
             S \<leftarrow> stat_frame_sent (ue_build env) (ue_app env) (ue_clk_sent env i) (frame_type ctx) seq (ut_stat w);
             Some (w\<lparr>ut_stat := S, ut_wire := ut_wire w @ [data]\<rparr>)
           }
           else Some (w\<lparr>ut_failed := ut_failed w @ [seq]\<rparr>)
         }
         else Some (w\<lparr>ut_failed := ut_failed w @ [seq]\<rparr>))"

definition udp_send_frame :: "udp_env \<Rightarrow> nat \<Rightarrow> nat \<Rightarrow> 'c udp_tx_state \<Rightarrow> 'c udp_tx_state option" where
  "udp_send_frame env i off w = do {
     let ctx = ut_ctx w;
     seq \<leftarrow> meta_data_to_sequence_counter off (num_frames_per_cycle (conf ctx)) (rx_frame_data ctx);
     buf \<leftarrow> tx_timestamp_to_meta_data off (clock_ns (ue_clk_tx env i)) (rx_frame_data ctx);
     udp_transmit env i off buf seq (w\<lparr>ut_ctx := ctx\<lparr>rx_frame_data := buf\<rparr>\<rparr>)
   }"

definition udp_gen_and_send_frame :: "udp_env \<Rightarrow> nat \<Rightarrow> u64 \<Rightarrow> 'c udp_tx_state \<Rightarrow> 'c udp_tx_state option" where
  "udp_gen_and_send_frame env i seq w = do {
     let ctx = ut_ctx w;
     buf \<leftarrow> sequence_counter_to_meta_data 0 seq (num_frames_per_cycle (conf ctx)) (tx_frame_data ctx);
     buf \<leftarrow> tx_timestamp_to_meta_data 0 (clock_ns (ue_clk_tx env i)) buf;
     udp_transmit env i 0 buf seq (w\<lparr>ut_ctx := ctx\<lparr>tx_frame_data := buf\<rparr>\<rparr>)
   }"

text \<open>Before the loop, and one iteration with \<open>num_frames\<close> frames: the contexts to signal.\<close>

definition udp_tx_thread_start :: "'c udp_tx_state \<Rightarrow> 'c udp_tx_state option" where
  "udp_tx_thread_start w = do {
     frame \<leftarrow> udp_initialize_frame (ut_ctx w) (tx_frame_data (ut_ctx w));
     Some (w\<lparr>ut_ctx := (ut_ctx w)\<lparr>tx_frame_data := frame\<rparr>, ut_sequence_counter := 0\<rparr>)
   }"

definition udp_tx_cycle ::
  "udp_env \<Rightarrow> nat \<Rightarrow> timespec option \<Rightarrow> 'c udp_tx_state \<Rightarrow> (nat list \<times> 'c udp_tx_state) option" where
  "udp_tx_cycle env num_frames clk_update w = do {
     let ctx = ut_ctx w;
     let cfg = conf ctx;
     w \<leftarrow> (if \<not> rx_mirror_enabled cfg
          then for_upto num_frames (\<lambda>i w. do {
                 w \<leftarrow> udp_gen_and_send_frame env i (ut_sequence_counter w) w;
                 Some (w\<lparr>ut_sequence_counter := ut_sequence_counter w + 1\<rparr>)
               }) w
          else do {
            (rb, received, len) \<leftarrow> ring_buffer_fetch (mirror_buffer ctx) (rx_frame_data ctx)
                                     (MAX_FRAME_SIZE * num_frames_per_cycle cfg);
            if frame_length cfg = 0 then None
            else for_upto (len div frame_length cfg) (\<lambda>i w. udp_send_frame env i (i * frame_length cfg) w)
                   (w\<lparr>ut_ctx := ctx\<lparr>mirror_buffer := rb, rx_frame_data := received\<rparr>\<rparr>)
          });
     Some (tc_signal_next (ut_ctx w),
           if is_last (ut_ctx w) then w\<lparr>ut_stat := stat_update (ue_build env) (ue_app env) clk_update (ut_stat w)\<rparr> else w)
   }"

section \<open>Generated datagrams\<close>

definition udp_datagram :: "traffic_class_config \<Rightarrow> u64 \<Rightarrow> u64 \<Rightarrow> bytes" where
  "udp_datagram cfg seq ts = meta_bytes seq (num_frames_per_cycle cfg) ts @ ptr_bytes (payload_pattern cfg) @
     replicate (frame_length cfg - 16 - payload_pattern_length cfg) 0"

text \<open>What the sanity check and the creation of the threads establish.\<close>

definition udp_cfg_ok :: "traffic_class_config \<Rightarrow> bool" where
  "udp_cfg_ok cfg \<longleftrightarrow> 16 + payload_pattern_length cfg \<le> frame_length cfg \<and> frame_length cfg \<le> MAX_FRAME_SIZE \<and>
     payload_pattern_length cfg = length (ptr_bytes (payload_pattern cfg)) \<and>
     0 < num_frames_per_cycle cfg \<and> num_frames_per_cycle cfg \<le> 2 ^ 32"

definition udp_inv :: "application_config \<Rightarrow> 'c udp_tx_state \<Rightarrow> bool" where
  "udp_inv app w \<longleftrightarrow> (let cfg = conf (ut_ctx w) in udp_cfg_ok cfg \<and>
     (\<exists>m. length m = 16 \<and> tx_frame_data (ut_ctx w) =
        m @ ptr_bytes (payload_pattern cfg) @ replicate (MAX_FRAME_SIZE - 16 - payload_pattern_length cfg) 0) \<and>
     sent_ok app (frame_type (ut_ctx w)) (ut_stat w))"

lemma udp_start_ok:
  assumes "udp_cfg_ok (conf (ut_ctx w))" "tx_frame_data (ut_ctx w) = replicate MAX_FRAME_SIZE 0"
    "sent_ok app (frame_type (ut_ctx w)) (ut_stat w)"
  shows "\<exists>w'. udp_tx_thread_start w = Some w' \<and> udp_inv app w' \<and> ut_sequence_counter w' = 0 \<and> conf (ut_ctx w') = conf (ut_ctx w)"
proof -
  let ?cfg = "conf (ut_ctx w)"
  let ?p = "ptr_bytes (payload_pattern ?cfg)"
  have l: "16 + length ?p \<le> 4096" "payload_pattern_length ?cfg = length ?p" using assms(1) by (simp_all add: udp_cfg_ok_def)
  have "udp_initialize_frame (ut_ctx w) (replicate 4096 0) = Some (replicate 16 0 @ ?p @ replicate (4096 - 16 - length ?p) 0)"
    using l by (simp add: udp_initialize_frame_def mem_write_def mem_read_def drop_replicate)
  then show ?thesis using assms l(2)
    by (auto simp: udp_tx_thread_start_def udp_inv_def Let_def intro: exI [of _ "replicate 16 0"])
qed

lemma udp_gen_ok:
  fixes i :: nat and seq :: u64
  assumes "udp_inv (ue_app env) w" "fst (ut_destination w) \<noteq> AF_OTHER"
  defines "cfg \<equiv> conf (ut_ctx w)"
  defines "d \<equiv> udp_datagram cfg seq (clock_ns (ue_clk_tx env i))"
  shows "\<exists>w'. udp_gen_and_send_frame env i seq w = Some w' \<and> udp_inv (ue_app env) w' \<and>
    conf (ut_ctx w') = cfg \<and> ut_destination w' = ut_destination w \<and>
    ut_sequence_counter w' = ut_sequence_counter w \<and>
    ut_wire w' = ut_wire w @ (if ue_sendto env i then [d] else []) \<and>
    ut_failed w' = ut_failed w @ (if ue_sendto env i then [] else [seq]) \<and>
    frames_sent (global_statistics (ut_stat w') (frame_type (ut_ctx w))) =
      frames_sent (global_statistics (ut_stat w) (frame_type (ut_ctx w))) + (if ue_sendto env i then 1 else 0)"
proof -
  let ?p = "ptr_bytes (payload_pattern cfg)" and ?n = "num_frames_per_cycle cfg" and ?ts = "clock_ns (ue_clk_tx env i)"
  let ?z = "replicate (MAX_FRAME_SIZE - 16 - payload_pattern_length cfg) (0 :: u8)"
  let ?buf = "meta_bytes seq ?n ?ts @ ?p @ ?z"
  obtain m where m: "length m = 16" "tx_frame_data (ut_ctx w) = m @ ?p @ ?z" and ok: "udp_cfg_ok cfg"
    and S: "sent_ok (ue_app env) (frame_type (ut_ctx w)) (ut_stat w)"
    using assms(1) by (auto simp: udp_inv_def cfg_def Let_def)
  have "sequence_counter_to_meta_data 0 seq ?n (m @ ?p @ ?z) \<bind> tx_timestamp_to_meta_data 0 ?ts = Some ?buf"
    using meta_set [of "[]" 0 m ?n seq "?p @ ?z" ?ts] m(1) ok by (simp add: udp_cfg_ok_def)
  then have g: "udp_gen_and_send_frame env i seq w = udp_transmit env i 0 ?buf seq (w\<lparr>ut_ctx := (ut_ctx w)\<lparr>tx_frame_data := ?buf\<rparr>\<rparr>)"
    by (simp add: udp_gen_and_send_frame_def m(2) cfg_def [symmetric] bind_assoc [symmetric] del: bind_assoc)
      (auto simp: bind_eq_Some)
  have d: "mem_read 0 (frame_length cfg) ?buf = Some d"
    using ok by (auto simp: d_def udp_datagram_def udp_cfg_ok_def mem_read_def min_def)
  have f: "fst (ut_destination w) = AF_INET \<or> fst (ut_destination w) = AF_INET6"
    using assms(2) by (cases "fst (ut_destination w)") simp_all
  obtain S' where S': "stat_frame_sent (ue_build env) (ue_app env) (ue_clk_sent env i) (frame_type (ut_ctx w)) seq (ut_stat w) = Some S'"
    "sent_ok (ue_app env) (frame_type (ut_ctx w)) S'"
    "frames_sent (global_statistics S' (frame_type (ut_ctx w))) = frames_sent (global_statistics (ut_stat w) (frame_type (ut_ctx w))) + 1"
    using frame_sent_counts [OF S] by blast
  have inv: "udp_inv (ue_app env) w'"
    if "ut_ctx w' = (ut_ctx w)\<lparr>tx_frame_data := ?buf\<rparr>" "sent_ok (ue_app env) (frame_type (ut_ctx w)) (ut_stat w')" for w' :: "'a udp_tx_state"
    using ok that by (auto simp: udp_inv_def cfg_def [symmetric] intro: exI [of _ "meta_bytes seq ?n ?ts"])
  show ?thesis
    using g d f S' S by (auto simp: udp_transmit_def cfg_def [symmetric] Let_def intro!: inv)
qed

lemma udp_receives:
  assumes "udp_cfg_ok cfg" "conf rctx = cfg" "unat seq < num_frames_per_cycle cfg * 2 ^ 32"
  shows "\<exists>pr. udp_parse renv rctx (udp_datagram cfg seq ts @ rest) (frame_length cfg) = Some (Inr pr) \<and> pr_seq pr = seq \<and>
    pr_tx_timestamp pr = ts \<and> \<not> pr_payload_mismatch pr \<and> \<not> pr_frame_id_mismatch pr"
proof -
  let ?n = "num_frames_per_cycle cfg" and ?p = "ptr_bytes (payload_pattern cfg)"
  let ?r = "replicate (frame_length cfg - 16 - payload_pattern_length cfg) 0 @ rest"
  have n: "0 < ?n" "?n \<le> 2 ^ 32" and pl: "payload_pattern_length cfg = length ?p" using assms(1) by (simp_all add: udp_cfg_ok_def)
  have e: "udp_datagram cfg seq ts @ rest = meta_bytes seq ?n ts @ ?p @ ?r" by (simp add: udp_datagram_def)
  have "meta_data_to_sequence_counter 0 ?n (meta_bytes seq ?n ts @ ?p @ ?r) = Some seq"
    using meta_get_seq [OF n, of "[]" 0 seq ts "?p @ ?r"] assms(3) by simp
  moreover have "meta_data_to_tx_timestamp 0 (meta_bytes seq ?n ts @ ?p @ ?r) = Some ts"
    using meta_get_ts [of "[]" 0 seq ?n ts "?p @ ?r"] by simp
  moreover have "set_mirror_tx_timestamp_est app clk 0 (meta_bytes seq ?n ts @ ?p @ ?r) = Some (meta_bytes seq ?n
      (clock_ns clk + (application_tx_base_offset_ns app - application_rx_base_offset_ns app)) @ ?p @ ?r)" for app clk
    using meta_mirror [of "[]" 0 app clk seq ?n ts "?p @ ?r"] by simp
  moreover have "payload_differs cfg 16 (meta_bytes seq ?n t @ ?p @ ?r) = Some False" for t
    using payload_differs_eq [OF pl, of "meta_bytes seq ?n t" 16 ?p ?r] by simp
  ultimately show ?thesis unfolding e using assms(2) by (simp add: udp_parse_def)
qed


definition demo_udp_config :: traffic_class_config where
  "demo_udp_config = zero_class_config\<lparr>num_frames_per_cycle := 2, frame_length := 64, payload_pattern := Some ''UDP'',
     payload_pattern_length := 3\<rparr>"

definition demo_udp_state :: "bytes udp_tx_state" where
  "demo_udp_state = \<lparr>ut_ctx = (fresh_context demo_udp_config UDP_HIGH_FRAME_TYPE)\<lparr>tx_frame_data := replicate MAX_FRAME_SIZE 0\<rparr>,
     ut_destination = (AF_INET, []), ut_stat = zero_stat_state, ut_wire = [], ut_failed = [], ut_sequence_counter = 0\<rparr>"

definition demo_udp_env :: udp_env where
  "demo_udp_env = \<lparr>ue_build = demo_build, ue_app = zero_app_config, ue_clk_tx = (\<lambda>_. None), ue_clk_sent = (\<lambda>_. None),
     ue_sendto = (\<lambda>i. i = 0)\<rparr>"


end
