(* ===== verification/Spec2Isabelle.thy ===== *)
theory Spec2Isabelle
  imports TB_Startup TB_Udp
begin

text \<open>
  Verification of the real-time traffic testbench.
\<close>

end
